(* ===== verification/Prelude.thy ===== *)
theory Prelude
  imports Main "HOL-Library.Word" "HOL-Library.State_Monad"
begin

text \<open>
  What the components share: the machine integers of the Rust code, the result of a
  fallible call (\<open>Ok\<close>, \<open>Err\<close> and a panic), the early return \<open>?\<close>, decimal printing, the
  signed saturating subtraction, generic lemmas on lists and the interface of a database
  table with a primary key (locale \<open>keyed_table\<close>).
\<close>

section \<open>Collections of rewrite rules\<close>

named_theorems run_simps \<open>running a monadic operation on a state\<close>
named_theorems table_simps \<open>contents of the tables after an operation\<close>
named_theorems balance_simps \<open>sums over the rows of one user\<close>

section \<open>Machine integers\<close>

text \<open>
  An \<open>i64\<close> and a \<open>u64\<close> are both 64 bits: a Rust cast between them keeps the bits, so it is
  the identity here; \<open>sint\<close> reads the bits as an \<open>i64\<close> and \<open>uint\<close> as a \<open>u64\<close>. Comparisons of
  \<open>i64\<close> values are the signed \<open><s\<close> and \<open>\<le>s\<close>. The release build of the daemon (Dockerfile)
  wraps on overflow, as word arithmetic does.
\<close>

type_synonym u8 = "8 word"
type_synonym u32 = "32 word"
type_synonym u64 = "64 word"
type_synonym i64 = "64 word"
type_synonym u128 = "128 word"

abbreviation (input) as_i64 :: "u64 \<Rightarrow> i64" where "as_i64 x \<equiv> x"
abbreviation (input) as_u64 :: "i64 \<Rightarrow> u64" where "as_u64 x \<equiv> x"

abbreviation u32_to_u64 :: "u32 \<Rightarrow> u64" where "u32_to_u64 x \<equiv> ucast x"
abbreviation u32_to_i64 :: "u32 \<Rightarrow> i64" where "u32_to_i64 x \<equiv> ucast x"

text \<open>\<open>i64::saturating_sub\<close>: the exact difference, clamped to the range of \<open>i64\<close>.\<close>

definition i64_saturating_sub :: "i64 \<Rightarrow> i64 \<Rightarrow> i64" where
  "i64_saturating_sub a b =
     (let d = sint a - sint b
      in if d < - (2 ^ 63) then word_of_int (- (2 ^ 63))
         else if 2 ^ 63 - 1 < d then word_of_int (2 ^ 63 - 1)
         else word_of_int d)"

lemma sint_of_int_64 [simp]:
  "- (2 ^ 63) \<le> x \<Longrightarrow> x < 2 ^ 63 \<Longrightarrow> sint (word_of_int x :: i64) = x"
  using mod_pos_pos_trivial [of "x + 2 ^ 63" "2 ^ 64"] by (subst int_word_sint) simp

lemma uint_of_int_64 [simp]:
  "0 \<le> x \<Longrightarrow> x < 2 ^ 64 \<Longrightarrow> uint (word_of_int x :: u64) = x"
  by (simp add: uint_word_of_int)

lemma uint_of_int_neg_64:
  "- (2 ^ 64) \<le> x \<Longrightarrow> x < 0 \<Longrightarrow> uint (word_of_int x :: u64) = 2 ^ 64 + x"
proof -
  assume "- (2 ^ 64) \<le> x" and "x < 0"
  then have "(x + 2 ^ 64) mod 2 ^ 64 = x + 2 ^ 64"
    by (intro mod_pos_pos_trivial) simp_all
  then show ?thesis by (simp add: uint_word_of_int)
qed

lemma uint_less_64: "uint (w :: u64) < 18446744073709551616"
  using uint_lt2p [of w] by simp

lemma uint_u32_to_u64 [simp]: "uint (u32_to_u64 w) = uint w"
  by (simp add: uint_up_ucast is_up)

lemma sint_eq_uint_64: "uint (w :: i64) < 2 ^ 63 \<Longrightarrow> sint w = uint w"
proof -
  assume "uint w < 2 ^ 63"
  then have "sint (word_of_int (uint w) :: i64) = uint w"
    by (intro sint_of_int_64) (auto intro: order_trans [of _ 0])
  then show ?thesis by simp
qed

lemma uint_u32_less: "uint (w :: u32) < 4294967296"
  using uint_lt2p [of w] by simp

lemma sint_u32_to_i64 [simp]: "sint (u32_to_i64 w) = uint w"
  using uint_u32_less [of w] by (subst sint_eq_uint_64) simp_all

text \<open>\<open>u128::to_be_bytes\<close> and \<open>u128::from_be_bytes\<close>; \<open>be_bytes n\<close> are the last \<open>n\<close> bytes.\<close>

fun be_bytes :: "nat \<Rightarrow> u128 \<Rightarrow> u8 list" where
  "be_bytes 0 x = []"
| "be_bytes (Suc n) x = be_bytes n (drop_bit 8 x) @ [ucast x]"

definition to_be_bytes :: "u128 \<Rightarrow> u8 list" where
  "to_be_bytes x = be_bytes 16 x"

definition from_be_bytes :: "u8 list \<Rightarrow> u128" where
  "from_be_bytes bs = fold (\<lambda>b acc. or (push_bit 8 acc) (ucast b)) bs 0"

lemma length_be_bytes [simp]: "length (be_bytes n x) = n"
  by (induction n arbitrary: x) auto

lemma length_to_be_bytes [simp]: "length (to_be_bytes x) = 16"
  by (simp add: to_be_bytes_def)

lemma take_bit_step:
  "or (push_bit 8 (take_bit (8 * n) (drop_bit 8 x))) (ucast (ucast x :: u8))
     = take_bit (8 * Suc n) (x :: u128)"
  by (rule bit_word_eqI) (auto simp: bit_simps)

lemma from_be_bytes_be_bytes: "from_be_bytes (be_bytes n x) = take_bit (8 * n) x"
proof (induction n arbitrary: x)
  case 0
  then show ?case by (simp add: from_be_bytes_def)
next
  case (Suc n)
  have "from_be_bytes (be_bytes (Suc n) x) =
      or (push_bit 8 (from_be_bytes (be_bytes n (drop_bit 8 x)))) (ucast (ucast x :: u8))"
    by (simp add: from_be_bytes_def)
  also have "\<dots> = take_bit (8 * Suc n) x"
    by (simp only: Suc.IH take_bit_step)
  finally show ?case .
qed

lemma from_to_be_bytes [simp]: "from_be_bytes (to_be_bytes x) = x"
proof -
  have "take_bit 128 x = x" by (rule bit_word_eqI) (auto simp: bit_simps)
  then show ?thesis by (simp add: to_be_bytes_def from_be_bytes_be_bytes)
qed

section \<open>Results and early returns\<close>

text \<open>
  The outcome of a call: \<open>Ok\<close> and \<open>Err\<close> of Rust's \<open>Result\<close>, and a panic (\<open>expect\<close>,
  \<open>unwrap\<close>), which ends the task with the state as it is at that point.
\<close>

datatype ('e, 'a) outcome = Ok 'a | Err 'e | Panic string

fun is_ok :: "('e, 'a) outcome \<Rightarrow> bool" where
  "is_ok (Ok _) = True"
| "is_ok (Err _) = False"
| "is_ok (Panic _) = False"

abbreviation ret :: "'a \<Rightarrow> ('s, 'a) state" where
  "ret \<equiv> State_Monad.return"

definition ok :: "'a \<Rightarrow> ('s, ('e, 'a) outcome) state" where
  "ok x = ret (Ok x)"

definition err :: "'e \<Rightarrow> ('s, ('e, 'a) outcome) state" where
  "err e = ret (Err e)"

definition panic :: "string \<Rightarrow> ('s, ('e, 'a) outcome) state" where
  "panic p = ret (Panic p)"

text \<open>\<open>attempt r f\<close> is \<open>let x = r?; f(x)\<close>: an error or a panic ends the caller too.\<close>

definition attempt ::
  "('e, 'a) outcome \<Rightarrow> ('a \<Rightarrow> ('s, ('e, 'b) outcome) state) \<Rightarrow> ('s, ('e, 'b) outcome) state"
where
  "attempt r f = (case r of Ok x \<Rightarrow> f x | Err e \<Rightarrow> err e | Panic p \<Rightarrow> panic p)"

lemma run_ok [simp, run_simps]: "run_state (ok x) s = (Ok x, s)"
  by (simp add: ok_def)

lemma run_err [simp, run_simps]: "run_state (err e) s = (Err e, s)"
  by (simp add: err_def)

lemma run_panic [simp, run_simps]: "run_state (panic p) s = (Panic p, s)"
  by (simp add: panic_def)

lemma attempt_simps [simp, run_simps]:
  "attempt (Ok x) f = f x"
  "attempt (Err e) f = err e"
  "attempt (Panic p) f = panic p"
  by (simp_all add: attempt_def)

text \<open>The same \<open>?\<close> outside a stateful operation.\<close>

fun and_then :: "('e, 'a) outcome \<Rightarrow> ('a \<Rightarrow> ('e, 'b) outcome) \<Rightarrow> ('e, 'b) outcome" where
  "and_then (Ok x) f = f x"
| "and_then (Err e) f = Err e"
| "and_then (Panic p) f = Panic p"

text \<open>\<open>Result::unwrap\<close> and \<open>Result::map_err\<close>.\<close>

fun unwrap_or_panic :: "string \<Rightarrow> ('e, 'a) outcome \<Rightarrow> ('f, 'a) outcome" where
  "unwrap_or_panic p (Ok x) = Ok x"
| "unwrap_or_panic p (Err e) = Panic p"
| "unwrap_or_panic p (Panic q) = Panic q"

fun map_err :: "('e \<Rightarrow> 'f) \<Rightarrow> ('e, 'a) outcome \<Rightarrow> ('f, 'a) outcome" where
  "map_err f (Ok x) = Ok x"
| "map_err f (Err e) = Err (f e)"
| "map_err f (Panic p) = Panic p"

fun map_ok :: "('a \<Rightarrow> 'b) \<Rightarrow> ('e, 'a) outcome \<Rightarrow> ('e, 'b) outcome" where
  "map_ok f (Ok x) = Ok (f x)"
| "map_ok f (Err e) = Err e"
| "map_ok f (Panic p) = Panic p"

fun all_ok :: "('e, 'a) outcome list \<Rightarrow> ('e, 'a list) outcome" where
  "all_ok [] = Ok []"
| "all_ok (r # rs) = and_then r (\<lambda>x. and_then (all_ok rs) (\<lambda>xs. Ok (x # xs)))"

lemma and_then_Ok [simp]: "and_then r f = Ok y \<longleftrightarrow> (\<exists>x. r = Ok x \<and> f x = Ok y)"
  by (cases r) auto

lemma all_ok_Ok: "all_ok rs = Ok xs \<longleftrightarrow> rs = map Ok xs"
proof (induction rs arbitrary: xs)
  case (Cons r rs)
  then show ?case by (cases xs) auto
qed auto

text \<open>\<open>Option::unwrap\<close>, and \<open>s[..n]\<close> of an ASCII string.\<close>

definition option_unwrap :: "'a option \<Rightarrow> ('e, 'a) outcome" where
  "option_unwrap x = (case x of Some y \<Rightarrow> Ok y | None \<Rightarrow> Panic ''unwrap'')"

definition slice_to :: "nat \<Rightarrow> 'a list \<Rightarrow> ('e, 'a list) outcome" where
  "slice_to n s = (if n \<le> length s then Ok (take n s) else Panic ''slice'')"

section \<open>Prefixes and replacement\<close>

definition strip_prefix :: "string \<Rightarrow> string \<Rightarrow> string option" where
  "strip_prefix p s = (if take (length p) s = p then Some (drop (length p) s) else None)"

lemma strip_prefix_shorter: "strip_prefix p s = Some t \<Longrightarrow> p \<noteq> [] \<Longrightarrow> length t < length s"
  by (cases s) (auto simp: strip_prefix_def split: if_splits)

lemma strip_prefix_append [simp]: "strip_prefix p (p @ s) = Some s"
  by (simp add: strip_prefix_def)

text \<open>\<open>str::replace\<close> of a pattern that is not empty.\<close>

function replace_all :: "string \<Rightarrow> string \<Rightarrow> string \<Rightarrow> string" where
  "replace_all p r s =
     (if p = [] then s
      else case strip_prefix p s of
        Some t \<Rightarrow> r @ replace_all p r t
      | None \<Rightarrow> (case s of [] \<Rightarrow> [] | c # t \<Rightarrow> c # replace_all p r t))"
  by pat_completeness auto
termination
  by (relation "measure (\<lambda>(p, r, s). length s)") (auto dest: strip_prefix_shorter)

declare replace_all.simps [simp del]

section \<open>Decimal printing\<close>

text \<open>\<open>to_string\<close> of an unsigned integer.\<close>

definition digit_char :: "nat \<Rightarrow> char" where
  "digit_char d = char_of (48 + d)"

fun decimal :: "nat \<Rightarrow> string" where
  "decimal n = (if n < 10 then [digit_char n] else decimal (n div 10) @ [digit_char (n mod 10)])"

declare decimal.simps [simp del]

section \<open>Lists\<close>

lemma find_Some_iff_mem:
  "List.find P xs = Some x \<Longrightarrow> x \<in> set xs \<and> P x"
  by (induction xs) (auto split: if_splits)

lemma find_append:
  "List.find P (xs @ ys) = (case List.find P xs of None \<Rightarrow> List.find P ys | Some x \<Rightarrow> Some x)"
  by (induction xs) auto

lemma find_None_append: "List.find P xs = None \<Longrightarrow> List.find P (xs @ ys) = List.find P ys"
  by (simp add: find_append)

lemma list_ex_key: "list_ex (\<lambda>r. f r = k) rs \<longleftrightarrow> k \<in> f ` set rs"
  by (auto simp: list_ex_iff)

lemma distinct_map_key:
  "distinct (map f rs) \<Longrightarrow> x \<in> set rs \<Longrightarrow> y \<in> set rs \<Longrightarrow> f x = f y \<Longrightarrow> x = y"
  by (auto simp: distinct_map inj_on_def)

lemma find_key_distinct:
  assumes "distinct (map f rs)" and "r \<in> set rs"
  shows "List.find (\<lambda>x. f x = f r) rs = Some r"
  using assms by (induction rs) auto

lemma find_key_eq_mem:
  assumes "distinct (map f rs)"
  shows "List.find (\<lambda>x. f x = k) rs = Some r \<longleftrightarrow> r \<in> set rs \<and> f r = k"
  using assms by (auto dest: find_Some_iff_mem intro: find_key_distinct)

section \<open>A table with a primary key\<close>

text \<open>
  The interface of the SQL tables the queries rely on: \<open>insert\<close> fails on a key that is
  present and appends the row otherwise, \<open>insert ... on conflict do nothing\<close> leaves the table
  as it is on such a key, and a lookup by key returns the row with that key. Rows are kept in
  insertion order. Every table of the daemon and of the client is an interpretation.
\<close>

locale keyed_table =
  fixes rows :: "'db \<Rightarrow> 'r list"
    and key :: "'r \<Rightarrow> string"
    and insert_row :: "'r \<Rightarrow> 'db \<Rightarrow> 'db option"
    and lookup_row :: "string \<Rightarrow> 'db \<Rightarrow> 'r option"
  assumes insert_conflict: "key r \<in> key ` set (rows d) \<Longrightarrow> insert_row r d = None"
    and insert_fresh:
      "key r \<notin> key ` set (rows d) \<Longrightarrow> \<exists>d'. insert_row r d = Some d' \<and> rows d' = rows d @ [r]"
    and lookup_find: "lookup_row k d = List.find (\<lambda>r. key r = k) (rows d)"
begin

definition keys_unique :: "'db \<Rightarrow> bool" where
  "keys_unique d \<longleftrightarrow> distinct (map key (rows d))"

lemma insert_Some:
  "insert_row r d = Some d' \<Longrightarrow> key r \<notin> key ` set (rows d) \<and> rows d' = rows d @ [r]"
  using insert_conflict [of r d] insert_fresh [of r d] by fastforce

lemma insert_None_iff: "insert_row r d = None \<longleftrightarrow> key r \<in> key ` set (rows d)"
  using insert_conflict [of r d] insert_fresh [of r d] by fastforce

lemma insert_unique: "insert_row r d = Some d' \<Longrightarrow> keys_unique d \<Longrightarrow> keys_unique d'"
  by (auto simp: keys_unique_def dest: insert_Some)

lemma lookup_None_iff: "lookup_row k d = None \<longleftrightarrow> k \<notin> key ` set (rows d)"
  by (auto simp: lookup_find find_None_iff)

lemma lookup_inserted: "insert_row r d = Some d' \<Longrightarrow> lookup_row (key r) d' = Some r"
  using lookup_None_iff [of "key r" d]
  by (auto dest!: insert_Some simp: lookup_find find_None_append)

lemma lookup_other:
  "insert_row r d = Some d' \<Longrightarrow> k \<noteq> key r \<Longrightarrow> lookup_row k d' = lookup_row k d"
  by (auto dest!: insert_Some simp: lookup_find find_append split: option.splits)

lemma lookup_key: "lookup_row k d = Some r \<Longrightarrow> r \<in> set (rows d) \<and> key r = k"
  by (auto simp: lookup_find dest: find_Some_iff_mem)

lemma lookup_mem: "keys_unique d \<Longrightarrow> r \<in> set (rows d) \<Longrightarrow> lookup_row (key r) d = Some r"
  by (simp add: keys_unique_def lookup_find find_key_distinct)

end

section \<open>Invariants of a transition system\<close>

text \<open>
  The interface between a state machine and a safety property: the property holds at the start
  and every step keeps it. Every invariant of the daemon's book and of the connection counter
  is an interpretation.
\<close>

locale safety =
  fixes init :: "'s \<Rightarrow> bool"
    and step :: "'s \<Rightarrow> 's \<Rightarrow> bool"
    and inv :: "'s \<Rightarrow> bool"
  assumes inv_init: "init s \<Longrightarrow> inv s"
    and inv_step: "inv s \<Longrightarrow> step s t \<Longrightarrow> inv t"
begin

lemma inv_run: "step\<^sup>*\<^sup>* s t \<Longrightarrow> inv s \<Longrightarrow> inv t"
  by (induction rule: rtranclp_induct) (blast intro: inv_step)+

lemma reachable_inv: "init s \<Longrightarrow> step\<^sup>*\<^sup>* s t \<Longrightarrow> inv t"
  by (blast intro: inv_run inv_init)

end

section \<open>Progress of infinite runs\<close>

text \<open>
  A run is a function from times to states. What waits either goes on waiting or is done, what is
  done stays done, and a helpful step makes it done; so it is done for good, if a helpful step comes
  for everything that waits.
\<close>

definition run_of :: "('s \<Rightarrow> 's \<Rightarrow> bool) \<Rightarrow> (nat \<Rightarrow> 's) \<Rightarrow> bool" where
  "run_of step ws \<longleftrightarrow> (\<forall>i. step (ws i) (ws (Suc i)))"

locale progress =
  fixes step :: "'s \<Rightarrow> 's \<Rightarrow> bool"
    and helpful :: "'s \<Rightarrow> 's \<Rightarrow> bool"
    and waits :: "'s \<Rightarrow> bool"
    and settled :: "'s \<Rightarrow> bool"
  assumes step_waits: "waits s \<Longrightarrow> step s t \<Longrightarrow> waits t \<or> settled t"
    and step_settled: "settled s \<Longrightarrow> step s t \<Longrightarrow> settled t"
    and step_helps: "waits s \<Longrightarrow> step s t \<Longrightarrow> helpful s t \<Longrightarrow> settled t"
begin

lemma stays_settled:
  assumes "run_of step ws" and "settled (ws j)" and "j \<le> m"
  shows "settled (ws m)"
  using assms(3)
proof (induction m rule: dec_induct)
  case base
  then show ?case by (rule assms(2))
next
  case (step m)
  with assms(1) step_settled show ?case unfolding run_of_def by blast
qed

lemma waits_until:
  assumes "run_of step ws" and "waits (ws i)" and "i \<le> j"
  shows "waits (ws j) \<or> settled (ws j)"
  using assms(3)
proof (induction j rule: dec_induct)
  case base
  with assms(2) show ?case by simp
next
  case (step j)
  with assms(1) step_waits step_settled show ?case unfolding run_of_def by blast
qed

lemma eventually_settled:
  assumes "run_of step ws" and "waits (ws i)"
    and "\<exists>j \<ge> i. helpful (ws j) (ws (Suc j))"
  shows "\<exists>j \<ge> i. \<forall>m \<ge> j. settled (ws m)"
proof -
  obtain j where j: "i \<le> j" "helpful (ws j) (ws (Suc j))" using assms(3) by blast
  then have "settled (ws (Suc j))"
    using waits_until [OF assms(1,2) j(1)] step_helps step_settled assms(1)
    unfolding run_of_def by blast
  with j(1) stays_settled [OF assms(1)] show ?thesis by (meson le_SucI)
qed

end

end
