(* ===== verification/Core.thy ===== *)
theory Core
  imports Prelude
begin

text \<open>
  The sources \<open>lib.rs\<close>, \<open>secret.rs\<close> and \<open>db.rs\<close> of \<open>puncture-core\<close>: invite and recovery codes,
  their text form \<open>pct<hex of the postcard bytes>\<close>, the secret key of the data
  directory, and the connection to the database. The hex and postcard libraries are third-party code: they are the fields of the
  record \<open>codec\<close>, and what their documentation promises is the predicate \<open>codec_laws\<close>.
\<close>

section \<open>Invite and recovery codes\<close>

type_synonym node_id = "u8 list"

record invite_code =
  ic_id :: "u8 list"
  ic_node_id :: node_id

record recovery_code =
  rc_id :: "u8 list"

datatype puncture_code = Invite invite_code | Recovery recovery_code

text \<open>The libraries: \<open>bitcoin::hex\<close> and \<open>postcard\<close>.\<close>

record codec =
  as_hex :: "u8 list \<Rightarrow> string"
  from_hex :: "string \<Rightarrow> (string, u8 list) outcome"
  to_allocvec :: "puncture_code \<Rightarrow> (string, u8 list) outcome"
  from_bytes :: "u8 list \<Rightarrow> (string, puncture_code) outcome"

text \<open>
  Documented behaviour: decoding the hex of some bytes gives the bytes, and postcard encodes
  every code and decodes what it encoded.
\<close>

definition codec_laws :: "codec \<Rightarrow> bool" where
  "codec_laws cd \<longleftrightarrow>
     (\<forall>bs. from_hex cd (as_hex cd bs) = Ok bs) \<and>
     (\<forall>c. \<exists>bs. to_allocvec cd c = Ok bs \<and> from_bytes cd bs = Ok c)"

definition invite_code_id :: "codec \<Rightarrow> invite_code \<Rightarrow> string" where
  "invite_code_id cd c = as_hex cd (ic_id c)"

definition recovery_code_id :: "codec \<Rightarrow> recovery_code \<Rightarrow> string" where
  "recovery_code_id cd c = as_hex cd (rc_id c)"

definition puncture_invite :: "u8 list \<Rightarrow> node_id \<Rightarrow> puncture_code" where
  "puncture_invite id_bytes node = Invite \<lparr>ic_id = id_bytes, ic_node_id = node\<rparr>"

definition puncture_recovery :: "u8 list \<Rightarrow> puncture_code" where
  "puncture_recovery id_bytes = Recovery \<lparr>rc_id = id_bytes\<rparr>"

fun to_invite :: "puncture_code \<Rightarrow> (string, invite_code) outcome" where
  "to_invite (Invite c) = Ok c"
| "to_invite (Recovery _) = Err ''This is a recovery code''"

fun to_recovery :: "puncture_code \<Rightarrow> (string, recovery_code) outcome" where
  "to_recovery (Invite _) = Err ''This is an invite code''"
| "to_recovery (Recovery c) = Ok c"

definition encode :: "codec \<Rightarrow> puncture_code \<Rightarrow> ('e, string) outcome" where
  "encode cd c =
     map_ok (\<lambda>bs. ''pct'' @ as_hex cd bs) (unwrap_or_panic ''unwrap'' (to_allocvec cd c))"

definition decode :: "codec \<Rightarrow> string \<Rightarrow> (string, puncture_code) outcome" where
  "decode cd s =
     (if take 3 s \<noteq> ''pct'' then Err ''Invalid prefix''
      else and_then (from_hex cd (drop 3 s)) (from_bytes cd))"

lemma as_hex_inj: "codec_laws cd \<Longrightarrow> as_hex cd xs = as_hex cd ys \<longleftrightarrow> xs = ys"
  by (metis codec_laws_def outcome.inject(1))

text \<open>The text of a code, when postcard encodes it.\<close>

definition code_text :: "codec \<Rightarrow> puncture_code \<Rightarrow> string" where
  "code_text cd c = (case to_allocvec cd c of Ok bs \<Rightarrow> ''pct'' @ as_hex cd bs | _ \<Rightarrow> [])"

lemma encode_text:
  assumes "codec_laws cd"
  shows "encode cd c = Ok (code_text cd c)" and "decode cd (code_text cd c) = Ok c"
proof -
  obtain bs where "to_allocvec cd c = Ok bs" "from_bytes cd bs = Ok c"
    using assms unfolding codec_laws_def by blast
  moreover have "from_hex cd (as_hex cd bs) = Ok bs"
    using assms by (simp add: codec_laws_def)
  ultimately show "encode cd c = Ok (code_text cd c)" and "decode cd (code_text cd c) = Ok c"
    by (simp_all add: encode_def decode_def code_text_def)
qed

section \<open>The secret key file\<close>

text \<open>
  \<open>secret.rs\<close>: the file \<open>puncture_secret.key\<close> is its content, or \<open>None\<close> when there is no such
  file; \<open>random\<close> are the 32 bytes drawn when it is created. \<open>SecretKey::from_bytes\<close> keeps the
  bytes.
\<close>

definition read_or_generate ::
  "u8 list \<Rightarrow> u8 list option \<Rightarrow> (string, u8 list) outcome \<times> u8 list option"
where
  "read_or_generate random file =
     (case file of
        Some bytes \<Rightarrow> (if length bytes = 32 then (Ok bytes, file) else (Panic ''unwrap'', file))
      | None \<Rightarrow> (Ok random, Some random))"

definition secret_exists :: "u8 list option \<Rightarrow> bool" where
  "secret_exists file \<longleftrightarrow> file \<noteq> None"

lemma read_or_generate_stable:
  assumes "length random = 32" and "read_or_generate random file = (Ok key, file')"
  shows "secret_exists file' \<and> read_or_generate random' file' = (Ok key, file')"
  using assms by (auto simp: read_or_generate_def secret_exists_def split: option.splits if_splits)

section \<open>The database\<close>

text \<open>
  \<open>Database::new\<close>: \<open>establish\<close> and \<open>run_pending_migrations\<close> are the database library; a connection
  is of any type \<open>'c\<close>. \<open>path_join\<close> is \<open>Path::join\<close> with a relative file name. The size
  limit is not used.
\<close>

record 'c database_lib =
  establish :: "string \<Rightarrow> (string, 'c) outcome"
  run_pending_migrations :: "'c \<Rightarrow> (string, 'c) outcome"

definition path_join :: "string \<Rightarrow> string \<Rightarrow> string" where
  "path_join dir file = (if dir = [] \<or> last dir = CHR ''/'' then dir @ file else dir @ ''/'' @ file)"

definition database_new :: "'c database_lib \<Rightarrow> string \<Rightarrow> nat \<Rightarrow> (string, 'c) outcome" where
  "database_new lib data_dir max_size =
     and_then (map_err (\<lambda>_. ''Error establishing connection to database'')
         (establish lib (path_join data_dir ''puncture_data.sqlite''))) (\<lambda>conn.
       map_err (\<lambda>e. ''Database migration failed: '' @ e) (run_pending_migrations lib conn))"

end
