(* ===== verification/Models.thy ===== *)
theory Models
  imports Core
begin

text \<open>
  The data of the daemon: the rows of its SQLite tables (\<open>puncture-daemon-db\<close>), the messages
  of the client interface (\<open>puncture-client-core\<close>), the conversions between them
  (\<open>puncture-daemon/src/convert.rs\<close>) and the database itself, a record with one list of rows
  per table in insertion order. Each table is an interpretation of \<open>keyed_table\<close>.
\<close>

section \<open>Rows of the tables\<close>

record user =
  usr_user_pk :: string
  usr_invite_id :: string
  usr_recovery_name :: "string option"
  usr_created_at :: i64

record invite_record =
  ivt_id :: string
  ivt_user_limit :: i64
  ivt_expires_at :: i64
  ivt_created_at :: i64

record invoice_record =
  ivc_id :: string
  ivc_user_pk :: string
  ivc_amount_msat :: "i64 option"
  ivc_description :: string
  ivc_pr :: string
  ivc_expires_at :: i64
  ivc_created_at :: i64

record receive_record =
  rcv_id :: string
  rcv_user_pk :: string
  rcv_amount_msat :: i64
  rcv_description :: string
  rcv_pr :: string
  rcv_created_at :: i64

record send_record =
  snd_id :: string
  snd_user_pk :: string
  snd_amount_msat :: i64
  snd_fee_msat :: i64
  snd_description :: string
  snd_pr :: string
  snd_status :: string
  snd_ln_address :: "string option"
  snd_created_at :: i64

record offer_record =
  ofr_id :: string
  ofr_user_pk :: string
  ofr_amount_msat :: "i64 option"
  ofr_description :: string
  ofr_pr :: string
  ofr_expires_at :: "i64 option"
  ofr_created_at :: i64

record recovery_record =
  rec_id :: string
  rec_user_pk :: string
  rec_expires_at :: i64
  rec_created_at :: i64

text \<open>The tables of \<open>schema.rs\<close> and the migrations; every primary key is text.\<close>

record db =
  invites :: "invite_record list"
  invoices :: "invoice_record list"
  receives :: "receive_record list"
  sends :: "send_record list"
  offers :: "offer_record list"
  recoveries :: "recovery_record list"
  users :: "user list"

definition empty_db :: db where
  "empty_db = \<lparr>invites = [], invoices = [], receives = [], sends = [], offers = [],
     recoveries = [], users = []\<rparr>"

section \<open>Insert statements\<close>

text \<open>
  \<open>insert_into(table).values(row)\<close>: an error (\<open>None\<close>) when the primary key is taken.
\<close>

definition append_row :: "('r \<Rightarrow> string) \<Rightarrow> 'r \<Rightarrow> 'r list \<Rightarrow> 'r list option" where
  "append_row key r rs = (if list_ex (\<lambda>x. key x = key r) rs then None else Some (rs @ [r]))"

lemma append_row_Some:
  "append_row key r rs = Some rs' \<longleftrightarrow> key r \<notin> key ` set rs \<and> rs' = rs @ [r]"
  by (auto simp: append_row_def list_ex_key)

lemma append_row_None: "append_row key r rs = None \<longleftrightarrow> key r \<in> key ` set rs"
  by (auto simp: append_row_def list_ex_key)

definition insert_invite :: "invite_record \<Rightarrow> db \<Rightarrow> db option" where
  "insert_invite r d = map_option (\<lambda>rs. d\<lparr>invites := rs\<rparr>) (append_row ivt_id r (invites d))"

definition insert_invoice :: "invoice_record \<Rightarrow> db \<Rightarrow> db option" where
  "insert_invoice r d = map_option (\<lambda>rs. d\<lparr>invoices := rs\<rparr>) (append_row ivc_id r (invoices d))"

definition insert_receive :: "receive_record \<Rightarrow> db \<Rightarrow> db option" where
  "insert_receive r d = map_option (\<lambda>rs. d\<lparr>receives := rs\<rparr>) (append_row rcv_id r (receives d))"

definition insert_send :: "send_record \<Rightarrow> db \<Rightarrow> db option" where
  "insert_send r d = map_option (\<lambda>rs. d\<lparr>sends := rs\<rparr>) (append_row snd_id r (sends d))"

definition insert_offer :: "offer_record \<Rightarrow> db \<Rightarrow> db option" where
  "insert_offer r d = map_option (\<lambda>rs. d\<lparr>offers := rs\<rparr>) (append_row ofr_id r (offers d))"

definition insert_recovery :: "recovery_record \<Rightarrow> db \<Rightarrow> db option" where
  "insert_recovery r d =
     map_option (\<lambda>rs. d\<lparr>recoveries := rs\<rparr>) (append_row rec_id r (recoveries d))"

definition insert_user :: "user \<Rightarrow> db \<Rightarrow> db option" where
  "insert_user r d = map_option (\<lambda>rs. d\<lparr>users := rs\<rparr>) (append_row usr_user_pk r (users d))"

text \<open>\<open>on_conflict(key).do_nothing()\<close>.\<close>

definition or_ignore :: "db \<Rightarrow> db option \<Rightarrow> db" where
  "or_ignore d r = (case r of Some d' \<Rightarrow> d' | None \<Rightarrow> d)"

lemma or_ignore_simps [simp]: "or_ignore d (Some d') = d'" "or_ignore d None = d"
  by (simp_all add: or_ignore_def)

lemmas insert_defs = insert_invite_def insert_invoice_def insert_receive_def insert_send_def
  insert_offer_def insert_recovery_def insert_user_def

interpretation invite_table: keyed_table invites ivt_id insert_invite
  "\<lambda>k d. List.find (\<lambda>r. ivt_id r = k) (invites d)"
  by unfold_locales (simp_all add: insert_invite_def append_row_def list_ex_key)

interpretation invoice_table: keyed_table invoices ivc_id insert_invoice
  "\<lambda>k d. List.find (\<lambda>r. ivc_id r = k) (invoices d)"
  by unfold_locales (simp_all add: insert_invoice_def append_row_def list_ex_key)

interpretation receive_table: keyed_table receives rcv_id insert_receive
  "\<lambda>k d. List.find (\<lambda>r. rcv_id r = k) (receives d)"
  by unfold_locales (simp_all add: insert_receive_def append_row_def list_ex_key)

interpretation send_table: keyed_table sends snd_id insert_send
  "\<lambda>k d. List.find (\<lambda>r. snd_id r = k) (sends d)"
  by unfold_locales (simp_all add: insert_send_def append_row_def list_ex_key)

interpretation offer_table: keyed_table offers ofr_id insert_offer
  "\<lambda>k d. List.find (\<lambda>r. ofr_id r = k) (offers d)"
  by unfold_locales (simp_all add: insert_offer_def append_row_def list_ex_key)

interpretation recovery_table: keyed_table recoveries rec_id insert_recovery
  "\<lambda>k d. List.find (\<lambda>r. rec_id r = k) (recoveries d)"
  by unfold_locales (simp_all add: insert_recovery_def append_row_def list_ex_key)

interpretation user_table: keyed_table users usr_user_pk insert_user
  "\<lambda>k d. List.find (\<lambda>r. usr_user_pk r = k) (users d)"
  by unfold_locales (simp_all add: insert_user_def append_row_def list_ex_key)

text \<open>An insert touches its own table only.\<close>

lemma insert_frame:
  "insert_invite r1 d = Some d' \<Longrightarrow> d' = d\<lparr>invites := invites d @ [r1]\<rparr>"
  "insert_invoice r2 d = Some d' \<Longrightarrow> d' = d\<lparr>invoices := invoices d @ [r2]\<rparr>"
  "insert_receive r3 d = Some d' \<Longrightarrow> d' = d\<lparr>receives := receives d @ [r3]\<rparr>"
  "insert_send r4 d = Some d' \<Longrightarrow> d' = d\<lparr>sends := sends d @ [r4]\<rparr>"
  "insert_offer r5 d = Some d' \<Longrightarrow> d' = d\<lparr>offers := offers d @ [r5]\<rparr>"
  "insert_recovery r6 d = Some d' \<Longrightarrow> d' = d\<lparr>recoveries := recoveries d @ [r6]\<rparr>"
  "insert_user r7 d = Some d' \<Longrightarrow> d' = d\<lparr>users := users d @ [r7]\<rparr>"
  by (auto simp: insert_defs append_row_Some)

section \<open>Messages of the client interface\<close>

record payment =
  pay_id :: string
  pay_payment_type :: string
  pay_is_live :: bool
  pay_amount_msat :: i64
  pay_fee_msat :: i64
  pay_description :: string
  pay_status :: string
  pay_ln_address :: "string option"
  pay_created_at :: i64

datatype app_event =
    Balance u64
  | Payment payment
  | Update string string i64

record register_response =
  rr_network :: string
  rr_name :: string

section \<open>Conversions\<close>

text \<open>\<open>convert.rs\<close>: \<open>IntoPayment\<close> for a receive and for a send.\<close>

definition receive_into_payment :: "receive_record \<Rightarrow> bool \<Rightarrow> payment" where
  "receive_into_payment r is_live =
     \<lparr>pay_id = rcv_id r, pay_payment_type = ''receive'', pay_is_live = is_live,
      pay_amount_msat = rcv_amount_msat r, pay_fee_msat = 0,
      pay_description = rcv_description r, pay_status = ''successful'',
      pay_ln_address = None, pay_created_at = rcv_created_at r\<rparr>"

definition send_into_payment :: "send_record \<Rightarrow> bool \<Rightarrow> payment" where
  "send_into_payment r is_live =
     \<lparr>pay_id = snd_id r, pay_payment_type = ''send'', pay_is_live = is_live,
      pay_amount_msat = snd_amount_msat r, pay_fee_msat = snd_fee_msat r,
      pay_description = snd_description r, pay_status = snd_status r,
      pay_ln_address = snd_ln_address r, pay_created_at = snd_created_at r\<rparr>"

text \<open>
  \<open>IntoReceiveRecord\<close> for an invoice and for an offer; \<open>now\<close> is the \<open>unix_time()\<close> the
  conversion reads, \<open>hx\<close> the hex encoder.
\<close>

definition invoice_into_receive_record ::
  "(u8 list \<Rightarrow> string) \<Rightarrow> i64 \<Rightarrow> invoice_record \<Rightarrow> u8 list \<Rightarrow> u64 \<Rightarrow> receive_record"
where
  "invoice_into_receive_record hx now i id_bytes amount_msat =
     \<lparr>rcv_id = hx id_bytes, rcv_user_pk = ivc_user_pk i, rcv_amount_msat = as_i64 amount_msat,
      rcv_description = ivc_description i, rcv_pr = ivc_pr i, rcv_created_at = now\<rparr>"

definition offer_into_receive_record ::
  "(u8 list \<Rightarrow> string) \<Rightarrow> i64 \<Rightarrow> offer_record \<Rightarrow> u8 list \<Rightarrow> u64 \<Rightarrow> receive_record"
where
  "offer_into_receive_record hx now ofr id_bytes amount_msat =
     \<lparr>rcv_id = hx id_bytes, rcv_user_pk = ofr_user_pk ofr, rcv_amount_msat = as_i64 amount_msat,
      rcv_description = ofr_description ofr, rcv_pr = ofr_pr ofr, rcv_created_at = now\<rparr>"

end
