(* ===== verification/World.thy ===== *)
theory World
  imports Models
begin

text \<open>
  The state the daemon's handlers run on and what they use from outside. \<open>world\<close> is the
  database, the messages sent on the event bus, the commands the Lightning node has accepted,
  and the two sources of input of the process: the clock (the n-th reading is \<open>clock w n\<close>) and
  the random generator. \<open>ldk_node\<close> is the third-party Lightning node: each field is the answer
  one call gives. \<open>args\<close> are the command line arguments of \<open>main.rs\<close> that the handlers read.
  The event bus is \<open>puncture-daemon/src/events.rs\<close>.
\<close>

section \<open>Arguments\<close>

text \<open>A URL and a socket address are what the code reads of them.\<close>

record url =
  url_text :: string
  url_host_str :: "string option"
  url_port :: "nat option"
  url_username :: string
  url_password :: "string option"

datatype socket_addr = V4 string | V6 string

record args =
  puncture_data_dir :: string
  ldk_data_dir :: string
  bitcoin_network :: string
  bitcoind_rpc_url :: "url option"
  esplora_rpc_url :: "url option"
  daemon_name :: string
  lsp1_node_id :: "string option"
  lsp1_socket_address :: "string option"
  lsp1_token :: "string option"
  fee_ppm :: u64
  base_fee_msat :: u64
  invoice_expiry_secs :: u32
  onchain_base_fee_msat :: u64
  client_bind :: socket_addr
  ldk_bind :: socket_addr
  cli_bind :: socket_addr
  ui_bind :: socket_addr
  min_amount_sats :: u32
  max_amount_sats :: u32
  max_pending_payments_per_user :: u32
  log_level :: string

text \<open>The defaults declared on the fields of \<open>Args\<close>, and values for those without one.\<close>

definition default_args :: args where
  "default_args = \<lparr>puncture_data_dir = ''puncture'', ldk_data_dir = ''ldk'',
     bitcoin_network = ''regtest'', bitcoind_rpc_url = None,
     esplora_rpc_url = Some \<lparr>url_text = ''http://esplora'', url_host_str = Some ''esplora'',
       url_port = None, url_username = [], url_password = None\<rparr>,
     daemon_name = ''testing daemon'', lsp1_node_id = None, lsp1_socket_address = None,
     lsp1_token = None, fee_ppm = 5000, base_fee_msat = 10000, invoice_expiry_secs = 3600,
     onchain_base_fee_msat = 5000000, client_bind = V4 ''0.0.0.0:8080'',
     ldk_bind = V4 ''0.0.0.0:8081'', cli_bind = V4 ''0.0.0.0:8082'',
     ui_bind = V4 ''0.0.0.0:8083'', min_amount_sats = 1, max_amount_sats = 100000,
     max_pending_payments_per_user = 10, log_level = ''info''\<rparr>"

section \<open>Values of the Lightning libraries\<close>

text \<open>
  An invoice and an offer are what the code reads of them. The string of \<open>Hash\<close> is the
  printed hash.
\<close>

datatype bolt11_description = Direct string | Hash string

fun bolt11_description_to_string :: "bolt11_description \<Rightarrow> string" where
  "bolt11_description_to_string (Direct s) = s"
| "bolt11_description_to_string (Hash h) = h"

record bolt11_invoice =
  b11_payment_hash :: "u8 list"
  b11_text :: string
  b11_description :: bolt11_description
  b11_amount_msat :: "u64 option"

datatype offer_amount = Bitcoin u64 | Currency string u64

record offer =
  b12_id :: "u8 list"
  b12_text :: string
  b12_description :: "string option"
  b12_amount :: "offer_amount option"

datatype payment_kind = Bolt11_kind "u8 list" | Bolt12_offer_kind "u8 list" | Other_kind

record channel_details =
  cd_user_channel_id :: u128
  cd_counterparty_node_id :: string
  cd_channel_value_sats :: u64
  cd_outbound_capacity_msat :: u64
  cd_inbound_capacity_msat :: u64
  cd_is_channel_ready :: bool
  cd_is_usable :: bool
  cd_is_outbound :: bool
  cd_funding_txo :: "string option"
  cd_confirmations :: "u32 option"
  cd_confirmations_required :: "u32 option"

record peer_details =
  pd_node_id :: string
  pd_address :: string
  pd_is_persisted :: bool
  pd_is_connected :: bool

datatype confirmation_status =
    Confirmed string u32 u64
  | Unconfirmed

section \<open>The Lightning node\<close>

record ldk_node =
  nd_node_id :: string
  nd_network :: string
  nd_bolt11_receive :: "u64 \<Rightarrow> string \<Rightarrow> u32 \<Rightarrow> (string, bolt11_invoice) outcome"
  nd_bolt12_receive_variable :: "string \<Rightarrow> u32 option \<Rightarrow> (string, offer) outcome"
  nd_bolt11_send :: "bolt11_invoice \<Rightarrow> u64 \<Rightarrow> (string, u8 list) outcome"
  nd_bolt12_send :: "offer \<Rightarrow> u64 \<Rightarrow> (string, u8 list) outcome"
  nd_send_to_address :: "string \<Rightarrow> u64 \<Rightarrow> u64 option \<Rightarrow> (string, u8 list) outcome"
  nd_send_all_to_address :: "string \<Rightarrow> bool \<Rightarrow> u64 option \<Rightarrow> (string, u8 list) outcome"
  nd_new_address :: "(string, string) outcome"
  nd_total_onchain_balance_sats :: u64
  nd_list_channels :: "channel_details list"
  nd_list_peers :: "peer_details list"
  nd_open_channel ::
    "bool \<Rightarrow> string \<Rightarrow> string \<Rightarrow> u64 \<Rightarrow> u64 option \<Rightarrow> (string, u128) outcome"
  nd_close_channel :: "bool \<Rightarrow> u128 \<Rightarrow> string \<Rightarrow> (string, unit) outcome"
  nd_connect :: "string \<Rightarrow> string \<Rightarrow> bool \<Rightarrow> (string, unit) outcome"
  nd_disconnect :: "string \<Rightarrow> (string, unit) outcome"
  nd_payment :: "u8 list \<Rightarrow> payment_kind option"
  nd_onchain_payments :: "(string \<times> confirmation_status) list"

text \<open>The commands that change what the node does, logged when the node accepts them.\<close>

datatype node_command =
    Pay_bolt11 bolt11_invoice u64
  | Pay_bolt12 offer u64
  | Pay_onchain string u64 "u64 option"
  | Drain string bool "u64 option"
  | Open_channel bool string string u64 "u64 option"
  | Close_channel bool u128 string
  | Connect string string bool
  | Disconnect string

text \<open>
  \<open>nd_onchain_payments\<close> are the ids of the on-chain payments of the node with the hash, the
  height and the time of the block that confirmed them, if any.

  JSON values, and the answer of the HTTP interface of the liquidity provider: whether the
  status is a success, the body as text and the body as JSON.
\<close>

datatype json =
    Json_null
  | Json_bool bool
  | Json_number int
  | Json_string string
  | Json_array "json list"
  | Json_object "(string \<times> json) list"

record lsp_response =
  lsp_is_success :: bool
  lsp_text :: "(string, string) outcome"
  lsp_json :: "(string, json) outcome"

text \<open>Parsers and checks of the libraries, beside the codec.\<close>

record libs = codec +
  from_hex_16 :: "string \<Rightarrow> (string, u8 list) outcome"
  description_new :: "string \<Rightarrow> (string, unit) outcome"
  offer_from_str :: "string \<Rightarrow> offer option"
  require_network :: "string \<Rightarrow> string \<Rightarrow> string option"
  public_key_from_str :: "string \<Rightarrow> string option"
  socket_address_from_str :: "string \<Rightarrow> (string, string) outcome"
  address_from_str :: "string \<Rightarrow> string option"
  txid_to_string :: "u8 list \<Rightarrow> string"
  format_millis :: "i64 \<Rightarrow> string option"
  qr_svg :: "string \<Rightarrow> string option"

record app_state =
  app_args :: args
  app_node :: ldk_node
  app_node_id :: node_id
  app_libs :: libs
  app_lsp :: "json \<Rightarrow> (string, lsp_response) outcome"

section \<open>The state\<close>

type_synonym bus = "(string \<times> app_event) list"

record world =
  db :: db
  event_bus :: bus
  node_log :: "node_command list"
  clock :: "nat \<Rightarrow> i64"
  ticks :: nat
  rng :: "nat \<Rightarrow> nat \<Rightarrow> u8"
  draws :: nat

type_synonym 'a rpc = "(world, (string, 'a) outcome) state"

definition init_world :: "(nat \<Rightarrow> i64) \<Rightarrow> (nat \<Rightarrow> nat \<Rightarrow> u8) \<Rightarrow> world" where
  "init_world c g = \<lparr>db = empty_db, event_bus = [], node_log = [], clock = c, ticks = 0,
     rng = g, draws = 0\<rparr>"

text \<open>\<open>unix_time()\<close>: every call is a new reading of the clock.\<close>

definition unix_time :: "(world, i64) state" where
  "unix_time = State (\<lambda>w. (clock w (ticks w), w\<lparr>ticks := Suc (ticks w)\<rparr>))"

text \<open>\<open>rand::rng().random::<[u8; n]>()\<close>.\<close>

definition random_bytes :: "nat \<Rightarrow> (world, u8 list) state" where
  "random_bytes n = State (\<lambda>w. (map (rng w (draws w)) [0..<n], w\<lparr>draws := Suc (draws w)\<rparr>))"

text \<open>Reading the database, an update statement, and an insert with \<open>expect\<close>.\<close>

definition query :: "(db \<Rightarrow> 'a) \<Rightarrow> (world, 'a) state" where
  "query f = State (\<lambda>w. (f (db w), w))"

definition update_db :: "(db \<Rightarrow> db) \<Rightarrow> (world, unit) state" where
  "update_db f = State (\<lambda>w. ((), w\<lparr>db := f (db w)\<rparr>))"

definition insert_expect ::
  "(db \<Rightarrow> db option) \<Rightarrow> string \<Rightarrow> (world, ('e, unit) outcome) state"
where
  "insert_expect f msg =
     State (\<lambda>w. case f (db w) of None \<Rightarrow> (Panic msg, w) | Some d \<Rightarrow> (Ok (), w\<lparr>db := d\<rparr>))"

text \<open>A call of the node; \<open>r\<close> is its answer.\<close>

definition node_call ::
  "node_command \<Rightarrow> (string, 'a) outcome \<Rightarrow> (world, (string, 'a) outcome) state"
where
  "node_call c r =
     State (\<lambda>w. (r, if is_ok r then w\<lparr>node_log := node_log w @ [c]\<rparr> else w))"

lemma run_primitives [simp, run_simps]:
  "run_state unix_time w = (clock w (ticks w), w\<lparr>ticks := Suc (ticks w)\<rparr>)"
  "run_state (random_bytes n) w =
     (map (rng w (draws w)) [0..<n], w\<lparr>draws := Suc (draws w)\<rparr>)"
  "run_state (query f) w = (f (db w), w)"
  "run_state (update_db g) w = ((), w\<lparr>db := g (db w)\<rparr>)"
  by (simp_all add: unix_time_def random_bytes_def query_def update_db_def)

lemma run_insert_expect [run_simps]:
  "run_state (insert_expect f msg) w =
     (case f (db w) of None \<Rightarrow> (Panic msg, w) | Some d \<Rightarrow> (Ok (), w\<lparr>db := d\<rparr>))"
  by (simp add: insert_expect_def)

lemma run_node_call [run_simps]:
  "run_state (node_call c r) w =
     (r, if is_ok r then w\<lparr>node_log := node_log w @ [c]\<rparr> else w)"
  by (simp add: node_call_def)

section \<open>The event bus\<close>

text \<open>
  \<open>send\<close> puts the message on the broadcast channel; the error of a channel without receivers is
  ignored (\<open>.ok()\<close>). \<open>event_bus\<close> keeps every message sent, in order.
\<close>

definition send_event :: "string \<Rightarrow> app_event \<Rightarrow> (world, unit) state" where
  "send_event user_id e = State (\<lambda>w. ((), w\<lparr>event_bus := event_bus w @ [(user_id, e)]\<rparr>))"

definition send_balance_event :: "string \<Rightarrow> u64 \<Rightarrow> (world, unit) state" where
  "send_balance_event user_id amount_msat = send_event user_id (Balance amount_msat)"

definition send_payment_event :: "string \<Rightarrow> payment \<Rightarrow> (world, unit) state" where
  "send_payment_event user_id p = send_event user_id (Payment p)"

definition send_update_event :: "string \<Rightarrow> string \<Rightarrow> string \<Rightarrow> i64 \<Rightarrow> (world, unit) state" where
  "send_update_event user_id i status fee_msat = send_event user_id (Update i status fee_msat)"

lemma run_events [simp, run_simps]:
  "run_state (send_balance_event u a) w = ((), w\<lparr>event_bus := event_bus w @ [(u, Balance a)]\<rparr>)"
  "run_state (send_payment_event u p) w = ((), w\<lparr>event_bus := event_bus w @ [(u, Payment p)]\<rparr>)"
  "run_state (send_update_event u i s f) w =
     ((), w\<lparr>event_bus := event_bus w @ [(u, Update i s f)]\<rparr>)"
  by (simp_all add: send_balance_event_def send_payment_event_def send_update_event_def
      send_event_def)

text \<open>
  A subscriber sees the broadcast stream through \<open>filter\<close>: the events of its own user, and the
  error of a receiver that lagged behind.
\<close>

fun filter_event ::
  "string \<Rightarrow> (string, string \<times> 'a) outcome \<Rightarrow> (string, 'a) outcome option"
where
  "filter_event user_id (Ok (event_user_id, event)) =
     (if event_user_id = user_id then Some (Ok event) else None)"
| "filter_event user_id (Err e) = Some (Err e)"
| "filter_event user_id (Panic p) = Some (Panic p)"

definition subscribe_to_events ::
  "string \<Rightarrow> (string, string \<times> app_event) outcome list \<Rightarrow> (string, app_event) outcome list"
where
  "subscribe_to_events user_id stream = List.map_filter (filter_event user_id) stream"

definition events_of :: "string \<Rightarrow> bus \<Rightarrow> app_event list" where
  "events_of u b = map snd (filter (\<lambda>m. fst m = u) b)"

lemma events_of_append [simp]: "events_of u (b @ c) = events_of u b @ events_of u c"
  by (simp add: events_of_def)

lemma events_of_Cons [simp]:
  "events_of u (m # b) = (if fst m = u then [snd m] else []) @ events_of u b"
  by (simp add: events_of_def)

lemma events_of_Nil [simp]: "events_of u [] = []"
  by (simp add: events_of_def)

text \<open>Without lag a subscriber receives exactly its user's messages, in the order sent.\<close>

lemma subscribe_no_lag: "subscribe_to_events u (map Ok b) = map Ok (events_of u b)"
  by (induction b) (auto simp: subscribe_to_events_def events_of_def map_filter_def split: if_splits)

end
