(* ===== verification/Queries.thy ===== *)
theory Queries
  imports World
begin

text \<open>
  The database functions of the daemon: \<open>puncture-daemon/src/db.rs\<close>, \<open>client/db.rs\<close>,
  \<open>cli/db.rs\<close> and \<open>ui/db.rs\<close>. Each is one definition with the source's name. A read is a
  function of the database; a write is an operation on the world, with the clock readings in
  the order the code takes them. \<open>hx\<close> is the hex encoder of the primary keys. An \<open>order by\<close>
  keeps rows with equal keys in insertion order.
\<close>

section \<open>\<open>puncture-daemon/src/db.rs\<close>\<close>

definition get_invoice :: "(u8 list \<Rightarrow> string) \<Rightarrow> u8 list \<Rightarrow> db \<Rightarrow> invoice_record option" where
  "get_invoice hx payment_hash d = List.find (\<lambda>r. ivc_id r = hx payment_hash) (invoices d)"

definition get_offer :: "(u8 list \<Rightarrow> string) \<Rightarrow> u8 list \<Rightarrow> db \<Rightarrow> offer_record option" where
  "get_offer hx payment_id d = List.find (\<lambda>r. ofr_id r = hx payment_id) (offers d)"

definition set_send_status :: "string \<Rightarrow> string \<Rightarrow> db \<Rightarrow> db" where
  "set_send_status k status d =
     d\<lparr>sends := map (\<lambda>r. if snd_id r = k then r\<lparr>snd_status := status\<rparr> else r) (sends d)\<rparr>"

definition set_send_fee :: "string \<Rightarrow> i64 \<Rightarrow> db \<Rightarrow> db" where
  "set_send_fee k fee d =
     d\<lparr>sends := map (\<lambda>r. if snd_id r = k then r\<lparr>snd_fee_msat := fee\<rparr> else r) (sends d)\<rparr>"

definition update_send_status ::
  "(u8 list \<Rightarrow> string) \<Rightarrow> u8 list \<Rightarrow> string \<Rightarrow> i64 \<Rightarrow> (world, send_record option) state"
where
  "update_send_status hx id_bytes status fee_paid_msat = do {
     update_db (set_send_status (hx id_bytes) status);
     update_db (set_send_fee (hx id_bytes) fee_paid_msat);
     query (\<lambda>d. List.find (\<lambda>r. snd_id r = hx id_bytes) (sends d))
   }"

definition create_receive_payment :: "receive_record \<Rightarrow> (world, unit) state" where
  "create_receive_payment r = update_db (\<lambda>d. or_ignore d (insert_receive r d))"

definition receive_sum :: "string \<Rightarrow> db \<Rightarrow> i64" where
  "receive_sum user_pk d =
     sum_list (map rcv_amount_msat (filter (\<lambda>r. rcv_user_pk r = user_pk) (receives d)))"

definition send_sum :: "string \<Rightarrow> db \<Rightarrow> i64" where
  "send_sum user_pk d =
     sum_list (map (\<lambda>r. snd_amount_msat r + snd_fee_msat r)
       (filter (\<lambda>r. snd_status r \<noteq> ''failed'') (filter (\<lambda>r. snd_user_pk r = user_pk) (sends d))))"

definition user_balance :: "string \<Rightarrow> db \<Rightarrow> u64" where
  "user_balance user_pk d =
     as_u64 (i64_saturating_sub (receive_sum user_pk d) (send_sum user_pk d))"

section \<open>\<open>puncture-daemon/src/client/db.rs\<close>\<close>

definition user_exists :: "string \<Rightarrow> db \<Rightarrow> bool" where
  "user_exists user_pk d \<longleftrightarrow> list_ex (\<lambda>r. usr_user_pk r = user_pk) (users d)"

definition get_invite :: "string \<Rightarrow> db \<Rightarrow> invite_record option" where
  "get_invite invite_id d = List.find (\<lambda>r. ivt_id r = invite_id) (invites d)"

definition count_invite_users :: "string \<Rightarrow> db \<Rightarrow> i64" where
  "count_invite_users invite_id d =
     of_nat (length (filter (\<lambda>r. usr_invite_id r = invite_id) (users d)))"

definition register_user_with_invite :: "string \<Rightarrow> string \<Rightarrow> (world, unit) state" where
  "register_user_with_invite user_pk invite_id = do {
     now \<leftarrow> unix_time;
     update_db (\<lambda>d. or_ignore d (insert_user
       \<lparr>usr_user_pk = user_pk, usr_invite_id = invite_id, usr_recovery_name = None,
        usr_created_at = now\<rparr> d))
   }"

definition get_recovery :: "string \<Rightarrow> db \<Rightarrow> recovery_record option" where
  "get_recovery recovery_id d = List.find (\<lambda>r. rec_id r = recovery_id) (recoveries d)"

definition create_invoice ::
  "(u8 list \<Rightarrow> string) \<Rightarrow> string \<Rightarrow> bolt11_invoice \<Rightarrow> i64 \<Rightarrow> string \<Rightarrow> u32 \<Rightarrow>
   (world, ('e, unit) outcome) state"
where
  "create_invoice hx user_pk invoice amount_msat description expiry_secs = do {
     now1 \<leftarrow> unix_time;
     now2 \<leftarrow> unix_time;
     insert_expect (insert_invoice
       \<lparr>ivc_id = hx (b11_payment_hash invoice), ivc_user_pk = user_pk,
        ivc_amount_msat = Some amount_msat, ivc_description = description,
        ivc_pr = b11_text invoice, ivc_expires_at = now1 + u32_to_i64 expiry_secs * 1000,
        ivc_created_at = now2\<rparr>)
       ''Failed to create invoice''
   }"

text \<open>
  The left join keeps an invoice whose id is not the id of a receive with a null
  \<open>receive.id\<close>, which is the row the filter keeps.
\<close>

definition pending_invoices :: "i64 \<Rightarrow> string \<Rightarrow> db \<Rightarrow> invoice_record list" where
  "pending_invoices now user_pk d =
     filter (\<lambda>i. \<not> list_ex (\<lambda>r. rcv_id r = ivc_id i) (receives d))
       (filter (\<lambda>i. now <s ivc_expires_at i)
         (filter (\<lambda>i. ivc_user_pk i = user_pk) (invoices d)))"

definition count_pending_invoices :: "string \<Rightarrow> (world, i64) state" where
  "count_pending_invoices user_pk = do {
     now \<leftarrow> unix_time;
     query (\<lambda>d. of_nat (length (pending_invoices now user_pk d)))
   }"

definition create_offer ::
  "(u8 list \<Rightarrow> string) \<Rightarrow> string \<Rightarrow> offer \<Rightarrow> i64 option \<Rightarrow> string \<Rightarrow> u32 option \<Rightarrow>
   (world, ('e, unit) outcome) state"
where
  "create_offer hx user_pk offer amount_msat description expiry_secs = do {
     expires_at \<leftarrow> (case expiry_secs of
         None \<Rightarrow> ret None
       | Some secs \<Rightarrow> do { now \<leftarrow> unix_time; ret (Some (now + u32_to_i64 secs * 1000)) });
     now \<leftarrow> unix_time;
     insert_expect (insert_offer
       \<lparr>ofr_id = hx (b12_id offer), ofr_user_pk = user_pk, ofr_amount_msat = amount_msat,
        ofr_description = description, ofr_pr = b12_text offer, ofr_expires_at = expires_at,
        ofr_created_at = now\<rparr>)
       ''Failed to create offer''
   }"

text \<open>\<open>order_by(created_at.desc())\<close> on any rows.\<close>

definition newest_first :: "('r \<Rightarrow> i64) \<Rightarrow> 'r list \<Rightarrow> 'r list" where
  "newest_first created_at rs = sort_key (\<lambda>r. - sint (created_at r)) rs"

definition first_row :: "'r list \<Rightarrow> 'r option" where
  "first_row rs = (case rs of [] \<Rightarrow> None | r # _ \<Rightarrow> Some r)"

definition get_offer_by_user_pk :: "string \<Rightarrow> db \<Rightarrow> offer_record option" where
  "get_offer_by_user_pk user_pk d =
     first_row (newest_first ofr_created_at (filter (\<lambda>r. ofr_user_pk r = user_pk) (offers d)))"

definition pending_sends :: "string \<Rightarrow> db \<Rightarrow> send_record list" where
  "pending_sends user_pk d =
     filter (\<lambda>r. snd_status r = ''pending'') (filter (\<lambda>r. snd_user_pk r = user_pk) (sends d))"

definition count_pending_sends :: "string \<Rightarrow> db \<Rightarrow> i64" where
  "count_pending_sends user_pk d = of_nat (length (pending_sends user_pk d))"

text \<open>
  One transaction: when either insert fails nothing is written, and \<open>expect\<close> panics.
\<close>

definition insert_transfer :: "send_record \<Rightarrow> receive_record \<Rightarrow> db \<Rightarrow> db option" where
  "insert_transfer s r d = Option.bind (insert_send s d) (insert_receive r)"

definition create_internal_transfer ::
  "(u8 list \<Rightarrow> string) \<Rightarrow> string \<Rightarrow> string \<Rightarrow> i64 \<Rightarrow> i64 \<Rightarrow> string \<Rightarrow> string \<Rightarrow>
   (world, ('e, send_record \<times> receive_record) outcome) state"
where
  "create_internal_transfer hx send_user_pk receive_user_pk amount_msat fee_msat pr description
   = do {
     id_bytes \<leftarrow> random_bytes 32;
     now1 \<leftarrow> unix_time;
     now2 \<leftarrow> unix_time;
     let send_record = \<lparr>snd_id = hx id_bytes, snd_user_pk = send_user_pk,
           snd_amount_msat = amount_msat, snd_fee_msat = fee_msat,
           snd_description = description, snd_pr = pr, snd_status = ''successful'',
           snd_ln_address = None, snd_created_at = now1\<rparr>;
     let receive_record = \<lparr>rcv_id = hx id_bytes, rcv_user_pk = receive_user_pk,
           rcv_amount_msat = amount_msat, rcv_description = description, rcv_pr = pr,
           rcv_created_at = now2\<rparr>;
     r \<leftarrow> insert_expect (insert_transfer send_record receive_record)
           ''Failed to create internal transfer'';
     attempt r (\<lambda>_. ok (send_record, receive_record))
   }"

definition create_send_payment ::
  "(u8 list \<Rightarrow> string) \<Rightarrow> u8 list \<Rightarrow> string \<Rightarrow> i64 \<Rightarrow> i64 \<Rightarrow> string \<Rightarrow> string \<Rightarrow> string \<Rightarrow>
   string option \<Rightarrow> (world, ('e, send_record) outcome) state"
where
  "create_send_payment hx id_bytes user_pk amount_msat fee_msat description pr status ln_address
   = do {
     now \<leftarrow> unix_time;
     let new_send = \<lparr>snd_id = hx id_bytes, snd_user_pk = user_pk, snd_amount_msat = amount_msat,
           snd_fee_msat = fee_msat, snd_description = description, snd_pr = pr,
           snd_status = status, snd_ln_address = ln_address, snd_created_at = now\<rparr>;
     r \<leftarrow> insert_expect (insert_send new_send) ''Failed to insert send payment'';
     attempt r (\<lambda>_. ok new_send)
   }"

text \<open>\<open>sort_by_key\<close> is stable; \<open>split_off(at)\<close> returns the elements from \<open>at\<close> on.\<close>

definition user_payments :: "string \<Rightarrow> db \<Rightarrow> payment list" where
  "user_payments user_pk d =
     (let receive_payments = map (\<lambda>r. receive_into_payment r False)
            (take 50 (newest_first rcv_created_at
              (filter (\<lambda>r. rcv_user_pk r = user_pk) (receives d))));
          send_payments = map (\<lambda>r. send_into_payment r False)
            (take 50 (newest_first snd_created_at
              (filter (\<lambda>r. snd_user_pk r = user_pk) (sends d))));
          payments = sort_key (\<lambda>p. sint (pay_created_at p)) (receive_payments @ send_payments)
      in drop (length payments - 50) payments)"

definition set_recovery_name_rows :: "string \<Rightarrow> string option \<Rightarrow> db \<Rightarrow> db" where
  "set_recovery_name_rows user_pk recovery_name d =
     d\<lparr>users := map (\<lambda>r. if usr_user_pk r = user_pk
        then r\<lparr>usr_recovery_name := recovery_name\<rparr> else r) (users d)\<rparr>"

section \<open>\<open>puncture-daemon/src/cli/db.rs\<close>\<close>

record user_info =
  ui_user_pk :: string
  ui_balance_msat :: u64
  ui_recovery_name :: "string option"
  ui_created_at :: i64

definition create_invite ::
  "(u8 list \<Rightarrow> string) \<Rightarrow> u8 list \<Rightarrow> u32 \<Rightarrow> u32 \<Rightarrow> (world, ('e, unit) outcome) state"
where
  "create_invite hx invite_id user_limit expiry_secs = do {
     now1 \<leftarrow> unix_time;
     now2 \<leftarrow> unix_time;
     insert_expect (insert_invite
       \<lparr>ivt_id = hx invite_id, ivt_user_limit = u32_to_i64 user_limit,
        ivt_expires_at = now1 + u32_to_i64 expiry_secs * 1000, ivt_created_at = now2\<rparr>)
       ''Failed to create invite''
   }"

definition create_recovery ::
  "(u8 list \<Rightarrow> string) \<Rightarrow> u8 list \<Rightarrow> string \<Rightarrow> u32 \<Rightarrow> (world, ('e, unit) outcome) state"
where
  "create_recovery hx recovery_id user_pk expiry_secs = do {
     now1 \<leftarrow> unix_time;
     now2 \<leftarrow> unix_time;
     insert_expect (insert_recovery
       \<lparr>rec_id = hx recovery_id, rec_user_pk = user_pk,
        rec_expires_at = now1 + u32_to_i64 expiry_secs * 1000, rec_created_at = now2\<rparr>)
       ''Failed to create recovery''
   }"

definition list_users :: "db \<Rightarrow> user_info list" where
  "list_users d = map (\<lambda>r. \<lparr>ui_user_pk = usr_user_pk r,
     ui_balance_msat = user_balance (usr_user_pk r) d,
     ui_recovery_name = usr_recovery_name r, ui_created_at = usr_created_at r\<rparr>) (users d)"

definition cli_user_exists :: "string \<Rightarrow> db \<Rightarrow> bool" where
  "cli_user_exists user_pk d \<longleftrightarrow> list_ex (\<lambda>r. usr_user_pk r = user_pk) (users d)"

section \<open>\<open>puncture-daemon/src/ui/db.rs\<close>\<close>

text \<open>The web interface has its own copies of the functions of the command line.\<close>

definition ui_create_invite ::
  "(u8 list \<Rightarrow> string) \<Rightarrow> u8 list \<Rightarrow> u32 \<Rightarrow> u32 \<Rightarrow> (world, ('e, unit) outcome) state"
where
  "ui_create_invite hx invite_id user_limit expiry_secs = do {
     now1 \<leftarrow> unix_time;
     now2 \<leftarrow> unix_time;
     insert_expect (insert_invite
       \<lparr>ivt_id = hx invite_id, ivt_user_limit = u32_to_i64 user_limit,
        ivt_expires_at = now1 + u32_to_i64 expiry_secs * 1000, ivt_created_at = now2\<rparr>)
       ''Failed to create invite''
   }"

definition ui_list_users :: "db \<Rightarrow> user_info list" where
  "ui_list_users d = map (\<lambda>r. \<lparr>ui_user_pk = usr_user_pk r,
     ui_balance_msat = user_balance (usr_user_pk r) d,
     ui_recovery_name = usr_recovery_name r, ui_created_at = usr_created_at r\<rparr>) (users d)"

definition ui_user_exists :: "string \<Rightarrow> db \<Rightarrow> bool" where
  "ui_user_exists user_pk d \<longleftrightarrow> list_ex (\<lambda>r. usr_user_pk r = user_pk) (users d)"

definition ui_create_recovery ::
  "(u8 list \<Rightarrow> string) \<Rightarrow> u8 list \<Rightarrow> string \<Rightarrow> u32 \<Rightarrow> (world, ('e, unit) outcome) state"
where
  "ui_create_recovery hx recovery_id user_pk expiry_secs = do {
     now1 \<leftarrow> unix_time;
     now2 \<leftarrow> unix_time;
     insert_expect (insert_recovery
       \<lparr>rec_id = hx recovery_id, rec_user_pk = user_pk,
        rec_expires_at = now1 + u32_to_i64 expiry_secs * 1000, rec_created_at = now2\<rparr>)
       ''Failed to create recovery''
   }"

text \<open>The copies are the originals.\<close>

lemma db_copies [simp]:
  "cli_user_exists = user_exists" "ui_user_exists = user_exists" "ui_list_users = list_users"
  "ui_create_invite = create_invite" "ui_create_recovery = create_recovery"
  by (simp_all add: fun_eq_iff cli_user_exists_def ui_user_exists_def user_exists_def
      ui_list_users_def list_users_def ui_create_invite_def create_invite_def
      ui_create_recovery_def create_recovery_def)

end
