(* ===== verification/Ledger.thy ===== *)
theory Ledger
  imports Queries
begin

text \<open>
  The balance of a user in exact integers, and what \<open>user_balance\<close> computes from it in 64-bit
  arithmetic. \<open>received\<close> and \<open>spent\<close> are the abstract account: what came in, and what went out
  with its fees, failed sends left out.
\<close>

section \<open>The account of a user\<close>

definition received :: "string \<Rightarrow> db \<Rightarrow> int" where
  "received u d =
     sum_list (map (\<lambda>r. uint (rcv_amount_msat r)) (filter (\<lambda>r. rcv_user_pk r = u) (receives d)))"

definition cost :: "send_record \<Rightarrow> int" where
  "cost r = uint (snd_amount_msat r) + uint (snd_fee_msat r)"

definition counts_for :: "string \<Rightarrow> send_record \<Rightarrow> bool" where
  "counts_for u r \<longleftrightarrow> snd_user_pk r = u \<and> snd_status r \<noteq> ''failed''"

definition spent :: "string \<Rightarrow> db \<Rightarrow> int" where
  "spent u d = sum_list (map cost (filter (counts_for u) (sends d)))"

lemma cost_nonneg: "0 \<le> cost r"
  by (simp add: cost_def)

lemma received_nonneg: "0 \<le> received u d"
  by (auto simp: received_def intro: sum_list_nonneg)

lemma spent_nonneg: "0 \<le> spent u d"
  unfolding spent_def by (rule sum_list_nonneg) (auto simp: cost_nonneg)

lemma word_of_int_sum_list:
  "(word_of_int (sum_list (map f xs)) :: 64 word) = sum_list (map (\<lambda>x. word_of_int (f x)) xs)"
  by (induction xs) (simp_all add: wi_hom_syms)

lemma receive_sum_received: "receive_sum u d = word_of_int (received u d)"
  by (simp add: receive_sum_def received_def word_of_int_sum_list)

lemma send_sum_spent: "send_sum u d = word_of_int (spent u d)"
proof -
  have "filter (\<lambda>r. snd_status r \<noteq> ''failed'') (filter (\<lambda>r. snd_user_pk r = u) (sends d))
      = filter (counts_for u) (sends d)"
    by (auto simp: counts_for_def intro!: filter_cong)
  then show ?thesis
    by (simp add: send_sum_def spent_def word_of_int_sum_list cost_def wi_hom_syms [symmetric])
qed

text \<open>
  As long as a user received less than \<open>2 ^ 63\<close> msat and spent no more than that, the 64-bit
  code computes the exact balance.
\<close>

lemma user_balance_word:
  assumes "received u d < 2 ^ 63" and "spent u d < 2 ^ 63"
  shows "user_balance u d = word_of_int (received u d - spent u d)"
proof -
  have s: "sint (receive_sum u d) = received u d" "sint (send_sum u d) = spent u d"
    using assms received_nonneg [of u d] spent_nonneg [of u d]
    by (auto simp: receive_sum_received send_sum_spent intro!: sint_of_int_64
        intro: order_trans [of _ 0])
  have "- (2 ^ 63) \<le> received u d - spent u d" and "received u d - spent u d \<le> 2 ^ 63 - 1"
    using assms received_nonneg [of u d] spent_nonneg [of u d] by linarith+
  then show ?thesis by (simp add: user_balance_def i64_saturating_sub_def s Let_def)
qed

lemma user_balance_exact:
  assumes "received u d < 2 ^ 63" and "spent u d \<le> received u d"
  shows "uint (user_balance u d) = received u d - spent u d"
proof -
  have "uint (word_of_int (received u d - spent u d) :: u64) = received u d - spent u d"
    using assms spent_nonneg [of u d] by (intro uint_of_int_64) simp_all
  then show ?thesis
    using assms user_balance_word [of u d] by (metis order_le_less_trans)
qed

text \<open>
  An overdrawn account reads as a huge balance: the subtraction saturates at \<open>i64::MIN\<close>, not at
  zero, and the cast to \<open>u64\<close> turns the negative difference into a number near \<open>2 ^ 64\<close>.
\<close>

lemma user_balance_overdrawn:
  assumes "received u d < spent u d" and "spent u d < 2 ^ 63"
  shows "uint (user_balance u d) = 2 ^ 64 - (spent u d - received u d)"
proof -
  have "uint (word_of_int (received u d - spent u d) :: u64) = 2 ^ 64 + (received u d - spent u d)"
    using assms received_nonneg [of u d] by (intro uint_of_int_neg_64) simp_all
  moreover have "user_balance u d = word_of_int (received u d - spent u d)"
    using assms by (intro user_balance_word) simp_all
  ultimately show ?thesis by (metis add_diff_eq diff_diff_eq2)
qed

section \<open>How the operations on the tables move the account\<close>

lemma received_append [balance_simps]:
  "received u (d\<lparr>receives := receives d @ [r]\<rparr>) =
     received u d + (if rcv_user_pk r = u then uint (rcv_amount_msat r) else 0)"
  by (simp add: received_def)

lemma spent_append [balance_simps]:
  "spent u (d\<lparr>sends := sends d @ [r]\<rparr>) = spent u d + (if counts_for u r then cost r else 0)"
  by (simp add: spent_def)

lemma received_other_tables [balance_simps]:
  "received u (d\<lparr>invites := a\<rparr>) = received u d"
  "received u (d\<lparr>invoices := b\<rparr>) = received u d"
  "received u (d\<lparr>sends := c\<rparr>) = received u d"
  "received u (d\<lparr>offers := e\<rparr>) = received u d"
  "received u (d\<lparr>recoveries := f\<rparr>) = received u d"
  "received u (d\<lparr>users := g\<rparr>) = received u d"
  by (simp_all add: received_def)

lemma spent_other_tables [balance_simps]:
  "spent u (d\<lparr>invites := a\<rparr>) = spent u d"
  "spent u (d\<lparr>invoices := b\<rparr>) = spent u d"
  "spent u (d\<lparr>receives := c\<rparr>) = spent u d"
  "spent u (d\<lparr>offers := e\<rparr>) = spent u d"
  "spent u (d\<lparr>recoveries := f\<rparr>) = spent u d"
  "spent u (d\<lparr>users := g\<rparr>) = spent u d"
  by (simp_all add: spent_def)

text \<open>The balance depends on the account only.\<close>

lemma user_balance_cong:
  "received u d = received u d' \<Longrightarrow> spent u d = spent u d' \<Longrightarrow> user_balance u d = user_balance u d'"
  by (simp add: user_balance_def receive_sum_received send_sum_spent)

text \<open>Both update statements of \<open>update_send_status\<close> as one map over the rows.\<close>

definition settle_row :: "string \<Rightarrow> string \<Rightarrow> i64 \<Rightarrow> send_record \<Rightarrow> send_record" where
  "settle_row k status fee r =
     (if snd_id r = k then r\<lparr>snd_status := status, snd_fee_msat := fee\<rparr> else r)"

definition settle :: "string \<Rightarrow> string \<Rightarrow> i64 \<Rightarrow> db \<Rightarrow> db" where
  "settle k status fee d = d\<lparr>sends := map (settle_row k status fee) (sends d)\<rparr>"

lemma set_status_fee_settle: "set_send_fee k fee (set_send_status k status d) = settle k status fee d"
  by (auto simp: set_send_fee_def set_send_status_def settle_def settle_row_def comp_def)

lemma settle_row_simps [simp]:
  "snd_id (settle_row k st fee r) = snd_id r"
  "snd_user_pk (settle_row k st fee r) = snd_user_pk r"
  "snd_amount_msat (settle_row k st fee r) = snd_amount_msat r"
  by (simp_all add: settle_row_def)

lemma find_map_settle:
  "List.find (\<lambda>r. snd_id r = k) (map (settle_row k st fee) rs) =
     map_option (\<lambda>r. r\<lparr>snd_status := st, snd_fee_msat := fee\<rparr>) (List.find (\<lambda>r. snd_id r = k) rs)"
  by (induction rs) (auto simp: settle_row_def)

lemma find_settle:
  "List.find (\<lambda>r. snd_id r = k) (sends (settle k st fee d)) =
     map_option (\<lambda>r. r\<lparr>snd_status := st, snd_fee_msat := fee\<rparr>)
       (List.find (\<lambda>r. snd_id r = k) (sends d))"
  by (simp add: settle_def find_map_settle)

lemma run_update_send_status [run_simps]:
  "run_state (update_send_status hx i status fee) w =
     (map_option (\<lambda>r. r\<lparr>snd_status := status, snd_fee_msat := fee\<rparr>)
        (List.find (\<lambda>r. snd_id r = hx i) (sends (db w))),
      w\<lparr>db := settle (hx i) status fee (db w)\<rparr>)"
  by (simp add: update_send_status_def set_status_fee_settle find_map_settle settle_def [of "hx i"])

lemma settle_tables [simp, table_simps]:
  "invites (settle k st fee d) = invites d"
  "invoices (settle k st fee d) = invoices d"
  "receives (settle k st fee d) = receives d"
  "offers (settle k st fee d) = offers d"
  "recoveries (settle k st fee d) = recoveries d"
  "users (settle k st fee d) = users d"
  "map snd_id (sends (settle k st fee d)) = map snd_id (sends d)"
  by (simp_all add: settle_def)

lemma received_settle [balance_simps]: "received u (settle k st fee d) = received u d"
  by (simp add: received_def)

lemma settle_absent:
  "List.find (\<lambda>r. snd_id r = k) (sends d) = None \<Longrightarrow> settle k st fee d = d"
proof -
  assume "List.find (\<lambda>r. snd_id r = k) (sends d) = None"
  then have "map (settle_row k st fee) (sends d) = sends d"
    by (intro map_idI) (auto simp: settle_row_def find_None_iff)
  then show ?thesis by (simp add: settle_def)
qed

text \<open>Settling a payment only moves the account of its owner.\<close>

lemma spent_settle_other:
  assumes "\<And>r. r \<in> set (sends d) \<Longrightarrow> snd_id r = k \<Longrightarrow> snd_user_pk r \<noteq> u"
  shows "spent u (settle k st fee d) = spent u d"
proof -
  have "map cost (filter (counts_for u) (map (settle_row k st fee) rs))
      = map cost (filter (counts_for u) rs)"
    if "\<And>r. r \<in> set rs \<Longrightarrow> snd_id r = k \<Longrightarrow> snd_user_pk r \<noteq> u" for rs
    using that by (induction rs) (auto simp: settle_row_def counts_for_def)
  with assms show ?thesis by (simp add: spent_def settle_def)
qed

text \<open>A failed payment gives back its amount and its fee, a successful one the fee not used.\<close>

lemma spent_settle:
  assumes "distinct (map snd_id (sends d))" and "r \<in> set (sends d)" and "snd_id r = k"
    and "snd_user_pk r = u"
  shows "spent u (settle k st fee d) =
     spent u d - (if snd_status r = ''failed'' then 0 else cost r)
       + (if st = ''failed'' then 0 else uint (snd_amount_msat r) + uint fee)"
proof -
  have split: "spent u (settle k st fee d) = spent u d -
      (if counts_for u r then cost r else 0)
      + (if counts_for u (settle_row k st fee r) then cost (settle_row k st fee r) else 0)"
    if "sends d = xs @ r # ys" "k \<notin> snd_id ` set (xs @ ys)" for xs ys
  proof -
    have "map (settle_row k st fee) (xs @ ys) = xs @ ys"
      using that(2) by (intro map_idI) (auto simp: settle_row_def image_iff)
    then have "map (settle_row k st fee) xs = xs" "map (settle_row k st fee) ys = ys"
      by (auto simp: map_idI dest: arg_cong [where f = "take (length xs)"]
          arg_cong [where f = "drop (length xs)"])
    with that show ?thesis by (simp add: spent_def settle_def)
  qed
  from assms(2) obtain xs ys where xy: "sends d = xs @ r # ys" by (meson split_list)
  with assms(1,3) have "k \<notin> snd_id ` set (xs @ ys)" by auto
  from split [OF xy this] assms(3,4) show ?thesis
    by (auto simp: counts_for_def settle_row_def cost_def)
qed

lemma spent_settle_le:
  assumes "\<And>r. r \<in> set (sends d) \<Longrightarrow> snd_id r = k \<Longrightarrow>
    st = ''failed'' \<or> (snd_status r \<noteq> ''failed'' \<and> uint fee \<le> uint (snd_fee_msat r))"
  shows "spent u (settle k st fee d) \<le> spent u d"
proof -
  have "sum_list (map cost (filter (counts_for u) (map (settle_row k st fee) rs)))
      \<le> sum_list (map cost (filter (counts_for u) rs))"
    if "\<And>r. r \<in> set rs \<Longrightarrow> snd_id r = k \<Longrightarrow>
      st = ''failed'' \<or> (snd_status r \<noteq> ''failed'' \<and> uint fee \<le> uint (snd_fee_msat r))" for rs
    using that
  proof (induction rs)
    case Nil
    then show ?case by simp
  next
    case (Cons r rs)
    have "(if counts_for u (settle_row k st fee r) then cost (settle_row k st fee r) else 0)
        \<le> (if counts_for u r then cost r else 0)"
      using Cons.prems [of r] by (auto simp: settle_row_def counts_for_def cost_def)
    moreover have "sum_list (map cost (filter (counts_for u) (map (settle_row k st fee) rs)))
        \<le> sum_list (map cost (filter (counts_for u) rs))"
      using Cons by simp
    ultimately show ?case using cost_nonneg [of r] by (auto split: if_splits)
  qed
  with assms show ?thesis by (simp add: spent_def settle_def)
qed

end
