(* ===== verification/Book.thy ===== *)
theory Book
  imports Ledger
begin

text \<open>
  The abstract specification of the daemon: the book is the database with the messages on the
  event bus, and it changes by whole actions only. \<open>enabled\<close> says under which conditions an
  action may happen, \<open>apply_action\<close> what it writes and \<open>action_events\<close> what it announces.
  The client handlers, the node events and the operator's handlers refine it (theories
  \<open>Client_Refines\<close>, \<open>Node_Events\<close>, \<open>Cli\<close>, \<open>Ui\<close>); the invariants are proved here, once.
\<close>

section \<open>Actions\<close>

datatype action =
    Add_user user
  | Add_invite invite_record
  | Add_recovery recovery_record
  | Add_invoice i64 invoice_record
  | Add_offer offer_record
  | Credit receive_record
  | Debit send_record
  | Transfer send_record receive_record
  | Settle string string i64
  | Rename string "string option"

fun apply_action :: "action \<Rightarrow> db \<Rightarrow> db" where
  "apply_action (Add_user r) d = or_ignore d (insert_user r d)"
| "apply_action (Add_invite r) d = d\<lparr>invites := invites d @ [r]\<rparr>"
| "apply_action (Add_recovery r) d = d\<lparr>recoveries := recoveries d @ [r]\<rparr>"
| "apply_action (Add_invoice now r) d = d\<lparr>invoices := invoices d @ [r]\<rparr>"
| "apply_action (Add_offer r) d = d\<lparr>offers := offers d @ [r]\<rparr>"
| "apply_action (Credit r) d = or_ignore d (insert_receive r d)"
| "apply_action (Debit s) d = d\<lparr>sends := sends d @ [s]\<rparr>"
| "apply_action (Transfer s r) d = d\<lparr>sends := sends d @ [s], receives := receives d @ [r]\<rparr>"
| "apply_action (Settle k status fee) d = settle k status fee d"
| "apply_action (Rename u name) d = set_recovery_name_rows u name d"

text \<open>The balance of the user and then what happened, in the database after the action.\<close>

definition payment_events :: "string \<Rightarrow> payment \<Rightarrow> db \<Rightarrow> bus" where
  "payment_events u p d = [(u, Balance (user_balance u d)), (u, Payment p)]"

fun action_events :: "action \<Rightarrow> db \<Rightarrow> bus" where
  "action_events (Credit r) d = payment_events (rcv_user_pk r) (receive_into_payment r True) d"
| "action_events (Debit s) d = payment_events (snd_user_pk s) (send_into_payment s True) d"
| "action_events (Transfer s r) d =
     payment_events (snd_user_pk s) (send_into_payment s True) d @
     payment_events (rcv_user_pk r) (receive_into_payment r True) d"
| "action_events (Settle k status fee) d =
     (case List.find (\<lambda>r. snd_id r = k) (sends d) of
        None \<Rightarrow> []
      | Some r \<Rightarrow> [(snd_user_pk r, Balance (user_balance (snd_user_pk r) d)),
                   (snd_user_pk r, Update k status fee)])"
| "action_events _ d = []"

section \<open>Conditions\<close>

definition lightning_fee :: "args \<Rightarrow> u64 \<Rightarrow> u64" where
  "lightning_fee a amount_msat = (amount_msat * fee_ppm a) div 1000000 + base_fee_msat a"

definition covers :: "u64 \<Rightarrow> u64 \<Rightarrow> u64 \<Rightarrow> bool" where
  "covers balance amount fee \<longleftrightarrow> amount \<le> balance \<and> amount + fee \<le> balance"

definition within_bounds :: "args \<Rightarrow> u64 \<Rightarrow> bool" where
  "within_bounds a amount \<longleftrightarrow>
     u32_to_u64 (min_amount_sats a) * 1000 \<le> amount \<and>
     amount \<le> u32_to_u64 (max_amount_sats a) * 1000"

definition max_pending :: "args \<Rightarrow> i64" where
  "max_pending a = u32_to_i64 (max_pending_payments_per_user a)"

definition may_send :: "args \<Rightarrow> string \<Rightarrow> u64 \<Rightarrow> db \<Rightarrow> bool" where
  "may_send a u amount d \<longleftrightarrow>
     count_pending_sends u d <s max_pending a \<and> within_bounds a amount \<and>
     covers (user_balance u d) amount (lightning_fee a amount)"

fun enabled :: "args \<Rightarrow> db \<Rightarrow> action \<Rightarrow> bool" where
  "enabled a d (Add_user r) \<longleftrightarrow>
     (case get_invite (usr_invite_id r) d of
        None \<Rightarrow> False
      | Some i \<Rightarrow> count_invite_users (usr_invite_id r) d <s ivt_user_limit i)"
| "enabled a d (Add_invite r) \<longleftrightarrow>
     ivt_id r \<notin> ivt_id ` set (invites d) \<and> 0 \<le> sint (ivt_user_limit r) \<and>
     sint (ivt_user_limit r) < 2 ^ 32"
| "enabled a d (Add_recovery r) \<longleftrightarrow>
     rec_id r \<notin> rec_id ` set (recoveries d) \<and> user_exists (rec_user_pk r) d"
| "enabled a d (Add_invoice now r) \<longleftrightarrow>
     ivc_id r \<notin> ivc_id ` set (invoices d) \<and>
     of_nat (length (pending_invoices now (ivc_user_pk r) d)) <s max_pending a"
| "enabled a d (Add_offer r) \<longleftrightarrow> ofr_id r \<notin> ofr_id ` set (offers d)"
| "enabled a d (Credit r) \<longleftrightarrow> True"
| "enabled a d (Debit s) \<longleftrightarrow>
     snd_id s \<notin> snd_id ` set (sends d) \<and>
     (snd_status s = ''pending'' \<and> may_send a (snd_user_pk s) (snd_amount_msat s) d \<and>
        snd_fee_msat s = lightning_fee a (snd_amount_msat s)
      \<or> snd_status s = ''successful'' \<and> snd_fee_msat s = onchain_base_fee_msat a \<and>
        covers (user_balance (snd_user_pk s) d) (snd_amount_msat s) (snd_fee_msat s))"
| "enabled a d (Transfer s r) \<longleftrightarrow>
     snd_id s \<notin> snd_id ` set (sends d) \<and> rcv_id r \<notin> rcv_id ` set (receives d) \<and>
     snd_user_pk s \<noteq> rcv_user_pk r \<and> snd_amount_msat s = rcv_amount_msat r \<and>
     snd_status s = ''successful'' \<and>
     (snd_fee_msat s = 1000 \<and> may_send a (snd_user_pk s) (snd_amount_msat s) d
      \<or> snd_fee_msat s = 0 \<and> snd_amount_msat s = user_balance (snd_user_pk s) d)"
| "enabled a d (Settle k status fee) \<longleftrightarrow> status = ''successful'' \<or> status = ''failed''"
| "enabled a d (Rename u name) \<longleftrightarrow> True"

section \<open>The machine\<close>

type_synonym book = "db \<times> bus"

definition book_init :: "book \<Rightarrow> bool" where
  "book_init s \<longleftrightarrow> s = (empty_db, [])"

text \<open>\<open>E\<close> is what is assumed of the environment (of the node) for an action in a database.\<close>

inductive book_step :: "args \<Rightarrow> (db \<Rightarrow> action \<Rightarrow> bool) \<Rightarrow> book \<Rightarrow> book \<Rightarrow> bool"
  for a E where
  act: "enabled a d x \<Longrightarrow> E d x \<Longrightarrow>
    book_step a E (d, b) (apply_action x d, b @ action_events x (apply_action x d))"

inductive_simps book_step_iff: "book_step a E (d, b) t"

text \<open>Nothing assumed; and the node's contract for the result of a payment: a success is not
  reported after a failure, and the fee paid is at most the fee in the row, which is the one
  reserved or, when the report is delivered again, the one paid.\<close>

definition any_env :: "db \<Rightarrow> action \<Rightarrow> bool" where
  "any_env d x = True"

fun honest_env :: "db \<Rightarrow> action \<Rightarrow> bool" where
  "honest_env d (Settle k status fee) \<longleftrightarrow>
     status = ''failed'' \<or>
     list_all (\<lambda>r. snd_id r = k \<longrightarrow>
       snd_status r \<noteq> ''failed'' \<and> fee \<le> snd_fee_msat r) (sends d)"
| "honest_env d _ \<longleftrightarrow> True"

lemma book_step_any: "book_step a E s t \<Longrightarrow> book_step a any_env s t"
  by (auto elim!: book_step.cases intro!: book_step.act simp: any_env_def)

section \<open>Primary keys\<close>

definition keys_ok :: "db \<Rightarrow> bool" where
  "keys_ok d \<longleftrightarrow>
     invite_table.keys_unique d \<and> invoice_table.keys_unique d \<and> receive_table.keys_unique d \<and>
     send_table.keys_unique d \<and> offer_table.keys_unique d \<and> recovery_table.keys_unique d \<and>
     user_table.keys_unique d"

lemmas keys_unique_defs = invite_table.keys_unique_def invoice_table.keys_unique_def
  receive_table.keys_unique_def send_table.keys_unique_def offer_table.keys_unique_def
  recovery_table.keys_unique_def user_table.keys_unique_def

lemma map_set_recovery_name:
  "map usr_user_pk (users (set_recovery_name_rows u name d)) = map usr_user_pk (users d)"
  "map usr_invite_id (users (set_recovery_name_rows u name d)) = map usr_invite_id (users d)"
  by (simp_all add: set_recovery_name_rows_def)

lemma set_recovery_name_tables [simp, table_simps]:
  "invites (set_recovery_name_rows u name d) = invites d"
  "invoices (set_recovery_name_rows u name d) = invoices d"
  "receives (set_recovery_name_rows u name d) = receives d"
  "sends (set_recovery_name_rows u name d) = sends d"
  "offers (set_recovery_name_rows u name d) = offers d"
  "recoveries (set_recovery_name_rows u name d) = recoveries d"
  by (simp_all add: set_recovery_name_rows_def)

lemma or_ignore_receive:
  "or_ignore d (insert_receive r d) =
     (if rcv_id r \<in> rcv_id ` set (receives d) then d else d\<lparr>receives := receives d @ [r]\<rparr>)"
  by (auto simp: insert_receive_def append_row_def list_ex_key)

lemma or_ignore_user:
  "or_ignore d (insert_user r d) =
     (if usr_user_pk r \<in> usr_user_pk ` set (users d) then d else d\<lparr>users := users d @ [r]\<rparr>)"
  by (auto simp: insert_user_def append_row_def list_ex_key)

lemma keys_ok_apply: "keys_ok d \<Longrightarrow> enabled a d x \<Longrightarrow> keys_ok (apply_action x d)"
  by (cases x)
    (simp_all add: keys_ok_def keys_unique_defs or_ignore_receive or_ignore_user
      map_set_recovery_name)

lemma keys_ok_empty: "keys_ok empty_db"
  by (simp add: keys_ok_def keys_unique_defs empty_db_def)

interpretation keys: safety book_init "book_step a E" "\<lambda>(d, b). keys_ok d" for a E
  by unfold_locales
    (auto simp: book_init_def keys_ok_empty elim!: book_step.cases intro: keys_ok_apply)

end
