(* ===== verification/Invariants.thy ===== *)
theory Invariants
  imports Book
begin

text \<open>
  The invariants of the book: the capacity of an invite, the limit on pending sends, solvency
  (nobody spends more than was received, under the fee configuration \<open>fees_ok\<close> and the node's
  contract \<open>honest_env\<close>) and the agreement of the announced balances with the database. Each is
  proved for one action and lifted to every reachable book by the locale \<open>safety\<close>.
\<close>

section \<open>Counts as 64-bit integers\<close>

lemma sint_of_nat_64: "n < 2 ^ 63 \<Longrightarrow> sint (of_nat n :: i64) = int n"
proof -
  assume "n < 2 ^ 63"
  then have "sint (word_of_int (int n) :: i64) = int n"
    by (intro sint_of_int_64) simp_all
  then show ?thesis by simp
qed

lemma count_below:
  assumes "int n \<le> limit" and "limit < 2 ^ 63" and "of_nat n <s (l :: i64)" and "sint l = limit"
  shows "int n < limit"
  using assms sint_of_nat_64 [of n] by (simp add: word_sless_alt)

lemma sint_max_pending: "sint (max_pending a) = uint (max_pending_payments_per_user a)"
  by (simp add: max_pending_def)

section \<open>Invites\<close>

definition members :: "string \<Rightarrow> db \<Rightarrow> nat" where
  "members k d = count_list (map usr_invite_id (users d)) k"

definition invites_ok :: "db \<Rightarrow> bool" where
  "invites_ok d \<longleftrightarrow>
     (\<forall>i \<in> set (invites d). 0 \<le> sint (ivt_user_limit i) \<and> sint (ivt_user_limit i) < 2 ^ 32 \<and>
        int (members (ivt_id i) d) \<le> sint (ivt_user_limit i)) \<and>
     set (map usr_invite_id (users d)) \<subseteq> ivt_id ` set (invites d)"

lemma count_invite_users_members: "count_invite_users k d = of_nat (members k d)"
proof -
  have "length (filter (\<lambda>r. usr_invite_id r = k) rs) = count_list (map usr_invite_id rs) k"
    for rs :: "user list"
    by (induction rs) auto
  then show ?thesis by (simp add: count_invite_users_def members_def)
qed

lemma invites_ok_cong:
  assumes "invites d' = invites d" and "map usr_invite_id (users d') = map usr_invite_id (users d)"
    and "invites_ok d"
  shows "invites_ok d'"
  using assms unfolding invites_ok_def members_def by metis

lemma members_append:
  "members k (d\<lparr>users := users d @ [r]\<rparr>) = members k d + (if usr_invite_id r = k then 1 else 0)"
  by (simp add: members_def)

lemma invites_ok_add_user:
  assumes keys: "keys_ok d" and inv: "invites_ok d" and en: "enabled a d (Add_user r)"
  shows "invites_ok (d\<lparr>users := users d @ [r]\<rparr>)"
proof -
  from en obtain i where i: "get_invite (usr_invite_id r) d = Some i"
    and lt: "count_invite_users (usr_invite_id r) d <s ivt_user_limit i"
    by (auto split: option.splits)
  from i have mem: "i \<in> set (invites d)" and key: "ivt_id i = usr_invite_id r"
    by (auto simp: get_invite_def dest: find_Some_iff_mem)
  have room: "int (members (ivt_id i) d) < sint (ivt_user_limit i)"
    using inv mem lt key
    by (intro count_below [of _ _ "ivt_user_limit i"])
      (auto simp: invites_ok_def count_invite_users_members)
  have same: "j = i" if "j \<in> set (invites d)" "ivt_id j = usr_invite_id r" for j
    using distinct_map_key [of ivt_id "invites d" j i] keys that mem key
    by (simp add: keys_ok_def invite_table.keys_unique_def)
  have known: "usr_invite_id r \<in> ivt_id ` set (invites d)"
    using imageI [OF mem, of ivt_id] by (simp add: key)
  have "int (members (ivt_id j) (d\<lparr>users := users d @ [r]\<rparr>)) \<le> sint (ivt_user_limit j)"
    if "j \<in> set (invites d)" for j
  proof (cases "ivt_id j = usr_invite_id r")
    case True
    with same that have "j = i" by blast
    with room key show ?thesis by (simp add: members_append)
  next
    case False
    with inv that show ?thesis by (simp add: invites_ok_def members_append)
  qed
  with inv known show ?thesis by (simp add: invites_ok_def)
qed

lemma invites_ok_add_invite:
  assumes "invites_ok d" and "enabled a d (Add_invite r)"
  shows "invites_ok (d\<lparr>invites := invites d @ [r]\<rparr>)"
proof -
  have "ivt_id r \<notin> set (map usr_invite_id (users d))"
    using assms unfolding invites_ok_def by (meson enabled.simps(2) subsetD)
  then have "members (ivt_id r) d = 0"
    unfolding members_def by (rule count_notin)
  moreover have "members k (d\<lparr>invites := is\<rparr>) = members k d" for k "is"
    by (simp add: members_def)
  ultimately show ?thesis using assms by (auto simp: invites_ok_def)
qed

lemma invites_ok_empty: "invites_ok empty_db"
  by (simp add: invites_ok_def empty_db_def)

lemma invites_ok_apply:
  assumes "keys_ok d" and "invites_ok d" and "enabled a d x"
  shows "invites_ok (apply_action x d)"
proof (cases x)
  case (Add_user r)
  with assms show ?thesis
    using invites_ok_add_user [of d a r] by (simp add: or_ignore_user del: enabled.simps)
next
  case (Add_invite r)
  with assms show ?thesis using invites_ok_add_invite [of d a r] by simp
next
  case (Rename u name)
  with assms show ?thesis
    by (intro invites_ok_cong [of "apply_action x d" d]) (simp_all add: map_set_recovery_name)
qed (use assms in \<open>intro invites_ok_cong [of "apply_action x d" d]; simp add: or_ignore_receive\<close>)+

interpretation capacity: safety book_init "book_step a E"
  "\<lambda>(d, b). keys_ok d \<and> invites_ok d" for a E
  by unfold_locales
    (auto simp: book_init_def keys_ok_empty invites_ok_empty
      elim!: book_step.cases intro: keys_ok_apply invites_ok_apply)

section \<open>Pending sends\<close>

definition pending_ok :: "args \<Rightarrow> db \<Rightarrow> bool" where
  "pending_ok a d \<longleftrightarrow>
     (\<forall>u. int (length (pending_sends u d)) \<le> uint (max_pending_payments_per_user a))"

lemma pending_sends_append:
  "pending_sends u (d\<lparr>sends := sends d @ [s]\<rparr>) =
     pending_sends u d @ (if snd_user_pk s = u \<and> snd_status s = ''pending'' then [s] else [])"
  by (simp add: pending_sends_def)

lemma pending_sends_settle:
  assumes "status \<noteq> ''pending''"
  shows "length (pending_sends u (settle k status fee d)) \<le> length (pending_sends u d)"
proof -
  have "length (filter (\<lambda>r. snd_status r = ''pending'') (filter (\<lambda>r. snd_user_pk r = u)
          (map (settle_row k status fee) rs)))
      \<le> length (filter (\<lambda>r. snd_status r = ''pending'') (filter (\<lambda>r. snd_user_pk r = u) rs))" for rs
    using assms by (induction rs) (auto simp: settle_row_def)
  then show ?thesis by (simp add: pending_sends_def settle_def)
qed

lemma pending_ok_debit:
  assumes "pending_ok a d" and "enabled a d (Debit s)"
  shows "pending_ok a (d\<lparr>sends := sends d @ [s]\<rparr>)"
proof -
  have "int (length (pending_sends (snd_user_pk s) d)) < uint (max_pending_payments_per_user a)"
    if "snd_status s = ''pending''"
    using assms that uint_u32_less [of "max_pending_payments_per_user a"]
    by (intro count_below [of _ _ "max_pending a"])
      (auto simp: pending_ok_def may_send_def count_pending_sends_def sint_max_pending)
  with assms show ?thesis
    by (fastforce simp: pending_ok_def pending_sends_append)
qed

lemma pending_ok_empty: "pending_ok a empty_db"
  by (simp add: pending_ok_def pending_sends_def empty_db_def)

lemma pending_ok_cong: "sends d' = sends d \<Longrightarrow> pending_ok a d \<Longrightarrow> pending_ok a d'"
  by (simp add: pending_ok_def pending_sends_def)

lemma pending_ok_apply:
  assumes "pending_ok a d" and "enabled a d x"
  shows "pending_ok a (apply_action x d)"
proof (cases x)
  case (Debit s)
  with assms show ?thesis using pending_ok_debit [of a d s] by simp
next
  case (Transfer s r)
  with assms have "pending_sends u (apply_action x d) = pending_sends u d" for u
    by (simp add: pending_sends_def)
  with assms show ?thesis by (simp add: pending_ok_def)
next
  case (Settle k status fee)
  with assms have "length (pending_sends u (apply_action x d)) \<le> length (pending_sends u d)" for u
    using pending_sends_settle [of status u k fee d] by auto
  with assms(1) show ?thesis unfolding pending_ok_def by (meson le_trans of_nat_le_iff order_trans)
qed (use assms in \<open>intro pending_ok_cong [of "apply_action x d" d];
       simp add: or_ignore_user or_ignore_receive\<close>)+

interpretation pending: safety book_init "book_step a E" "\<lambda>(d, b). pending_ok a d" for a E
  by unfold_locales
    (auto simp: book_init_def pending_ok_empty elim!: book_step.cases intro: pending_ok_apply)

section \<open>Solvency\<close>

text \<open>
  The fee configuration under which an internal transfer (which always costs 1000 msat) is
  covered by the fee that was checked, and no sum of an amount and a fee wraps around.
\<close>

definition fees_ok :: "args \<Rightarrow> bool" where
  "fees_ok a \<longleftrightarrow> 1000 \<le> uint (base_fee_msat a) \<and> uint (base_fee_msat a) \<le> 2 ^ 62 \<and>
     uint (onchain_base_fee_msat a) \<le> 2 ^ 62"

definition solvent :: "db \<Rightarrow> bool" where
  "solvent d \<longleftrightarrow> (\<forall>u. received u d < 2 ^ 63 \<longrightarrow> spent u d \<le> received u d)"

lemma fees_ok_default: "fees_ok default_args"
  by (simp add: fees_ok_def default_args_def)

lemma lightning_fee_uint:
  assumes "fees_ok a"
  shows "1000 \<le> uint (lightning_fee a x)" and "uint (lightning_fee a x) < 2 ^ 63"
proof -
  have d: "0 \<le> uint ((x * fee_ppm a) div 1000000)" by (rule uint_ge_0)
  have d': "uint ((x * fee_ppm a) div 1000000) < 2 ^ 45"
    using uint_less_64 [of "x * fee_ppm a"] by (simp add: uint_div)
  have sum: "uint (lightning_fee a x) =
      uint ((x * fee_ppm a) div 1000000) + uint (base_fee_msat a)"
    using assms d d' unfolding lightning_fee_def fees_ok_def
    by (subst uint_plus_simple_iff [THEN iffD1]) (simp_all add: no_olen_add)
  show "1000 \<le> uint (lightning_fee a x)"
    using assms d sum unfolding fees_ok_def by linarith
  show "uint (lightning_fee a x) < 2 ^ 63"
    using assms d' sum by (simp add: fees_ok_def)
qed

lemma covers_uint:
  assumes "covers bal amt fee" and "uint bal < 2 ^ 63" and "uint fee < 2 ^ 63"
  shows "uint amt + uint fee \<le> uint bal"
proof -
  have "uint amt \<le> uint bal" and le: "uint (amt + fee) \<le> uint bal"
    using assms by (simp_all add: covers_def word_le_def)
  then have "uint (amt + fee) = uint amt + uint fee"
    using assms by (simp add: uint_word_ariths)
  with le show ?thesis by simp
qed

lemma solvent_balance:
  assumes "solvent d" and "received u d < 2 ^ 63"
  shows "uint (user_balance u d) = received u d - spent u d" and "uint (user_balance u d) < 2 ^ 63"
proof -
  show "uint (user_balance u d) = received u d - spent u d"
    using assms by (intro user_balance_exact) (auto simp: solvent_def)
  then show "uint (user_balance u d) < 2 ^ 63"
    using assms spent_nonneg [of u d] by simp
qed

lemma covers_spent:
  assumes "solvent d" and "received u d < 2 ^ 63"
    and "covers (user_balance u d) amt fee" and "uint fee < 2 ^ 63"
  shows "spent u d + (uint amt + uint fee) \<le> received u d"
  using covers_uint [OF assms(3) _ assms(4)] solvent_balance [OF assms(1,2)] by simp

lemma solvent_debit:
  assumes "fees_ok a" and "solvent d" and "enabled a d (Debit s)"
  shows "solvent (d\<lparr>sends := sends d @ [s]\<rparr>)"
proof -
  have "spent (snd_user_pk s) d + cost s \<le> received (snd_user_pk s) d"
    if "received (snd_user_pk s) d < 2 ^ 63"
    using assms(3) covers_spent [OF assms(2) that, of "snd_amount_msat s" "snd_fee_msat s"]
      lightning_fee_uint(2) [OF assms(1)] assms(1)
    by (auto simp: may_send_def cost_def fees_ok_def)
  with assms(2) show ?thesis
    by (auto simp: solvent_def balance_simps counts_for_def)
qed

lemma transfer_accounts [balance_simps]:
  "received u (d\<lparr>sends := ss, receives := receives d @ [r]\<rparr>) =
     received u d + (if rcv_user_pk r = u then uint (rcv_amount_msat r) else 0)"
  "spent u (d\<lparr>sends := sends d @ [s], receives := rs\<rparr>) =
     spent u d + (if counts_for u s then cost s else 0)"
  by (simp_all add: received_def spent_def)

lemma solvent_transfer:
  assumes "fees_ok a" and "solvent d" and "enabled a d (Transfer s r)"
  shows "solvent (d\<lparr>sends := sends d @ [s], receives := receives d @ [r]\<rparr>)"
proof -
  have "spent (snd_user_pk s) d + cost s \<le> received (snd_user_pk s) d"
    if lt: "received (snd_user_pk s) d < 2 ^ 63"
  proof (cases "snd_fee_msat s = 0 \<and> snd_amount_msat s = user_balance (snd_user_pk s) d")
    case True
    with solvent_balance(1) [OF assms(2) lt] show ?thesis by (simp add: cost_def)
  next
    case False
    with assms(3) have "snd_fee_msat s = 1000"
      and "covers (user_balance (snd_user_pk s) d) (snd_amount_msat s)
             (lightning_fee a (snd_amount_msat s))"
      by (auto simp: may_send_def)
    with covers_spent [OF assms(2) lt, of "snd_amount_msat s"
        "lightning_fee a (snd_amount_msat s)"]
      lightning_fee_uint [OF assms(1), of "snd_amount_msat s"]
    show ?thesis by (simp add: cost_def)
  qed
  then have room: "spent u d + (if counts_for u s then cost s else 0) \<le> received u d"
    if "received u d < 2 ^ 63" for u
    using that assms(2) by (auto simp: solvent_def counts_for_def)
  show ?thesis
    unfolding solvent_def transfer_accounts
  proof (intro allI impI)
    fix u
    let ?in = "if rcv_user_pk r = u then uint (rcv_amount_msat r) else 0"
    assume "received u d + ?in < 2 ^ 63"
    moreover have "0 \<le> ?in" by simp
    ultimately show "spent u d + (if counts_for u s then cost s else 0) \<le> received u d + ?in"
      using room [of u] by linarith
  qed
qed

lemma solvent_settle:
  assumes "solvent d" and "honest_env d (Settle k st fee)"
  shows "solvent (settle k st fee d)"
proof -
  have "spent u (settle k st fee d) \<le> spent u d" for u
    using assms(2) by (intro spent_settle_le) (auto simp: list_all_iff word_le_def)
  with assms(1) show ?thesis
    by (auto simp: solvent_def balance_simps intro: order_trans)
qed

lemma solvent_cong:
  assumes "\<And>u. received u d \<le> received u d'" and "\<And>u. spent u d' = spent u d" and "solvent d"
  shows "solvent d'"
  unfolding solvent_def
proof (intro allI impI)
  fix u
  assume "received u d' < 2 ^ 63"
  with assms(1) [of u] have "received u d < 2 ^ 63" by linarith
  with assms show "spent u d' \<le> received u d'" by (metis order_trans solvent_def)
qed

lemma solvent_empty: "solvent empty_db"
  by (simp add: solvent_def received_def spent_def empty_db_def)

lemma accounts_rename [balance_simps]:
  "received u (set_recovery_name_rows v name d) = received u d"
  "spent u (set_recovery_name_rows v name d) = spent u d"
  by (simp_all add: received_def spent_def)

lemma solvent_apply:
  assumes "fees_ok a" and "solvent d" and "enabled a d x" and "honest_env d x"
  shows "solvent (apply_action x d)"
proof (cases x)
  case (Debit s)
  with assms show ?thesis using solvent_debit [of a d s] by simp
next
  case (Transfer s r)
  with assms(3) have "enabled a d (Transfer s r)" by (simp only:)
  from solvent_transfer [OF assms(1,2) this] Transfer show ?thesis by simp
next
  case (Settle k st fee)
  with assms show ?thesis using solvent_settle [of d k st fee] by simp
qed (use assms in \<open>intro solvent_cong [of d "apply_action x d"];
       simp add: balance_simps or_ignore_user or_ignore_receive\<close>)+

interpretation solvency: safety "\<lambda>s. fees_ok a \<and> book_init s" "book_step a honest_env"
  "\<lambda>(d, b). fees_ok a \<and> solvent d" for a
  by unfold_locales
    (auto simp: book_init_def solvent_empty elim!: book_step.cases intro: solvent_apply)

section \<open>Announced balances\<close>

text \<open>
  The balance a listener shows after the messages for its user: the last one announced. A
  listener of \<open>u\<close> that starts from the balance \<open>f u\<close> and hears the messages after the prefix
  \<open>p\<close> of the bus shows the balance in the database.
\<close>

fun shown :: "app_event \<Rightarrow> u64 \<Rightarrow> u64" where
  "shown (Balance x) b = x"
| "shown _ b = b"

definition announced :: "u64 \<Rightarrow> string \<Rightarrow> bus \<Rightarrow> u64" where
  "announced x u b = fold shown (events_of u b) x"

definition synced :: "(string \<Rightarrow> u64) \<Rightarrow> bus \<Rightarrow> db \<Rightarrow> bus \<Rightarrow> bool" where
  "synced f p d b \<longleftrightarrow> (\<exists>b'. b = p @ b' \<and> (\<forall>u. announced (f u) u b' = user_balance u d))"

lemma announced_append: "announced x u (b @ c) = fold shown (events_of u c) (announced x u b)"
  by (simp add: announced_def)

lemma announced_payment [simp]:
  "fold shown (events_of u (payment_events v p d)) b = (if u = v then user_balance v d else b)"
  by (auto simp: payment_events_def)

text \<open>One action: the messages it sends bring every listener to the new balance.\<close>

definition brings :: "db \<Rightarrow> db \<Rightarrow> bus \<Rightarrow> bool" where
  "brings d d' c \<longleftrightarrow> (\<forall>u. fold shown (events_of u c) (user_balance u d) = user_balance u d')"

lemma brings_quiet:
  assumes "\<And>u. received u d' = received u d" and "\<And>u. spent u d' = spent u d"
  shows "brings d d' []"
  using assms user_balance_cong [of _ d' d] by (simp add: brings_def)

lemma brings_settle:
  assumes keys: "keys_ok d"
  shows "brings d (settle k st fee d) (action_events (Settle k st fee) (settle k st fee d))"
proof (cases "List.find (\<lambda>r. snd_id r = k) (sends d)")
  case None
  then show ?thesis by (simp add: settle_absent brings_def)
next
  case (Some r)
  then have r: "r \<in> set (sends d)" "snd_id r = k" by (auto dest: find_Some_iff_mem)
  have own: "q = r" if "q \<in> set (sends d)" "snd_id q = k" for q
    using distinct_map_key [of snd_id "sends d" q r] keys that r
    by (simp add: keys_ok_def send_table.keys_unique_def)
  have "user_balance u d = user_balance u (settle k st fee d)" if "u \<noteq> snd_user_pk r" for u
  proof -
    have "spent u (settle k st fee d) = spent u d"
      using that own by (intro spent_settle_other) auto
    then show ?thesis by (intro user_balance_cong) (simp_all add: balance_simps)
  qed
  with Some show ?thesis by (simp add: brings_def find_settle)
qed

lemma brings_apply:
  assumes "keys_ok d" and "enabled a d x"
  shows "brings d (apply_action x d) (action_events x (apply_action x d))"
proof (cases x)
  case (Credit r)
  with assms show ?thesis
    by (auto simp: brings_def or_ignore_receive balance_simps intro!: user_balance_cong)
next
  case (Debit s)
  with assms show ?thesis
    by (auto simp: brings_def balance_simps counts_for_def intro!: user_balance_cong)
next
  case (Transfer s r)
  with assms show ?thesis
    by (auto simp: brings_def balance_simps counts_for_def intro!: user_balance_cong)
next
  case (Settle k st fee)
  with assms show ?thesis using brings_settle [of d k st fee] by simp
qed (use brings_quiet [of "apply_action x d" d] in \<open>simp add: balance_simps or_ignore_user\<close>)+

lemma synced_apply:
  assumes "keys_ok d" and "enabled a d x" and "synced f p d b"
  shows "synced f p (apply_action x d) (b @ action_events x (apply_action x d))"
  using brings_apply [OF assms(1,2)] assms(3)
  by (auto simp: synced_def brings_def announced_append)

interpretation announcements: safety
  "\<lambda>s. keys_ok (fst s) \<and> f = (\<lambda>u. user_balance u (fst s)) \<and> snd s = p" "book_step a E"
  "\<lambda>(d, b). keys_ok d \<and> synced f p d b" for f p a E
  by unfold_locales
    (auto simp: synced_def announced_def elim!: book_step.cases
      intro: keys_ok_apply dest: synced_apply [of _ _ _ f p, unfolded synced_def announced_def])

end
