(* ===== verification/Client_Rpc.thy ===== *)
theory Client_Rpc
  imports Invariants
begin

text \<open>
  The client handlers, \<open>puncture-daemon/src/client/rpc.rs\<close>, one definition per function. A
  handler holds the database lock from its first query to its end, so it is one step of the
  daemon. Every early return and every panic is a branch. That each handler refines
  the book is the theory \<open>Client_Refines\<close>.
\<close>

section \<open>Requests\<close>

record register_request =
  rgr_invite_id :: string

record bolt11_receive_request =
  b11r_amount_msat :: u32
  b11r_description :: string

record bolt11_send_request =
  b11s_invoice :: bolt11_invoice
  b11s_amount_msat :: u64
  b11s_ln_address :: "string option"

record bolt12_send_request =
  b12s_offer :: string
  b12s_amount_msat :: u64

record onchain_send_request =
  ocs_address :: string
  ocs_amount_sats :: u64

record set_recovery_name_request =
  srn_recovery_name :: "string option"

record recover_request =
  rvr_recovery_id :: string

section \<open>Registration and receiving\<close>

definition register :: "app_state \<Rightarrow> string \<Rightarrow> register_request \<Rightarrow> register_response rpc" where
  "register app_state user_pk request = do {
     invite \<leftarrow> query (get_invite (rgr_invite_id request));
     case invite of
       None \<Rightarrow> err ''Unknown invite code''
     | Some invite \<Rightarrow> do {
         now \<leftarrow> unix_time;
         if ivt_expires_at invite <s now then err ''Invite expired''
         else do {
           now \<leftarrow> unix_time;
           if ivt_expires_at invite <s now then err ''Invite expired''
           else do {
             n \<leftarrow> query (count_invite_users (rgr_invite_id request));
             if ivt_user_limit invite \<le>s n then err ''Invite user limit reached''
             else do {
               register_user_with_invite user_pk (rgr_invite_id request);
               ok \<lparr>rr_network = bitcoin_network (app_args app_state),
                   rr_name = daemon_name (app_args app_state)\<rparr>
             }
           }
         }
       }
   }"

definition check_amount_bounds :: "args \<Rightarrow> u64 \<Rightarrow> (string, unit) outcome" where
  "check_amount_bounds a amount_msat =
     (if amount_msat < u32_to_u64 (min_amount_sats a) * 1000
      then Err (''The minimum amount is '' @ decimal (unat (min_amount_sats a)) @ '' sats'')
      else if u32_to_u64 (max_amount_sats a) * 1000 < amount_msat
      then Err (''The maximum amount is '' @ decimal (unat (max_amount_sats a)) @ '' sats'')
      else Ok ())"

definition bolt11_receive ::
  "app_state \<Rightarrow> string \<Rightarrow> bolt11_receive_request \<Rightarrow> bolt11_invoice rpc"
where
  "bolt11_receive state user_pk request = do {
     pending \<leftarrow> count_pending_invoices user_pk;
     if u32_to_i64 (max_pending_payments_per_user (app_args state)) \<le>s pending
     then err ''Too many pending invoices''
     else attempt (check_amount_bounds (app_args state) (u32_to_u64 (b11r_amount_msat request))) (\<lambda>_.
       attempt (description_new (app_libs state) (b11r_description request)) (\<lambda>_.
         attempt (map_err (\<lambda>_. ''Failed to create invoice'')
             (nd_bolt11_receive (app_node state) (u32_to_u64 (b11r_amount_msat request))
               (b11r_description request) (invoice_expiry_secs (app_args state)))) (\<lambda>invoice. do {
           r \<leftarrow> create_invoice (as_hex (app_libs state)) user_pk invoice
                 (u32_to_i64 (b11r_amount_msat request)) (b11r_description request)
                 (invoice_expiry_secs (app_args state));
           attempt r (\<lambda>_. ok invoice)
         })))
   }"

definition create_new_offer :: "app_state \<Rightarrow> string \<Rightarrow> string rpc" where
  "create_new_offer state user_pk =
     attempt (map_err (\<lambda>_. ''Failed to create offer'')
         (nd_bolt12_receive_variable (app_node state) '''' None)) (\<lambda>offer. do {
       r \<leftarrow> create_offer (as_hex (app_libs state)) user_pk offer None '''' None;
       attempt r (\<lambda>_. ok (b12_text offer))
     })"

definition bolt12_receive :: "app_state \<Rightarrow> string \<Rightarrow> string rpc" where
  "bolt12_receive state user_pk = do {
     record \<leftarrow> query (get_offer_by_user_pk user_pk);
     case record of
       Some record \<Rightarrow> do {
         now \<leftarrow> unix_time;
         if now - 24 * 60 * 60 * 1000 <s ofr_created_at record then ok (ofr_pr record)
         else create_new_offer state user_pk
       }
     | None \<Rightarrow> create_new_offer state user_pk
   }"

section \<open>Sending\<close>

definition check_send :: "string \<Rightarrow> u64 \<Rightarrow> args \<Rightarrow> u64 rpc" where
  "check_send user_pk amount_msat a = do {
     pending_payments \<leftarrow> query (count_pending_sends user_pk);
     if u32_to_i64 (max_pending_payments_per_user a) \<le>s pending_payments
     then err ''Too many pending payments''
     else attempt (check_amount_bounds a amount_msat) (\<lambda>_. do {
       balance_msat \<leftarrow> query (user_balance user_pk);
       if balance_msat < amount_msat then err ''Insufficient balance to cover the amount''
       else do {
         let fee_msat = (amount_msat * fee_ppm a) div 1000000 + base_fee_msat a;
         if balance_msat < amount_msat + fee_msat
         then err ''Insufficient balance to cover the amount and potential fee''
         else ok fee_msat
       }
     })
   }"

definition push_events :: "string \<Rightarrow> payment \<Rightarrow> (world, unit) state" where
  "push_events user_pk p = do {
     balance_msat \<leftarrow> query (user_balance user_pk);
     send_balance_event user_pk balance_msat;
     send_payment_event user_pk p
   }"

text \<open>The internal branch that both send handlers and \<open>recover\<close> end with.\<close>

definition transfer_and_push ::
  "(u8 list \<Rightarrow> string) \<Rightarrow> string \<Rightarrow> string \<Rightarrow> i64 \<Rightarrow> i64 \<Rightarrow> string \<Rightarrow> string \<Rightarrow> 'a \<Rightarrow> 'a rpc"
where
  "transfer_and_push hx sender receiver amount_msat fee_msat pr description result = do {
     r \<leftarrow> create_internal_transfer hx sender receiver amount_msat fee_msat pr description;
     attempt r (\<lambda>(send_record, receive_record). do {
       push_events sender (send_into_payment send_record True);
       push_events receiver (receive_into_payment receive_record True);
       ok result
     })
   }"

definition bolt11_send :: "app_state \<Rightarrow> string \<Rightarrow> bolt11_send_request \<Rightarrow> unit rpc" where
  "bolt11_send state user_pk request = do {
     checked \<leftarrow> check_send user_pk (b11s_amount_msat request) (app_args state);
     attempt checked (\<lambda>fee_msat. do {
       found \<leftarrow> query (get_invoice (as_hex (app_libs state))
         (b11_payment_hash (b11s_invoice request)));
       case found of
         Some invoice \<Rightarrow>
           if ivc_user_pk invoice = user_pk then err ''This is your own invoice''
           else if (case ivc_amount_msat invoice of
                      Some amount_msat \<Rightarrow> b11s_amount_msat request < as_u64 amount_msat
                    | None \<Rightarrow> False)
           then err ''Amount is lower than the invoice's minimum amount''
           else transfer_and_push (as_hex (app_libs state)) user_pk (ivc_user_pk invoice)
                  (as_i64 (b11s_amount_msat request)) 1000 (ivc_pr invoice)
                  (ivc_description invoice) ()
       | None \<Rightarrow> do {
           sent \<leftarrow> node_call (Pay_bolt11 (b11s_invoice request) (b11s_amount_msat request))
             (nd_bolt11_send (app_node state) (b11s_invoice request) (b11s_amount_msat request));
           attempt sent (\<lambda>payment_id. do {
             r \<leftarrow> create_send_payment (as_hex (app_libs state)) payment_id user_pk
               (as_i64 (b11s_amount_msat request)) (as_i64 fee_msat)
               (bolt11_description_to_string (b11_description (b11s_invoice request)))
               (b11_text (b11s_invoice request)) ''pending'' (b11s_ln_address request);
             attempt r (\<lambda>record. do {
               push_events user_pk (send_into_payment record True);
               ok ()
             })
           })
         }
     })
   }"

definition bolt12_send :: "app_state \<Rightarrow> string \<Rightarrow> bolt12_send_request \<Rightarrow> unit rpc" where
  "bolt12_send state user_pk request = do {
     checked \<leftarrow> check_send user_pk (b12s_amount_msat request) (app_args state);
     attempt checked (\<lambda>fee_msat.
       case offer_from_str (app_libs state) (b12s_offer request) of
         None \<Rightarrow> err ''Invalid offer''
       | Some offer \<Rightarrow> do {
           found \<leftarrow> query (get_offer (as_hex (app_libs state)) (b12_id offer));
           case found of
             Some record \<Rightarrow>
               if ofr_user_pk record = user_pk then err ''This is your own payment request''
               else if (case ofr_amount_msat record of
                          Some amount_msat \<Rightarrow> b12s_amount_msat request < as_u64 amount_msat
                        | None \<Rightarrow> False)
               then err ''Amount is lower than the offer's minimum amount''
               else transfer_and_push (as_hex (app_libs state)) user_pk (ofr_user_pk record)
                      (as_i64 (b12s_amount_msat request)) 1000 (ofr_pr record)
                      (ofr_description record) ()
           | None \<Rightarrow> do {
               sent \<leftarrow> node_call (Pay_bolt12 offer (b12s_amount_msat request))
                 (nd_bolt12_send (app_node state) offer (b12s_amount_msat request));
               attempt sent (\<lambda>payment_id.
                 case b12_description offer of
                   None \<Rightarrow> panic ''unwrap''
                 | Some description \<Rightarrow> do {
                     r \<leftarrow> create_send_payment (as_hex (app_libs state)) payment_id user_pk
                       (as_i64 (b12s_amount_msat request)) (as_i64 fee_msat) description
                       (b12_text offer) ''pending'' None;
                     attempt r (\<lambda>record. do {
                       push_events user_pk (send_into_payment record True);
                       ok ()
                     })
                   })
             }
         })
   }"

definition onchain_send :: "app_state \<Rightarrow> string \<Rightarrow> onchain_send_request \<Rightarrow> u8 list rpc" where
  "onchain_send state user_pk request =
     (if ocs_amount_sats request < 1000 then err ''The minimum amount is 1000 sats''
      else do {
        balance_msat \<leftarrow> query (user_balance user_pk);
        if balance_msat < ocs_amount_sats request * 1000
        then err ''Insufficient balance to cover the amount''
        else if balance_msat < ocs_amount_sats request * 1000
               + onchain_base_fee_msat (app_args state)
        then err ''Insufficient balance to cover the fee''
        else case require_network (app_libs state) (nd_network (app_node state))
                    (ocs_address request) of
            None \<Rightarrow> err ''Invalid address for network''
          | Some address \<Rightarrow> do {
              sent \<leftarrow> node_call (Pay_onchain address (ocs_amount_sats request) None)
                (nd_send_to_address (app_node state) address (ocs_amount_sats request) None);
              attempt (map_err (\<lambda>_. ''Failed to send payment'') sent) (\<lambda>txid. do {
                r \<leftarrow> create_send_payment (as_hex (app_libs state)) txid user_pk
                  (as_i64 (ocs_amount_sats request * 1000))
                  (as_i64 (onchain_base_fee_msat (app_args state))) '''' address
                  ''successful'' None;
                attempt r (\<lambda>record. do {
                  push_events user_pk (send_into_payment record True);
                  ok txid
                })
              })
            }
      })"

section \<open>Recovery\<close>

definition is_ascii_alphabetic :: "char \<Rightarrow> bool" where
  "is_ascii_alphabetic c =
     (let n = (of_char c :: nat) in (65 \<le> n \<and> n \<le> 90) \<or> (97 \<le> n \<and> n \<le> 122))"

definition is_ascii_whitespace :: "char \<Rightarrow> bool" where
  "is_ascii_whitespace c = (let n = (of_char c :: nat) in n = 32 \<or> n = 9 \<or> n = 10 \<or> n = 12 \<or> n = 13)"

definition check_recovery_name :: "string \<Rightarrow> (string, unit) outcome" where
  "check_recovery_name name =
     (if name = [] then Err ''Recovery name cannot be empty''
      else if 20 < length name then Err ''Recovery name must be less than 20 characters''
      else if \<not> list_all (\<lambda>c. is_ascii_alphabetic c \<or> is_ascii_whitespace c) name
      then Err ''Recovery name can only contain letters and spaces''
      else Ok ())"

definition set_recovery_name ::
  "app_state \<Rightarrow> string \<Rightarrow> set_recovery_name_request \<Rightarrow> unit rpc"
where
  "set_recovery_name state user_pk request =
     attempt (case srn_recovery_name request of
                Some name \<Rightarrow> check_recovery_name name
              | None \<Rightarrow> Ok ()) (\<lambda>_. do {
       update_db (set_recovery_name_rows user_pk (srn_recovery_name request));
       ok ()
     })"

definition recover :: "app_state \<Rightarrow> string \<Rightarrow> recover_request \<Rightarrow> u64 rpc" where
  "recover app_state user_pk request = do {
     found \<leftarrow> query (get_recovery (rvr_recovery_id request));
     case found of
       None \<Rightarrow> err ''Unknown recovery code''
     | Some recovery \<Rightarrow> do {
         now \<leftarrow> unix_time;
         if rec_expires_at recovery <s now then err ''Recovery expired''
         else if user_pk = rec_user_pk recovery then err ''You cannot recover the current user''
         else do {
           balance_msat \<leftarrow> query (user_balance (rec_user_pk recovery));
           if balance_msat = 0 then err ''User has no balance to recover''
           else transfer_and_push (as_hex (app_libs app_state)) (rec_user_pk recovery) user_pk
                  (as_i64 balance_msat) 0 (rec_id recovery) ''Recovery'' balance_msat
         }
       }
   }"

end
