(* ===== verification/Handlers.thy ===== *)
theory Handlers
  imports Client_Rpc
begin

text \<open>
  The contract of a handler, as the locale \<open>book_handler\<close>: an error or a panic leaves the book
  as it is (an error also the node), and a success either leaves it or performs one enabled
  action that \<open>post\<close> relates to the result. From the contract follow, once for all handlers,
  that the run is a step of the book or none, and that the invariants are kept. Every client
  handler is an interpretation; its proof is the refinement of \<open>rpc.rs\<close> against \<open>Book\<close>.
\<close>

section \<open>The contract\<close>

definition unchanged :: "world \<Rightarrow> world \<Rightarrow> bool" where
  "unchanged w w' \<longleftrightarrow> db w' = db w \<and> event_bus w' = event_bus w"

definition performs :: "action \<Rightarrow> world \<Rightarrow> world \<Rightarrow> bool" where
  "performs x w w' \<longleftrightarrow> db w' = apply_action x (db w) \<and>
     event_bus w' = event_bus w @ action_events x (db w')"

definition book_of :: "world \<Rightarrow> book" where
  "book_of w = (db w, event_bus w)"

locale book_handler =
  fixes a :: args
    and run :: "world \<Rightarrow> ('e, 'b) outcome \<times> world"
    and post :: "db \<Rightarrow> 'b \<Rightarrow> action option \<Rightarrow> bool"
  assumes on_ok: "run w = (Ok v, w') \<Longrightarrow>
      (\<exists>x. post (db w) v (Some x) \<and> enabled a (db w) x \<and> performs x w w') \<or>
      post (db w) v None \<and> unchanged w w'"
    and on_err: "run w = (Err e, w') \<Longrightarrow> unchanged w w' \<and> node_log w' = node_log w"
    and on_panic: "run w = (Panic p, w') \<Longrightarrow> unchanged w w'"
begin

lemma run_steps:
  assumes "run w = (r, w')" and "\<And>d v x. post d v (Some x) \<Longrightarrow> enabled a d x \<Longrightarrow> E d x"
  shows "(book_step a E)\<^sup>=\<^sup>= (book_of w) (book_of w')"
proof -
  have "unchanged w w' \<or> (\<exists>x. enabled a (db w) x \<and> E (db w) x \<and> performs x w w')"
    using assms by (cases r) (fastforce dest: on_ok on_err on_panic)+
  moreover have "book_step a E (book_of w) (book_of w')"
    if "enabled a (db w) x" "E (db w) x" "performs x w w'" for x
    using that book_step.act [of a "db w" x E "event_bus w"]
    by (simp add: performs_def book_of_def)
  moreover have "book_of w' = book_of w" if "unchanged w w'"
    using that by (simp add: unchanged_def book_of_def)
  ultimately show ?thesis by auto
qed

lemma run_refines: "run w = (r, w') \<Longrightarrow> (book_step a any_env)\<^sup>=\<^sup>= (book_of w) (book_of w')"
  by (rule run_steps) (simp_all add: any_env_def)

end

section \<open>Branches of the shared functions\<close>

lemma unchanged_refl [simp]: "unchanged w w"
  by (simp add: unchanged_def)

lemma unchanged_frame [simp]:
  "unchanged w (w'\<lparr>ticks := n\<rparr>) \<longleftrightarrow> unchanged w w'"
  "unchanged w (w'\<lparr>draws := n\<rparr>) \<longleftrightarrow> unchanged w w'"
  "unchanged w (w'\<lparr>node_log := l\<rparr>) \<longleftrightarrow> unchanged w w'"
  by (simp_all add: unchanged_def)

lemma check_amount_bounds_cases:
  "check_amount_bounds a x = Ok v \<longleftrightarrow> within_bounds a x"
  "check_amount_bounds a x \<noteq> Panic p"
  by (auto simp: check_amount_bounds_def within_bounds_def not_less)

lemma run_check_send_Ok:
  "run_state (check_send u x a) w = (Ok fee, w') \<longleftrightarrow>
     w' = w \<and> fee = lightning_fee a x \<and> may_send a u x (db w)"
  using check_amount_bounds_cases [of a x]
  by (auto simp: check_send_def may_send_def covers_def lightning_fee_def max_pending_def Let_def
      signed.not_le not_less attempt_def split: outcome.splits)

lemma run_check_send_pure: "snd (run_state (check_send u x a) w) = w"
  by (auto simp: check_send_def attempt_def Let_def split: outcome.splits)

lemma run_check_send_cases:
  obtains "run_state (check_send u x a) w = (Ok (lightning_fee a x), w)" "may_send a u x (db w)"
  | e where "run_state (check_send u x a) w = (Err e, w)"
proof (cases "run_state (check_send u x a) w")
  case (Pair r w')
  with run_check_send_pure [of u x a w] have w: "w' = w" by simp
  show thesis
  proof (cases r)
    case (Panic p)
    with Pair show thesis
      using check_amount_bounds_cases(2) [of a x]
      by (auto simp: check_send_def attempt_def Let_def split: outcome.splits if_splits)
  qed (use Pair w that run_check_send_Ok [of u x a w] in auto)
qed

lemma run_push_events [run_simps]:
  "run_state (push_events u p) w =
     ((), w\<lparr>event_bus := event_bus w @ payment_events u p (db w)\<rparr>)"
  by (simp add: push_events_def payment_events_def)

text \<open>The rows a transfer and a send write, from the world they are created in.\<close>

definition transfer_send ::
  "(u8 list \<Rightarrow> string) \<Rightarrow> world \<Rightarrow> string \<Rightarrow> i64 \<Rightarrow> i64 \<Rightarrow> string \<Rightarrow> string \<Rightarrow> send_record"
where
  "transfer_send hx w u amt fee pr desc =
     \<lparr>snd_id = hx (map (rng w (draws w)) [0..<32]), snd_user_pk = u, snd_amount_msat = amt,
      snd_fee_msat = fee, snd_description = desc, snd_pr = pr, snd_status = ''successful'',
      snd_ln_address = None, snd_created_at = clock w (ticks w)\<rparr>"

definition transfer_receive ::
  "(u8 list \<Rightarrow> string) \<Rightarrow> world \<Rightarrow> string \<Rightarrow> i64 \<Rightarrow> string \<Rightarrow> string \<Rightarrow> receive_record"
where
  "transfer_receive hx w v amt pr desc =
     \<lparr>rcv_id = hx (map (rng w (draws w)) [0..<32]), rcv_user_pk = v, rcv_amount_msat = amt,
      rcv_description = desc, rcv_pr = pr, rcv_created_at = clock w (Suc (ticks w))\<rparr>"

lemma transfer_fields [simp]:
  "snd_id (transfer_send hx w u amt fee pr desc) = hx (map (rng w (draws w)) [0..<32])"
  "snd_user_pk (transfer_send hx w u amt fee pr desc) = u"
  "snd_amount_msat (transfer_send hx w u amt fee pr desc) = amt"
  "snd_fee_msat (transfer_send hx w u amt fee pr desc) = fee"
  "snd_status (transfer_send hx w u amt fee pr desc) = ''successful''"
  "rcv_id (transfer_receive hx w v amt pr desc) = hx (map (rng w (draws w)) [0..<32])"
  "rcv_user_pk (transfer_receive hx w v amt pr desc) = v"
  "rcv_amount_msat (transfer_receive hx w v amt pr desc) = amt"
  by (simp_all add: transfer_send_def transfer_receive_def)

lemma insert_transfer_Some:
  "insert_transfer s r d = Some d' \<longleftrightarrow>
     snd_id s \<notin> snd_id ` set (sends d) \<and> rcv_id r \<notin> rcv_id ` set (receives d) \<and>
     d' = d\<lparr>sends := sends d @ [s], receives := receives d @ [r]\<rparr>"
  by (auto simp: insert_transfer_def insert_send_def insert_receive_def append_row_def
      list_ex_key bind_eq_Some_conv)

lemma run_transfer_and_push:
  "run_state (transfer_and_push hx u v amt fee pr desc res) w =
     (let s = transfer_send hx w u amt fee pr desc; r = transfer_receive hx w v amt pr desc;
          w1 = w\<lparr>draws := Suc (draws w), ticks := Suc (Suc (ticks w))\<rparr>
      in case insert_transfer s r (db w) of
           None \<Rightarrow> (Panic ''Failed to create internal transfer'', w1)
         | Some d \<Rightarrow> (Ok res, w1\<lparr>db := d,
             event_bus := event_bus w @ payment_events u (send_into_payment s True) d
               @ payment_events v (receive_into_payment r True) d\<rparr>))"
  by (simp add: transfer_and_push_def create_internal_transfer_def run_simps Let_def
      transfer_send_def transfer_receive_def split: option.splits)

lemma transfer_and_push_cases:
  assumes "run_state (transfer_and_push hx u v amt fee pr desc res) w = (r, w')"
  obtains (panicked) p where "r = Panic p" "unchanged w w'" "node_log w' = node_log w"
  | (transferred) s t where "r = Ok res" "performs (Transfer s t) w w'" "node_log w' = node_log w"
      "s = transfer_send hx w u amt fee pr desc" "t = transfer_receive hx w v amt pr desc"
      "snd_id s \<notin> snd_id ` set (sends (db w))" "rcv_id t \<notin> rcv_id ` set (receives (db w))"
proof (cases "insert_transfer (transfer_send hx w u amt fee pr desc)
    (transfer_receive hx w v amt pr desc) (db w)")
  case None
  with assms show thesis
    by (intro panicked) (auto simp: run_transfer_and_push Let_def)
next
  case (Some d)
  with assms insert_transfer_Some [THEN iffD1, OF Some] show thesis
    by (intro transferred [OF _ _ _ refl refl])
      (auto simp: run_transfer_and_push Let_def performs_def)
qed

definition send_row ::
  "(u8 list \<Rightarrow> string) \<Rightarrow> world \<Rightarrow> u8 list \<Rightarrow> string \<Rightarrow> i64 \<Rightarrow> i64 \<Rightarrow> string \<Rightarrow> string \<Rightarrow> string \<Rightarrow>
   string option \<Rightarrow> send_record"
where
  "send_row hx w i u amt fee desc pr status ln =
     \<lparr>snd_id = hx i, snd_user_pk = u, snd_amount_msat = amt, snd_fee_msat = fee,
      snd_description = desc, snd_pr = pr, snd_status = status, snd_ln_address = ln,
      snd_created_at = clock w (ticks w)\<rparr>"

lemma run_create_send_payment [run_simps]:
  "run_state (create_send_payment hx i u amt fee desc pr status ln) w =
     (let s = send_row hx w i u amt fee desc pr status ln; w1 = w\<lparr>ticks := Suc (ticks w)\<rparr>
      in if snd_id s \<in> snd_id ` set (sends (db w))
         then (Panic ''Failed to insert send payment'', w1)
         else (Ok s, w1\<lparr>db := (db w)\<lparr>sends := sends (db w) @ [s]\<rparr>\<rparr>))"
  by (auto simp: create_send_payment_def run_simps Let_def send_row_def insert_send_def
      append_row_def list_ex_key)

lemma send_row_fields [simp]:
  "snd_id (send_row hx w i u amt fee desc pr status ln) = hx i"
  "snd_user_pk (send_row hx w i u amt fee desc pr status ln) = u"
  "snd_amount_msat (send_row hx w i u amt fee desc pr status ln) = amt"
  "snd_fee_msat (send_row hx w i u amt fee desc pr status ln) = fee"
  "snd_status (send_row hx w i u amt fee desc pr status ln) = status"
  by (simp_all add: send_row_def)

end
