(* ===== verification/Client_Refines.thy ===== *)
theory Client_Refines
  imports Handlers
begin

text \<open>
  Each client handler of \<open>rpc.rs\<close> meets the contract \<open>book_handler\<close>: what it writes and
  announces is one enabled action of the book, described by its \<open>_post\<close>, or nothing.
\<close>

lemma map_err_cases [simp]:
  "map_err f r = Ok x \<longleftrightarrow> r = Ok x"
  "map_err f r = Panic p \<longleftrightarrow> r = Panic p"
  by (cases r; simp)+

text \<open>Case analysis of a run along the early returns.\<close>

lemma attempt_cases:
  assumes "run_state (attempt r f) w = (v, w')"
  obtains (ok) x where "r = Ok x" "run_state (f x) w = (v, w')"
  | (err) e where "r = Err e" "v = Err e" "w' = w"
  | (panic) p where "r = Panic p" "v = Panic p" "w' = w"
  using assms by (cases r) auto

lemma run_if: "run_state (if b then m else n) w = (if b then run_state m w else run_state n w)"
  by simp

section \<open>Registration, receiving, recovery names\<close>

definition user_row :: "world \<Rightarrow> string \<Rightarrow> string \<Rightarrow> user" where
  "user_row w u k = \<lparr>usr_user_pk = u, usr_invite_id = k, usr_recovery_name = None,
     usr_created_at = clock w (Suc (Suc (ticks w)))\<rparr>"

definition register_post ::
  "string \<Rightarrow> register_request \<Rightarrow> db \<Rightarrow> register_response \<Rightarrow> action option \<Rightarrow> bool"
where
  "register_post u rq d v x \<longleftrightarrow>
     (\<exists>r. x = Some (Add_user r) \<and> usr_user_pk r = u \<and> usr_invite_id r = rgr_invite_id rq \<and>
        usr_recovery_name r = None)"

interpretation register_h: book_handler "app_args st" "run_state (register st u rq)"
  "register_post u rq" for st u rq
proof unfold_locales
  fix w v w'
  assume "run_state (register st u rq) w = (Ok v, w')"
  then show "(\<exists>x. register_post u rq (db w) v (Some x) \<and> enabled (app_args st) (db w) x \<and>
      performs x w w') \<or> register_post u rq (db w) v None \<and> unchanged w w'"
    by (intro disjI1 exI [of _ "Add_user (user_row w u (rgr_invite_id rq))"])
      (auto simp: register_def register_user_with_invite_def register_post_def performs_def
        signed.not_le user_row_def split: option.splits if_splits)
qed (auto simp: register_def register_user_with_invite_def split: option.splits if_splits)

definition invoice_row ::
  "(u8 list \<Rightarrow> string) \<Rightarrow> world \<Rightarrow> string \<Rightarrow> bolt11_invoice \<Rightarrow> i64 \<Rightarrow> string \<Rightarrow> u32 \<Rightarrow> invoice_record"
where
  "invoice_row hx w u i amt desc secs =
     \<lparr>ivc_id = hx (b11_payment_hash i), ivc_user_pk = u, ivc_amount_msat = Some amt,
      ivc_description = desc, ivc_pr = b11_text i,
      ivc_expires_at = clock w (ticks w) + u32_to_i64 secs * 1000,
      ivc_created_at = clock w (Suc (ticks w))\<rparr>"

lemma invoice_row_fields [simp]:
  "ivc_id (invoice_row hx w u i amt desc secs) = hx (b11_payment_hash i)"
  "ivc_user_pk (invoice_row hx w u i amt desc secs) = u"
  "ivc_amount_msat (invoice_row hx w u i amt desc secs) = Some amt"
  "ivc_pr (invoice_row hx w u i amt desc secs) = b11_text i"
  "ivc_expires_at (invoice_row hx w u i amt desc secs) =
     clock w (ticks w) + u32_to_i64 secs * 1000"
  by (simp_all add: invoice_row_def)

lemma run_create_invoice [run_simps]:
  "run_state (create_invoice hx u i amt desc secs) w =
     (let r = invoice_row hx w u i amt desc secs; w1 = w\<lparr>ticks := Suc (Suc (ticks w))\<rparr>
      in if ivc_id r \<in> ivc_id ` set (invoices (db w)) then (Panic ''Failed to create invoice'', w1)
         else (Ok (), w1\<lparr>db := (db w)\<lparr>invoices := invoices (db w) @ [r]\<rparr>\<rparr>))"
  by (auto simp: create_invoice_def run_simps Let_def insert_invoice_def append_row_def list_ex_key
      invoice_row_def)

lemma run_count_pending_invoices [run_simps]:
  "run_state (count_pending_invoices u) w =
     (of_nat (length (pending_invoices (clock w (ticks w)) u (db w))), w\<lparr>ticks := Suc (ticks w)\<rparr>)"
  by (simp add: count_pending_invoices_def)

definition bolt11_receive_post ::
  "app_state \<Rightarrow> string \<Rightarrow> bolt11_receive_request \<Rightarrow> db \<Rightarrow> bolt11_invoice \<Rightarrow> action option \<Rightarrow> bool"
where
  "bolt11_receive_post st u rq d v x \<longleftrightarrow>
     within_bounds (app_args st) (u32_to_u64 (b11r_amount_msat rq)) \<and>
     (\<exists>now r. x = Some (Add_invoice now r) \<and> ivc_user_pk r = u \<and>
        ivc_id r = as_hex (app_libs st) (b11_payment_hash v) \<and> ivc_pr r = b11_text v \<and>
        ivc_amount_msat r = Some (u32_to_i64 (b11r_amount_msat rq)))"

lemma bolt11_receive_Ok:
  assumes "run_state (bolt11_receive st u rq) w = (Ok i, w')"
  shows "\<exists>x. bolt11_receive_post st u rq (db w) i (Some x) \<and> enabled (app_args st) (db w) x \<and>
    performs x w w'"
  by (rule exI [of _ "Add_invoice (clock w (ticks w)) (invoice_row (as_hex (app_libs st))
        (w\<lparr>ticks := Suc (ticks w)\<rparr>) u i (u32_to_i64 (b11r_amount_msat rq)) (b11r_description rq)
        (invoice_expiry_secs (app_args st)))"])
    (use assms in \<open>auto simp: bolt11_receive_def run_simps run_if Let_def performs_def
        max_pending_def check_amount_bounds_cases signed.not_le bolt11_receive_post_def
      elim!: attempt_cases split: if_split_asm\<close>)

lemma bolt11_receive_fail:
  assumes "run_state (bolt11_receive st u rq) w = (v, w')" and "\<not> is_ok v"
  shows "unchanged w w' \<and> node_log w' = node_log w"
  by (cases v) (use assms in \<open>auto simp: bolt11_receive_def run_simps run_if Let_def
      elim!: attempt_cases split: if_split_asm\<close>)

interpretation bolt11_receive_h: book_handler "app_args st" "run_state (bolt11_receive st u rq)"
  "bolt11_receive_post st u rq" for st u rq
  by unfold_locales
    (use bolt11_receive_Ok [of st u rq] bolt11_receive_fail [of st u rq] in fastforce)+

section \<open>Offers\<close>

definition offer_row :: "(u8 list \<Rightarrow> string) \<Rightarrow> i64 \<Rightarrow> string \<Rightarrow> offer \<Rightarrow> offer_record" where
  "offer_row hx now u ofr =
     \<lparr>ofr_id = hx (b12_id ofr), ofr_user_pk = u, ofr_amount_msat = None, ofr_description = [],
      ofr_pr = b12_text ofr, ofr_expires_at = None, ofr_created_at = now\<rparr>"

lemma run_create_offer [run_simps]:
  "run_state (create_offer hx u ofr None [] None) w =
     (let r = offer_row hx (clock w (ticks w)) u ofr; w1 = w\<lparr>ticks := Suc (ticks w)\<rparr>
      in if hx (b12_id ofr) \<in> ofr_id ` set (offers (db w)) then (Panic ''Failed to create offer'', w1)
         else (Ok (), w1\<lparr>db := (db w)\<lparr>offers := offers (db w) @ [r]\<rparr>\<rparr>))"
  by (auto simp: create_offer_def run_simps Let_def insert_offer_def append_row_def list_ex_key
      offer_row_def)

definition bolt12_receive_post ::
  "app_state \<Rightarrow> string \<Rightarrow> db \<Rightarrow> string \<Rightarrow> action option \<Rightarrow> bool"
where
  "bolt12_receive_post st u d v x \<longleftrightarrow>
     (case x of
        None \<Rightarrow> (\<exists>r. get_offer_by_user_pk u d = Some r \<and> v = ofr_pr r)
      | Some y \<Rightarrow> (\<exists>now ofr. y = Add_offer (offer_row (as_hex (app_libs st)) now u ofr) \<and>
          nd_bolt12_receive_variable (app_node st) [] None = Ok ofr \<and> v = b12_text ofr))"

lemma create_new_offer_Ok:
  assumes "run_state (create_new_offer st u) w = (Ok v, w')"
  shows "\<exists>x. bolt12_receive_post st u d v (Some x) \<and> enabled a (db w) x \<and> performs x w w'"
proof -
  from assms obtain ofr where "nd_bolt12_receive_variable (app_node st) [] None = Ok ofr"
    by (auto simp: create_new_offer_def elim!: attempt_cases)
  with assms show ?thesis
    by (intro exI [of _ "Add_offer (offer_row (as_hex (app_libs st)) (clock w (ticks w)) u ofr)"])
      (auto simp: create_new_offer_def run_simps Let_def bolt12_receive_post_def performs_def
        offer_row_def split: if_split_asm)
qed

lemma create_new_offer_fail:
  assumes "run_state (create_new_offer st u) w = (v, w')" and "\<not> is_ok v"
  shows "unchanged w w' \<and> node_log w' = node_log w"
  by (cases v) (use assms in \<open>auto simp: create_new_offer_def run_simps Let_def
      elim!: attempt_cases split: if_split_asm\<close>)

lemma performs_frame [simp]: "performs x (w\<lparr>ticks := n\<rparr>) w' \<longleftrightarrow> performs x w w'"
  by (simp add: performs_def)

lemma unchanged_frame_left [simp]: "unchanged (w\<lparr>ticks := n\<rparr>) w' \<longleftrightarrow> unchanged w w'"
  by (simp add: unchanged_def)

lemma bolt12_receive_Ok:
  assumes "run_state (bolt12_receive st u) w = (Ok v, w')"
  shows "(\<exists>x. bolt12_receive_post st u (db w) v (Some x) \<and> enabled (app_args st) (db w) x \<and>
    performs x w w') \<or> bolt12_receive_post st u (db w) v None \<and> unchanged w w'"
  using assms create_new_offer_Ok [of st u _ v w' "db w" "app_args st"]
  by (auto simp: bolt12_receive_def run_if bolt12_receive_post_def [of _ _ _ _ None]
      split: option.splits if_split_asm) force+

lemma bolt12_receive_fail:
  assumes "run_state (bolt12_receive st u) w = (v, w')" and "\<not> is_ok v"
  shows "unchanged w w' \<and> node_log w' = node_log w"
  using assms create_new_offer_fail [of st u _ v w']
  by (auto simp: bolt12_receive_def run_if split: option.splits if_split_asm) force+

interpretation bolt12_receive_h: book_handler "app_args st" "run_state (bolt12_receive st u)"
  "bolt12_receive_post st u" for st u
  by unfold_locales
    (use bolt12_receive_Ok [of st u] bolt12_receive_fail [of st u] in fastforce)+

section \<open>Payments\<close>

definition transfer_post :: "string \<Rightarrow> string \<Rightarrow> u64 \<Rightarrow> u64 \<Rightarrow> action option \<Rightarrow> bool" where
  "transfer_post u v amt fee x \<longleftrightarrow>
     (\<exists>s t. x = Some (Transfer s t) \<and> snd_user_pk s = u \<and> rcv_user_pk t = v \<and>
        snd_amount_msat s = amt \<and> rcv_amount_msat t = amt \<and> snd_fee_msat s = fee)"

definition debit_post :: "string \<Rightarrow> u64 \<Rightarrow> u64 \<Rightarrow> string \<Rightarrow> action option \<Rightarrow> bool" where
  "debit_post u amt fee status x \<longleftrightarrow>
     (\<exists>s. x = Some (Debit s) \<and> snd_user_pk s = u \<and> snd_amount_msat s = amt \<and>
        snd_fee_msat s = fee \<and> snd_status s = status)"

text \<open>The tail of the external sends.\<close>

definition record_and_push ::
  "(u8 list \<Rightarrow> string) \<Rightarrow> u8 list \<Rightarrow> string \<Rightarrow> i64 \<Rightarrow> i64 \<Rightarrow> string \<Rightarrow> string \<Rightarrow> string \<Rightarrow>
   string option \<Rightarrow> 'a \<Rightarrow> 'a rpc"
where
  "record_and_push hx i u amt fee desc pr status ln res = do {
     r \<leftarrow> create_send_payment hx i u amt fee desc pr status ln;
     attempt r (\<lambda>record. do {
       push_events u (send_into_payment record True);
       ok res
     })
   }"

lemma run_record_and_push:
  "run_state (record_and_push hx i u amt fee desc pr status ln res) w =
     (let s = send_row hx w i u amt fee desc pr status ln; w1 = w\<lparr>ticks := Suc (ticks w)\<rparr>;
          d = (db w)\<lparr>sends := sends (db w) @ [s]\<rparr>
      in if hx i \<in> snd_id ` set (sends (db w))
         then (Panic ''Failed to insert send payment'', w1)
         else (Ok res, w1\<lparr>db := d,
             event_bus := event_bus w @ payment_events u (send_into_payment s True) d\<rparr>))"
  by (simp add: record_and_push_def run_simps Let_def)

lemma record_and_push_Ok:
  assumes "run_state (record_and_push hx i u amt fee desc pr status ln res) w = (Ok v, w')"
    and "status = ''pending'' \<and> may_send a u amt (db w) \<and> fee = lightning_fee a amt \<or>
      status = ''successful'' \<and> fee = onchain_base_fee_msat a \<and>
        covers (user_balance u (db w)) amt fee"
  shows "(\<exists>x. debit_post u amt fee status (Some x) \<and> enabled a (db w) x \<and> performs x w w') \<and>
    v = res \<and> node_log w' = node_log w"
  using assms(1)
  by (intro conjI exI [of _ "Debit (send_row hx w i u amt fee desc pr status ln)"])
    (use assms(2) in \<open>auto simp: record_and_push_def run_simps Let_def debit_post_def performs_def
      split: if_split_asm\<close>)

lemma record_and_push_fail:
  assumes "run_state (record_and_push hx i u amt fee desc pr status ln res) w = (v, w')"
    and "\<not> is_ok v"
  shows "unchanged w w' \<and> (\<exists>p. v = Panic p) \<and> node_log w' = node_log w"
  using assms by (auto simp: record_and_push_def run_simps Let_def split: if_split_asm)

lemma transfer_and_push_Ok:
  assumes "run_state (transfer_and_push hx u v amt fee pr desc res) w = (Ok r, w')" and "u \<noteq> v"
    and "fee = 1000 \<and> may_send a u amt (db w) \<or> fee = 0 \<and> amt = user_balance u (db w)"
  shows "(\<exists>x. transfer_post u v amt fee (Some x) \<and> enabled a (db w) x \<and> performs x w w') \<and>
    r = res \<and> node_log w' = node_log w"
  using assms(1)
proof (cases rule: transfer_and_push_cases)
  case (transferred s t)
  with assms(2,3) show ?thesis
    by (intro conjI exI [of _ "Transfer s t"]) (auto simp: transfer_post_def)
qed simp

lemma transfer_and_push_fail:
  assumes "run_state (transfer_and_push hx u v amt fee pr desc res) w = (r, w')" and "\<not> is_ok r"
  shows "unchanged w w' \<and> (\<exists>p. r = Panic p) \<and> node_log w' = node_log w"
  using assms(1) by (cases rule: transfer_and_push_cases) (use assms(2) in auto)

definition amount_reaches :: "i64 option \<Rightarrow> u64 \<Rightarrow> bool" where
  "amount_reaches m amt \<longleftrightarrow> (case m of None \<Rightarrow> True | Some x \<Rightarrow> as_u64 x \<le> amt)"

definition bolt11_send_post ::
  "app_state \<Rightarrow> string \<Rightarrow> bolt11_send_request \<Rightarrow> db \<Rightarrow> unit \<Rightarrow> action option \<Rightarrow> bool"
where
  "bolt11_send_post st u rq d v x \<longleftrightarrow>
     (case get_invoice (as_hex (app_libs st)) (b11_payment_hash (b11s_invoice rq)) d of
        Some i \<Rightarrow> ivc_user_pk i \<noteq> u \<and> amount_reaches (ivc_amount_msat i) (b11s_amount_msat rq) \<and>
          transfer_post u (ivc_user_pk i) (b11s_amount_msat rq) 1000 x
      | None \<Rightarrow> debit_post u (b11s_amount_msat rq)
          (lightning_fee (app_args st) (b11s_amount_msat rq)) ''pending'' x)"

text \<open>\<open>bolt11_send\<close> after a successful check, with the shared tails named.\<close>

lemma run_bolt11_send:
  "run_state (bolt11_send st u rq) w =
     (case run_state (check_send u (b11s_amount_msat rq) (app_args st)) w of
        (Ok fee, w) \<Rightarrow>
          (case get_invoice (as_hex (app_libs st)) (b11_payment_hash (b11s_invoice rq)) (db w) of
             Some i \<Rightarrow>
               if ivc_user_pk i = u then (Err ''This is your own invoice'', w)
               else if \<not> amount_reaches (ivc_amount_msat i) (b11s_amount_msat rq)
               then (Err ''Amount is lower than the invoice's minimum amount'', w)
               else run_state (transfer_and_push (as_hex (app_libs st)) u (ivc_user_pk i)
                 (b11s_amount_msat rq) 1000 (ivc_pr i) (ivc_description i) ()) w
           | None \<Rightarrow>
               (case nd_bolt11_send (app_node st) (b11s_invoice rq) (b11s_amount_msat rq) of
                  Ok i \<Rightarrow> run_state (record_and_push (as_hex (app_libs st)) i u
                    (b11s_amount_msat rq) fee
                    (bolt11_description_to_string (b11_description (b11s_invoice rq)))
                    (b11_text (b11s_invoice rq)) ''pending'' (b11s_ln_address rq) ())
                    (w\<lparr>node_log := node_log w @ [Pay_bolt11 (b11s_invoice rq) (b11s_amount_msat rq)]\<rparr>)
                | Err e \<Rightarrow> (Err e, w)
                | Panic p \<Rightarrow> (Panic p, w)))
      | (Err e, w) \<Rightarrow> (Err e, w)
      | (Panic p, w) \<Rightarrow> (Panic p, w))"
  by (auto simp: bolt11_send_def run_node_call record_and_push_def amount_reaches_def not_less
      split: prod.splits outcome.splits option.splits)

lemma performs_frame_log [simp]: "performs x (w\<lparr>node_log := l\<rparr>) w' \<longleftrightarrow> performs x w w'"
  by (simp add: performs_def)

lemma unchanged_frame_log [simp]: "unchanged (w\<lparr>node_log := l\<rparr>) w' \<longleftrightarrow> unchanged w w'"
  by (simp add: unchanged_def)

lemma bolt11_send_Ok:
  assumes "run_state (bolt11_send st u rq) w = (Ok v, w')"
  shows "\<exists>x. bolt11_send_post st u rq (db w) v (Some x) \<and> enabled (app_args st) (db w) x \<and>
    performs x w w'"
proof (cases rule: run_check_send_cases [of u "b11s_amount_msat rq" "app_args st" w])
  case 1
  show ?thesis
  proof (cases "get_invoice (as_hex (app_libs st)) (b11_payment_hash (b11s_invoice rq)) (db w)")
    case None
    with 1 assms obtain i where
      "run_state (record_and_push (as_hex (app_libs st)) i u (b11s_amount_msat rq)
         (lightning_fee (app_args st) (b11s_amount_msat rq))
         (bolt11_description_to_string (b11_description (b11s_invoice rq)))
         (b11_text (b11s_invoice rq)) ''pending'' (b11s_ln_address rq) ())
         (w\<lparr>node_log := node_log w @ [Pay_bolt11 (b11s_invoice rq) (b11s_amount_msat rq)]\<rparr>)
       = (Ok v, w')"
      by (auto simp: run_bolt11_send split: outcome.splits)
    from record_and_push_Ok [OF this, of "app_args st"] 1 None show ?thesis
      by (simp add: bolt11_send_post_def)
  next
    case (Some i)
    with 1 assms have "ivc_user_pk i \<noteq> u" "amount_reaches (ivc_amount_msat i) (b11s_amount_msat rq)"
      and "run_state (transfer_and_push (as_hex (app_libs st)) u (ivc_user_pk i)
        (b11s_amount_msat rq) 1000 (ivc_pr i) (ivc_description i) ()) w = (Ok v, w')"
      by (auto simp: run_bolt11_send split: if_split_asm)
    with 1 Some transfer_and_push_Ok [OF this(3), of "app_args st"] show ?thesis
      by (simp add: bolt11_send_post_def)
  qed
next
  case (2 e)
  with assms show ?thesis by (simp add: run_bolt11_send)
qed

lemma bolt11_send_fail:
  assumes "run_state (bolt11_send st u rq) w = (v, w')" and "\<not> is_ok v"
  shows "unchanged w w' \<and> (node_log w' = node_log w \<or> (\<exists>p. v = Panic p))"
proof (cases rule: run_check_send_cases [of u "b11s_amount_msat rq" "app_args st" w])
  case 1
  with assms transfer_and_push_fail [where u = u and w = w and w' = w' and r = v]
    record_and_push_fail [where u = u and w' = w' and v = v]
  show ?thesis
    by (fastforce simp: run_bolt11_send split: option.splits outcome.splits if_split_asm)
next
  case (2 e)
  with assms show ?thesis by (auto simp: run_bolt11_send)
qed

interpretation bolt11_send_h: book_handler "app_args st" "run_state (bolt11_send st u rq)"
  "bolt11_send_post st u rq" for st u rq
  by unfold_locales (use bolt11_send_Ok [of st u rq] bolt11_send_fail [of st u rq] in fastforce)+

definition bolt12_send_post ::
  "app_state \<Rightarrow> string \<Rightarrow> bolt12_send_request \<Rightarrow> db \<Rightarrow> unit \<Rightarrow> action option \<Rightarrow> bool"
where
  "bolt12_send_post st u rq d v x \<longleftrightarrow>
     (\<exists>ofr. offer_from_str (app_libs st) (b12s_offer rq) = Some ofr \<and>
       (case get_offer (as_hex (app_libs st)) (b12_id ofr) d of
          Some i \<Rightarrow> ofr_user_pk i \<noteq> u \<and> amount_reaches (ofr_amount_msat i) (b12s_amount_msat rq) \<and>
            transfer_post u (ofr_user_pk i) (b12s_amount_msat rq) 1000 x
        | None \<Rightarrow> b12_description ofr \<noteq> None \<and> debit_post u (b12s_amount_msat rq)
            (lightning_fee (app_args st) (b12s_amount_msat rq)) ''pending'' x))"

lemma run_bolt12_send:
  "run_state (bolt12_send st u rq) w =
     (case run_state (check_send u (b12s_amount_msat rq) (app_args st)) w of
        (Ok fee, w) \<Rightarrow>
          (case offer_from_str (app_libs st) (b12s_offer rq) of
             None \<Rightarrow> (Err ''Invalid offer'', w)
           | Some ofr \<Rightarrow>
               (case get_offer (as_hex (app_libs st)) (b12_id ofr) (db w) of
                  Some i \<Rightarrow>
                    if ofr_user_pk i = u then (Err ''This is your own payment request'', w)
                    else if \<not> amount_reaches (ofr_amount_msat i) (b12s_amount_msat rq)
                    then (Err ''Amount is lower than the offer's minimum amount'', w)
                    else run_state (transfer_and_push (as_hex (app_libs st)) u (ofr_user_pk i)
                      (b12s_amount_msat rq) 1000 (ofr_pr i) (ofr_description i) ()) w
                | None \<Rightarrow>
                    (case nd_bolt12_send (app_node st) ofr (b12s_amount_msat rq) of
                       Ok i \<Rightarrow>
                         let w1 = w\<lparr>node_log := node_log w @ [Pay_bolt12 ofr (b12s_amount_msat rq)]\<rparr>
                         in (case b12_description ofr of
                               None \<Rightarrow> (Panic ''unwrap'', w1)
                             | Some desc \<Rightarrow> run_state (record_and_push (as_hex (app_libs st)) i u
                                 (b12s_amount_msat rq) fee desc (b12_text ofr) ''pending'' None ()) w1)
                     | Err e \<Rightarrow> (Err e, w)
                     | Panic p \<Rightarrow> (Panic p, w))))
      | (Err e, w) \<Rightarrow> (Err e, w)
      | (Panic p, w) \<Rightarrow> (Panic p, w))"
  by (auto simp: bolt12_send_def run_node_call record_and_push_def amount_reaches_def not_less
      Let_def split: prod.splits outcome.splits option.splits)

lemma bolt12_send_Ok:
  assumes "run_state (bolt12_send st u rq) w = (Ok v, w')"
  shows "\<exists>x. bolt12_send_post st u rq (db w) v (Some x) \<and> enabled (app_args st) (db w) x \<and>
    performs x w w'"
proof (cases rule: run_check_send_cases [of u "b12s_amount_msat rq" "app_args st" w])
  case 1
  from 1 assms obtain ofr where ofr: "offer_from_str (app_libs st) (b12s_offer rq) = Some ofr"
    by (auto simp: run_bolt12_send split: option.splits)
  show ?thesis
  proof (cases "get_offer (as_hex (app_libs st)) (b12_id ofr) (db w)")
    case None
    with 1 assms ofr obtain i desc where desc: "b12_description ofr = Some desc" and
      "run_state (record_and_push (as_hex (app_libs st)) i u (b12s_amount_msat rq)
         (lightning_fee (app_args st) (b12s_amount_msat rq)) desc (b12_text ofr) ''pending'' None ())
         (w\<lparr>node_log := node_log w @ [Pay_bolt12 ofr (b12s_amount_msat rq)]\<rparr>) = (Ok v, w')"
      by (auto simp: run_bolt12_send Let_def split: outcome.splits option.splits)
    from record_and_push_Ok [OF this(2), of "app_args st"] 1 None ofr desc show ?thesis
      by (simp add: bolt12_send_post_def)
  next
    case (Some i)
    with 1 assms ofr have "ofr_user_pk i \<noteq> u" "amount_reaches (ofr_amount_msat i) (b12s_amount_msat rq)"
      and "run_state (transfer_and_push (as_hex (app_libs st)) u (ofr_user_pk i)
        (b12s_amount_msat rq) 1000 (ofr_pr i) (ofr_description i) ()) w = (Ok v, w')"
      by (auto simp: run_bolt12_send split: if_split_asm)
    with 1 Some ofr transfer_and_push_Ok [OF this(3), of "app_args st"] show ?thesis
      by (simp add: bolt12_send_post_def)
  qed
next
  case (2 e)
  with assms show ?thesis by (simp add: run_bolt12_send)
qed

lemma bolt12_send_fail:
  assumes "run_state (bolt12_send st u rq) w = (v, w')" and "\<not> is_ok v"
  shows "unchanged w w' \<and> (node_log w' = node_log w \<or> (\<exists>p. v = Panic p))"
proof (cases rule: run_check_send_cases [of u "b12s_amount_msat rq" "app_args st" w])
  case 1
  with assms transfer_and_push_fail [where u = u and w = w and w' = w' and r = v]
    record_and_push_fail [where u = u and w' = w' and v = v]
  show ?thesis
    by (fastforce simp: run_bolt12_send Let_def split: option.splits outcome.splits if_split_asm)
next
  case (2 e)
  with assms show ?thesis by (auto simp: run_bolt12_send)
qed

interpretation bolt12_send_h: book_handler "app_args st" "run_state (bolt12_send st u rq)"
  "bolt12_send_post st u rq" for st u rq
  by unfold_locales (use bolt12_send_Ok [of st u rq] bolt12_send_fail [of st u rq] in fastforce)+

definition onchain_send_post ::
  "app_state \<Rightarrow> string \<Rightarrow> onchain_send_request \<Rightarrow> db \<Rightarrow> u8 list \<Rightarrow> action option \<Rightarrow> bool"
where
  "onchain_send_post st u rq d v x \<longleftrightarrow> 1000 \<le> ocs_amount_sats rq \<and>
     debit_post u (ocs_amount_sats rq * 1000) (onchain_base_fee_msat (app_args st)) ''successful'' x"

lemma run_onchain_send:
  "run_state (onchain_send st u rq) w =
     (if ocs_amount_sats rq < 1000 then (Err ''The minimum amount is 1000 sats'', w)
      else if user_balance u (db w) < ocs_amount_sats rq * 1000
      then (Err ''Insufficient balance to cover the amount'', w)
      else if user_balance u (db w) < ocs_amount_sats rq * 1000 + onchain_base_fee_msat (app_args st)
      then (Err ''Insufficient balance to cover the fee'', w)
      else (case require_network (app_libs st) (nd_network (app_node st)) (ocs_address rq) of
          None \<Rightarrow> (Err ''Invalid address for network'', w)
        | Some addr \<Rightarrow>
            (case nd_send_to_address (app_node st) addr (ocs_amount_sats rq) None of
               Ok txid \<Rightarrow> run_state (record_and_push (as_hex (app_libs st)) txid u
                   (ocs_amount_sats rq * 1000) (onchain_base_fee_msat (app_args st)) [] addr
                   ''successful'' None txid)
                 (w\<lparr>node_log := node_log w @ [Pay_onchain addr (ocs_amount_sats rq) None]\<rparr>)
             | Err e \<Rightarrow> (Err ''Failed to send payment'', w)
             | Panic p \<Rightarrow> (Panic p, w))))"
  by (auto simp: onchain_send_def run_node_call record_and_push_def
      split: prod.splits outcome.splits option.splits)

lemma onchain_send_Ok:
  assumes "run_state (onchain_send st u rq) w = (Ok v, w')"
  shows "\<exists>x. onchain_send_post st u rq (db w) v (Some x) \<and> enabled (app_args st) (db w) x \<and>
    performs x w w'"
proof -
  let ?amt = "ocs_amount_sats rq * 1000" and ?fee = "onchain_base_fee_msat (app_args st)"
  from assms obtain addr txid where c: "1000 \<le> ocs_amount_sats rq"
      "covers (user_balance u (db w)) ?amt ?fee"
    and run: "run_state (record_and_push (as_hex (app_libs st)) txid u ?amt ?fee [] addr
      ''successful'' None txid)
      (w\<lparr>node_log := node_log w @ [Pay_onchain addr (ocs_amount_sats rq) None]\<rparr>) = (Ok v, w')"
    by (auto simp: run_onchain_send covers_def not_less
        split: option.splits outcome.splits if_split_asm)
  from record_and_push_Ok [OF run, of "app_args st"] c show ?thesis
    by (simp add: onchain_send_post_def)
qed

lemma onchain_send_fail:
  assumes "run_state (onchain_send st u rq) w = (v, w')" and "\<not> is_ok v"
  shows "unchanged w w' \<and> (node_log w' = node_log w \<or> (\<exists>p. v = Panic p))"
  using assms record_and_push_fail [where u = u and w' = w' and v = v]
  by (fastforce simp: run_onchain_send split: option.splits outcome.splits if_split_asm)

interpretation onchain_send_h: book_handler "app_args st" "run_state (onchain_send st u rq)"
  "onchain_send_post st u rq" for st u rq
  by unfold_locales (use onchain_send_Ok [of st u rq] onchain_send_fail [of st u rq] in fastforce)+

section \<open>Recovery\<close>

definition set_recovery_name_post ::
  "string \<Rightarrow> set_recovery_name_request \<Rightarrow> db \<Rightarrow> unit \<Rightarrow> action option \<Rightarrow> bool"
where
  "set_recovery_name_post u rq d v x \<longleftrightarrow>
     x = Some (Rename u (srn_recovery_name rq)) \<and>
     (\<forall>name. srn_recovery_name rq = Some name \<longrightarrow> check_recovery_name name = Ok ())"

interpretation set_recovery_name_h: book_handler "app_args st"
  "run_state (set_recovery_name st u rq)" "set_recovery_name_post u rq" for st u rq
  by unfold_locales
    (auto simp: set_recovery_name_def set_recovery_name_post_def performs_def
      elim!: attempt_cases split: option.splits)

definition recover_post ::
  "string \<Rightarrow> recover_request \<Rightarrow> db \<Rightarrow> u64 \<Rightarrow> action option \<Rightarrow> bool"
where
  "recover_post u rq d v x \<longleftrightarrow>
     (\<exists>k. get_recovery (rvr_recovery_id rq) d = Some k \<and> rec_user_pk k \<noteq> u \<and>
        v = user_balance (rec_user_pk k) d \<and> v \<noteq> 0 \<and> transfer_post (rec_user_pk k) u v 0 x)"

lemma recover_Ok:
  assumes "run_state (recover st u rq) w = (Ok v, w')"
  shows "\<exists>x. recover_post u rq (db w) v (Some x) \<and> enabled (app_args st) (db w) x \<and>
    performs x w w'"
proof -
  let ?bal = "\<lambda>k. user_balance (rec_user_pk k) (db w)"
  from assms obtain k where k: "get_recovery (rvr_recovery_id rq) (db w) = Some k"
      "u \<noteq> rec_user_pk k" "?bal k \<noteq> 0"
    and run: "run_state (transfer_and_push (as_hex (app_libs st)) (rec_user_pk k) u (?bal k) 0
      (rec_id k) ''Recovery'' (?bal k)) (w\<lparr>ticks := Suc (ticks w)\<rparr>) = (Ok v, w')"
    by (auto simp: recover_def split: option.splits if_split_asm)
  from transfer_and_push_Ok [OF run, of "app_args st"] k show ?thesis
    by (auto simp: recover_post_def)
qed

lemma recover_fail:
  assumes "run_state (recover st u rq) w = (v, w')" and "\<not> is_ok v"
  shows "unchanged w w' \<and> node_log w' = node_log w"
  using assms transfer_and_push_fail [where v = u and w' = w' and r = v]
  by (fastforce simp: recover_def split: option.splits if_split_asm)

interpretation recover_h: book_handler "app_args st" "run_state (recover st u rq)"
  "recover_post u rq" for st u rq
  by unfold_locales (use recover_Ok [of st u rq] recover_fail [of st u rq] in fastforce)+

section \<open>Accounts after a transfer and a debit\<close>

lemma performs_transfer:
  assumes "performs x w w'" and "transfer_post u v amt fee (Some x)" and "enabled a (db w) x"
  shows "received k (db w') = received k (db w) + (if k = v then uint amt else 0) \<and>
    spent k (db w') = spent k (db w) + (if k = u then uint amt + uint fee else 0)"
  using assms
  by (auto simp: transfer_post_def performs_def transfer_accounts counts_for_def cost_def)

lemma performs_debit:
  assumes "performs x w w'" and "debit_post u amt fee status (Some x)" and "status \<noteq> ''failed''"
  shows "received k (db w') = received k (db w) \<and>
    spent k (db w') = spent k (db w) + (if k = u then uint amt + uint fee else 0)"
  using assms by (auto simp: debit_post_def performs_def balance_simps counts_for_def cost_def)

lemma bolt11_send_log:
  assumes "run_state (bolt11_send st u rq) w = (Ok v, w')"
  shows "node_log w' = node_log w @
    (if get_invoice (as_hex (app_libs st)) (b11_payment_hash (b11s_invoice rq)) (db w) = None
     then [Pay_bolt11 (b11s_invoice rq) (b11s_amount_msat rq)] else [])"
proof (cases rule: run_check_send_cases [of u "b11s_amount_msat rq" "app_args st" w])
  case 1
  with assms show ?thesis
    by (auto simp: run_bolt11_send run_transfer_and_push run_record_and_push Let_def
        split: option.splits outcome.splits if_split_asm)
next
  case (2 e)
  with assms show ?thesis by (simp add: run_bolt11_send)
qed

lemma bolt11_send_external:
  assumes "run_state (bolt11_send st u rq) w = (Ok v, w')"
    and "get_invoice (as_hex (app_libs st)) (b11_payment_hash (b11s_invoice rq)) (db w) = None"
  shows "\<exists>i s. nd_bolt11_send (app_node st) (b11s_invoice rq) (b11s_amount_msat rq) = Ok i \<and>
    as_hex (app_libs st) i \<notin> snd_id ` set (sends (db w)) \<and> sends (db w') = sends (db w) @ [s] \<and>
    snd_id s = as_hex (app_libs st) i \<and> snd_status s = ''pending''"
proof (cases rule: run_check_send_cases [of u "b11s_amount_msat rq" "app_args st" w])
  case 1
  with assms show ?thesis
    by (auto simp: run_bolt11_send run_record_and_push Let_def split: outcome.splits if_split_asm)
next
  case (2 e)
  with assms show ?thesis by (simp add: run_bolt11_send)
qed

end
