(* ===== verification/Node_Events.thy ===== *)
theory Node_Events
  imports Client_Refines
begin

text \<open>
  The events of the Lightning node, \<open>process_ldk_event\<close> and \<open>process_ldk_events\<close> of
  \<open>puncture-daemon/src/main.rs\<close>: a received payment is credited to the owner of its invoice or
  offer, a sent payment becomes successful with the fee paid, or failed. The node keeps an event
  in its queue, and delivers it again, until \<open>event_handled\<close> acknowledges it.
\<close>

section \<open>One event\<close>

datatype ldk_event =
    PaymentReceived "u8 list option" u64
  | PaymentSuccessful "u8 list option" "u64 option"
  | PaymentFailed "u8 list option"
  | Other_event

text \<open>The receive record of a payment: the lookup of the node, then of the invoice or offer.\<close>

definition received_record :: "app_state \<Rightarrow> u8 list \<Rightarrow> u64 \<Rightarrow> receive_record rpc" where
  "received_record st payment_id amount_msat =
     (case nd_payment (app_node st) payment_id of
        None \<Rightarrow> err ''Payment not found''
      | Some (Bolt11_kind hash) \<Rightarrow> do {
          found \<leftarrow> query (get_invoice (as_hex (app_libs st)) hash);
          case found of
            None \<Rightarrow> err ''Invoice not found''
          | Some invoice \<Rightarrow> do {
              now \<leftarrow> unix_time;
              ok (invoice_into_receive_record (as_hex (app_libs st)) now invoice payment_id
                    amount_msat)
            }
        }
      | Some (Bolt12_offer_kind offer_id) \<Rightarrow> do {
          found \<leftarrow> query (get_offer (as_hex (app_libs st)) offer_id);
          case found of
            None \<Rightarrow> err ''Offer not found''
          | Some offer \<Rightarrow> do {
              now \<leftarrow> unix_time;
              ok (offer_into_receive_record (as_hex (app_libs st)) now offer payment_id
                    amount_msat)
            }
        }
      | Some Other_kind \<Rightarrow> err ''Unexpected payment kind'')"

text \<open>The common tail of the two results of a sent payment.\<close>

definition payment_result :: "app_state \<Rightarrow> u8 list \<Rightarrow> string \<Rightarrow> i64 \<Rightarrow> string \<Rightarrow> unit rpc" where
  "payment_result st payment_id status fee_msat missing = do {
     found \<leftarrow> update_send_status (as_hex (app_libs st)) payment_id status fee_msat;
     case found of
       None \<Rightarrow> err missing
     | Some record \<Rightarrow> do {
         balance_msat \<leftarrow> query (user_balance (snd_user_pk record));
         now \<leftarrow> unix_time;
         send_balance_event (snd_user_pk record) balance_msat;
         send_update_event (snd_user_pk record) (snd_id record) status fee_msat;
         ok ()
       }
   }"

fun process_ldk_event :: "app_state \<Rightarrow> ldk_event \<Rightarrow> unit rpc" where
  "process_ldk_event st (PaymentReceived None amount_msat) = panic ''unwrap''"
| "process_ldk_event st (PaymentReceived (Some payment_id) amount_msat) = do {
     r \<leftarrow> received_record st payment_id amount_msat;
     attempt r (\<lambda>record.
       if as_u64 (rcv_amount_msat record) \<noteq> amount_msat then panic ''assert_eq''
       else do {
         create_receive_payment record;
         push_events (rcv_user_pk record) (receive_into_payment record True);
         ok ()
       })
   }"
| "process_ldk_event st (PaymentSuccessful None fee) = panic ''unwrap''"
| "process_ldk_event st (PaymentSuccessful (Some payment_id) None) = panic ''unwrap''"
| "process_ldk_event st (PaymentSuccessful (Some payment_id) (Some fee)) =
     payment_result st payment_id ''successful'' (as_i64 fee) ''successful payment not found''"
| "process_ldk_event st (PaymentFailed None) = panic ''unwrap''"
| "process_ldk_event st (PaymentFailed (Some payment_id)) =
     payment_result st payment_id ''failed'' 0 ''failed payment not found''"
| "process_ldk_event st Other_event = ok ()"

section \<open>The loop\<close>

text \<open>
  \<open>acks\<close> are the results of \<open>event_handled\<close>, one per turn of the loop, which ends when they are
  used up (the cancellation of the task). An error is logged and the event acknowledged all the
  same; a panic ends the task with the event still in the queue. The result is the queue left.
\<close>

fun process_ldk_events :: "app_state \<Rightarrow> bool list \<Rightarrow> ldk_event list \<Rightarrow> (world, ldk_event list) state"
where
  "process_ldk_events st [] queue = ret queue"
| "process_ldk_events st (ack # acks) [] = ret []"
| "process_ldk_events st (ack # acks) (event # queue) = do {
     r \<leftarrow> process_ldk_event st event;
     case r of
       Panic p \<Rightarrow> ret (event # queue)
     | _ \<Rightarrow> process_ldk_events st acks (if ack then queue else event # queue)
   }"

section \<open>What an event does\<close>

text \<open>The user a received payment belongs to, with its description and payment request.\<close>

definition payment_owner :: "app_state \<Rightarrow> u8 list \<Rightarrow> db \<Rightarrow> (string \<times> string \<times> string) option" where
  "payment_owner st payment_id d =
     (case nd_payment (app_node st) payment_id of
        Some (Bolt11_kind h) \<Rightarrow>
          map_option (\<lambda>i. (ivc_user_pk i, ivc_description i, ivc_pr i))
            (get_invoice (as_hex (app_libs st)) h d)
      | Some (Bolt12_offer_kind h) \<Rightarrow>
          map_option (\<lambda>i. (ofr_user_pk i, ofr_description i, ofr_pr i))
            (get_offer (as_hex (app_libs st)) h d)
      | _ \<Rightarrow> None)"

definition receive_row ::
  "(u8 list \<Rightarrow> string) \<Rightarrow> i64 \<Rightarrow> u8 list \<Rightarrow> u64 \<Rightarrow> string \<times> string \<times> string \<Rightarrow> receive_record"
where
  "receive_row hx now i amt o3 = (case o3 of (u, desc, pr) \<Rightarrow>
     \<lparr>rcv_id = hx i, rcv_user_pk = u, rcv_amount_msat = as_i64 amt, rcv_description = desc,
      rcv_pr = pr, rcv_created_at = now\<rparr>)"

lemma receive_row_fields [simp]:
  "rcv_id (receive_row hx now i amt o3) = hx i"
  "rcv_user_pk (receive_row hx now i amt o3) = fst o3"
  "rcv_amount_msat (receive_row hx now i amt o3) = amt"
  by (simp_all add: receive_row_def split: prod.split)

lemma run_received_record:
  obtains (owned) o3 where "payment_owner st i (db w) = Some o3"
      "run_state (received_record st i amt) w =
        (Ok (receive_row (as_hex (app_libs st)) (clock w (ticks w)) i amt o3),
         w\<lparr>ticks := Suc (ticks w)\<rparr>)"
  | (unowned) e where "payment_owner st i (db w) = None"
      "run_state (received_record st i amt) w = (Err e, w)"
proof (cases "payment_owner st i (db w)")
  case None
  then have "\<exists>e. run_state (received_record st i amt) w = (Err e, w)"
    by (auto simp: payment_owner_def received_record_def split: option.splits payment_kind.splits)
  with None unowned show thesis by blast
next
  case (Some o3)
  then have "run_state (received_record st i amt) w =
      (Ok (receive_row (as_hex (app_libs st)) (clock w (ticks w)) i amt o3),
       w\<lparr>ticks := Suc (ticks w)\<rparr>)"
    by (auto simp: payment_owner_def received_record_def receive_row_def
        invoice_into_receive_record_def offer_into_receive_record_def
        split: option.splits payment_kind.splits)
  with Some owned show thesis by blast
qed

text \<open>An event as an action of the book: \<open>None\<close> when it does nothing.\<close>

definition event_post :: "app_state \<Rightarrow> ldk_event \<Rightarrow> db \<Rightarrow> unit \<Rightarrow> action option \<Rightarrow> bool" where
  "event_post st e d v x \<longleftrightarrow>
     (case e of
        PaymentReceived (Some i) amt \<Rightarrow>
          (\<exists>o3 now. payment_owner st i d = Some o3 \<and>
             x = Some (Credit (receive_row (as_hex (app_libs st)) now i amt o3)))
      | PaymentSuccessful (Some i) (Some fee) \<Rightarrow>
          x = Some (Settle (as_hex (app_libs st) i) ''successful'' fee)
      | PaymentFailed (Some i) \<Rightarrow> x = Some (Settle (as_hex (app_libs st) i) ''failed'' 0)
      | Other_event \<Rightarrow> x = None
      | _ \<Rightarrow> False)"

lemma run_payment_received:
  "run_state (process_ldk_event st (PaymentReceived (Some i) amt)) w = (v, w') \<longleftrightarrow>
     (case payment_owner st i (db w) of
        None \<Rightarrow> w' = w \<and> v = fst (run_state (process_ldk_event st (PaymentReceived (Some i) amt)) w)
          \<and> (\<exists>e. v = Err e)
      | Some o3 \<Rightarrow> v = Ok () \<and>
          (let r = receive_row (as_hex (app_libs st)) (clock w (ticks w)) i amt o3;
               d = or_ignore (db w) (insert_receive r (db w))
           in w' = w\<lparr>ticks := Suc (ticks w), db := d, event_bus := event_bus w @
                payment_events (fst o3) (receive_into_payment r True) d\<rparr>))"
  by (cases rule: run_received_record [of st i w amt])
    (auto simp: run_push_events create_receive_payment_def Let_def)

lemma run_payment_result:
  "run_state (payment_result st i status fee missing) w =
     (let k = as_hex (app_libs st) i; d = settle k status fee (db w)
      in case List.find (\<lambda>r. snd_id r = k) (sends (db w)) of
           None \<Rightarrow> (Err missing, w)
         | Some r \<Rightarrow> (Ok (), w\<lparr>ticks := Suc (ticks w), db := d,
             event_bus := event_bus w @ action_events (Settle k status fee) d\<rparr>))"
  by (auto simp: payment_result_def run_simps Let_def find_settle settle_absent
      dest!: find_Some_iff_mem split: option.splits)

lemma payment_result_performs:
  assumes "run_state (payment_result st i status fee missing) w = (Ok v, w')"
  shows "performs (Settle (as_hex (app_libs st) i) status fee) w w'"
  using assms by (auto simp: run_payment_result Let_def performs_def split: option.splits)

lemma payment_result_fail:
  assumes "run_state (payment_result st i status fee missing) w = (v, w')" and "\<not> is_ok v"
  shows "w' = w"
  using assms by (auto simp: run_payment_result Let_def split: option.splits)

lemma process_ldk_event_Ok:
  assumes "run_state (process_ldk_event st e) w = (Ok v, w')"
  shows "(\<exists>x. event_post st e (db w) v (Some x) \<and> enabled a (db w) x \<and> performs x w w') \<or>
    event_post st e (db w) v None \<and> unchanged w w'"
proof (cases "(st, e)" rule: process_ldk_event.cases)
  case (2 st' i amt)
  with assms obtain o3 where "payment_owner st i (db w) = Some o3"
    by (simp add: run_payment_received del: process_ldk_event.simps split: option.splits)
  with 2 assms show ?thesis
    by (intro disjI1 exI [of _ "Credit (receive_row (as_hex (app_libs st)) (clock w (ticks w)) i amt o3)"])
      (auto simp: run_payment_received event_post_def performs_def Let_def
        simp del: process_ldk_event.simps split: option.splits)
next
  case (5 st' i fee)
  with assms payment_result_performs [of st i "''successful''" fee _ w v w'] show ?thesis
    by (auto simp: event_post_def)
next
  case (7 st' i)
  with assms payment_result_performs [of st i "''failed''" 0 _ w v w'] show ?thesis
    by (auto simp: event_post_def)
qed (use assms in \<open>auto simp: event_post_def\<close>)

lemma process_ldk_event_fail:
  assumes "run_state (process_ldk_event st e) w = (v, w')" and "\<not> is_ok v"
  shows "w' = w"
proof (cases "(st, e)" rule: process_ldk_event.cases)
  case (2 st' i amt)
  with assms show ?thesis
    by (auto simp: run_payment_received simp del: process_ldk_event.simps split: option.splits)
next
  case (5 st' i fee)
  with assms payment_result_fail [of st i "''successful''" fee _ w v w'] show ?thesis by auto
next
  case (7 st' i)
  with assms payment_result_fail [of st i "''failed''" 0 _ w v w'] show ?thesis by auto
qed (use assms in auto)

interpretation event_h: book_handler a "run_state (process_ldk_event st e)" "event_post st e"
  for a st e
  by unfold_locales
    (use process_ldk_event_Ok [of st e] process_ldk_event_fail [of st e] in fastforce)+

text \<open>What is assumed of the node about a result it reports, as \<open>honest_env\<close> on the action.\<close>

definition node_contract :: "(u8 list \<Rightarrow> string) \<Rightarrow> db \<Rightarrow> ldk_event \<Rightarrow> bool" where
  "node_contract hx d e \<longleftrightarrow>
     (case e of
        PaymentSuccessful (Some i) (Some fee) \<Rightarrow>
          list_all (\<lambda>r. snd_id r = hx i \<longrightarrow> snd_status r \<noteq> ''failed'' \<and> fee \<le> snd_fee_msat r)
            (sends d)
      | _ \<Rightarrow> True)"

lemma event_post_honest:
  "event_post st e d v (Some x) \<Longrightarrow> node_contract (as_hex (app_libs st)) d e \<Longrightarrow> honest_env d x"
  by (cases "(st, e)" rule: process_ldk_event.cases)
    (auto simp: event_post_def node_contract_def)

section \<open>The queue\<close>

text \<open>What the loop leaves is an end of the queue, and every step of it is a step of the book.\<close>

lemma process_ldk_events_suffix:
  "run_state (process_ldk_events st acks q) w = (q', w') \<Longrightarrow> \<exists>p. q = p @ q'"
proof (induction st acks q arbitrary: w rule: process_ldk_events.induct)
  case (3 st ack acks e q)
  obtain r w1 where r: "run_state (process_ldk_event st e) w = (r, w1)" by fastforce
  show ?case
  proof (cases r)
    case (Ok v)
    from "3.IH"(1) [of w1] "3.prems" r Ok show ?thesis
      by (cases ack) (auto intro: exI [of _ "e # _"])
  next
    case (Err m)
    from "3.IH"(2) [of w1] "3.prems" r Err show ?thesis
      by (cases ack) (auto intro: exI [of _ "e # _"])
  qed (use "3.prems" r in auto)
qed auto

lemma process_ldk_events_refines:
  "run_state (process_ldk_events st acks q) w = (q', w') \<Longrightarrow>
     (book_step a any_env)\<^sup>*\<^sup>* (book_of w) (book_of w')"
proof (induction st acks q arbitrary: w rule: process_ldk_events.induct)
  case (3 st ack acks e q)
  obtain r w1 where r: "run_state (process_ldk_event st e) w = (r, w1)" by fastforce
  have step: "(book_step a any_env)\<^sup>*\<^sup>* (book_of w) (book_of w1)"
    using event_h.run_refines [OF r, of a] by auto
  show ?case
  proof (cases r)
    case (Ok v)
    from "3.IH"(1) [of w1] "3.prems" r Ok step show ?thesis by (auto intro: rtranclp_trans)
  next
    case (Err m)
    from "3.IH"(2) [of w1] "3.prems" r Err step show ?thesis by (auto intro: rtranclp_trans)
  qed (use "3.prems" r step in auto)
qed auto

end
