(* ===== verification/Client_Api.thy ===== *)
theory Client_Api
  imports Node_Events
begin

text \<open>
  The client interface, \<open>puncture-daemon/src/client/mod.rs\<close>: the dispatch of a request to its
  handler behind the check that the user is registered, the event stream of a connection, the
  loop that drives a connection, and the limit on simultaneous connections of one node id. The
  JSON library is third-party code: its decoders are the fields of the record \<open>decoders\<close>, over
  any type \<open>'j\<close> of JSON values.
\<close>

section \<open>Requests and responses\<close>

record 'j decoders =
  from_slice :: "u8 list \<Rightarrow> (string, string \<times> 'j) outcome"
  register_from_value :: "'j \<Rightarrow> (string, register_request) outcome"
  bolt11_receive_from_value :: "'j \<Rightarrow> (string, bolt11_receive_request) outcome"
  unit_from_value :: "'j \<Rightarrow> (string, unit) outcome"
  bolt11_send_from_value :: "'j \<Rightarrow> (string, bolt11_send_request) outcome"
  bolt12_send_from_value :: "'j \<Rightarrow> (string, bolt12_send_request) outcome"
  onchain_send_from_value :: "'j \<Rightarrow> (string, onchain_send_request) outcome"
  set_recovery_name_from_value :: "'j \<Rightarrow> (string, set_recovery_name_request) outcome"
  recover_from_value :: "'j \<Rightarrow> (string, recover_request) outcome"

datatype response =
    Register_response register_response
  | Bolt11_receive_response bolt11_invoice
  | Bolt12_receive_response string
  | Unit_response unit
  | Onchain_send_response "u8 list"
  | Recover_response u64

text \<open>The macro \<open>client_method!\<close>; \<open>auth\<close> is its last argument.\<close>

definition client_method ::
  "(app_state \<Rightarrow> string \<Rightarrow> 'r \<Rightarrow> 'a rpc) \<Rightarrow> ('a \<Rightarrow> response) \<Rightarrow> app_state \<Rightarrow> string \<Rightarrow>
   (string, 'r) outcome \<Rightarrow> bool \<Rightarrow> response rpc"
where
  "client_method func to_value state user_id params auth = do {
     registered \<leftarrow> query (user_exists user_id);
     if auth \<and> \<not> registered then err ''Method requires a registered user''
     else attempt (map_err (\<lambda>e. ''Failed to deserialize request: '' @ e) params) (\<lambda>request. do {
       r \<leftarrow> func state user_id request;
       ret (map_ok to_value r)
     })
   }"

text \<open>The dispatch of \<open>handle_request\<close> on the name of the method.\<close>

definition dispatch ::
  "'j decoders \<Rightarrow> app_state \<Rightarrow> string \<Rightarrow> string \<Rightarrow> 'j \<Rightarrow> response rpc"
where
  "dispatch dec state user_id meth params =
     (if meth = ''register''
      then client_method register Register_response state user_id
             (register_from_value dec params) False
      else if meth = ''bolt11_receive''
      then client_method bolt11_receive Bolt11_receive_response state user_id
             (bolt11_receive_from_value dec params) True
      else if meth = ''bolt12_receive''
      then client_method (\<lambda>st u _. bolt12_receive st u) Bolt12_receive_response state user_id
             (unit_from_value dec params) True
      else if meth = ''bolt11_send''
      then client_method bolt11_send Unit_response state user_id
             (bolt11_send_from_value dec params) True
      else if meth = ''bolt12_send''
      then client_method bolt12_send Unit_response state user_id
             (bolt12_send_from_value dec params) True
      else if meth = ''onchain_send''
      then client_method onchain_send Onchain_send_response state user_id
             (onchain_send_from_value dec params) True
      else if meth = ''set_recovery_name''
      then client_method set_recovery_name Unit_response state user_id
             (set_recovery_name_from_value dec params) True
      else if meth = ''recover''
      then client_method recover Recover_response state user_id
             (recover_from_value dec params) True
      else err (''Method '' @ [CHR 0x27] @ meth @ [CHR 0x27] @ '' not found''))"

text \<open>
  \<open>handle_request\<close>: a request of more than 100000 bytes or one that is not JSON ends the
  connection (\<open>Err\<close>); an error of a handler is a response. \<open>io\<close> is the result of writing the
  response.
\<close>

definition handle_request ::
  "'j decoders \<Rightarrow> app_state \<Rightarrow> string \<Rightarrow> u8 list \<Rightarrow> (string, unit) outcome \<Rightarrow>
   (string, response) outcome rpc"
where
  "handle_request dec state user_id bytes io =
     (if 100000 < length bytes then err ''TooLong''
      else attempt (from_slice dec bytes) (\<lambda>(meth, params). do {
        response \<leftarrow> dispatch dec state user_id meth params;
        case response of
          Panic p \<Rightarrow> panic p
        | _ \<Rightarrow> attempt io (\<lambda>_. ok response)
      }))"

section \<open>The event stream\<close>

text \<open>
  \<open>events\<close>: the balance and the last payments at the time of the call, then the subscription.
\<close>

definition events_snapshot :: "string \<Rightarrow> db \<Rightarrow> app_event list" where
  "events_snapshot user_pk d = Balance (user_balance user_pk d) # map Payment (user_payments user_pk d)"

definition events ::
  "string \<Rightarrow> (string, string \<times> app_event) outcome list \<Rightarrow>
   (world, (string, app_event) outcome list) state"
where
  "events user_pk stream = do {
     amount_msat \<leftarrow> query (user_balance user_pk);
     payments \<leftarrow> query (user_payments user_pk);
     ret (Ok (Balance amount_msat) # map (\<lambda>p. Ok (Payment p)) payments
            @ subscribe_to_events user_pk stream)
   }"

lemma run_events_stream:
  "run_state (events u stream) w =
     (map Ok (events_snapshot u (db w)) @ subscribe_to_events u stream, w)"
  by (simp add: events_def events_snapshot_def)

section \<open>Driving a connection\<close>

text \<open>
  What \<open>select!\<close> picks next: a stream of the client with a request, the failure to accept one,
  an event of the stream, the cancellation. The \<open>io\<close> are the results of the writes.
\<close>

datatype conn_input =
    Stream_opened "u8 list" "(string, unit) outcome"
  | Stream_failed
  | Event_ready "(string, app_event) outcome" "(string, unit) outcome"
  | Cancelled

datatype conn_output =
    Response "(string, response) outcome"
  | Pushed app_event

fun drive_connection ::
  "'j decoders \<Rightarrow> app_state \<Rightarrow> string \<Rightarrow> conn_input list \<Rightarrow> conn_output list \<Rightarrow>
   (world, (string, unit) outcome \<times> conn_output list) state"
where
  "drive_connection dec st u [] out = ret (Ok (), out)"
| "drive_connection dec st u (Stream_opened bytes io # inputs) out = do {
     r \<leftarrow> handle_request dec st u bytes io;
     case r of
       Ok response \<Rightarrow> drive_connection dec st u inputs (out @ [Response response])
     | Err e \<Rightarrow> ret (Err e, out)
     | Panic p \<Rightarrow> ret (Panic p, out)
   }"
| "drive_connection dec st u (Stream_failed # inputs) out = ret (Ok (), out)"
| "drive_connection dec st u (Event_ready event io # inputs) out =
     (case event of
        Ok event \<Rightarrow>
          (case io of
             Ok _ \<Rightarrow> drive_connection dec st u inputs (out @ [Pushed event])
           | Err e \<Rightarrow> ret (Err e, out)
           | Panic p \<Rightarrow> ret (Panic p, out))
      | Err e \<Rightarrow> ret (Err e, out)
      | Panic p \<Rightarrow> ret (Panic p, out))"
| "drive_connection dec st u (Cancelled # inputs) out = ret (Ok (), out)"

section \<open>The limit on connections\<close>

text \<open>
  \<open>handle_connection_inner\<close>: \<open>counters\<close> is the \<open>DashMap\<close> of atomic counters, \<open>live\<close> the node
  ids of the connections that are being driven, \<open>leaked\<close> those of the tasks that panicked while
  driving, so that the counter was not decremented. The entry guard is held from the load to
  the increment, so admission is one step.
\<close>

record connections =
  counters :: "string \<Rightarrow> u64 option"
  live :: "string list"
  leaked :: "string list"

definition no_connections :: connections where
  "no_connections = \<lparr>counters = (\<lambda>_. None), live = [], leaked = []\<rparr>"

definition admit :: "string \<Rightarrow> connections \<Rightarrow> (string, unit) outcome \<times> connections" where
  "admit node_id s =
     (let counter = (case counters s node_id of Some c \<Rightarrow> c | None \<Rightarrow> 0)
      in if counter < 10
         then (Ok (), s\<lparr>counters := (counters s)(node_id \<mapsto> counter + 1),
                        live := node_id # live s\<rparr>)
         else (Err ''User has reached maximum of 10 simultaneous connections'',
               s\<lparr>counters := (counters s)(node_id \<mapsto> counter)\<rparr>))"

definition release :: "string \<Rightarrow> connections \<Rightarrow> (string, unit) outcome \<times> connections" where
  "release node_id s =
     (case counters s node_id of
        None \<Rightarrow> (Panic ''Counter not found'', s\<lparr>live := remove1 node_id (live s)\<rparr>)
      | Some c \<Rightarrow> (Ok (), s\<lparr>counters := (counters s)(node_id \<mapsto> c - 1),
                            live := remove1 node_id (live s)\<rparr>))"

definition crash :: "string \<Rightarrow> connections \<Rightarrow> connections" where
  "crash node_id s = s\<lparr>live := remove1 node_id (live s), leaked := node_id # leaked s\<rparr>"

inductive conn_step :: "connections \<Rightarrow> connections \<Rightarrow> bool" where
  accepted: "admit n s = (r, t) \<Longrightarrow> conn_step s t"
| closed: "n \<in> set (live s) \<Longrightarrow> release n s = (r, t) \<Longrightarrow> conn_step s t"
| panicked: "n \<in> set (live s) \<Longrightarrow> conn_step s (crash n s)"

inductive_cases conn_stepE: "conn_step s t"

definition conn_ok :: "connections \<Rightarrow> bool" where
  "conn_ok s \<longleftrightarrow>
     (\<forall>n. int (count_list (live s) n + count_list (leaked s) n) =
            (case counters s n of None \<Rightarrow> 0 | Some c \<Rightarrow> uint c)) \<and>
     (\<forall>n c. counters s n = Some c \<longrightarrow> uint c \<le> 10)"

lemma conn_ok_init: "conn_ok no_connections"
  by (simp add: conn_ok_def no_connections_def)

lemma uint_small_Suc: "(c :: u64) < 10 \<Longrightarrow> uint (c + 1) = uint c + 1 \<and> uint c + 1 \<le> 10"
proof -
  assume "c < 10"
  then have "uint c < 10" by (simp add: word_less_def)
  then show ?thesis by (simp add: uint_word_ariths mod_pos_pos_trivial)
qed

lemma uint_pred: "0 < uint (c :: u64) \<Longrightarrow> uint (c - 1) = uint c - 1"
  using uint_less_64 [of c] by (simp add: uint_word_ariths mod_pos_pos_trivial)

lemma conn_ok_admit: "conn_ok s \<Longrightarrow> admit n s = (r, t) \<Longrightarrow> conn_ok t"
  unfolding conn_ok_def admit_def Let_def
  by (cases "counters s n") (auto simp: uint_small_Suc split: if_splits)

lemma count_remove1: "x \<in> set xs \<Longrightarrow> count_list (remove1 x xs) y = count_list xs y - (if x = y then 1 else 0)"
  by (induction xs) auto

lemma count_pos: "x \<in> set xs \<Longrightarrow> 0 < count_list xs x"
  by (induction xs) auto

lemma live_counter:
  assumes "conn_ok s" and "n \<in> set (live s)"
  obtains c where "counters s n = Some c" "0 < uint c"
proof -
  have "0 < count_list (live s) n + count_list (leaked s) n"
    using count_pos [OF assms(2)] by simp
  then have "0 < (case counters s n of None \<Rightarrow> 0 | Some c \<Rightarrow> uint c)"
    using assms(1) unfolding conn_ok_def by (metis of_nat_0_less_iff)
  then show thesis using that by (auto split: option.splits)
qed

lemma release_Ok:
  assumes "conn_ok s" and "n \<in> set (live s)"
  shows "fst (release n s) = Ok ()"
  using assms by (auto simp: release_def elim!: live_counter)

lemma conn_ok_release:
  assumes ok: "conn_ok s" and n: "n \<in> set (live s)" and r: "release n s = (r, t)"
  shows "conn_ok t"
proof -
  obtain c where c: "counters s n = Some c" "0 < uint c" using live_counter [OF ok n] .
  have eq: "int (count_list (live s) n + count_list (leaked s) n) = uint c" "uint c \<le> 10"
    using ok c(1) unfolding conn_ok_def by (metis option.simps(5))+
  have t: "t = s\<lparr>counters := (counters s)(n \<mapsto> c - 1), live := remove1 n (live s)\<rparr>"
    using r c by (simp add: release_def)
  from eq(2) have le: "uint c \<le> 11" by simp
  show ?thesis
    using ok eq le c count_pos [OF n] uint_pred [OF c(2)] n
    by (auto simp: t conn_ok_def count_remove1)
qed

lemma conn_ok_crash:
  assumes ok: "conn_ok s" and n: "n \<in> set (live s)"
  shows "conn_ok (crash n s)"
proof -
  have "count_list (live (crash n s)) m + count_list (leaked (crash n s)) m
      = count_list (live s) m + count_list (leaked s) m" for m
    using count_pos [OF n] n by (cases "n = m") (simp_all add: crash_def count_remove1)
  with ok show ?thesis by (simp add: conn_ok_def crash_def)
qed

interpretation limit: safety "\<lambda>s. s = no_connections" conn_step conn_ok
  by unfold_locales
    (auto simp: conn_ok_init elim!: conn_stepE intro: conn_ok_admit conn_ok_release conn_ok_crash)

section \<open>The interface refines the book\<close>

definition method_post ::
  "('a \<Rightarrow> response) \<Rightarrow> (string, 'r) outcome \<Rightarrow> bool \<Rightarrow> string \<Rightarrow>
   ('r \<Rightarrow> db \<Rightarrow> 'a \<Rightarrow> action option \<Rightarrow> bool) \<Rightarrow> db \<Rightarrow> response \<Rightarrow> action option \<Rightarrow> bool"
where
  "method_post f params auth u post d v x \<longleftrightarrow> (auth \<longrightarrow> user_exists u d) \<and>
     (\<exists>rq v'. params = Ok rq \<and> v = f v' \<and> post rq d v' x)"

lemma map_ok_cases [simp]:
  "map_ok f r = Ok y \<longleftrightarrow> (\<exists>x. r = Ok x \<and> y = f x)"
  "map_ok f r = Err e \<longleftrightarrow> r = Err e"
  "map_ok f r = Panic p \<longleftrightarrow> r = Panic p"
  by (cases r; auto)+

lemma map_prod_id_iff: "map_prod f id p = (x, w) \<longleftrightarrow> (\<exists>y. p = (y, w) \<and> f y = x)"
  by (cases p) auto

lemma run_client_method:
  "run_state (client_method func f st u params auth) w =
     (if auth \<and> \<not> user_exists u (db w) then (Err ''Method requires a registered user'', w)
      else case params of
          Ok rq \<Rightarrow> map_prod (map_ok f) id (run_state (func st u rq) w)
        | Err e \<Rightarrow> (Err (''Failed to deserialize request: '' @ e), w)
        | Panic p \<Rightarrow> (Panic p, w))"
  by (cases params) (auto simp: client_method_def split: prod.splits)

lemma client_method_handler:
  assumes "\<And>rq. book_handler a (run_state (func st u rq)) (post rq)"
  shows "book_handler a (run_state (client_method func f st u params auth))
    (method_post f params auth u post)"
proof (rule book_handler.intro)
  fix w v w'
  assume run: "run_state (client_method func f st u params auth) w = (Ok v, w')"
  then obtain rq v' where rq: "params = Ok rq" "v = f v'" "auth \<longrightarrow> user_exists u (db w)"
    and "run_state (func st u rq) w = (Ok v', w')"
    by (auto simp: run_client_method map_prod_id_iff split: if_split_asm outcome.splits)
  from book_handler.on_ok [OF assms this(4)] rq
  show "(\<exists>x. method_post f params auth u post (db w) v (Some x) \<and> enabled a (db w) x \<and>
      performs x w w') \<or> method_post f params auth u post (db w) v None \<and> unchanged w w'"
    unfolding method_post_def by blast
next
  fix w e w'
  assume "run_state (client_method func f st u params auth) w = (Err e, w')"
  then show "unchanged w w' \<and> node_log w' = node_log w"
    using book_handler.on_err [OF assms]
    by (fastforce simp: run_client_method map_prod_id_iff split: if_split_asm outcome.splits)
next
  fix w p w'
  assume "run_state (client_method func f st u params auth) w = (Panic p, w')"
  then show "unchanged w w'"
    using book_handler.on_panic [OF assms]
    by (fastforce simp: run_client_method map_prod_id_iff split: if_split_asm outcome.splits)
qed

definition dispatch_post ::
  "'j decoders \<Rightarrow> app_state \<Rightarrow> string \<Rightarrow> string \<Rightarrow> 'j \<Rightarrow> db \<Rightarrow> response \<Rightarrow> action option \<Rightarrow> bool"
where
  "dispatch_post dec st u meth params =
     (if meth = ''register''
      then method_post Register_response (register_from_value dec params) False u (register_post u)
      else if meth = ''bolt11_receive''
      then method_post Bolt11_receive_response (bolt11_receive_from_value dec params) True u
             (bolt11_receive_post st u)
      else if meth = ''bolt12_receive''
      then method_post Bolt12_receive_response (unit_from_value dec params) True u
             (\<lambda>_. bolt12_receive_post st u)
      else if meth = ''bolt11_send''
      then method_post Unit_response (bolt11_send_from_value dec params) True u
             (bolt11_send_post st u)
      else if meth = ''bolt12_send''
      then method_post Unit_response (bolt12_send_from_value dec params) True u
             (bolt12_send_post st u)
      else if meth = ''onchain_send''
      then method_post Onchain_send_response (onchain_send_from_value dec params) True u
             (onchain_send_post st u)
      else if meth = ''set_recovery_name''
      then method_post Unit_response (set_recovery_name_from_value dec params) True u
             (set_recovery_name_post u)
      else if meth = ''recover''
      then method_post Recover_response (recover_from_value dec params) True u (recover_post u)
      else (\<lambda>d v x. False))"

lemma no_method_handler: "book_handler a (run_state (err e)) (\<lambda>d v x. False)"
  by unfold_locales auto

lemma if_handler:
  "book_handler a (run_state m) p \<Longrightarrow> book_handler a (run_state n) q \<Longrightarrow>
     book_handler a (run_state (if b then m else n)) (if b then p else q)"
  by simp

interpretation dispatch_h: book_handler "app_args st" "run_state (dispatch dec st u meth params)"
  "dispatch_post dec st u meth params" for st dec u meth params
proof -
  show "book_handler (app_args st) (run_state (dispatch dec st u meth params))
      (dispatch_post dec st u meth params)"
    unfolding dispatch_def dispatch_post_def
    by (intro if_handler client_method_handler no_method_handler register_h.book_handler_axioms
        bolt11_receive_h.book_handler_axioms bolt12_receive_h.book_handler_axioms
        bolt11_send_h.book_handler_axioms bolt12_send_h.book_handler_axioms
        onchain_send_h.book_handler_axioms set_recovery_name_h.book_handler_axioms
        recover_h.book_handler_axioms)
qed

text \<open>No client request settles a payment, so the node's contract is not involved.\<close>

lemmas handler_posts = register_post_def bolt11_receive_post_def bolt12_receive_post_def
  bolt11_send_post_def bolt12_send_post_def onchain_send_post_def set_recovery_name_post_def
  recover_post_def transfer_post_def debit_post_def

lemma dispatch_post_honest:
  "dispatch_post dec st u meth params d v (Some x) \<Longrightarrow> honest_env d x"
  by (auto simp: dispatch_post_def method_post_def handler_posts
      split: if_split_asm option.splits)

lemma dispatch_steps:
  assumes "run_state (dispatch dec st u meth params) w = (r, w')"
  shows "(book_step (app_args st) honest_env)\<^sup>=\<^sup>= (book_of w) (book_of w')"
  using assms by (rule dispatch_h.run_steps) (rule dispatch_post_honest)

lemma handle_request_runs:
  assumes "run_state (handle_request dec st u bytes io) w = (r, w')"
  obtains (none) "w' = w" | (dispatched) meth params r' where
    "run_state (dispatch dec st u meth params) w = (r', w')"
  using assms
  by (cases "from_slice dec bytes")
    (auto simp: handle_request_def run_if attempt_def split: if_split_asm prod.splits outcome.splits)

lemma handle_request_steps:
  assumes "run_state (handle_request dec st u bytes io) w = (r, w')"
  shows "(book_step (app_args st) honest_env)\<^sup>=\<^sup>= (book_of w) (book_of w')"
  using assms
proof (cases rule: handle_request_runs)
  case none
  then show ?thesis by simp
next
  case (dispatched meth params r')
  then show ?thesis by (rule dispatch_steps)
qed

lemma drive_connection_steps:
  "run_state (drive_connection dec st u inputs out) w = (r, w') \<Longrightarrow>
     (book_step (app_args st) honest_env)\<^sup>*\<^sup>* (book_of w) (book_of w')"
proof (induction dec st u inputs out arbitrary: w rule: drive_connection.induct)
  case (2 dec st u bytes io inputs out)
  obtain q w1 where q: "run_state (handle_request dec st u bytes io) w = (q, w1)" by fastforce
  have step: "(book_step (app_args st) honest_env)\<^sup>*\<^sup>* (book_of w) (book_of w1)"
    using handle_request_steps [OF q] by auto
  show ?case
  proof (cases q)
    case (Ok v)
    with "2.IH" [of v w1] "2.prems" q step show ?thesis by (auto intro: rtranclp_trans)
  qed (use "2.prems" q step in auto)
qed (auto split: outcome.splits)

end
