(* ===== verification/Cli.thy ===== *)
theory Cli
  imports Client_Api
begin

text \<open>
  The operator's command line: the handlers of \<open>puncture-daemon/src/cli/rpc.rs\<close> and the router
  of \<open>cli/mod.rs\<close>, the requests and routes of \<open>puncture-cli-core\<close>, and the commands of
  \<open>puncture-cli\<close> with the route each is sent to.
\<close>

section \<open>Errors\<close>

record cli_error =
  ce_code :: nat
  ce_error :: string

definition bad_request :: "string \<Rightarrow> cli_error" where
  "bad_request e = \<lparr>ce_code = 400, ce_error = e\<rparr>"

definition internal :: "string \<Rightarrow> cli_error" where
  "internal e = \<lparr>ce_code = 500, ce_error = e\<rparr>"

definition ok_or :: "'e \<Rightarrow> 'a option \<Rightarrow> ('e, 'a) outcome" where
  "ok_or e x = (case x of Some y \<Rightarrow> Ok y | None \<Rightarrow> Err e)"

type_synonym 'a cli_rpc = "(world, (cli_error, 'a) outcome) state"

section \<open>Requests and responses of \<open>puncture-cli-core\<close>\<close>

record balances_response =
  bal_total_onchain_balance_sats :: u64
  bal_total_inbound_capacity_msat :: u64
  bal_total_outbound_capacity_msat :: u64

record cli_onchain_send_request =
  cos_address :: string
  cos_amount_sats :: u64
  cos_sats_per_vbyte :: "u64 option"

record cli_onchain_drain_request =
  cod_address :: string
  cod_sats_per_vbyte :: "u64 option"

record open_channel_request =
  oc_node_id :: string
  oc_socket_address :: string
  oc_channel_amount_sats :: u64
  oc_push_to_counterparty_msat :: "u64 option"
  oc_public :: bool

record close_channel_request =
  cc_user_channel_id :: string
  cc_counterparty_node_id :: string
  cc_force :: bool

record channel_info =
  ci_user_channel_id :: string
  ci_counterparty_node_id :: string
  ci_channel_value_sats :: u64
  ci_is_outbound :: bool
  ci_outbound_capacity_msat :: u64
  ci_inbound_capacity_msat :: u64
  ci_is_channel_ready :: bool
  ci_is_usable :: bool
  ci_funding_txo :: "string option"
  ci_confirmations :: "u32 option"
  ci_confirmations_required :: "u32 option"

record request_channel_request =
  rq_lsp_balance_sat :: u64
  rq_client_balance_sat :: u64
  rq_channel_expiry_blocks :: u32
  rq_public :: bool

record connect_peer_request =
  cp_node_id :: string
  cp_socket_address :: string
  cp_persist :: bool

record disconnect_peer_request =
  dp_counterparty_node_id :: string

record peer_info =
  pi_node_id :: string
  pi_address :: string
  pi_is_persisted :: bool
  pi_is_connected :: bool

record invite_request =
  inv_expiry_days :: u32
  inv_user_limit :: u32

record cli_recover_request =
  crv_user_pk :: string
  crv_expiry_days :: u32

section \<open>Node handlers\<close>

definition ldk_node_id :: "app_state \<Rightarrow> string" where
  "ldk_node_id st = nd_node_id (app_node st)"

definition usable_inbound_msat :: "channel_details list \<Rightarrow> u64" where
  "usable_inbound_msat cs = sum_list (map cd_inbound_capacity_msat (filter cd_is_usable cs))"

definition usable_outbound_msat :: "channel_details list \<Rightarrow> u64" where
  "usable_outbound_msat cs = sum_list (map cd_outbound_capacity_msat (filter cd_is_usable cs))"

definition ldk_balances :: "app_state \<Rightarrow> balances_response" where
  "ldk_balances st =
     \<lparr>bal_total_onchain_balance_sats = nd_total_onchain_balance_sats (app_node st),
      bal_total_inbound_capacity_msat = usable_inbound_msat (nd_list_channels (app_node st)),
      bal_total_outbound_capacity_msat = usable_outbound_msat (nd_list_channels (app_node st))\<rparr>"

definition ldk_onchain_receive :: "app_state \<Rightarrow> (cli_error, string) outcome" where
  "ldk_onchain_receive st = map_err internal (nd_new_address (app_node st))"

definition ldk_onchain_send :: "app_state \<Rightarrow> cli_onchain_send_request \<Rightarrow> u8 list cli_rpc" where
  "ldk_onchain_send st request =
     attempt (ok_or (bad_request ''Address is for a different network'')
         (require_network (app_libs st) (bitcoin_network (app_args st)) (cos_address request)))
       (\<lambda>address. do {
         r \<leftarrow> node_call (Pay_onchain address (cos_amount_sats request) (cos_sats_per_vbyte request))
               (nd_send_to_address (app_node st) address (cos_amount_sats request)
                 (cos_sats_per_vbyte request));
         ret (map_err internal r)
       })"

definition ldk_onchain_drain :: "app_state \<Rightarrow> cli_onchain_drain_request \<Rightarrow> u8 list cli_rpc" where
  "ldk_onchain_drain st request =
     (if nd_list_channels (app_node st) \<noteq> []
      then err (bad_request ''You still have channels open'')
      else attempt (ok_or (bad_request ''Address is for a different network'')
         (require_network (app_libs st) (bitcoin_network (app_args st)) (cod_address request)))
       (\<lambda>address. do {
         r \<leftarrow> node_call (Drain address False (cod_sats_per_vbyte request))
               (nd_send_all_to_address (app_node st) address False (cod_sats_per_vbyte request));
         ret (map_err internal r)
       }))"

definition ldk_channel_open :: "app_state \<Rightarrow> open_channel_request \<Rightarrow> string cli_rpc" where
  "ldk_channel_open st request =
     attempt (map_err bad_request (socket_address_from_str (app_libs st) (oc_socket_address request)))
       (\<lambda>address. do {
         r \<leftarrow> node_call (Open_channel (oc_public request) (oc_node_id request) address
                 (oc_channel_amount_sats request) (oc_push_to_counterparty_msat request))
               (nd_open_channel (app_node st) (oc_public request) (oc_node_id request) address
                 (oc_channel_amount_sats request) (oc_push_to_counterparty_msat request));
         attempt (map_err internal r) (\<lambda>channel_id. ok (decimal (unat channel_id)))
       })"

definition ldk_channel_close :: "app_state \<Rightarrow> close_channel_request \<Rightarrow> unit cli_rpc" where
  "ldk_channel_close st request =
     attempt (map_err bad_request (map_ok from_be_bytes
         (from_hex_16 (app_libs st) (cc_user_channel_id request))))
       (\<lambda>channel_id. do {
         r \<leftarrow> node_call (Close_channel (cc_force request) channel_id (cc_counterparty_node_id request))
               (nd_close_channel (app_node st) (cc_force request) channel_id
                 (cc_counterparty_node_id request));
         attempt (map_err internal r) (\<lambda>_. ok ())
       })"

definition channel_info_of :: "(u8 list \<Rightarrow> string) \<Rightarrow> channel_details \<Rightarrow> channel_info" where
  "channel_info_of hx c =
     \<lparr>ci_user_channel_id = hx (to_be_bytes (cd_user_channel_id c)),
      ci_counterparty_node_id = cd_counterparty_node_id c,
      ci_channel_value_sats = cd_channel_value_sats c,
      ci_is_outbound = cd_is_outbound c,
      ci_outbound_capacity_msat = cd_outbound_capacity_msat c,
      ci_inbound_capacity_msat = cd_inbound_capacity_msat c,
      ci_is_channel_ready = cd_is_channel_ready c, ci_is_usable = cd_is_usable c,
      ci_funding_txo = cd_funding_txo c, ci_confirmations = cd_confirmations c,
      ci_confirmations_required = cd_confirmations_required c\<rparr>"

definition ldk_channel_list :: "app_state \<Rightarrow> channel_info list" where
  "ldk_channel_list st =
     map (channel_info_of (as_hex (app_libs st))) (nd_list_channels (app_node st))"

text \<open>\<open>Value::get\<close> and \<open>Value::as_str\<close>; the order of the fields is that of the source.\<close>

fun json_get :: "string \<Rightarrow> json \<Rightarrow> json option" where
  "json_get k (Json_object kvs) = map_of kvs k"
| "json_get k _ = None"

fun json_as_str :: "json \<Rightarrow> string option" where
  "json_as_str (Json_string s) = Some s"
| "json_as_str _ = None"

definition lsp_invoice :: "json \<Rightarrow> string option" where
  "lsp_invoice v =
     Option.bind (Option.bind (Option.bind (Option.bind (Some v) (json_get ''payment''))
       (json_get ''bolt11'')) (json_get ''invoice'')) json_as_str"

definition lsp_payload :: "app_state \<Rightarrow> u64 \<Rightarrow> string \<Rightarrow> u32 \<Rightarrow> bool \<Rightarrow> json" where
  "lsp_payload st lsp_balance_sat client_balance_sat expiry_blocks public =
     Json_object
      [(''lsp_balance_sat'', Json_string (decimal (unat lsp_balance_sat))),
       (''client_balance_sat'', Json_string client_balance_sat),
       (''required_channel_confirmations'', Json_number 0),
       (''funding_confirms_within_blocks'', Json_number 6),
       (''channel_expiry_blocks'', Json_number (uint expiry_blocks)),
       (''token'', Json_string []),
       (''refund_on_chain_address'', Json_null),
       (''announce_channel'', Json_bool public),
       (''public_key'', Json_string (nd_node_id (app_node st)))]"

definition megalith_node_id :: string where
  "megalith_node_id = ''038a9e56512ec98da2b5789761f7af8f280baf98a09282360cd6ff1381b5e889bf''"

definition megalith_address :: string where
  "megalith_address = ''64.23.162.51:9735''"

definition ldk_channel_request :: "app_state \<Rightarrow> request_channel_request \<Rightarrow> string cli_rpc" where
  "ldk_channel_request st request = do {
     c \<leftarrow> node_call (Connect megalith_node_id megalith_address True)
           (nd_connect (app_node st) megalith_node_id megalith_address True);
     attempt (map_err (\<lambda>_. internal ''Failed to connect to Megalith LSP node'') c) (\<lambda>_.
       attempt (map_err (\<lambda>e. internal (''Failed to call Megalith API: '' @ e))
           (app_lsp st (lsp_payload st (rq_lsp_balance_sat request)
             (decimal (unat (rq_client_balance_sat request)))
             (rq_channel_expiry_blocks request) (rq_public request)))) (\<lambda>response.
         if \<not> lsp_is_success response
         then err (bad_request (''Megalith API error: '' @
                (case lsp_text response of Ok t \<Rightarrow> t | _ \<Rightarrow> ''Unknown error'')))
         else attempt (map_err (\<lambda>e. internal (''Failed to parse Megalith response: '' @ e))
                (lsp_json response)) (\<lambda>api_response.
           attempt (ok_or (internal ''Missing invoice in Megalith response'')
             (lsp_invoice api_response)) ok)))
   }"

definition ldk_peer_connect :: "app_state \<Rightarrow> connect_peer_request \<Rightarrow> unit cli_rpc" where
  "ldk_peer_connect st request =
     attempt (map_err bad_request (socket_address_from_str (app_libs st) (cp_socket_address request)))
       (\<lambda>address. do {
         r \<leftarrow> node_call (Connect (cp_node_id request) address (cp_persist request))
               (nd_connect (app_node st) (cp_node_id request) address (cp_persist request));
         attempt (map_err internal r) (\<lambda>_. ok ())
       })"

definition ldk_peer_disconnect :: "app_state \<Rightarrow> disconnect_peer_request \<Rightarrow> unit cli_rpc" where
  "ldk_peer_disconnect st request = do {
     r \<leftarrow> node_call (Disconnect (dp_counterparty_node_id request))
           (nd_disconnect (app_node st) (dp_counterparty_node_id request));
     attempt (map_err internal r) (\<lambda>_. ok ())
   }"

definition ldk_peer_list :: "app_state \<Rightarrow> peer_info list" where
  "ldk_peer_list st =
     map (\<lambda>p. \<lparr>pi_node_id = pd_node_id p, pi_address = pd_address p,
        pi_is_persisted = pd_is_persisted p, pi_is_connected = pd_is_connected p\<rparr>)
      (nd_list_peers (app_node st))"

section \<open>User handlers\<close>

text \<open>The number of seconds is a \<open>u32\<close>: it wraps for \<open>49711\<close> days and more.\<close>

definition user_invite :: "app_state \<Rightarrow> invite_request \<Rightarrow> string cli_rpc" where
  "user_invite st request = do {
     invite_id \<leftarrow> random_bytes 16;
     r \<leftarrow> create_invite (as_hex (app_libs st)) invite_id (inv_user_limit request)
           (inv_expiry_days request * 60 * 60 * 24);
     attempt r (\<lambda>_. attempt (encode (codec.truncate (app_libs st))
       (puncture_invite invite_id (app_node_id st))) ok)
   }"

definition user_recover :: "app_state \<Rightarrow> cli_recover_request \<Rightarrow> string cli_rpc" where
  "user_recover st request = do {
     known \<leftarrow> query (cli_user_exists (crv_user_pk request));
     if \<not> known then err (bad_request ''User does not exist'')
     else do {
       recovery_id \<leftarrow> random_bytes 16;
       r \<leftarrow> create_recovery (as_hex (app_libs st)) recovery_id (crv_user_pk request) (60 * 60 * 24);
       attempt r (\<lambda>_. attempt (encode (codec.truncate (app_libs st))
         (puncture_recovery recovery_id)) ok)
     }
   }"

definition user_list :: "app_state \<Rightarrow> (world, user_info list) state" where
  "user_list st = query list_users"

section \<open>Routes and commands\<close>

text \<open>The commands of \<open>puncture-cli/src/main.rs\<close>.\<close>

datatype admin_onchain_command =
    Onchain_receive
  | Onchain_send cli_onchain_send_request
  | Onchain_drain cli_onchain_drain_request

datatype admin_channel_command =
    Channel_open open_channel_request
  | Channel_close close_channel_request
  | Channel_list
  | Channel_request request_channel_request

datatype admin_peer_command =
    Peer_connect connect_peer_request
  | Peer_disconnect disconnect_peer_request
  | Peer_list

datatype admin_ldk_command =
    Node_id
  | Balances
  | Onchain_command admin_onchain_command
  | Channel_command admin_channel_command
  | Peer_command admin_peer_command

datatype admin_user_command =
    User_invite invite_request
  | User_recover cli_recover_request
  | User_list

datatype admin_command = Ldk admin_ldk_command | User admin_user_command

text \<open>The body of a request, before it is serialised.\<close>

datatype cli_body =
    Unit_body
  | Onchain_send_body cli_onchain_send_request
  | Onchain_drain_body cli_onchain_drain_request
  | Open_channel_body open_channel_request
  | Close_channel_body close_channel_request
  | Request_channel_body request_channel_request
  | Connect_peer_body connect_peer_request
  | Disconnect_peer_body disconnect_peer_request
  | Invite_body invite_request
  | Recover_body cli_recover_request

text \<open>The constants of \<open>puncture-cli-core\<close>.\<close>

definition ROUTE_LDK_NODE_ID :: string where "ROUTE_LDK_NODE_ID = ''/ldk/node-id''"
definition ROUTE_LDK_BALANCES :: string where "ROUTE_LDK_BALANCES = ''/ldk/balances''"
definition ROUTE_LDK_ONCHAIN_RECEIVE :: string where
  "ROUTE_LDK_ONCHAIN_RECEIVE = ''/ldk/onchain/receive''"
definition ROUTE_LDK_ONCHAIN_SEND :: string where
  "ROUTE_LDK_ONCHAIN_SEND = ''/ldk/onchain/send''"
definition ROUTE_LDK_ONCHAIN_DRAIN :: string where
  "ROUTE_LDK_ONCHAIN_DRAIN = ''/ldk/onchain/drain''"
definition ROUTE_LDK_CHANNEL_OPEN :: string where
  "ROUTE_LDK_CHANNEL_OPEN = ''/ldk/channel/open''"
definition ROUTE_LDK_CHANNEL_CLOSE :: string where
  "ROUTE_LDK_CHANNEL_CLOSE = ''/ldk/channel/close''"
definition ROUTE_LDK_CHANNEL_LIST :: string where
  "ROUTE_LDK_CHANNEL_LIST = ''/ldk/channel/list''"
definition ROUTE_LDK_CHANNEL_REQUEST :: string where
  "ROUTE_LDK_CHANNEL_REQUEST = ''/ldk/channel/request''"
definition ROUTE_LDK_PEER_CONNECT :: string where
  "ROUTE_LDK_PEER_CONNECT = ''/ldk/peer/connect''"
definition ROUTE_LDK_PEER_DISCONNECT :: string where
  "ROUTE_LDK_PEER_DISCONNECT = ''/ldk/peer/disconnect''"
definition ROUTE_LDK_PEER_LIST :: string where "ROUTE_LDK_PEER_LIST = ''/ldk/peer/list''"
definition ROUTE_USER_INVITE :: string where "ROUTE_USER_INVITE = ''/user/invite''"
definition ROUTE_USER_RECOVER :: string where "ROUTE_USER_RECOVER = ''/user/recover''"
definition ROUTE_USER_LIST :: string where "ROUTE_USER_LIST = ''/user/list''"

lemmas route_defs = ROUTE_LDK_NODE_ID_def ROUTE_LDK_BALANCES_def ROUTE_LDK_ONCHAIN_RECEIVE_def
  ROUTE_LDK_ONCHAIN_SEND_def ROUTE_LDK_ONCHAIN_DRAIN_def ROUTE_LDK_CHANNEL_OPEN_def
  ROUTE_LDK_CHANNEL_CLOSE_def ROUTE_LDK_CHANNEL_LIST_def ROUTE_LDK_CHANNEL_REQUEST_def
  ROUTE_LDK_PEER_CONNECT_def ROUTE_LDK_PEER_DISCONNECT_def ROUTE_LDK_PEER_LIST_def
  ROUTE_USER_INVITE_def ROUTE_USER_RECOVER_def ROUTE_USER_LIST_def

text \<open>\<open>main\<close> of the command line tool: the route and the body of each command.\<close>

fun cli_request :: "admin_command \<Rightarrow> string \<times> cli_body" where
  "cli_request (Ldk Node_id) = (ROUTE_LDK_NODE_ID, Unit_body)"
| "cli_request (Ldk Balances) = (ROUTE_LDK_BALANCES, Unit_body)"
| "cli_request (Ldk (Onchain_command Onchain_receive)) = (ROUTE_LDK_ONCHAIN_RECEIVE, Unit_body)"
| "cli_request (Ldk (Onchain_command (Onchain_send req))) =
     (ROUTE_LDK_ONCHAIN_SEND, Onchain_send_body req)"
| "cli_request (Ldk (Onchain_command (Onchain_drain req))) =
     (ROUTE_LDK_ONCHAIN_DRAIN, Onchain_drain_body req)"
| "cli_request (Ldk (Channel_command (Channel_open req))) =
     (ROUTE_LDK_CHANNEL_OPEN, Open_channel_body req)"
| "cli_request (Ldk (Channel_command (Channel_close req))) =
     (ROUTE_LDK_CHANNEL_CLOSE, Close_channel_body req)"
| "cli_request (Ldk (Channel_command Channel_list)) = (ROUTE_LDK_CHANNEL_LIST, Unit_body)"
| "cli_request (Ldk (Channel_command (Channel_request req))) =
     (ROUTE_LDK_CHANNEL_REQUEST, Request_channel_body req)"
| "cli_request (Ldk (Peer_command (Peer_connect req))) =
     (ROUTE_LDK_PEER_CONNECT, Connect_peer_body req)"
| "cli_request (Ldk (Peer_command (Peer_disconnect req))) =
     (ROUTE_LDK_PEER_DISCONNECT, Disconnect_peer_body req)"
| "cli_request (Ldk (Peer_command Peer_list)) = (ROUTE_LDK_PEER_LIST, Unit_body)"
| "cli_request (User (User_invite req)) = (ROUTE_USER_INVITE, Invite_body req)"
| "cli_request (User (User_recover req)) = (ROUTE_USER_RECOVER, Recover_body req)"
| "cli_request (User User_list) = (ROUTE_USER_LIST, Unit_body)"

datatype cli_response =
    Node_id_response string
  | Balances_response balances_response
  | Address_response string
  | Txid_response "u8 list"
  | Open_channel_response string
  | Unit_cli_response unit
  | Channels_response "channel_info list"
  | Invoice_response string
  | Peers_response "peer_info list"
  | Invite_response string
  | Recovery_response string
  | Users_response "user_info list"

text \<open>
  A handler as the router calls it. The extractor \<open>Json<T>\<close> of axum accepts the body of the
  type the handler takes; the three handlers without a body ignore it, the two lists take any
  JSON value. \<open>None\<close> is the rejection of the extractor.
\<close>

definition reply :: "('a \<Rightarrow> cli_response) \<Rightarrow> 'a cli_rpc \<Rightarrow> cli_response cli_rpc option" where
  "reply f m = Some (do { r \<leftarrow> m; ret (map_ok f r) })"

definition router :: "app_state \<Rightarrow> string \<Rightarrow> cli_body \<Rightarrow> cli_response cli_rpc option" where
  "router st route body =
     (if route = ROUTE_LDK_NODE_ID then reply Node_id_response (ok (ldk_node_id st))
      else if route = ROUTE_LDK_BALANCES then reply Balances_response (ok (ldk_balances st))
      else if route = ROUTE_LDK_ONCHAIN_RECEIVE
      then reply Address_response (ret (ldk_onchain_receive st))
      else if route = ROUTE_LDK_ONCHAIN_SEND then (case body of
          Onchain_send_body req \<Rightarrow> reply Txid_response (ldk_onchain_send st req) | _ \<Rightarrow> None)
      else if route = ROUTE_LDK_ONCHAIN_DRAIN then (case body of
          Onchain_drain_body req \<Rightarrow> reply Txid_response (ldk_onchain_drain st req) | _ \<Rightarrow> None)
      else if route = ROUTE_LDK_CHANNEL_OPEN then (case body of
          Open_channel_body req \<Rightarrow> reply Open_channel_response (ldk_channel_open st req) | _ \<Rightarrow> None)
      else if route = ROUTE_LDK_CHANNEL_CLOSE then (case body of
          Close_channel_body req \<Rightarrow> reply Unit_cli_response (ldk_channel_close st req) | _ \<Rightarrow> None)
      else if route = ROUTE_LDK_CHANNEL_LIST
      then reply Channels_response (ok (ldk_channel_list st))
      else if route = ROUTE_LDK_CHANNEL_REQUEST then (case body of
          Request_channel_body req \<Rightarrow> reply Invoice_response (ldk_channel_request st req) | _ \<Rightarrow> None)
      else if route = ROUTE_LDK_PEER_CONNECT then (case body of
          Connect_peer_body req \<Rightarrow> reply Unit_cli_response (ldk_peer_connect st req) | _ \<Rightarrow> None)
      else if route = ROUTE_LDK_PEER_DISCONNECT then (case body of
          Disconnect_peer_body req \<Rightarrow> reply Unit_cli_response (ldk_peer_disconnect st req)
        | _ \<Rightarrow> None)
      else if route = ROUTE_LDK_PEER_LIST then reply Peers_response (ok (ldk_peer_list st))
      else if route = ROUTE_USER_INVITE then (case body of
          Invite_body req \<Rightarrow> reply Invite_response (user_invite st req) | _ \<Rightarrow> None)
      else if route = ROUTE_USER_RECOVER then (case body of
          Recover_body req \<Rightarrow> reply Recovery_response (user_recover st req) | _ \<Rightarrow> None)
      else if route = ROUTE_USER_LIST
      then reply Users_response (do { us \<leftarrow> user_list st; ok us })
      else None)"

text \<open>What each command is meant to run, and that the two tables of routes agree on it.\<close>

fun command_handler :: "app_state \<Rightarrow> admin_command \<Rightarrow> cli_response cli_rpc option" where
  "command_handler st (Ldk Node_id) = reply Node_id_response (ok (ldk_node_id st))"
| "command_handler st (Ldk Balances) = reply Balances_response (ok (ldk_balances st))"
| "command_handler st (Ldk (Onchain_command Onchain_receive)) =
     reply Address_response (ret (ldk_onchain_receive st))"
| "command_handler st (Ldk (Onchain_command (Onchain_send req))) =
     reply Txid_response (ldk_onchain_send st req)"
| "command_handler st (Ldk (Onchain_command (Onchain_drain req))) =
     reply Txid_response (ldk_onchain_drain st req)"
| "command_handler st (Ldk (Channel_command (Channel_open req))) =
     reply Open_channel_response (ldk_channel_open st req)"
| "command_handler st (Ldk (Channel_command (Channel_close req))) =
     reply Unit_cli_response (ldk_channel_close st req)"
| "command_handler st (Ldk (Channel_command Channel_list)) =
     reply Channels_response (ok (ldk_channel_list st))"
| "command_handler st (Ldk (Channel_command (Channel_request req))) =
     reply Invoice_response (ldk_channel_request st req)"
| "command_handler st (Ldk (Peer_command (Peer_connect req))) =
     reply Unit_cli_response (ldk_peer_connect st req)"
| "command_handler st (Ldk (Peer_command (Peer_disconnect req))) =
     reply Unit_cli_response (ldk_peer_disconnect st req)"
| "command_handler st (Ldk (Peer_command Peer_list)) =
     reply Peers_response (ok (ldk_peer_list st))"
| "command_handler st (User (User_invite req)) = reply Invite_response (user_invite st req)"
| "command_handler st (User (User_recover req)) = reply Recovery_response (user_recover st req)"
| "command_handler st (User User_list) =
     reply Users_response (do { us \<leftarrow> user_list st; ok us })"

text \<open>What \<open>puncture-cli\<close> prints: the response, or the error with the status of the daemon.\<close>

fun cli_output :: "(cli_error, cli_response) outcome \<Rightarrow> (string, cli_response) outcome" where
  "cli_output (Ok r) = Ok r"
| "cli_output (Err e) =
     Err (''API error ('' @ decimal (ce_code e) @ ''): '' @ ce_error e)"
| "cli_output (Panic p) = Err ''Failed to connect to daemon''"

section \<open>What the handlers do to the book\<close>

definition invite_row ::
  "(u8 list \<Rightarrow> string) \<Rightarrow> world \<Rightarrow> u8 list \<Rightarrow> u32 \<Rightarrow> u32 \<Rightarrow> invite_record"
where
  "invite_row hx w i limit secs =
     \<lparr>ivt_id = hx i, ivt_user_limit = u32_to_i64 limit,
      ivt_expires_at = clock w (ticks w) + u32_to_i64 secs * 1000,
      ivt_created_at = clock w (Suc (ticks w))\<rparr>"

definition recovery_row ::
  "(u8 list \<Rightarrow> string) \<Rightarrow> world \<Rightarrow> u8 list \<Rightarrow> string \<Rightarrow> u32 \<Rightarrow> recovery_record"
where
  "recovery_row hx w i u secs =
     \<lparr>rec_id = hx i, rec_user_pk = u,
      rec_expires_at = clock w (ticks w) + u32_to_i64 secs * 1000,
      rec_created_at = clock w (Suc (ticks w))\<rparr>"

definition drawn :: "world \<Rightarrow> u8 list" where
  "drawn w = map (rng w (draws w)) [0..<16]"

lemma length_drawn [simp]: "length (drawn w) = 16"
  by (simp add: drawn_def)

lemma run_create_invite [run_simps]:
  "run_state (create_invite hx i limit secs) w =
     (let r = invite_row hx w i limit secs; w1 = w\<lparr>ticks := Suc (Suc (ticks w))\<rparr>
      in if hx i \<in> ivt_id ` set (invites (db w)) then (Panic ''Failed to create invite'', w1)
         else (Ok (), w1\<lparr>db := (db w)\<lparr>invites := invites (db w) @ [r]\<rparr>\<rparr>))"
  by (auto simp: create_invite_def run_simps Let_def insert_invite_def append_row_def list_ex_key
      invite_row_def)

lemma run_create_recovery [run_simps]:
  "run_state (create_recovery hx i u secs) w =
     (let r = recovery_row hx w i u secs; w1 = w\<lparr>ticks := Suc (Suc (ticks w))\<rparr>
      in if hx i \<in> rec_id ` set (recoveries (db w)) then (Panic ''Failed to create recovery'', w1)
         else (Ok (), w1\<lparr>db := (db w)\<lparr>recoveries := recoveries (db w) @ [r]\<rparr>\<rparr>))"
  by (auto simp: create_recovery_def run_simps Let_def insert_recovery_def append_row_def
      list_ex_key recovery_row_def)

lemma invite_row_clock [simp]:
  "ivt_id (invite_row hx w i limit secs) = hx i"
  "ivt_user_limit (invite_row hx w i limit secs) = u32_to_i64 limit"
  by (simp_all add: invite_row_def)

lemma recovery_row_fields [simp]:
  "rec_id (recovery_row hx w i u secs) = hx i"
  "rec_user_pk (recovery_row hx w i u secs) = u"
  by (simp_all add: recovery_row_def)

text \<open>A fresh invite or recovery code, as both the command line and the web interface issue it.\<close>

definition issue_invite :: "app_state \<Rightarrow> u32 \<Rightarrow> u32 \<Rightarrow> (world, ('e, string) outcome) state" where
  "issue_invite st limit secs = do {
     invite_id \<leftarrow> random_bytes 16;
     r \<leftarrow> create_invite (as_hex (app_libs st)) invite_id limit secs;
     attempt r (\<lambda>_. attempt (encode (codec.truncate (app_libs st))
       (puncture_invite invite_id (app_node_id st))) ok)
   }"

definition issue_recovery :: "app_state \<Rightarrow> string \<Rightarrow> u32 \<Rightarrow> (world, ('e, string) outcome) state" where
  "issue_recovery st u secs = do {
     recovery_id \<leftarrow> random_bytes 16;
     r \<leftarrow> create_recovery (as_hex (app_libs st)) recovery_id u secs;
     attempt r (\<lambda>_. attempt (encode (codec.truncate (app_libs st))
       (puncture_recovery recovery_id)) ok)
   }"

definition invite_post :: "app_state \<Rightarrow> u32 \<Rightarrow> db \<Rightarrow> string \<Rightarrow> action option \<Rightarrow> bool" where
  "invite_post st limit d v x \<longleftrightarrow>
     (\<exists>r i. x = Some (Add_invite r) \<and> ivt_id r = as_hex (app_libs st) i \<and>
        ivt_user_limit r = u32_to_i64 limit \<and> length i = 16 \<and>
        v = code_text (codec.truncate (app_libs st)) (puncture_invite i (app_node_id st)))"

definition recovery_post :: "app_state \<Rightarrow> string \<Rightarrow> db \<Rightarrow> string \<Rightarrow> action option \<Rightarrow> bool" where
  "recovery_post st u d v x \<longleftrightarrow>
     (\<exists>r i. x = Some (Add_recovery r) \<and> rec_id r = as_hex (app_libs st) i \<and>
        rec_user_pk r = u \<and> length i = 16 \<and>
        v = code_text (codec.truncate (app_libs st)) (puncture_recovery i))"

lemma uint_u32_limit: "0 \<le> sint (u32_to_i64 l) \<and> sint (u32_to_i64 l) < 2 ^ 32"
  using uint_u32_less [of l] by simp

lemma run_issue_invite:
  assumes "codec_laws (codec.truncate (app_libs st))"
  shows "run_state (issue_invite st limit secs) w =
     (let r = invite_row (as_hex (app_libs st)) w (drawn w) limit secs;
          w1 = w\<lparr>draws := Suc (draws w), ticks := Suc (Suc (ticks w))\<rparr>
      in if ivt_id r \<in> ivt_id ` set (invites (db w)) then (Panic ''Failed to create invite'', w1)
         else (Ok (code_text (codec.truncate (app_libs st))
                 (puncture_invite (drawn w) (app_node_id st))),
               w1\<lparr>db := (db w)\<lparr>invites := invites (db w) @ [r]\<rparr>\<rparr>))"
  by (auto simp: encode_text(1) [OF assms] issue_invite_def run_simps Let_def drawn_def invite_row_def)

lemma run_issue_recovery:
  assumes "codec_laws (codec.truncate (app_libs st))"
  shows "run_state (issue_recovery st u secs) w =
     (let r = recovery_row (as_hex (app_libs st)) w (drawn w) u secs;
          w1 = w\<lparr>draws := Suc (draws w), ticks := Suc (Suc (ticks w))\<rparr>
      in if rec_id r \<in> rec_id ` set (recoveries (db w)) then (Panic ''Failed to create recovery'', w1)
         else (Ok (code_text (codec.truncate (app_libs st)) (puncture_recovery (drawn w))),
               w1\<lparr>db := (db w)\<lparr>recoveries := recoveries (db w) @ [r]\<rparr>\<rparr>))"
  by (auto simp: encode_text(1) [OF assms] issue_recovery_def run_simps Let_def drawn_def recovery_row_def)

lemma issue_invite_handler:
  assumes "codec_laws (codec.truncate (app_libs st))"
  shows "book_handler a (run_state (issue_invite st limit secs)) (invite_post st limit)"
proof (rule book_handler.intro)
  fix w v w'
  assume "run_state (issue_invite st limit secs) w = (Ok v, w')"
  with uint_u32_limit [of limit]
  show "(\<exists>x. invite_post st limit (db w) v (Some x) \<and> enabled a (db w) x \<and> performs x w w') \<or>
      invite_post st limit (db w) v None \<and> unchanged w w'"
    by (intro disjI1 exI [of _ "Add_invite (invite_row (as_hex (app_libs st)) w (drawn w) limit secs)"])
      (auto simp: run_issue_invite [OF assms] Let_def invite_post_def performs_def
        intro!: exI [of _ "drawn w"] split: if_split_asm)
qed (auto simp: run_issue_invite [OF assms] Let_def split: if_split_asm)

lemma issue_recovery_handler:
  assumes "codec_laws (codec.truncate (app_libs st))"
  shows "book_handler a (run_state (do {
      known \<leftarrow> query (user_exists u);
      if \<not> known then err e else issue_recovery st u secs }))
    (\<lambda>d v x. user_exists u d \<and> recovery_post st u d v x)"
proof (rule book_handler.intro)
  fix w v w'
  assume "run_state (do { known \<leftarrow> query (user_exists u);
      if \<not> known then err e else issue_recovery st u secs }) w = (Ok v, w')"
  then show "(\<exists>x. (user_exists u (db w) \<and> recovery_post st u (db w) v (Some x)) \<and>
        enabled a (db w) x \<and> performs x w w') \<or>
      (user_exists u (db w) \<and> recovery_post st u (db w) v None) \<and> unchanged w w'"
    by (intro disjI1 exI [of _ "Add_recovery (recovery_row (as_hex (app_libs st)) w (drawn w) u secs)"])
      (auto simp: run_if run_issue_recovery [OF assms] Let_def recovery_post_def performs_def
        intro!: exI [of _ "drawn w"] split: if_split_asm)
qed (auto simp: run_if run_issue_recovery [OF assms] Let_def split: if_split_asm)

text \<open>Whatever the codec does, the book changes by one action or not at all.\<close>

lemma performs_steps:
  "performs x w w' \<Longrightarrow> enabled a (db w) x \<Longrightarrow> E (db w) x \<Longrightarrow>
     (book_step a E)\<^sup>=\<^sup>= (book_of w) (book_of w')"
  using book_step.act [of a "db w" x E "event_bus w"] by (simp add: performs_def book_of_def)

lemma unchanged_steps: "unchanged w w' \<Longrightarrow> (book_step a E)\<^sup>=\<^sup>= (book_of w) (book_of w')"
  by (simp add: unchanged_def book_of_def)

lemma issue_invite_steps:
  assumes "run_state (issue_invite st l s) w = (r, w')"
  shows "(book_step a honest_env)\<^sup>=\<^sup>= (book_of w) (book_of w')"
proof (cases "as_hex (app_libs st) (drawn w) \<in> ivt_id ` set (invites (db w))")
  case True
  with assms show ?thesis
    by (intro unchanged_steps) (auto simp: issue_invite_def run_simps Let_def drawn_def)
next
  case False
  with assms uint_u32_limit [of l] show ?thesis
    by (intro performs_steps [where x = "Add_invite (invite_row (as_hex (app_libs st)) w (drawn w) l s)"])
      (auto simp: issue_invite_def run_simps Let_def drawn_def performs_def invite_row_def
        attempt_def split: outcome.splits)
qed

lemma issue_recovery_steps:
  assumes "user_exists u (db w)" and "run_state (issue_recovery st u s) w = (r, w')"
  shows "(book_step a honest_env)\<^sup>=\<^sup>= (book_of w) (book_of w')"
proof (cases "as_hex (app_libs st) (drawn w) \<in> rec_id ` set (recoveries (db w))")
  case True
  with assms show ?thesis
    by (intro unchanged_steps) (auto simp: issue_recovery_def run_simps Let_def drawn_def)
next
  case False
  with assms show ?thesis
    by (intro performs_steps [where x = "Add_recovery (recovery_row (as_hex (app_libs st)) w (drawn w) u s)"])
      (auto simp: issue_recovery_def run_simps Let_def drawn_def performs_def recovery_row_def
        attempt_def split: outcome.splits)
qed

lemma user_invite_issues:
  "user_invite st rq = issue_invite st (inv_user_limit rq) (inv_expiry_days rq * 60 * 60 * 24)"
  by (simp add: user_invite_def issue_invite_def)

lemma user_recover_issues:
  "user_recover st rq = do {
     known \<leftarrow> query (user_exists (crv_user_pk rq));
     if \<not> known then err (bad_request ''User does not exist'')
     else issue_recovery st (crv_user_pk rq) (60 * 60 * 24) }"
  unfolding user_recover_def issue_recovery_def db_copies by (rule refl)

text \<open>The handlers of the node do not touch the book.\<close>

lemma node_call_unchanged: "run_state (node_call c r) w = (v, w') \<Longrightarrow> unchanged w w'"
  by (auto simp: run_node_call split: if_split_asm)

lemma node_handlers_unchanged:
  "run_state (ldk_onchain_send st r1) w = (v1, w') \<Longrightarrow> unchanged w w'"
  "run_state (ldk_onchain_drain st r2) w = (v1, w') \<Longrightarrow> unchanged w w'"
  "run_state (ldk_channel_open st r3) w = (v2, w') \<Longrightarrow> unchanged w w'"
  "run_state (ldk_channel_close st r4) w = (v3, w') \<Longrightarrow> unchanged w w'"
  "run_state (ldk_channel_request st r5) w = (v2, w') \<Longrightarrow> unchanged w w'"
  "run_state (ldk_peer_connect st r6) w = (v3, w') \<Longrightarrow> unchanged w w'"
  "run_state (ldk_peer_disconnect st r7) w = (v3, w') \<Longrightarrow> unchanged w w'"
  by (auto simp: ldk_onchain_send_def ldk_onchain_drain_def ldk_channel_open_def
      ldk_channel_close_def ldk_channel_request_def ldk_peer_connect_def ldk_peer_disconnect_def
      run_if run_node_call elim!: attempt_cases split: if_split_asm)

text \<open>An operation whose every run is a step of the book or none.\<close>

definition steps_book :: "args \<Rightarrow> (world, 'a) state \<Rightarrow> bool" where
  "steps_book a m \<longleftrightarrow> (\<forall>w r w'. run_state m w = (r, w') \<longrightarrow>
     (book_step a honest_env)\<^sup>=\<^sup>= (book_of w) (book_of w'))"

lemma steps_bookD:
  "steps_book a m \<Longrightarrow> run_state m w = (r, w') \<Longrightarrow>
     (book_step a honest_env)\<^sup>=\<^sup>= (book_of w) (book_of w')"
  by (simp add: steps_book_def)

lemma steps_book_ret: "steps_book a (ret v)" "steps_book a (ok x)"
  by (simp_all add: steps_book_def)

lemma steps_book_query: "steps_book a (query f)"
  by (simp add: steps_book_def)

lemma steps_book_map: "steps_book a m \<Longrightarrow> steps_book a (do { r \<leftarrow> m; ret (f r) })"
  by (fastforce simp: steps_book_def split: prod.splits)

lemma steps_book_unchanged:
  "(\<And>w r w'. run_state m w = (r, w') \<Longrightarrow> unchanged w w') \<Longrightarrow> steps_book a m"
  by (auto simp: steps_book_def dest: unchanged_steps)

lemma steps_book_users:
  "steps_book a (user_invite st r8)" "steps_book a (user_recover st r9)"
  by (auto simp: steps_book_def user_invite_issues user_recover_issues run_if
      dest: issue_invite_steps issue_recovery_steps split: if_split_asm)

lemma steps_book_node:
  "steps_book a (ldk_onchain_send st r1)" "steps_book a (ldk_onchain_drain st r2)"
  "steps_book a (ldk_channel_open st r3)" "steps_book a (ldk_channel_close st r4)"
  "steps_book a (ldk_channel_request st r5)" "steps_book a (ldk_peer_connect st r6)"
  "steps_book a (ldk_peer_disconnect st r7)"
  by (rule steps_book_unchanged, erule node_handlers_unchanged)+

lemma router_steps: "router st route body = Some m \<Longrightarrow> steps_book a m"
  by (auto simp: router_def reply_def user_list_def ok_def split: if_split_asm cli_body.splits
      intro: steps_book_map steps_book_users steps_book_node steps_book_ret steps_book_query)

end
