(* ===== verification/Ui_Templates.thy ===== *)
theory Ui_Templates
  imports Cli
begin

text \<open>
  The HTML templates of the operator's web interface, \<open>puncture-daemon/src/ui\<close>: every \<open>html!\<close>
  macro is the tree it stands for, with the attributes in the order of the source. The macro's
  printer (the \<open>maud\<close> library) is third-party code, so a page is the tree. Non-ASCII characters
  are their UTF-8 bytes. The body of a loop is a definition of its own (\<open>user_item\<close>,
  \<open>channel_item\<close>, \<open>peer_item\<close>, \<open>payment_item\<close>); it may panic where the source unwraps, slices
  or divides.
\<close>

section \<open>Markup\<close>

datatype markup =
    Element string "(string \<times> string option) list" "markup list"
  | Void_element string "(string \<times> string option) list"
  | Text string
  | Raw string

type_synonym html = "markup list"

definition bool_text :: "bool \<Rightarrow> string" where
  "bool_text b = (if b then ''true'' else ''false'')"

section \<open>Shared helpers (\<open>ui/shared.rs\<close>)\<close>

text \<open>\<open>rchunks(n)\<close>: chunks of \<open>n\<close> elements from the end, the last one may be shorter.\<close>

function rchunks :: "nat \<Rightarrow> 'a list \<Rightarrow> 'a list list" where
  "rchunks n xs =
     (if xs = [] \<or> n = 0 then []
      else drop (length xs - n) xs # rchunks n (take (length xs - n) xs))"
  by pat_completeness auto
termination
  by (relation "measure (\<lambda>(n, xs). length xs)") (auto simp: min_def simp flip: length_greater_0_conv)

declare rchunks.simps [simp del]

fun join :: "string \<Rightarrow> string list \<Rightarrow> string" where
  "join sep [] = []"
| "join sep [s] = s"
| "join sep (s # ss) = s @ sep @ join sep ss"

definition format_sats :: "u64 \<Rightarrow> string" where
  "format_sats sats = join '','' (rev (rchunks 3 (decimal (unat sats))))"

definition format_timestamp :: "libs \<Rightarrow> i64 \<Rightarrow> (string, string) outcome" where
  "format_timestamp l timestamp_ms = option_unwrap (format_millis l timestamp_ms)"

definition resize_svg :: "string \<Rightarrow> string" where
  "resize_svg svg =
     replace_all ''<svg'' ''<svg style=\"width: 100%; height: auto; display: block;\"''
       (replace_all ''height='' ''data-height='' (replace_all ''width='' ''data-width='' svg))"

definition qr_code_with_copy :: "libs \<Rightarrow> string \<Rightarrow> (string, html) outcome" where
  "qr_code_with_copy l data =
     (case qr_svg l data of
        None \<Rightarrow> Panic ''Failed to generate QR code''
      | Some svg \<Rightarrow> Ok (
        [Element ''div'' [(''class'', Some ''text-center'')]
           [Element ''div'' [(''class'', Some ''mb-3'')]
              [Element ''div'' [(''class'', Some ''border rounded p-2 bg-white d-inline-block''),
                  (''style'', Some ''width: 250px; max-width: 100%;'')]
                 [Element ''div'' [(''style'', Some ''width: 100%; height: auto; overflow: hidden;'')]
                    ([Raw (''<div style=\"width: 100%; height: auto;\">'' @ resize_svg svg
                        @ ''</div>'')])]],
            Element ''button'' [(''type'', Some ''button''),
               (''class'', Some ''btn btn-outline-primary btn-sm''),
               (''onclick'', Some (''navigator.clipboard.writeText('' @ [CHR 0x27] @ data
                   @ [CHR 0x27] @ '').then(() => { this.textContent='' @ [CHR 0x27] @ ''Copied!''
                   @ [CHR 0x27] @ ''; setTimeout(() => this.textContent='' @ [CHR 0x27]
                   @ ''Copy to Clipboard'' @ [CHR 0x27] @ '', 2000); }).catch(() => alert(''
                   @ [CHR 0x27] @ ''Copy failed'' @ [CHR 0x27] @ ''))''))]
              [Text ''Copy to Clipboard'']]]))"

definition copyable_hex_input :: "string \<Rightarrow> string option \<Rightarrow> html" where
  "copyable_hex_input value sz =
    [Element ''div'' [(''class'', Some (''input-group ''
        @ (case sz of Some s \<Rightarrow> s | None \<Rightarrow> ''input-group-sm'')))]
       [Element ''input'' [(''type'', Some ''text''),
           (''class'', Some ''form-control font-monospace''), (''value'', Some value),
           (''readonly'', None), (''style'', Some ''min-width: 0;'')] [],
        Element ''button'' [(''class'', Some ''btn btn-outline-secondary''),
           (''type'', Some ''button''),
           (''onclick'', Some (''navigator.clipboard.writeText(this.previousElementSibling.value); this.textContent=''
               @ [CHR 0x27, CHR 0xE2, CHR 0x9C, CHR 0x93, CHR 0x27]
               @ ''; setTimeout(() => this.textContent=''
               @ [CHR 0x27, CHR 0xF0, CHR 0x9F, CHR 0x93, CHR 0x8B, CHR 0x27] @ '', 1000)''))]
          [Text [CHR 0xF0, CHR 0x9F, CHR 0x93, CHR 0x8B]]]]"

definition base_template :: "string \<Rightarrow> string \<Rightarrow> html \<Rightarrow> html \<Rightarrow> html" where
  "base_template title current_path content action_sidebar =
    [Raw ''<!DOCTYPE html>''] @
    [Element ''html'' []
       [Element ''head'' []
          [Void_element ''meta'' [(''charset'', Some ''utf-8'')],
           Void_element ''meta'' [(''name'', Some ''viewport''),
              (''content'', Some ''width=device-width, initial-scale=1'')],
           Element ''title'' [] [Text title, Text '' - Puncture Dashboard''],
           Void_element ''link'' [(''href'', Some ''https://cdn.jsdelivr.net/npm/bootstrap@5.3.0/dist/css/bootstrap.min.css''),
              (''rel'', Some ''stylesheet'')],
           Element ''style'' []
             [Text ''.action-sidebar { background-color: #f8f9fa !important; min-height: 100vh; }'']],
        Element ''body'' []
          [Element ''div'' [(''id'', Some ''toast-container''),
              (''class'', Some ''position-fixed top-0 end-0 p-3''),
              (''style'', Some ''z-index: 1100;'')] [],
           Element ''nav'' [(''class'', Some ''navbar navbar-expand-lg navbar-dark bg-dark'')]
             [Element ''div'' [(''class'', Some ''container-fluid'')]
                [Element ''ul'' [(''class'', Some ''navbar-nav me-auto'')]
                   [Element ''li'' [(''class'', Some ''nav-item'')]
                      [Element ''a'' [(''class'', Some (''nav-link''
                          @ (if current_path = ''/'' \<or> current_path = ''/lightning'' then '' active'' else []))),
                          (''href'', Some ''/'')]
                         [Text ''Lightning'']],
                    Element ''li'' [(''class'', Some ''nav-item'')]
                      [Element ''a'' [(''class'', Some (''nav-link''
                          @ (if current_path = ''/onchain'' then '' active'' else []))),
                          (''href'', Some ''/onchain'')]
                         [Text ''Onchain'']],
                    Element ''li'' [(''class'', Some ''nav-item'')]
                      [Element ''a'' [(''class'', Some (''nav-link''
                          @ (if current_path = ''/users'' then '' active'' else []))),
                          (''href'', Some ''/users'')]
                         [Text ''Users'']]]]],
           Element ''div'' [(''class'', Some ''container-fluid'')]
             [Element ''div'' [(''class'', Some ''row'')]
                [Element ''main'' [(''class'', Some ''col-lg-9 px-md-4'')]
                   [Element ''div'' [(''class'', Some ''pt-md-4 pb-md-4'')] (content)],
                 Element ''aside'' [(''class'', Some ''col-lg-3 px-md-4 action-sidebar'')]
                   [Element ''div'' [(''class'', Some ''pt-md-4 pb-md-4'')] (action_sidebar)]]]]],
     Element ''script'' [(''src'', Some ''https://cdn.jsdelivr.net/npm/bootstrap@5.3.0/dist/js/bootstrap.bundle.min.js'')] [],
     Element ''script'' [(''src'', Some ''https://unpkg.com/htmx.org@1.9.10'')] []]"

definition success_replacement :: "string \<Rightarrow> string \<Rightarrow> html \<Rightarrow> html" where
  "success_replacement title message content =
    [Element ''h6'' [(''class'', Some ''mb-2'')] [Text title],
     Element ''p'' [(''class'', Some ''mb-3 text-muted'')] [Text message]] @
    content"

definition success_message :: "string \<Rightarrow> html" where
  "success_message message =
    [Element ''div'' [(''class'', Some ''alert alert-success mb-0''),
        (''style'', Some ''word-wrap: break-word; overflow-wrap: break-word;'')]
       [Text message]]"

section \<open>Users (\<open>ui/users.rs\<close>)\<close>

definition invite_form_html :: "html" where
  "invite_form_html =
    [Element ''form'' [(''hx-post'', Some ''/users/invite''), (''hx-target'', Some ''this''),
        (''hx-swap'', Some ''outerHTML'')]
       [Element ''div'' [(''class'', Some ''mb-3'')]
          [Element ''label'' [(''for'', Some ''expiry-days''), (''class'', Some ''form-label'')]
             [Text ''Expiry (days)''],
           Element ''input'' [(''type'', Some ''number''), (''class'', Some ''form-control''),
              (''id'', Some ''expiry-days''), (''name'', Some ''expiry_days''),
              (''value'', Some ''1''), (''min'', Some ''1''), (''max'', Some ''365''),
              (''required'', None)] []],
        Element ''div'' [(''class'', Some ''mb-3'')]
          [Element ''label'' [(''for'', Some ''user-limit''), (''class'', Some ''form-label'')]
             [Text ''User Limit''],
           Element ''input'' [(''type'', Some ''number''), (''class'', Some ''form-control''),
              (''id'', Some ''user-limit''), (''name'', Some ''user_limit''),
              (''value'', Some ''10''), (''min'', Some ''1''), (''max'', Some ''1000''),
              (''required'', None)] []],
        Element ''button'' [(''type'', Some ''submit''),
           (''class'', Some ''btn btn-outline-primary w-100'')]
          [Text ''Generate Invite Code'']]]"

definition recovery_form_for_user :: "string \<Rightarrow> html" where
  "recovery_form_for_user user_pk =
    [Element ''form'' [(''hx-post'', Some ''/users/recover''), (''hx-target'', Some ''this''),
        (''hx-swap'', Some ''outerHTML'')]
       [Element ''input'' [(''type'', Some ''hidden''), (''name'', Some ''user_pk''),
           (''value'', Some user_pk)] [],
        Element ''button'' [(''type'', Some ''submit''),
           (''class'', Some ''btn btn-outline-primary w-100'')]
          [Text ''Generate Recovery Code'']]]"

definition user_item :: "libs \<Rightarrow> nat \<Rightarrow> user_info \<Rightarrow> (string, html) outcome" where
  "user_item l i user =
     and_then (option_unwrap (ui_recovery_name user)) (\<lambda>recovery_name.
       and_then (format_timestamp l (ui_created_at user)) (\<lambda>created. Ok (
        [Element ''div'' [(''class'', Some ''accordion-item'')]
           [Element ''h2'' [(''class'', Some ''accordion-header'')]
              [Element ''button'' [(''class'', Some ''accordion-button collapsed''),
                  (''type'', Some ''button''), (''data-bs-toggle'', Some ''collapse''),
                  (''data-bs-target'', Some (''#user-'' @ decimal i)),
                  (''aria-expanded'', Some ''false''),
                  (''aria-controls'', Some (''user-'' @ decimal i))]
                 [Text recovery_name]],
            Element ''div'' [(''id'', Some (''user-'' @ decimal i)),
               (''class'', Some ''accordion-collapse collapse''),
               (''data-bs-parent'', Some ''#usersAccordion'')]
              [Element ''div'' [(''class'', Some ''accordion-body'')]
                 [Element ''table'' [(''class'', Some ''table table-sm table-borderless mb-3'')]
                    [Element ''tbody'' []
                       [Element ''tr'' []
                          [Element ''td'' [(''class'', Some ''fw-bold''),
                              (''style'', Some ''width: 1px; white-space: nowrap;'')]
                             [Text ''Public Key''],
                           Element ''td'' [(''style'', Some ''width: 100%; min-width: 0;'')]
                             (copyable_hex_input (ui_user_pk user) None)],
                        Element ''tr'' []
                          [Element ''td'' [(''class'', Some ''fw-bold'')] [Text ''Balance''],
                           Element ''td'' [(''class'', Some ''font-monospace'')]
                             [Text (format_sats (ui_balance_msat user div 1000)),
                              Text ('' '' @ [CHR 0xE2, CHR 0x82, CHR 0xBF])]],
                        Element ''tr'' []
                          [Element ''td'' [(''class'', Some ''fw-bold'')] [Text ''Created''],
                           Element ''td'' [(''class'', Some ''text-muted font-monospace'')]
                             [Text created]]]],
                  Element ''div'' [(''class'', Some ''d-flex justify-content-end'')]
                    [Element ''div'' [(''class'', Some ''accordion''),
                        (''id'', Some (''recoveryAccordion-'' @ decimal i)),
                        (''style'', Some ''width: 300px;'')]
                       [Element ''div'' [(''class'', Some ''accordion-item'')]
                          [Element ''h2'' [(''class'', Some ''accordion-header'')]
                             [Element ''button'' [(''class'', Some ''accordion-button collapsed btn-outline-primary''),
                                 (''type'', Some ''button''),
                                 (''data-bs-toggle'', Some ''collapse''),
                                 (''data-bs-target'', Some (''#recoveryCollapse-'' @ decimal i)),
                                 (''aria-expanded'', Some ''false''),
                                 (''aria-controls'', Some (''recoveryCollapse-'' @ decimal i))]
                                [Text ''Recover'']],
                           Element ''div'' [(''id'', Some (''recoveryCollapse-'' @ decimal i)),
                              (''class'', Some ''accordion-collapse collapse''),
                              (''data-bs-parent'', Some (''#recoveryAccordion-'' @ decimal i))]
                             [Element ''div'' [(''class'', Some ''accordion-body'')]
                                (recovery_form_for_user (ui_user_pk user))]]]]]]]])))"

definition users_content :: "bool \<Rightarrow> html \<Rightarrow> html" where
  "users_content no_users items =
    (if no_users
     then [Element ''div'' [(''class'', Some ''p-4 text-center text-muted'')]
             [Text ''No users with recovery names yet.'']]
     else [Element ''div'' [(''class'', Some ''accordion''), (''id'', Some ''usersAccordion'')]
             (items)])"

definition users_sidebar :: "html" where
  "users_sidebar =
    [Element ''div'' [(''class'', Some ''accordion''), (''id'', Some ''usersActionsAccordion'')]
       [Element ''div'' [(''class'', Some ''accordion-item'')]
          [Element ''h2'' [(''class'', Some ''accordion-header'')]
             [Element ''button'' [(''class'', Some ''accordion-button collapsed''),
                 (''type'', Some ''button''), (''data-bs-toggle'', Some ''collapse''),
                 (''data-bs-target'', Some ''#inviteUserCollapse''),
                 (''aria-expanded'', Some ''false''),
                 (''aria-controls'', Some ''inviteUserCollapse'')]
                [Text ''Invite'']],
           Element ''div'' [(''id'', Some ''inviteUserCollapse''),
              (''class'', Some ''accordion-collapse collapse''),
              (''data-bs-parent'', Some ''#usersActionsAccordion'')]
             [Element ''div'' [(''class'', Some ''accordion-body'')] (invite_form_html)]]]]"

definition users_template :: "libs \<Rightarrow> user_info list \<Rightarrow> (string, html) outcome" where
  "users_template l us =
     map_ok (\<lambda>items. base_template ''Users'' ''/users'' (users_content (us = []) (concat items))
         users_sidebar)
       (all_ok (map (\<lambda>(i, user). user_item l i user) (enumerate 0 us)))"

section \<open>Lightning (\<open>ui/lightning.rs\<close>)\<close>

definition open_channel_form_html :: "string option \<Rightarrow> html" where
  "open_channel_form_html error =
    [Element ''form'' [(''hx-post'', Some ''/lightning/channel/open''),
        (''hx-target'', Some ''this''), (''hx-swap'', Some ''outerHTML'')]
       ((case error of Some e \<Rightarrow> [Element ''div'' [(''class'', Some ''alert alert-danger'')] [Text e]]
         | None \<Rightarrow> []) @
        [Element ''div'' [(''class'', Some ''mb-3'')]
           [Element ''label'' [(''for'', Some ''open-node-id''), (''class'', Some ''form-label'')]
              [Text ''Node ID''],
            Element ''input'' [(''type'', Some ''text''),
               (''class'', Some ''form-control font-monospace''), (''id'', Some ''open-node-id''),
               (''name'', Some ''node_id''), (''required'', None),
               (''placeholder'', Some ''03...'')] []],
         Element ''div'' [(''class'', Some ''mb-3'')]
           [Element ''label'' [(''for'', Some ''open-address''), (''class'', Some ''form-label'')]
              [Text ''Address''],
            Element ''input'' [(''type'', Some ''text''), (''class'', Some ''form-control''),
               (''id'', Some ''open-address''), (''name'', Some ''socket_address''),
               (''required'', None), (''placeholder'', Some ''host:port'')] []],
         Element ''div'' [(''class'', Some ''mb-3'')]
           [Element ''label'' [(''for'', Some ''open-amount''), (''class'', Some ''form-label'')]
              [Text ''Amount (sats)''],
            Element ''input'' [(''type'', Some ''number''), (''class'', Some ''form-control''),
               (''id'', Some ''open-amount''), (''name'', Some ''channel_amount_sats''),
               (''required'', None), (''placeholder'', Some ''1000000'')] []],
         Element ''div'' [(''class'', Some ''mb-3'')]
           [Element ''div'' [(''class'', Some ''form-check'')]
              [Element ''input'' [(''class'', Some ''form-check-input''),
                  (''type'', Some ''checkbox''), (''id'', Some ''open-public''),
                  (''name'', Some ''public''), (''value'', Some ''true'')] [],
               Element ''label'' [(''class'', Some ''form-check-label''),
                  (''for'', Some ''open-public'')]
                 [Text ''Public Channel'']]],
         Element ''button'' [(''type'', Some ''submit''),
            (''class'', Some ''btn btn-outline-primary w-100'')]
           [Text ''Open Channel'']])]"

definition request_channel_form_html :: "string option \<Rightarrow> html" where
  "request_channel_form_html error =
    [Element ''form'' [(''hx-post'', Some ''/lightning/channel/request''),
        (''hx-target'', Some ''this''), (''hx-swap'', Some ''outerHTML'')]
       ((case error of Some e \<Rightarrow> [Element ''div'' [(''class'', Some ''alert alert-danger'')] [Text e]]
         | None \<Rightarrow> []) @
        [Element ''div'' [(''class'', Some ''mb-3'')]
           [Element ''label'' [(''for'', Some ''request-amount''),
               (''class'', Some ''form-label'')]
              [Text ''Amount (sats)''],
            Element ''input'' [(''type'', Some ''number''), (''class'', Some ''form-control''),
               (''id'', Some ''request-amount''), (''name'', Some ''lsp_balance_sat''),
               (''required'', None), (''placeholder'', Some ''1000000'')] []],
         Element ''div'' [(''class'', Some ''mb-3'')]
           [Element ''div'' [(''class'', Some ''form-check'')]
              [Element ''input'' [(''class'', Some ''form-check-input''),
                  (''type'', Some ''checkbox''), (''id'', Some ''request-public''),
                  (''name'', Some ''public''), (''value'', Some ''true'')] [],
               Element ''label'' [(''class'', Some ''form-check-label''),
                  (''for'', Some ''request-public'')]
                 [Text ''Public Channel'']]],
         Element ''button'' [(''type'', Some ''submit''),
            (''class'', Some ''btn btn-outline-primary w-100'')]
           [Text ''Request Channel'']])]"

definition connect_peer_form_html :: "string option \<Rightarrow> html" where
  "connect_peer_form_html error =
    [Element ''form'' [(''hx-post'', Some ''/lightning/peer/connect''),
        (''hx-target'', Some ''this''), (''hx-swap'', Some ''outerHTML'')]
       ((case error of Some e \<Rightarrow> [Element ''div'' [(''class'', Some ''alert alert-danger'')] [Text e]]
         | None \<Rightarrow> []) @
        [Element ''div'' [(''class'', Some ''mb-3'')]
           [Element ''label'' [(''for'', Some ''connect-node-id''),
               (''class'', Some ''form-label'')]
              [Text ''Node ID''],
            Element ''input'' [(''type'', Some ''text''),
               (''class'', Some ''form-control font-monospace''),
               (''id'', Some ''connect-node-id''), (''name'', Some ''node_id''),
               (''required'', None), (''placeholder'', Some ''03...'')] []],
         Element ''div'' [(''class'', Some ''mb-3'')]
           [Element ''label'' [(''for'', Some ''connect-address''),
               (''class'', Some ''form-label'')]
              [Text ''Address''],
            Element ''input'' [(''type'', Some ''text''), (''class'', Some ''form-control''),
               (''id'', Some ''connect-address''), (''name'', Some ''socket_address''),
               (''required'', None), (''placeholder'', Some ''host:port'')] []],
         Element ''div'' [(''class'', Some ''mb-3'')]
           [Element ''div'' [(''class'', Some ''form-check'')]
              [Element ''input'' [(''class'', Some ''form-check-input''),
                  (''type'', Some ''checkbox''), (''id'', Some ''persist-connection''),
                  (''name'', Some ''persist''), (''value'', Some ''true'')] [],
               Element ''label'' [(''class'', Some ''form-check-label''),
                  (''for'', Some ''persist-connection'')]
                 [Text ''Persist Connection'']]],
         Element ''button'' [(''type'', Some ''submit''),
            (''class'', Some ''btn btn-outline-primary w-100'')]
           [Text ''Connect Peer'']])]"

definition disconnect_peer_form_html :: "string \<Rightarrow> string option \<Rightarrow> html" where
  "disconnect_peer_form_html counterparty_node_id error =
    [Element ''form'' [(''hx-post'', Some ''/lightning/peer/disconnect''),
        (''hx-target'', Some ''this''), (''hx-swap'', Some ''outerHTML'')]
       ((case error of Some e \<Rightarrow> [Element ''div'' [(''class'', Some ''alert alert-danger'')] [Text e]]
         | None \<Rightarrow> []) @
        [Element ''input'' [(''type'', Some ''hidden''),
            (''name'', Some ''counterparty_node_id''), (''value'', Some counterparty_node_id)] [],
         Element ''button'' [(''type'', Some ''submit''),
            (''class'', Some ''btn btn-outline-danger w-100'')]
           [Text ''Disconnect'']])]"

definition close_channel_form_html :: "string \<Rightarrow> string \<Rightarrow> nat \<Rightarrow> string option \<Rightarrow> html" where
  "close_channel_form_html user_channel_id counterparty_node_id index error =
    [Element ''form'' [(''hx-post'', Some ''/lightning/channel/close''),
        (''hx-target'', Some ''this''), (''hx-swap'', Some ''outerHTML'')]
       ((case error of Some e \<Rightarrow> [Element ''div'' [(''class'', Some ''alert alert-danger'')] [Text e]]
         | None \<Rightarrow> []) @
        [Element ''input'' [(''type'', Some ''hidden''), (''name'', Some ''user_channel_id''),
            (''value'', Some user_channel_id)] [],
         Element ''input'' [(''type'', Some ''hidden''),
            (''name'', Some ''counterparty_node_id''), (''value'', Some counterparty_node_id)] [],
         Element ''div'' [(''class'', Some ''form-check mb-2'')]
           [Element ''input'' [(''class'', Some ''form-check-input''),
               (''type'', Some ''checkbox''), (''name'', Some ''force''),
               (''value'', Some ''true''), (''id'', Some (''forceClose-'' @ decimal index))] [],
            Element ''label'' [(''class'', Some ''form-check-label text-danger small''),
               (''for'', Some (''forceClose-'' @ decimal index))]
              [Text ''Force close (unilateral)'']],
         Element ''button'' [(''type'', Some ''submit''),
            (''class'', Some ''btn btn-outline-danger w-100'')]
           [Text ''Close'']])]"

text \<open>The percentage divides by the sum of the capacities, and a division by zero panics.\<close>

definition local_percentage :: "channel_details \<Rightarrow> (string, u64) outcome" where
  "local_percentage c =
     (let total_capacity = cd_outbound_capacity_msat c + cd_inbound_capacity_msat c
      in if total_capacity = 0 then Panic ''attempt to divide by zero''
         else Ok ((100 * cd_outbound_capacity_msat c) div total_capacity))"

definition channel_item ::
  "(u8 list \<Rightarrow> string) \<Rightarrow> nat \<Rightarrow> channel_details \<Rightarrow> (string, html) outcome"
where
  "channel_item hx i channel =
     and_then (local_percentage channel) (\<lambda>local_percentage. Ok (
       [Element ''div'' [(''class'', Some ''accordion-item'')]
          [Element ''h2'' [(''class'', Some ''accordion-header'')]
             [Element ''button'' [(''class'', Some ''accordion-button collapsed''),
                 (''type'', Some ''button''), (''data-bs-toggle'', Some ''collapse''),
                 (''data-bs-target'', Some (''#channel-'' @ decimal i)),
                 (''aria-expanded'', Some ''false''),
                 (''aria-controls'', Some (''channel-'' @ decimal i))]
                [Element ''div'' [(''class'', Some ''d-flex align-items-center w-100 me-3'')]
                   [Element ''div'' [(''class'', Some ''me-3'')]
                      [Text (format_sats (cd_outbound_capacity_msat channel div 1000)),
                       Text ('' '' @ [CHR 0xE2, CHR 0x82, CHR 0xBF])],
                    Element ''div'' [(''class'', Some ''progress flex-grow-1 me-3''),
                       (''style'', Some ''height: 8px;'')]
                      [Element ''div'' [(''class'', Some ''progress-bar bg-primary''),
                          (''role'', Some ''progressbar''),
                          (''style'', Some (''width: '' @ decimal (unat local_percentage) @ ''%'')),
                          (''aria-valuenow'', Some (decimal (unat local_percentage))),
                          (''aria-valuemin'', Some ''0''), (''aria-valuemax'', Some ''100'')] []],
                    Element ''div'' []
                      [Text (format_sats (cd_inbound_capacity_msat channel div 1000)),
                       Text ('' '' @ [CHR 0xE2, CHR 0x82, CHR 0xBF])]]]],
           Element ''div'' [(''id'', Some (''channel-'' @ decimal i)),
              (''class'', Some ''accordion-collapse collapse''),
              (''data-bs-parent'', Some ''#channelsAccordion'')]
             [Element ''div'' [(''class'', Some ''accordion-body'')]
                [Element ''table'' [(''class'', Some ''table table-sm table-borderless mb-3'')]
                   [Element ''tbody'' []
                      [Element ''tr'' []
                         [Element ''td'' [(''class'', Some ''fw-bold''),
                             (''style'', Some ''width: 1px; white-space: nowrap;'')]
                            [Text ''User Channel ID''],
                          Element ''td'' [(''style'', Some ''width: 100%; min-width: 0;'')]
                            (copyable_hex_input (hx (to_be_bytes (cd_user_channel_id channel))) None)],
                       Element ''tr'' []
                         [Element ''td'' [(''class'', Some ''fw-bold''),
                             (''style'', Some ''width: 1px; white-space: nowrap;'')]
                            [Text ''Counterparty Node ID''],
                          Element ''td'' [(''style'', Some ''width: 100%; min-width: 0;'')]
                            (copyable_hex_input (cd_counterparty_node_id channel) None)],
                       Element ''tr'' []
                         [Element ''td'' [(''class'', Some ''fw-bold'')] [Text ''Channel Value''],
                          Element ''td'' []
                            [Text (format_sats (cd_channel_value_sats channel)),
                             Text ('' '' @ [CHR 0xE2, CHR 0x82, CHR 0xBF])]],
                       Element ''tr'' []
                         [Element ''td'' [(''class'', Some ''fw-bold'')]
                            [Text ''Outbound Capacity''],
                          Element ''td'' []
                            [Text (format_sats (cd_outbound_capacity_msat channel div 1000)),
                             Text ('' '' @ [CHR 0xE2, CHR 0x82, CHR 0xBF])]],
                       Element ''tr'' []
                         [Element ''td'' [(''class'', Some ''fw-bold'')]
                            [Text ''Inbound Capacity''],
                          Element ''td'' []
                            [Text (format_sats (cd_inbound_capacity_msat channel div 1000)),
                             Text ('' '' @ [CHR 0xE2, CHR 0x82, CHR 0xBF])]],
                       Element ''tr'' []
                         [Element ''td'' [(''class'', Some ''fw-bold'')] [Text ''Channel Ready''],
                          Element ''td'' [] [Text (bool_text (cd_is_channel_ready channel))]],
                       Element ''tr'' []
                         [Element ''td'' [(''class'', Some ''fw-bold'')] [Text ''Usable''],
                          Element ''td'' [] [Text (bool_text (cd_is_usable channel))]]]],
                 Element ''div'' [(''class'', Some ''d-flex justify-content-end'')]
                   [Element ''div'' [(''class'', Some ''accordion''),
                       (''id'', Some (''closeAccordion-'' @ decimal i)),
                       (''style'', Some ''width: 300px;'')]
                      [Element ''div'' [(''class'', Some ''accordion-item'')]
                         [Element ''h2'' [(''class'', Some ''accordion-header'')]
                            [Element ''button'' [(''class'', Some ''accordion-button collapsed btn-outline-warning''),
                                (''type'', Some ''button''),
                                (''data-bs-toggle'', Some ''collapse''),
                                (''data-bs-target'', Some (''#closeCollapse-'' @ decimal i)),
                                (''aria-expanded'', Some ''false''),
                                (''aria-controls'', Some (''closeCollapse-'' @ decimal i))]
                               [Text ''Close Channel'']],
                          Element ''div'' [(''id'', Some (''closeCollapse-'' @ decimal i)),
                             (''class'', Some ''accordion-collapse collapse''),
                             (''data-bs-parent'', Some (''#closeAccordion-'' @ decimal i))]
                            [Element ''div'' [(''class'', Some ''accordion-body'')]
                               (close_channel_form_html (hx (to_be_bytes (cd_user_channel_id channel))) (cd_counterparty_node_id channel) i None)]]]]]]]]))"

definition peer_item :: "nat \<Rightarrow> peer_details \<Rightarrow> (string, html) outcome" where
  "peer_item i peer =
     and_then (slice_to 16 (pd_node_id peer)) (\<lambda>short_id. Ok (
       [Element ''div'' [(''class'', Some ''accordion-item'')]
          [Element ''h2'' [(''class'', Some ''accordion-header'')]
             [Element ''button'' [(''class'', Some ''accordion-button collapsed''),
                 (''type'', Some ''button''), (''data-bs-toggle'', Some ''collapse''),
                 (''data-bs-target'', Some (''#peer-'' @ decimal i)),
                 (''aria-expanded'', Some ''false''),
                 (''aria-controls'', Some (''peer-'' @ decimal i))]
                [Element ''div'' [(''class'', Some ''d-flex align-items-center w-100 me-3'')]
                   ([Element ''div'' [(''class'', Some ''me-3 font-monospace small'')]
                       [Text short_id, Text ''...'']] @
                    (if pd_is_connected peer
                     then [Element ''span'' [(''class'', Some ''badge bg-success ms-auto'')]
                             [Text ''Connected'']]
                     else [Element ''span'' [(''class'', Some ''badge bg-danger ms-auto'')]
                             [Text ''Disconnected'']]))]],
           Element ''div'' [(''id'', Some (''peer-'' @ decimal i)),
              (''class'', Some ''accordion-collapse collapse''),
              (''data-bs-parent'', Some ''#peersAccordion'')]
             [Element ''div'' [(''class'', Some ''accordion-body'')]
                [Element ''table'' [(''class'', Some ''table table-sm table-borderless mb-3'')]
                   [Element ''tbody'' []
                      [Element ''tr'' []
                         [Element ''td'' [(''class'', Some ''fw-bold''),
                             (''style'', Some ''width: 1px; white-space: nowrap;'')]
                            [Text ''Node ID''],
                          Element ''td'' [(''style'', Some ''width: 100%; min-width: 0;'')]
                            (copyable_hex_input (pd_node_id peer) None)],
                       Element ''tr'' []
                         [Element ''td'' [(''class'', Some ''fw-bold'')] [Text ''Address''],
                          Element ''td'' [(''class'', Some ''font-monospace small'')]
                            [Text (pd_address peer)]],
                       Element ''tr'' []
                         [Element ''td'' [(''class'', Some ''fw-bold'')] [Text ''Connected''],
                          Element ''td'' [] [Text (bool_text (pd_is_connected peer))]],
                       Element ''tr'' []
                         [Element ''td'' [(''class'', Some ''fw-bold'')] [Text ''Persisted''],
                          Element ''td'' [] [Text (bool_text (pd_is_persisted peer))]]]],
                 Element ''div'' [(''class'', Some ''d-flex justify-content-end'')]
                   [Element ''div'' [(''class'', Some ''accordion''),
                       (''id'', Some (''disconnectAccordion-'' @ decimal i)),
                       (''style'', Some ''width: 300px;'')]
                      [Element ''div'' [(''class'', Some ''accordion-item'')]
                         [Element ''h2'' [(''class'', Some ''accordion-header'')]
                            [Element ''button'' [(''class'', Some ''accordion-button collapsed btn-outline-danger''),
                                (''type'', Some ''button''),
                                (''data-bs-toggle'', Some ''collapse''),
                                (''data-bs-target'', Some (''#disconnectCollapse-'' @ decimal i)),
                                (''aria-expanded'', Some ''false''),
                                (''aria-controls'', Some (''disconnectCollapse-'' @ decimal i))]
                               [Text ''Disconnect Peer'']],
                          Element ''div'' [(''id'', Some (''disconnectCollapse-'' @ decimal i)),
                             (''class'', Some ''accordion-collapse collapse''),
                             (''data-bs-parent'', Some (''#disconnectAccordion-'' @ decimal i))]
                            [Element ''div'' [(''class'', Some ''accordion-body'')]
                               (disconnect_peer_form_html (pd_node_id peer) None)]]]]]]]]))"

definition lightning_content :: "u64 \<Rightarrow> u64 \<Rightarrow> bool \<Rightarrow> html \<Rightarrow> bool \<Rightarrow> html \<Rightarrow> html" where
  "lightning_content total_inbound_capacity_msat total_outbound_capacity_msat no_channels channel_items no_peers
     peer_items =
    [Element ''div'' [(''class'', Some ''row g-4 mb-4'')]
       [Element ''div'' [(''class'', Some ''col-6'')]
          [Element ''div'' [(''class'', Some ''card h-100 overflow-hidden'')]
             [Element ''div'' [(''class'', Some ''card-body'')]
                [Element ''h5'' [(''class'', Some ''card-title'')] [Text ''Inbound Capacity''],
                 Element ''p'' [(''class'', Some ''card-text display-6'')]
                   [Text (format_sats (total_inbound_capacity_msat div 1000)),
                    Text ('' '' @ [CHR 0xE2, CHR 0x82, CHR 0xBF])]]]],
        Element ''div'' [(''class'', Some ''col-6'')]
          [Element ''div'' [(''class'', Some ''card h-100 overflow-hidden'')]
             [Element ''div'' [(''class'', Some ''card-body'')]
                [Element ''h5'' [(''class'', Some ''card-title'')] [Text ''Outbound Capacity''],
                 Element ''p'' [(''class'', Some ''card-text display-6'')]
                   [Text (format_sats (total_outbound_capacity_msat div 1000)),
                    Text ('' '' @ [CHR 0xE2, CHR 0x82, CHR 0xBF])]]]]],
     Element ''div'' [(''class'', Some ''card h-100 overflow-hidden mb-4'')]
       [Element ''div'' [(''class'', Some ''card-body'')]
          ([Element ''h5'' [(''class'', Some ''card-title'')] [Text ''Lightning Channels'']] @
           (if no_channels
            then [Element ''p'' [(''class'', Some ''text-muted'')]
                    [Text ''No channels open yet. Use the sidebar to open your first channel.'']]
            else [Element ''div'' [(''class'', Some ''accordion''),
                     (''id'', Some ''channelsAccordion'')]
                    (channel_items)]))],
     Element ''div'' [(''class'', Some ''card h-100 overflow-hidden'')]
       [Element ''div'' [(''class'', Some ''card-body'')]
          ([Element ''h5'' [(''class'', Some ''card-title'')] [Text ''Connected Peers'']] @
           (if no_peers
            then [Element ''p'' [(''class'', Some ''text-muted'')]
                    [Text ''No peers connected. Use the sidebar to connect to your first peer.'']]
            else [Element ''div'' [(''class'', Some ''accordion''),
                     (''id'', Some ''peersAccordion'')]
                    (peer_items)]))]]"

definition lightning_sidebar :: "string \<Rightarrow> html" where
  "lightning_sidebar node_id =
    [Element ''div'' [(''class'', Some ''mb-3'')]
       ([Element ''h6'' [(''class'', Some ''text-muted mb-2'')] [Text ''Node ID'']] @
        copyable_hex_input node_id None),
     Element ''div'' [(''class'', Some ''accordion''),
        (''id'', Some ''lightningActionsAccordion'')]
       [Element ''div'' [(''class'', Some ''accordion-item'')]
          [Element ''h2'' [(''class'', Some ''accordion-header'')]
             [Element ''button'' [(''class'', Some ''accordion-button collapsed''),
                 (''type'', Some ''button''), (''data-bs-toggle'', Some ''collapse''),
                 (''data-bs-target'', Some ''#openChannelCollapse''),
                 (''aria-expanded'', Some ''false''),
                 (''aria-controls'', Some ''openChannelCollapse'')]
                [Text ''Open Channel'']],
           Element ''div'' [(''id'', Some ''openChannelCollapse''),
              (''class'', Some ''accordion-collapse collapse''),
              (''data-bs-parent'', Some ''#lightningActionsAccordion'')]
             [Element ''div'' [(''class'', Some ''accordion-body'')] (open_channel_form_html None)]],
        Element ''div'' [(''class'', Some ''accordion-item'')]
          [Element ''h2'' [(''class'', Some ''accordion-header'')]
             [Element ''button'' [(''class'', Some ''accordion-button collapsed''),
                 (''type'', Some ''button''), (''data-bs-toggle'', Some ''collapse''),
                 (''data-bs-target'', Some ''#requestChannelCollapse''),
                 (''aria-expanded'', Some ''false''),
                 (''aria-controls'', Some ''requestChannelCollapse'')]
                [Text ''Request Channel'']],
           Element ''div'' [(''id'', Some ''requestChannelCollapse''),
              (''class'', Some ''accordion-collapse collapse''),
              (''data-bs-parent'', Some ''#lightningActionsAccordion'')]
             [Element ''div'' [(''class'', Some ''accordion-body'')]
                (request_channel_form_html None)]],
        Element ''div'' [(''class'', Some ''accordion-item'')]
          [Element ''h2'' [(''class'', Some ''accordion-header'')]
             [Element ''button'' [(''class'', Some ''accordion-button collapsed''),
                 (''type'', Some ''button''), (''data-bs-toggle'', Some ''collapse''),
                 (''data-bs-target'', Some ''#connectPeerCollapse''),
                 (''aria-expanded'', Some ''false''),
                 (''aria-controls'', Some ''connectPeerCollapse'')]
                [Text ''Connect Peer'']],
           Element ''div'' [(''id'', Some ''connectPeerCollapse''),
              (''class'', Some ''accordion-collapse collapse''),
              (''data-bs-parent'', Some ''#lightningActionsAccordion'')]
             [Element ''div'' [(''class'', Some ''accordion-body'')] (connect_peer_form_html None)]]]]"

definition lightning_template ::
  "(u8 list \<Rightarrow> string) \<Rightarrow> string \<Rightarrow> u64 \<Rightarrow> u64 \<Rightarrow> channel_details list \<Rightarrow> peer_details list \<Rightarrow>
   (string, html) outcome"
where
  "lightning_template hx node_id total_inbound_capacity_msat total_outbound_capacity_msat
     channels peers =
     and_then (all_ok (map (\<lambda>(i, channel). channel_item hx i channel) (enumerate 0 channels)))
       (\<lambda>channel_items.
     and_then (all_ok (map (\<lambda>(i, peer). peer_item i peer) (enumerate 0 peers))) (\<lambda>peer_items.
       Ok (base_template ''Lightning'' ''/lightning''
         (lightning_content total_inbound_capacity_msat total_outbound_capacity_msat
           (channels = []) (concat channel_items) (peers = []) (concat peer_items))
         (lightning_sidebar node_id))))"

section \<open>On-chain (\<open>ui/onchain.rs\<close>)\<close>

definition receive_bitcoin_form :: "html" where
  "receive_bitcoin_form =
    [Element ''form'' [(''hx-post'', Some ''/onchain/receive''), (''hx-target'', Some ''this''),
        (''hx-swap'', Some ''outerHTML'')]
       [Element ''button'' [(''type'', Some ''submit''),
           (''class'', Some ''btn btn-outline-primary w-100'')]
          [Text ''Generate Address'']]]"

definition send_bitcoin_form :: "string option \<Rightarrow> html" where
  "send_bitcoin_form error =
    [Element ''form'' [(''hx-post'', Some ''/onchain/send''), (''hx-target'', Some ''this''),
        (''hx-swap'', Some ''outerHTML'')]
       ((case error of Some e \<Rightarrow> [Element ''div'' [(''class'', Some ''alert alert-danger'')] [Text e]]
         | None \<Rightarrow> []) @
        [Element ''div'' [(''class'', Some ''mb-3'')]
           [Element ''label'' [(''for'', Some ''accordion-address''),
               (''class'', Some ''form-label'')]
              [Text ''Bitcoin Address''],
            Element ''input'' [(''type'', Some ''text''),
               (''class'', Some ''form-control font-monospace''),
               (''id'', Some ''accordion-address''), (''name'', Some ''address''),
               (''required'', None), (''placeholder'', Some ''bc1qxxx...'')] [],
            Element ''div'' [(''class'', Some ''form-text'')]
              [Text ''Enter the destination Bitcoin address'']],
         Element ''div'' [(''class'', Some ''mb-3'')]
           [Element ''label'' [(''for'', Some ''accordion-amount''),
               (''class'', Some ''form-label'')]
              [Text ''Amount (sats)''],
            Element ''input'' [(''type'', Some ''number''), (''class'', Some ''form-control''),
               (''id'', Some ''accordion-amount''), (''name'', Some ''amount_sats''),
               (''required'', None), (''placeholder'', Some ''100000''), (''min'', Some ''1'')] [],
            Element ''div'' [(''class'', Some ''form-text'')]
              [Text ''Amount to send in satoshis'']],
         Element ''button'' [(''type'', Some ''submit''),
            (''class'', Some ''btn btn-outline-primary w-100'')]
           [Text ''Send Bitcoin'']])]"

definition drain_wallet_form :: "string option \<Rightarrow> html" where
  "drain_wallet_form error =
    [Element ''form'' [(''hx-post'', Some ''/onchain/drain''), (''hx-target'', Some ''this''),
        (''hx-swap'', Some ''outerHTML'')]
       ((case error of Some e \<Rightarrow> [Element ''div'' [(''class'', Some ''alert alert-danger'')] [Text e]]
         | None \<Rightarrow> []) @
        [Element ''div'' [(''class'', Some ''mb-3'')]
           [Element ''label'' [(''for'', Some ''accordion-drain-address''),
               (''class'', Some ''form-label'')]
              [Text ''Destination Address''],
            Element ''input'' [(''type'', Some ''text''),
               (''class'', Some ''form-control font-monospace''),
               (''id'', Some ''accordion-drain-address''), (''name'', Some ''address''),
               (''required'', None), (''placeholder'', Some ''bc1q...'')] []],
         Element ''button'' [(''type'', Some ''submit''),
            (''class'', Some ''btn btn-outline-primary w-100'')]
           [Text ''Drain Wallet'']])]"

text \<open>The time of the confirming block, when there is one, is printed and may panic.\<close>

fun confirmation_time :: "libs \<Rightarrow> confirmation_status \<Rightarrow> (string, string) outcome" where
  "confirmation_time l (Confirmed block_hash height timestamp) =
     format_timestamp l (as_i64 timestamp * 1000)"
| "confirmation_time l Unconfirmed = Ok []"

definition payment_item ::
  "libs \<Rightarrow> nat \<Rightarrow> string \<times> confirmation_status \<Rightarrow> (string, html) outcome"
where
  "payment_item l i payment =
     (case payment of (txid, status) \<Rightarrow>
       and_then (slice_to 16 txid) (\<lambda>short_id.
       and_then (confirmation_time l status) (\<lambda>created. Ok (
       [Element ''div'' [(''class'', Some ''accordion-item'')]
          [Element ''h2'' [(''class'', Some ''accordion-header'')]
             [Element ''button'' [(''class'', Some ''accordion-button collapsed''),
                 (''type'', Some ''button''), (''data-bs-toggle'', Some ''collapse''),
                 (''data-bs-target'', Some (''#payment-'' @ decimal i)),
                 (''aria-expanded'', Some ''false''),
                 (''aria-controls'', Some (''payment-'' @ decimal i))]
                [Element ''div'' [(''class'', Some ''d-flex align-items-center w-100 me-3'')]
                   ([Element ''div'' [(''class'', Some ''me-3 font-monospace small'')]
                       [Text short_id, Text ''...'']] @
                    (case status of
                       Confirmed h t b \<Rightarrow> [Element ''span'' [(''class'', Some ''badge bg-success ms-auto'')]
                             [Text ''Confirmed'']]
                     |  Unconfirmed \<Rightarrow> [Element ''span'' [(''class'', Some ''badge bg-warning ms-auto'')]
                             [Text ''Pending'']]))]],
           Element ''div'' [(''id'', Some (''payment-'' @ decimal i)),
              (''class'', Some ''accordion-collapse collapse''),
              (''data-bs-parent'', Some ''#paymentsAccordion'')]
             [Element ''div'' [(''class'', Some ''accordion-body'')]
                [Element ''table'' [(''class'', Some ''table table-sm table-borderless mb-3'')]
                   [Element ''tbody'' []
                      ([Element ''tr'' []
                          [Element ''td'' [(''class'', Some ''fw-bold''),
                              (''style'', Some ''width: 1px; white-space: nowrap;'')]
                             [Text ''Transaction ID''],
                           Element ''td'' [(''style'', Some ''width: 100%; min-width: 0;'')]
                             (copyable_hex_input txid None)]] @
                       (case status of
                          Confirmed block_hash height timestamp \<Rightarrow> [Element ''tr'' []
                                [Element ''td'' [(''class'', Some ''fw-bold'')]
                                   [Text ''Block Height''],
                                 Element ''td'' [] [Text (decimal (unat height))]],
                              Element ''tr'' []
                                [Element ''td'' [(''class'', Some ''fw-bold'')]
                                   [Text ''Block Hash''],
                                 Element ''td'' [(''style'', Some ''width: 100%; min-width: 0;'')]
                                   (copyable_hex_input block_hash None)],
                              Element ''tr'' []
                                [Element ''td'' [(''class'', Some ''fw-bold'')]
                                   [Text ''Timestamp''],
                                 Element ''td'' [(''class'', Some ''text-muted font-monospace'')]
                                   [Text created]]]
                        |  Unconfirmed \<Rightarrow> []))],
                 Element ''div'' [(''class'', Some ''d-flex justify-content-end'')]
                   [Element ''a'' [(''href'', Some (''https://mempool.space/tx/'' @ txid)),
                       (''target'', Some ''_blank''),
                       (''class'', Some ''btn btn-outline-primary btn-sm'')]
                      [Text ''mempool.space'']]]]]]))))"

definition onchain_content :: "u64 \<Rightarrow> bool \<Rightarrow> html \<Rightarrow> html" where
  "onchain_content onchain_balance no_payments items =
    [Element ''div'' [(''class'', Some ''row g-4'')]
       ([Element ''div'' [(''class'', Some ''col-12'')]
           [Element ''div'' [(''class'', Some ''card h-100 overflow-hidden'')]
              [Element ''div'' [(''class'', Some ''card-body'')]
                 [Element ''h5'' [(''class'', Some ''card-title'')] [Text ''Onchain Balance''],
                  Element ''p'' [(''class'', Some ''card-text display-6'')]
                    [Text (format_sats onchain_balance),
                     Text ('' '' @ [CHR 0xE2, CHR 0x82, CHR 0xBF])]]]]] @
        (if \<not> no_payments
         then [Element ''div'' [(''class'', Some ''col-12'')]
                 [Element ''div'' [(''class'', Some ''card h-100 overflow-hidden'')]
                    [Element ''div'' [(''class'', Some ''card-body'')]
                       [Element ''h5'' [(''class'', Some ''card-title'')]
                          [Text ''Onchain Transactions''],
                        Element ''div'' [(''class'', Some ''accordion''),
                           (''id'', Some ''paymentsAccordion'')]
                          (items)]]]]
         else []))]"

definition onchain_sidebar :: "html" where
  "onchain_sidebar =
    [Element ''div'' [(''class'', Some ''accordion''), (''id'', Some ''actionsAccordion'')]
       [Element ''div'' [(''class'', Some ''accordion-item'')]
          [Element ''h2'' [(''class'', Some ''accordion-header'')]
             [Element ''button'' [(''class'', Some ''accordion-button collapsed''),
                 (''type'', Some ''button''), (''data-bs-toggle'', Some ''collapse''),
                 (''data-bs-target'', Some ''#receiveCollapse''),
                 (''aria-expanded'', Some ''false''),
                 (''aria-controls'', Some ''receiveCollapse'')]
                [Text ''Receive Bitcoin'']],
           Element ''div'' [(''id'', Some ''receiveCollapse''),
              (''class'', Some ''accordion-collapse collapse''),
              (''data-bs-parent'', Some ''#actionsAccordion'')]
             [Element ''div'' [(''class'', Some ''accordion-body'')] (receive_bitcoin_form)]],
        Element ''div'' [(''class'', Some ''accordion-item'')]
          [Element ''h2'' [(''class'', Some ''accordion-header'')]
             [Element ''button'' [(''class'', Some ''accordion-button collapsed''),
                 (''type'', Some ''button''), (''data-bs-toggle'', Some ''collapse''),
                 (''data-bs-target'', Some ''#sendCollapse''),
                 (''aria-expanded'', Some ''false''), (''aria-controls'', Some ''sendCollapse'')]
                [Text ''Send Bitcoin'']],
           Element ''div'' [(''id'', Some ''sendCollapse''),
              (''class'', Some ''accordion-collapse collapse''),
              (''data-bs-parent'', Some ''#actionsAccordion'')]
             [Element ''div'' [(''class'', Some ''accordion-body'')] (send_bitcoin_form None)]],
        Element ''div'' [(''class'', Some ''accordion-item'')]
          [Element ''h2'' [(''class'', Some ''accordion-header'')]
             [Element ''button'' [(''class'', Some ''accordion-button collapsed''),
                 (''type'', Some ''button''), (''data-bs-toggle'', Some ''collapse''),
                 (''data-bs-target'', Some ''#drainCollapse''),
                 (''aria-expanded'', Some ''false''), (''aria-controls'', Some ''drainCollapse'')]
                [Text ''Drain Wallet'']],
           Element ''div'' [(''id'', Some ''drainCollapse''),
              (''class'', Some ''accordion-collapse collapse''),
              (''data-bs-parent'', Some ''#actionsAccordion'')]
             [Element ''div'' [(''class'', Some ''accordion-body'')] (drain_wallet_form None)]]]]"

definition onchain_template ::
  "libs \<Rightarrow> u64 \<Rightarrow> (string \<times> confirmation_status) list \<Rightarrow> (string, html) outcome"
where
  "onchain_template l onchain_balance payments =
     map_ok (\<lambda>items. base_template ''Onchain'' ''/onchain''
         (onchain_content onchain_balance (payments = []) (concat items)) onchain_sidebar)
       (all_ok (map (\<lambda>(i, payment). payment_item l i payment) (enumerate 0 payments)))"

end
