(* ===== verification/Ui.thy ===== *)
theory Ui
  imports Ui_Templates "HOL-Library.List_Lexorder" "HOL-Library.Char_ord"
begin

text \<open>
  The handlers and the router of the operator's web interface, \<open>puncture-daemon/src/ui\<close>. What a
  handler returns is the markup of \<open>Ui_Templates\<close>.
\<close>

section \<open>Shared helpers (\<open>ui/shared.rs\<close>)\<close>

definition parse_node_id :: "app_state \<Rightarrow> string \<Rightarrow> (string, string) outcome" where
  "parse_node_id st node_id_str =
     ok_or ''Invalid node ID format'' (public_key_from_str (app_libs st) node_id_str)"

definition parse_socket_address :: "app_state \<Rightarrow> string \<Rightarrow> (string, string) outcome" where
  "parse_socket_address st address_str =
     map_err (\<lambda>_. ''Invalid socket address format'') (socket_address_from_str (app_libs st) address_str)"

section \<open>Users (\<open>ui/users.rs\<close>)\<close>

record invite_form =
  invf_expiry_days :: u32
  invf_user_limit :: u32

record recovery_form =
  recf_user_pk :: string

text \<open>The users with a recovery name, by name; \<open>sort_by_key\<close> on the bytes of the name.\<close>

definition users_page :: "libs \<Rightarrow> html rpc" where
  "users_page l = do {
     users \<leftarrow> query ui_list_users;
     ret (users_template l
       (sort_key (\<lambda>u. the (ui_recovery_name u))
         (filter (\<lambda>u. ui_recovery_name u \<noteq> None) users)))
   }"

text \<open>A fresh code in a page: the QR code is rendered last, when the code is in the database.\<close>

definition code_page :: "libs \<Rightarrow> string \<Rightarrow> string \<Rightarrow> string \<Rightarrow> (string, html) outcome" where
  "code_page l title message data =
     map_ok (success_replacement title message) (qr_code_with_copy l data)"

definition invite_submit :: "app_state \<Rightarrow> invite_form \<Rightarrow> html rpc" where
  "invite_submit st form = do {
     invite_id \<leftarrow> random_bytes 16;
     r \<leftarrow> ui_create_invite (as_hex (app_libs st)) invite_id (invf_user_limit form)
           (invf_expiry_days form * 24 * 60 * 60);
     attempt r (\<lambda>_. attempt (encode (codec.truncate (app_libs st))
         (puncture_invite invite_id (app_node_id st))) (\<lambda>invite.
       ret (code_page (app_libs st) ''Invite Code Generated'' ''Share this code with your users:''
         invite)))
   }"

definition unknown_user_page :: html where
  "unknown_user_page = [Element ''div'' [(''class'', Some ''alert alert-danger'')]
     [Text ''Unknown public key'']]"

definition recovery_submit :: "app_state \<Rightarrow> recovery_form \<Rightarrow> html rpc" where
  "recovery_submit st form = do {
     known \<leftarrow> query (ui_user_exists (recf_user_pk form));
     if \<not> known then ok unknown_user_page
     else do {
       recovery_id \<leftarrow> random_bytes 16;
       r \<leftarrow> ui_create_recovery (as_hex (app_libs st)) recovery_id (recf_user_pk form) (24 * 60 * 60);
       attempt r (\<lambda>_. attempt (encode (codec.truncate (app_libs st))
           (puncture_recovery recovery_id)) (\<lambda>recovery.
         ret (code_page (app_libs st) ''Recovery Code Generated''
           ''Share this code with the user to recover their account:'' recovery)))
     }
   }"

section \<open>Lightning (\<open>ui/lightning.rs\<close>)\<close>

record open_channel_form =
  ocf_node_id :: string
  ocf_socket_address :: string
  ocf_channel_amount_sats :: u64
  ocf_public :: bool

record request_channel_form =
  rcf_lsp_balance_sat :: u64
  rcf_public :: bool

record close_channel_form =
  ccf_user_channel_id :: string
  ccf_counterparty_node_id :: string
  ccf_force :: bool

record connect_peer_form =
  cpf_node_id :: string
  cpf_socket_address :: string
  cpf_persist :: bool

record disconnect_peer_form =
  dpf_counterparty_node_id :: string

definition lightning_page :: "app_state \<Rightarrow> (string, html) outcome" where
  "lightning_page st =
     (let channels = nd_list_channels (app_node st)
      in lightning_template (as_hex (app_libs st)) (nd_node_id (app_node st))
           (usable_inbound_msat channels) (usable_outbound_msat channels)
           channels (nd_list_peers (app_node st)))"

definition try_open_channel :: "app_state \<Rightarrow> open_channel_form \<Rightarrow> u128 rpc" where
  "try_open_channel st form =
     attempt (parse_node_id st (ocf_node_id form)) (\<lambda>node_id.
       attempt (parse_socket_address st (ocf_socket_address form)) (\<lambda>address. do {
         result \<leftarrow> node_call (Open_channel (ocf_public form) node_id address
                 (ocf_channel_amount_sats form) None)
               (nd_open_channel (app_node st) (ocf_public form) node_id address
                 (ocf_channel_amount_sats form) None);
         ret (map_err (\<lambda>e. ''Failed to open channel: '' @ e) result)
       }))"

text \<open>Here the result of the connection attempt is dropped (\<open>.ok()\<close>).\<close>

definition try_request_channel :: "app_state \<Rightarrow> request_channel_form \<Rightarrow> string rpc" where
  "try_request_channel st form = do {
     c \<leftarrow> node_call (Connect megalith_node_id megalith_address True)
           (nd_connect (app_node st) megalith_node_id megalith_address True);
     case c of
       Panic p \<Rightarrow> panic p
     | _ \<Rightarrow>
       attempt (map_err (\<lambda>e. ''Failed to call Megalith API: '' @ e)
           (app_lsp st (lsp_payload st (rcf_lsp_balance_sat form) ''0'' 13140 (rcf_public form))))
         (\<lambda>response.
           if \<not> lsp_is_success response
           then err (''Megalith API error: '' @
                  (case lsp_text response of Ok t \<Rightarrow> t | _ \<Rightarrow> ''Unknown error''))
           else attempt (map_err (\<lambda>e. ''Failed to parse Megalith response: '' @ e)
                  (lsp_json response)) (\<lambda>api_response.
             attempt (ok_or ''Missing invoice in Megalith response'' (lsp_invoice api_response)) ok))
   }"

definition try_connect_peer :: "app_state \<Rightarrow> connect_peer_form \<Rightarrow> unit rpc" where
  "try_connect_peer st form =
     attempt (parse_node_id st (cpf_node_id form)) (\<lambda>node_id.
       attempt (parse_socket_address st (cpf_socket_address form)) (\<lambda>address. do {
         r \<leftarrow> node_call (Connect node_id address (cpf_persist form))
               (nd_connect (app_node st) node_id address (cpf_persist form));
         attempt (map_err (\<lambda>e. ''Failed to connect to peer: '' @ e) r) (\<lambda>_. ok ())
       }))"

definition try_disconnect_peer :: "app_state \<Rightarrow> disconnect_peer_form \<Rightarrow> unit rpc" where
  "try_disconnect_peer st form =
     attempt (parse_node_id st (dpf_counterparty_node_id form)) (\<lambda>node_id. do {
       r \<leftarrow> node_call (Disconnect node_id) (nd_disconnect (app_node st) node_id);
       attempt (map_err (\<lambda>e. ''Failed to disconnect from peer: '' @ e) r) (\<lambda>_. ok ())
     })"

definition try_close_channel :: "app_state \<Rightarrow> close_channel_form \<Rightarrow> unit rpc" where
  "try_close_channel st form =
     attempt (parse_node_id st (ccf_counterparty_node_id form)) (\<lambda>node_id.
       attempt (map_err (\<lambda>_. ''Invalid channel ID format'') (map_ok from_be_bytes
           (from_hex_16 (app_libs st) (ccf_user_channel_id form)))) (\<lambda>channel_id. do {
         result \<leftarrow> node_call (Close_channel (ccf_force form) channel_id node_id)
               (nd_close_channel (app_node st) (ccf_force form) channel_id node_id);
         attempt (map_err (\<lambda>e. ''Failed to close channel: '' @ e) result) (\<lambda>_. ok ())
       }))"

text \<open>A submit handler shows the success, or the form again with the error.\<close>

definition submit :: "('a \<Rightarrow> (string, html) outcome) \<Rightarrow> (string \<Rightarrow> html) \<Rightarrow> 'a rpc \<Rightarrow> html rpc" where
  "submit show_success show_error m = do {
     r \<leftarrow> m;
     case r of
       Ok x \<Rightarrow> ret (show_success x)
     | Err error \<Rightarrow> ok (show_error error)
     | Panic p \<Rightarrow> panic p
   }"

definition open_channel_submit :: "app_state \<Rightarrow> open_channel_form \<Rightarrow> html rpc" where
  "open_channel_submit st form =
     submit (\<lambda>_. Ok (success_message ''Channel opened!''))
       (\<lambda>error. open_channel_form_html (Some error)) (try_open_channel st form)"

definition request_channel_submit :: "app_state \<Rightarrow> request_channel_form \<Rightarrow> html rpc" where
  "request_channel_submit st form =
     submit (code_page (app_libs st) ''Channel Requested''
         ''Pay this Lightning invoice to open the channel:'')
       (\<lambda>error. request_channel_form_html (Some error)) (try_request_channel st form)"

definition close_channel_submit :: "app_state \<Rightarrow> close_channel_form \<Rightarrow> html rpc" where
  "close_channel_submit st form =
     submit (\<lambda>_. Ok (success_message ''Channel closed!''))
       (\<lambda>error. close_channel_form_html (ccf_user_channel_id form)
         (ccf_counterparty_node_id form) 0 (Some error)) (try_close_channel st form)"

definition connect_peer_submit :: "app_state \<Rightarrow> connect_peer_form \<Rightarrow> html rpc" where
  "connect_peer_submit st form =
     submit (\<lambda>_. Ok (success_message ''Peer connected!''))
       (\<lambda>error. connect_peer_form_html (Some error)) (try_connect_peer st form)"

definition disconnect_peer_submit :: "app_state \<Rightarrow> disconnect_peer_form \<Rightarrow> html rpc" where
  "disconnect_peer_submit st form =
     submit (\<lambda>_. Ok (success_message ''Peer disconnected!''))
       (\<lambda>error. disconnect_peer_form_html (dpf_counterparty_node_id form) (Some error))
       (try_disconnect_peer st form)"

section \<open>On-chain (\<open>ui/onchain.rs\<close>)\<close>

record onchain_send_form =
  osf_address :: string
  osf_amount_sats :: u64

record onchain_drain_form =
  odf_address :: string

text \<open>
  The balance and the transactions, unconfirmed ones first (\<open>u32::MAX\<close>) and then by height.
\<close>

fun confirmation_height :: "confirmation_status \<Rightarrow> u32" where
  "confirmation_height (Confirmed block_hash height timestamp) = height"
| "confirmation_height Unconfirmed = - 1"

definition onchain_page :: "app_state \<Rightarrow> (string, html) outcome" where
  "onchain_page st =
     onchain_template (app_libs st) (nd_total_onchain_balance_sats (app_node st))
       (rev (sort_key (\<lambda>p. uint (confirmation_height (snd p))) (nd_onchain_payments (app_node st))))"

definition checked_address :: "app_state \<Rightarrow> string \<Rightarrow> (string, string) outcome" where
  "checked_address st address =
     and_then (ok_or ''Invalid address format'' (address_from_str (app_libs st) address))
       (\<lambda>unchecked. ok_or ''Invalid address for network''
         (require_network (app_libs st) (nd_network (app_node st)) unchecked))"

definition try_send_bitcoin :: "app_state \<Rightarrow> onchain_send_form \<Rightarrow> string rpc" where
  "try_send_bitcoin st form =
     attempt (checked_address st (osf_address form)) (\<lambda>address. do {
       r \<leftarrow> node_call (Pay_onchain address (osf_amount_sats form) None)
             (nd_send_to_address (app_node st) address (osf_amount_sats form) None);
       attempt (map_err (\<lambda>e. ''Failed to send: '' @ e) r) (\<lambda>txid. ok (txid_to_string (app_libs st) txid))
     })"

definition try_drain_wallet :: "app_state \<Rightarrow> onchain_drain_form \<Rightarrow> string rpc" where
  "try_drain_wallet st form =
     attempt (checked_address st (odf_address form)) (\<lambda>address.
       if nd_list_channels (app_node st) \<noteq> []
       then err ''Cannot drain wallet while channels are open. Close all channels first.''
       else do {
         r \<leftarrow> node_call (Drain address False None)
               (nd_send_all_to_address (app_node st) address False None);
         attempt (map_err (\<lambda>e. ''Failed to drain: '' @ e) r) (\<lambda>txid. ok (txid_to_string (app_libs st) txid))
       })"

definition onchain_receive_submit :: "app_state \<Rightarrow> (string, html) outcome" where
  "onchain_receive_submit st =
     and_then (unwrap_or_panic ''Failed to generate new address'' (nd_new_address (app_node st)))
       (code_page (app_libs st) ''Address Generated'' ''Send Bitcoin to this address:'')"

definition transaction_page :: "string \<Rightarrow> html" where
  "transaction_page txid =
     success_replacement ''Transaction Created''
       ''You can monitor the confirmation of the transaction on mempool.space:''
       [Element ''a'' [(''href'', Some (''https://mempool.space/tx/'' @ txid)),
          (''target'', Some ''_blank''), (''class'', Some ''btn btn-outline-primary'')]
         [Text ''mempool.space'']]"

definition onchain_send_submit :: "app_state \<Rightarrow> onchain_send_form \<Rightarrow> html rpc" where
  "onchain_send_submit st form =
     submit (\<lambda>txid. Ok (transaction_page txid)) (\<lambda>error. send_bitcoin_form (Some error))
       (try_send_bitcoin st form)"

definition onchain_drain_submit :: "app_state \<Rightarrow> onchain_drain_form \<Rightarrow> html rpc" where
  "onchain_drain_submit st form =
     submit (\<lambda>txid. Ok (transaction_page txid)) (\<lambda>error. drain_wallet_form (Some error))
       (try_drain_wallet st form)"

section \<open>What the handlers do to the book\<close>

lemma invite_submit_issues:
  "run_state (invite_submit st form) w =
     (case run_state (issue_invite st (invf_user_limit form) (invf_expiry_days form * 24 * 60 * 60)) w of
        (r, w') \<Rightarrow> (and_then r (code_page (app_libs st) ''Invite Code Generated''
          ''Share this code with your users:''), w'))"
  by (simp add: invite_submit_def issue_invite_def attempt_def split: prod.split outcome.split)

lemma recovery_submit_issues:
  "run_state (recovery_submit st form) w =
     (if user_exists (recf_user_pk form) (db w)
      then (case run_state (issue_recovery st (recf_user_pk form) (24 * 60 * 60)) w of
        (r, w') \<Rightarrow> (and_then r (code_page (app_libs st) ''Recovery Code Generated''
          ''Share this code with the user to recover their account:''), w'))
      else (Ok unknown_user_page, w))"
  by (simp add: recovery_submit_def issue_recovery_def attempt_def split: prod.split outcome.split)

lemma submit_runs:
  assumes "run_state (submit f g m) w = (r, w')"
  obtains r' where "run_state m w = (r', w')"
  using assms by (auto simp: submit_def split: prod.splits outcome.splits)

lemma try_unchanged:
  "run_state (try_open_channel st f1) w = (r1, w') \<Longrightarrow> unchanged w w'"
  "run_state (try_request_channel st f2) w = (r2, w') \<Longrightarrow> unchanged w w'"
  "run_state (try_connect_peer st f3) w = (r3, w') \<Longrightarrow> unchanged w w'"
  "run_state (try_disconnect_peer st f4) w = (r3, w') \<Longrightarrow> unchanged w w'"
  "run_state (try_close_channel st f5) w = (r3, w') \<Longrightarrow> unchanged w w'"
  "run_state (try_send_bitcoin st f6) w = (r2, w') \<Longrightarrow> unchanged w w'"
  "run_state (try_drain_wallet st f7) w = (r2, w') \<Longrightarrow> unchanged w w'"
  by (auto simp: try_open_channel_def try_request_channel_def try_connect_peer_def
      try_disconnect_peer_def try_close_channel_def try_send_bitcoin_def try_drain_wallet_def
      run_if run_node_call elim!: attempt_cases split: if_split_asm outcome.splits)

section \<open>The router (\<open>ui/mod.rs\<close>)\<close>

text \<open>A \<open>GET\<close>, or a \<open>POST\<close> with a form; the extractor \<open>Form<T>\<close> of axum accepts the form of
  the type the handler takes, and \<open>None\<close> is its rejection or an unknown path.\<close>

datatype ui_form =
    Open_channel_form open_channel_form
  | Request_channel_form request_channel_form
  | Close_channel_form close_channel_form
  | Connect_peer_form connect_peer_form
  | Disconnect_peer_form disconnect_peer_form
  | Empty_form
  | Onchain_send_form onchain_send_form
  | Onchain_drain_form onchain_drain_form
  | Invite_form invite_form
  | Recovery_form recovery_form

datatype ui_request = Get | Post ui_form

definition create_router :: "app_state \<Rightarrow> string \<Rightarrow> ui_request \<Rightarrow> html rpc option" where
  "create_router st path request =
     (if path = ''/'' \<and> request = Get then Some (ret (lightning_page st))
      else if path = ''/lightning'' \<and> request = Get then Some (ret (lightning_page st))
      else if path = ''/lightning/channel/open'' then (case request of
          Post (Open_channel_form form) \<Rightarrow> Some (open_channel_submit st form) | _ \<Rightarrow> None)
      else if path = ''/lightning/channel/request'' then (case request of
          Post (Request_channel_form form) \<Rightarrow> Some (request_channel_submit st form) | _ \<Rightarrow> None)
      else if path = ''/lightning/channel/close'' then (case request of
          Post (Close_channel_form form) \<Rightarrow> Some (close_channel_submit st form) | _ \<Rightarrow> None)
      else if path = ''/lightning/peer/connect'' then (case request of
          Post (Connect_peer_form form) \<Rightarrow> Some (connect_peer_submit st form) | _ \<Rightarrow> None)
      else if path = ''/lightning/peer/disconnect'' then (case request of
          Post (Disconnect_peer_form form) \<Rightarrow> Some (disconnect_peer_submit st form) | _ \<Rightarrow> None)
      else if path = ''/onchain'' \<and> request = Get then Some (ret (onchain_page st))
      else if path = ''/onchain/receive'' \<and> request = Post Empty_form
      then Some (ret (onchain_receive_submit st))
      else if path = ''/onchain/send'' then (case request of
          Post (Onchain_send_form form) \<Rightarrow> Some (onchain_send_submit st form) | _ \<Rightarrow> None)
      else if path = ''/onchain/drain'' then (case request of
          Post (Onchain_drain_form form) \<Rightarrow> Some (onchain_drain_submit st form) | _ \<Rightarrow> None)
      else if path = ''/users'' \<and> request = Get then Some (users_page (app_libs st))
      else if path = ''/users/invite'' then (case request of
          Post (Invite_form form) \<Rightarrow> Some (invite_submit st form) | _ \<Rightarrow> None)
      else if path = ''/users/recover'' then (case request of
          Post (Recovery_form form) \<Rightarrow> Some (recovery_submit st form) | _ \<Rightarrow> None)
      else None)"

lemma steps_book_submit: "steps_book a m \<Longrightarrow> steps_book a (submit f g m)"
  unfolding steps_book_def by (metis submit_runs)

lemma steps_book_try:
  "steps_book a (try_open_channel st f1)" "steps_book a (try_request_channel st f2)"
  "steps_book a (try_connect_peer st f3)" "steps_book a (try_disconnect_peer st f4)"
  "steps_book a (try_close_channel st f5)" "steps_book a (try_send_bitcoin st f6)"
  "steps_book a (try_drain_wallet st f7)"
  by (rule steps_book_unchanged, erule try_unchanged)+

lemma steps_book_codes:
  "steps_book a (invite_submit st f8)" "steps_book a (recovery_submit st f9)"
  by (auto simp: steps_book_def invite_submit_issues recovery_submit_issues
      dest: issue_invite_steps issue_recovery_steps split: if_split_asm prod.splits)

lemma steps_book_users_page: "steps_book a (users_page l)"
  by (simp add: steps_book_def users_page_def)

lemmas submit_defs = open_channel_submit_def request_channel_submit_def close_channel_submit_def
  connect_peer_submit_def disconnect_peer_submit_def onchain_send_submit_def
  onchain_drain_submit_def

lemma create_router_steps: "create_router st path request = Some m \<Longrightarrow> steps_book a m"
  by (auto simp: create_router_def submit_defs
      split: if_split_asm ui_request.splits ui_form.splits
      intro: steps_book_submit steps_book_try steps_book_codes steps_book_ret
        steps_book_users_page)

end
