(* ===== verification/System.thy ===== *)
theory System
  imports Ui
begin

text \<open>
  The daemon as a whole: every interface, the events of the node and a restart as one step
  relation on the world, which refines the book. The arguments and the libraries are fixed for the
  life of the data directory, the answers of the node may differ at every step. \<open>K\<close> is what is assumed of the results of payments the node reports.
\<close>

section \<open>Steps of the daemon\<close>

text \<open>
  Each handler and each event holds the database lock from its first query to its last
  statement, so it is one step (\<open>Concurrency\<close> treats the check of the user before a handler). A
  restart keeps the database and drops the messages of the
  event bus, which are kept in memory only.
\<close>

definition runs_on :: "args \<Rightarrow> libs \<Rightarrow> app_state \<Rightarrow> bool" where
  "runs_on a l st \<longleftrightarrow> app_args st = a \<and> app_libs st = l"

inductive daemon_step :: "args \<Rightarrow> libs \<Rightarrow> (db \<Rightarrow> ldk_event \<Rightarrow> bool) \<Rightarrow> world \<Rightarrow> world \<Rightarrow> bool"
  for a l K where
  client_request: "runs_on a l st \<Longrightarrow>
    run_state (handle_request (dec :: json decoders) st u bytes io) w = (r, w') \<Longrightarrow>
    daemon_step a l K w w'"
| node_event: "runs_on a l st \<Longrightarrow> K (db w) e \<Longrightarrow>
    run_state (process_ldk_event st e) w = (r, w') \<Longrightarrow> daemon_step a l K w w'"
| cli_command: "runs_on a l st \<Longrightarrow> router st route body = Some m \<Longrightarrow>
    run_state m w = (r', w') \<Longrightarrow> daemon_step a l K w w'"
| ui_request: "runs_on a l st \<Longrightarrow> create_router st path request = Some m' \<Longrightarrow>
    run_state m' w = (r'', w') \<Longrightarrow> daemon_step a l K w w'"
| restart: "daemon_step a l K w (w\<lparr>event_bus := []\<rparr>)"

inductive_cases daemon_stepE: "daemon_step a l K w w'"

definition any_node :: "db \<Rightarrow> ldk_event \<Rightarrow> bool" where
  "any_node d e = True"

definition honest_node :: "libs \<Rightarrow> db \<Rightarrow> ldk_event \<Rightarrow> bool" where
  "honest_node l = node_contract (as_hex l)"

text \<open>The condition on the node covers the condition on the actions of its events.\<close>

definition admits :: "libs \<Rightarrow> (db \<Rightarrow> ldk_event \<Rightarrow> bool) \<Rightarrow> (db \<Rightarrow> action \<Rightarrow> bool) \<Rightarrow> bool" where
  "admits l K E \<longleftrightarrow> (\<forall>d x. honest_env d x \<longrightarrow> E d x) \<and>
     (\<forall>st e d v x. app_libs st = l \<longrightarrow> K d e \<longrightarrow> event_post st e d v (Some x) \<longrightarrow> E d x)"

lemma admits_any: "admits l K any_env"
  by (simp add: admits_def any_env_def)

lemma admits_honest: "admits l (honest_node l) honest_env"
  by (auto simp: admits_def honest_node_def intro: event_post_honest)

lemma book_step_mono:
  "(book_step a honest_env)\<^sup>=\<^sup>= s t \<Longrightarrow> admits l K E \<Longrightarrow> (book_step a E)\<^sup>=\<^sup>= s t"
  by (auto simp: admits_def elim!: book_step.cases intro: book_step.act)

lemma event_steps:
  assumes "runs_on a l st" and "K (db w) e" and "admits l K E"
    and "run_state (process_ldk_event st e) w = (r, w')"
  shows "(book_step a E)\<^sup>=\<^sup>= (book_of w) (book_of w')"
proof -
  have "unchanged w w' \<or> (\<exists>x. enabled a (db w) x \<and> E (db w) x \<and> performs x w w')"
  proof (cases r)
    case (Ok v)
    with assms process_ldk_event_Ok [of st e w v w' a] show ?thesis
      unfolding admits_def runs_on_def by blast
  qed (use assms(4) process_ldk_event_fail [of st e w r w'] in auto)
  then show ?thesis by (auto dest: unchanged_steps performs_steps)
qed

text \<open>A step of the daemon is a step of its book, or leaves the database as it is.\<close>

lemma daemon_step_book:
  assumes "daemon_step a l K w w'" and "admits l K E"
  shows "(book_step a E)\<^sup>=\<^sup>= (book_of w) (book_of w') \<or> (db w' = db w \<and> event_bus w' = [])"
  using assms(1)
proof (cases rule: daemon_stepE [consumes 1])
  case (1 st dec u bytes io r)
  with book_step_mono [OF handle_request_steps [OF 1(2)]] assms(2) show ?thesis
    by (auto simp: runs_on_def)
next
  case (2 st e r)
  with event_steps [OF 2(1,2) assms(2) 2(3)] show ?thesis by blast
next
  case (3 st route body m r)
  with book_step_mono [OF steps_bookD [OF router_steps [OF 3(2)] 3(3)] assms(2)]
  show ?thesis by blast
next
  case (4 st path request m r)
  with book_step_mono [OF steps_bookD [OF create_router_steps [OF 4(2)] 4(3)] assms(2)]
  show ?thesis by blast
qed simp

section \<open>Invariants of the daemon\<close>

text \<open>An invariant of the tables that every step of the book keeps is one of the daemon.\<close>

lemma daemon_keeps:
  assumes "\<And>s t. case_prod (\<lambda>d b. P d) s \<Longrightarrow> book_step a E s t \<Longrightarrow> case_prod (\<lambda>d b. P d) t"
    and "daemon_step a l K w w'" and "admits l K E" and "P (db w)"
  shows "P (db w')"
  using daemon_step_book [OF assms(2,3)] assms(1) [of "book_of w" "book_of w'"] assms(4)
  by (auto simp: book_of_def)

definition started :: "world \<Rightarrow> bool" where
  "started w \<longleftrightarrow> (\<exists>c g. w = init_world c g)"

lemma started_db: "started w \<Longrightarrow> db w = empty_db"
  by (auto simp: started_def init_world_def)

section \<open>What a connected client shows\<close>

lemma fold_shown_cases: "fold shown es x = fold shown es y \<or> (\<forall>z. fold shown es z = z)"
proof (induction es arbitrary: x y)
  case (Cons e es)
  then show ?case by (cases e) auto
qed simp

lemma fold_shown_payments [simp]: "fold shown (map Payment ps) x = x"
  by (induction ps) auto

lemma fold_shown_snapshot: "fold shown (events_snapshot u d) x = user_balance u d"
  by (simp add: events_snapshot_def)

text \<open>Steps without a restart in between.\<close>

definition live_step :: "args \<Rightarrow> libs \<Rightarrow> world \<Rightarrow> world \<Rightarrow> bool" where
  "live_step a l w w' \<longleftrightarrow>
     daemon_step a l any_node w w' \<and> (\<exists>m. event_bus w' = event_bus w @ m)"

lemma book_step_append: "(book_step a E)\<^sup>=\<^sup>= (d, b) (d', b') \<Longrightarrow> \<exists>m. b' = b @ m"
  by (auto elim!: book_step.cases)

lemma live_step_book:
  assumes "live_step a l w w'"
  shows "(book_step a any_env)\<^sup>=\<^sup>= (book_of w) (book_of w')"
proof -
  obtain m where m: "event_bus w' = event_bus w @ m" and s: "daemon_step a l any_node w w'"
    using assms by (auto simp: live_step_def)
  from daemon_step_book [OF s admits_any] m show ?thesis
    by (auto simp: book_of_def)
qed

lemma live_steps_book:
  "(live_step a l)\<^sup>*\<^sup>* w w' \<Longrightarrow> (book_step a any_env)\<^sup>*\<^sup>* (book_of w) (book_of w')"
  by (induction rule: rtranclp_induct) (auto dest!: live_step_book intro: rtranclp.rtrancl_into_rtrancl)

lemma live_steps_synced:
  assumes "keys_ok (db w)" and "(live_step a l)\<^sup>*\<^sup>* w w'"
  shows "\<exists>m. event_bus w' = event_bus w @ m \<and>
    (\<forall>u. announced (user_balance u (db w)) u m = user_balance u (db w'))"
  using announcements.reachable_inv [OF _ live_steps_book [OF assms(2)],
      of "\<lambda>u. user_balance u (db w)" "event_bus w"] assms(1)
  by (auto simp: book_of_def synced_def)

end
