(* ===== verification/Crash.thy ===== *)
theory Crash
  imports System
begin

text \<open>
  Crashes of the process in the middle of an operation. SQLite commits every statement on its own
  unless the code asks for a transaction, as \<open>create_internal_transfer\<close> does; so a crash leaves the
  database as it was before or after any statement. The node delivers an event again after the
  restart, until \<open>event_handled\<close> is called, which comes after the last statement.
  The invariants of the book hold in every state that is reached with crashes, and a redelivered
  event leaves the accounts it would have left at first.
\<close>

section \<open>Interrupted events\<close>

text \<open>The databases between the statements of \<open>update_send_status\<close>, before and after them.\<close>

definition torn_update :: "(u8 list \<Rightarrow> string) \<Rightarrow> u8 list \<Rightarrow> string \<Rightarrow> i64 \<Rightarrow> db \<Rightarrow> db list" where
  "torn_update hx id_bytes status fee_msat d =
     (let d1 = set_send_status (hx id_bytes) status d in [d, d1, set_send_fee (hx id_bytes) fee_msat d1])"

text \<open>What a crash while \<open>process_ldk_event\<close> runs can leave.\<close>

fun torn_event :: "app_state \<Rightarrow> ldk_event \<Rightarrow> world \<Rightarrow> db list" where
  "torn_event st (PaymentSuccessful (Some i) (Some fee)) w =
     torn_update (as_hex (app_libs st)) i ''successful'' (as_i64 fee) (db w)"
| "torn_event st (PaymentFailed (Some i)) w =
     torn_update (as_hex (app_libs st)) i ''failed'' 0 (db w)"
| "torn_event st (PaymentReceived (Some i) amount_msat) w =
     [db w, db (snd (run_state (process_ldk_event st (PaymentReceived (Some i) amount_msat)) w))]"
| "torn_event st e w = [db w]"

text \<open>
  After any number of crashes while one event is processed: the messages are gone, clock and random
  generator go on.
\<close>

inductive interrupted :: "app_state \<Rightarrow> ldk_event \<Rightarrow> world \<Rightarrow> world \<Rightarrow> bool" for st e where
  undisturbed: "interrupted st e w w"
| crashed: "interrupted st e w w1 \<Longrightarrow> db w2 \<in> set (torn_event st e w1) \<Longrightarrow> interrupted st e w w2"

text \<open>
  Steps of a daemon that may crash at every statement: in the middle of an event, in the middle of
  a request, command or form, whose only statement that writes has not been executed yet (the two
  of an internal transfer are one transaction), or between two of them.
\<close>

inductive crash_step :: "args \<Rightarrow> libs \<Rightarrow> (db \<Rightarrow> ldk_event \<Rightarrow> bool) \<Rightarrow> world \<Rightarrow> world \<Rightarrow> bool"
  for a l K where
  completed: "daemon_step a l K w w' \<Longrightarrow> crash_step a l K w w'"
| event_crash: "runs_on a l st \<Longrightarrow> K (db w) e \<Longrightarrow> db w' \<in> set (torn_event st e w) \<Longrightarrow>
    event_bus w' = [] \<Longrightarrow> crash_step a l K w w'"
| request_crash: "db w' = db w \<Longrightarrow> event_bus w' = [] \<Longrightarrow> crash_step a l K w w'"

lemma daemon_steps_crash: "(daemon_step a l K)\<^sup>*\<^sup>* w w' \<Longrightarrow> (crash_step a l K)\<^sup>*\<^sup>* w w'"
  by (erule rtranclp_mono [THEN predicate2D, rotated]) (auto intro: crash_step.completed)

section \<open>The book survives\<close>

text \<open>Half an update is the settlement of the payment with the fee that is in its row.\<close>

lemma set_send_status_settle:
  assumes "keys_ok d"
  shows "set_send_status k s d = d \<or>
    (\<exists>r \<in> set (sends d). snd_id r = k \<and> set_send_status k s d = settle k s (snd_fee_msat r) d)"
proof (cases "k \<in> snd_id ` set (sends d)")
  case True
  then obtain r where r: "r \<in> set (sends d)" "snd_id r = k" by auto
  have "q\<lparr>snd_status := s\<rparr> = q\<lparr>snd_status := s, snd_fee_msat := snd_fee_msat r\<rparr>"
    if "q \<in> set (sends d)" "snd_id q = k" for q
    using distinct_map_key [of snd_id "sends d" q r] assms that r
    by (simp add: keys_ok_def send_table.keys_unique_def)
  then have "set_send_status k s d = settle k s (snd_fee_msat r) d"
    by (auto simp: set_send_status_def settle_def settle_row_def)
  with r show ?thesis by blast
next
  case False
  then have "map (\<lambda>r. if snd_id r = k then r\<lparr>snd_status := s\<rparr> else r) (sends d) = sends d"
    by (intro map_idI) auto
  then show ?thesis by (simp add: set_send_status_def)
qed

lemma torn_update_book:
  assumes "keys_ok d" and "d' \<in> set (torn_update hx i s fee d)"
  shows "d' = d \<or> (\<exists>fee'. d' = settle (hx i) s fee' d \<and>
    (fee' = fee \<or> (\<exists>r \<in> set (sends d). snd_id r = hx i \<and> fee' = snd_fee_msat r)))"
  using assms(2) set_send_status_settle [OF assms(1), of "hx i" s]
  by (auto simp: torn_update_def Let_def set_status_fee_settle)

section \<open>Redelivery\<close>

text \<open>Equal tables, up to the times at which a received payment was written.\<close>

definition same_accounts :: "db \<Rightarrow> db \<Rightarrow> bool" where
  "same_accounts d d' \<longleftrightarrow> sends d' = sends d \<and>
     map (\<lambda>r. r\<lparr>rcv_created_at := 0\<rparr>) (receives d') = map (\<lambda>r. r\<lparr>rcv_created_at := 0\<rparr>) (receives d) \<and>
     invoices d' = invoices d \<and> offers d' = offers d \<and> invites d' = invites d \<and>
     recoveries d' = recoveries d \<and> users d' = users d"

lemma same_accounts_refl [simp]: "same_accounts d d"
  by (simp add: same_accounts_def)

lemma same_accounts_trans: "same_accounts a b \<Longrightarrow> same_accounts b c \<Longrightarrow> same_accounts a c"
  by (simp add: same_accounts_def)

lemma same_accounts_sym: "same_accounts a b \<Longrightarrow> same_accounts b a"
  by (simp add: same_accounts_def)

text \<open>The database after the whole event, as a function of the one before.\<close>

definition settled_db :: "app_state \<Rightarrow> ldk_event \<Rightarrow> world \<Rightarrow> db" where
  "settled_db st e w = db (snd (run_state (process_ldk_event st e) w))"

lemma settled_db_result:
  "settled_db st (PaymentSuccessful (Some i) (Some fee)) w =
     settle (as_hex (app_libs st) i) ''successful'' fee (db w)"
  "settled_db st (PaymentFailed (Some i)) w = settle (as_hex (app_libs st) i) ''failed'' 0 (db w)"
  using settle_absent [of "as_hex (app_libs st) i" "db w"]
  by (auto simp: settled_db_def run_payment_result Let_def simp del: action_events.simps
      split: option.splits)

lemma settle_settle: "settle k s f (settle k s' f' d) = settle k s f d"
  by (simp add: settle_def settle_row_def comp_def)

lemma settle_torn: "d' \<in> set (torn_update hx i s f d) \<Longrightarrow> settle (hx i) s f d' = settle (hx i) s f d"
proof -
  have "settle (hx i) s f (set_send_status (hx i) s d) = settle (hx i) s f d"
    by (simp add: settle_def set_send_status_def comp_def settle_row_def cong: map_cong)
  moreover assume "d' \<in> set (torn_update hx i s f d)"
  ultimately show ?thesis
    by (auto simp: torn_update_def Let_def set_status_fee_settle settle_settle)
qed

lemma same_accounts_balances:
  assumes "same_accounts d d'"
  shows "received u d' = received u d" and "spent u d' = spent u d"
    and "user_balance u d' = user_balance u d"
proof -
  let ?mask = "map (\<lambda>r. r\<lparr>rcv_created_at := 0\<rparr>)"
  have "map rcv_amount_msat (filter (\<lambda>r. rcv_user_pk r = u) rs) =
      map rcv_amount_msat (filter (\<lambda>r. rcv_user_pk r = u) (?mask rs))" for rs
    by (induction rs) auto
  then have rows: "map rcv_amount_msat (filter (\<lambda>r. rcv_user_pk r = u) (receives d')) =
      map rcv_amount_msat (filter (\<lambda>r. rcv_user_pk r = u) (receives d))"
    using assms unfolding same_accounts_def by metis
  have "received u d = sum_list (map uint (map rcv_amount_msat (filter (\<lambda>r. rcv_user_pk r = u) (receives d))))"
    for d by (simp add: received_def comp_def)
  then show "received u d' = received u d" using rows by metis
  show "spent u d' = spent u d"
    using assms by (simp add: same_accounts_def spent_def)
  then show "user_balance u d' = user_balance u d"
    using assms rows by (simp add: same_accounts_def user_balance_def receive_sum_def send_sum_def)
qed

lemma settled_db_received:
  "settled_db st (PaymentReceived (Some i) amt) w =
     (case payment_owner st i (db w) of
        None \<Rightarrow> db w
      | Some o3 \<Rightarrow> or_ignore (db w)
          (insert_receive (receive_row (as_hex (app_libs st)) (clock w (ticks w)) i amt o3) (db w)))"
proof -
  obtain v w' where run: "run_state (process_ldk_event st (PaymentReceived (Some i) amt)) w = (v, w')"
    by fastforce
  then show ?thesis
    unfolding settled_db_def run snd_conv
    using run by (auto simp: run_payment_received Let_def simp del: process_ldk_event.simps
        split: option.splits)
qed

lemma settled_db_received_same:
  assumes "db w2 = db w1"
  shows "same_accounts (settled_db st (PaymentReceived (Some i) amt) w1)
    (settled_db st (PaymentReceived (Some i) amt) w2)"
  using assms
  by (auto simp: settled_db_received or_ignore_receive same_accounts_def receive_row_def
      split: option.splits)

lemma settled_db_received_again:
  assumes "db w2 = settled_db st (PaymentReceived (Some i) amt) w1"
  shows "settled_db st (PaymentReceived (Some i) amt) w2 = db w2"
  using assms
  by (auto simp: settled_db_received or_ignore_receive payment_owner_def get_invoice_def get_offer_def
      split: option.splits payment_kind.splits if_splits)

lemma torn_settles:
  assumes "db w2 \<in> set (torn_event st e w1)"
  shows "same_accounts (settled_db st e w1) (settled_db st e w2)"
proof (cases "(st, e)" rule: process_ldk_event.cases)
  case (5 st' i fee)
  with assms settle_torn [of "db w2"] show ?thesis by (simp add: settled_db_result)
next
  case (7 st' i)
  with assms settle_torn [of "db w2"] show ?thesis by (simp add: settled_db_result)
next
  case (2 st' i amt)
  with assms have "db w2 = db w1 \<or> db w2 = settled_db st (PaymentReceived (Some i) amt) w1"
    by (simp add: settled_db_def del: process_ldk_event.simps)
  then have "same_accounts (settled_db st (PaymentReceived (Some i) amt) w1)
      (settled_db st (PaymentReceived (Some i) amt) w2)"
  proof
    assume "db w2 = db w1"
    then show ?thesis by (rule settled_db_received_same)
  next
    assume w2: "db w2 = settled_db st (PaymentReceived (Some i) amt) w1"
    from settled_db_received_again [OF this] show ?thesis by (simp add: w2)
  qed
  with 2 show ?thesis by simp
qed (use assms in \<open>auto simp: settled_db_def\<close>)

lemma interrupted_settles:
  "interrupted st e w w' \<Longrightarrow> same_accounts (settled_db st e w) (settled_db st e w')"
  by (induction rule: interrupted.induct) (auto intro: same_accounts_trans torn_settles)

section \<open>The invariants survive\<close>

text \<open>
  What a crash leaves is the database before or after the operation, or the payment settled with
  the fee in its row, which \<open>honest_env\<close> allows. So an invariant of the book is one of a daemon
  that crashes.
\<close>

lemma torn_event_db:
  assumes "keys_ok (db w)" and "d \<in> set (torn_event st e w)"
  obtains (before) "d = db w" | (after) "d = db (snd (run_state (process_ldk_event st e) w))"
  | (half) s r where "s = ''successful'' \<or> s = ''failed''" "r \<in> set (sends (db w))"
      "d = settle (snd_id r) s (snd_fee_msat r) (db w)"
      "node_contract (as_hex (app_libs st)) (db w) e \<Longrightarrow> s = ''failed'' \<or> snd_status r \<noteq> ''failed''"
proof (cases "(st, e)" rule: process_ldk_event.cases)
  case (5 st' i fee)
  then have e: "e = PaymentSuccessful (Some i) (Some fee)" by simp
  from torn_update_book [OF assms(1)] assms(2) settled_db_result(1) [of st i fee w]
  consider "d = db w" | "d = db (snd (run_state (process_ldk_event st e) w))"
    | r where "d = settle (as_hex (app_libs st) i) ''successful'' (snd_fee_msat r) (db w)"
      "r \<in> set (sends (db w))" "snd_id r = as_hex (app_libs st) i"
    unfolding e settled_db_def torn_event.simps by metis
  then show ?thesis
  proof cases
    case (3 r)
    then show ?thesis by (intro half [of "''successful''" r]) (auto simp: e node_contract_def list_all_iff)
  qed (rule before after, assumption)+
next
  case (7 st' i)
  then have e: "e = PaymentFailed (Some i)" by simp
  from torn_update_book [OF assms(1)] assms(2) settled_db_result(2) [of st i w]
  consider "d = db w" | "d = db (snd (run_state (process_ldk_event st e) w))"
    | r where "d = settle (as_hex (app_libs st) i) ''failed'' (snd_fee_msat r) (db w)"
      "r \<in> set (sends (db w))" "snd_id r = as_hex (app_libs st) i"
    unfolding e settled_db_def torn_event.simps by metis
  then show ?thesis
  proof cases
    case (3 r)
    then show ?thesis by (intro half [of "''failed''" r]) auto
  qed (rule before after, assumption)+
qed (use assms(2) in \<open>auto intro: before after simp del: process_ldk_event.simps\<close>)

lemma crash_step_cases:
  assumes "crash_step a l K w w'" and "keys_ok (db w)"
  obtains (whole) w1 where "(daemon_step a l K)\<^sup>=\<^sup>= w w1" "db w' = db w1"
  | (torn) k s fee where "s = ''successful'' \<or> s = ''failed''" "db w' = settle k s fee (db w)"
      "K = honest_node l \<Longrightarrow> honest_env (db w) (Settle k s fee)"
  using assms(1)
proof (cases rule: crash_step.cases)
  case completed
  then show ?thesis by (intro whole) auto
next
  case (event_crash st e)
  from assms(2) event_crash(3) show ?thesis
  proof (cases rule: torn_event_db)
    case before
    then show ?thesis by (intro whole) auto
  next
    case after
    obtain r w1 where run: "run_state (process_ldk_event st e) w = (r, w1)" by fastforce
    have "daemon_step a l K w w1"
      by (rule daemon_step.node_event [of a l st K w e r w1]) (use event_crash(1,2) run in simp_all)
    with after run show ?thesis by (intro whole) auto
  next
    case (half s r)
    have "q = r" if "q \<in> set (sends (db w))" "snd_id q = snd_id r" for q
      using distinct_map_key [of snd_id "sends (db w)" q r] assms(2) that half(2)
      by (simp add: keys_ok_def send_table.keys_unique_def)
    then have "list_all (\<lambda>q. snd_id q = snd_id r \<longrightarrow> q = r) (sends (db w))"
      by (simp add: list_all_iff)
    then have "honest_env (db w) (Settle (snd_id r) s (snd_fee_msat r))" if "K = honest_node l"
      using half(4) event_crash(1,2) that
      by (auto simp: honest_node_def runs_on_def list_all_iff)
    with half(1,3) show ?thesis by (rule torn)
  qed
qed (auto intro: whole)

lemma crash_keeps:
  assumes "\<And>s t. case_prod (\<lambda>d b. P d) s \<Longrightarrow> book_step a E s t \<Longrightarrow> case_prod (\<lambda>d b. P d) t"
    and "crash_step a l K w w'" and "admits l K E" and "E = any_env \<or> K = honest_node l"
    and "keys_ok (db w)" and "P (db w)"
  shows "P (db w')"
  using assms(2,5)
proof (cases rule: crash_step_cases)
  case (whole w1)
  have "P (db w1)" if "daemon_step a l K w w1"
    using assms(1) that assms(3,6) by (rule daemon_keeps [where P = P])
  with whole assms(6) show ?thesis by auto
next
  case (torn k s fee)
  have "E (db w) (Settle k s fee)"
    using assms(3,4) torn(3) by (auto simp: admits_def any_env_def)
  then have "book_step a E (db w, []) (db w', [] @ action_events (Settle k s fee) (db w'))"
    using torn(1,2) book_step.act [of a "db w" "Settle k s fee" E "[]"] by simp
  from assms(1) [OF _ this] assms(6) show ?thesis by simp
qed

interpretation crash_keys: safety started "crash_step a l K" "\<lambda>w. keys_ok (db w)" for a l K
  by unfold_locales
    (auto simp: started_db keys_ok_empty
      intro: crash_keeps [where P = keys_ok, OF keys.inv_step _ admits_any])

interpretation crash_capacity: safety started "crash_step a l K"
  "\<lambda>w. keys_ok (db w) \<and> invites_ok (db w)" for a l K
  using crash_keeps [where P = "\<lambda>d. keys_ok d \<and> invites_ok d", OF capacity.inv_step _ admits_any]
  by unfold_locales (auto simp: started_db keys_ok_empty invites_ok_empty)

interpretation crash_pending: safety started "crash_step a l K"
  "\<lambda>w. keys_ok (db w) \<and> pending_ok a (db w)" for a l K
  using crash_keeps [where P = "pending_ok a", OF pending.inv_step _ admits_any]
  by unfold_locales (auto simp: started_db keys_ok_empty pending_ok_empty intro: crash_keys.inv_step)

interpretation crash_solvency: safety "\<lambda>w. fees_ok a \<and> started w" "crash_step a l (honest_node l)"
  "\<lambda>w. keys_ok (db w) \<and> fees_ok a \<and> solvent (db w)" for a l
  using crash_keeps [where P = "\<lambda>d. fees_ok a \<and> solvent d", OF solvency.inv_step _ admits_honest]
  by unfold_locales (auto simp: started_db keys_ok_empty solvent_empty intro: crash_keys.inv_step)

section \<open>Interrupted payments\<close>

text \<open>
  A payment of an external invoice between the acceptance by the node and the insertion of its row.
\<close>

definition torn_bolt11_send :: "bolt11_send_request \<Rightarrow> world \<Rightarrow> world" where
  "torn_bolt11_send request w =
     w\<lparr>node_log := node_log w @ [Pay_bolt11 (b11s_invoice request) (b11s_amount_msat request)],
       event_bus := []\<rparr>"

end
