(* ===== verification/Examples.thy ===== *)
theory Examples
  imports Crash
begin

text \<open>
  A concrete instance of everything the model takes as a parameter, and a run of the daemon on
  it: the witnesses apply the properties to it. The hex and postcard encoders here are small
  functions that satisfy \<open>codec_laws\<close>; the node accepts every call.
\<close>

section \<open>A codec\<close>

definition hex_digit :: "nat \<Rightarrow> char" where
  "hex_digit n = (if n < 10 then char_of (48 + n) else char_of (87 + n))"

definition hex_value :: "char \<Rightarrow> nat" where
  "hex_value c = (let n = of_char c in if n < 58 then n - 48 else n - 87)"

lemma hex_value_digit: "n < 16 \<Longrightarrow> hex_value (hex_digit n) = n"
  by (simp add: hex_value_def hex_digit_def)

definition ex_as_hex :: "u8 list \<Rightarrow> string" where
  "ex_as_hex bs =
     concat (map (\<lambda>b. [hex_digit (unat b div 16), hex_digit (unat b mod 16)]) bs)"

fun ex_from_hex :: "string \<Rightarrow> (string, u8 list) outcome" where
  "ex_from_hex [] = Ok []"
| "ex_from_hex [c] = Err ''odd length''"
| "ex_from_hex (c # d # s) =
     map_ok (\<lambda>bs. of_nat (16 * hex_value c + hex_value d) # bs) (ex_from_hex s)"

lemma ex_from_as_hex: "ex_from_hex (ex_as_hex bs) = Ok bs"
proof (induction bs)
  case Nil
  then show ?case by (simp add: ex_as_hex_def)
next
  case (Cons b bs)
  have "unat b < 256" using uint_lt2p [of b] by (simp add: nat_less_iff flip: nat_uint_eq)
  then have "unat b div 16 < 16" by simp
  then have "16 * hex_value (hex_digit (unat b div 16)) + hex_value (hex_digit (unat b mod 16))
      = unat b"
    by (simp add: hex_value_digit)
  with Cons show ?case by (simp add: ex_as_hex_def)
qed

lemma ex_as_hex_inj [simp]: "ex_as_hex a = ex_as_hex b \<longleftrightarrow> a = b"
  by (metis ex_from_as_hex outcome.inject(1))

definition ex_put :: "u8 list \<Rightarrow> u8 list" where
  "ex_put bs = concat (map (\<lambda>b. [1, b]) bs) @ [0]"

fun ex_take :: "u8 list \<Rightarrow> (u8 list \<times> u8 list) option" where
  "ex_take (t # b # s) =
     (if t = 0 then Some ([], b # s) else map_option (\<lambda>(bs, r). (b # bs, r)) (ex_take s))"
| "ex_take [t] = Some ([], [])"
| "ex_take [] = None"

lemma ex_take_put: "ex_take (ex_put bs @ r) = Some (bs, r)"
proof (induction bs)
  case Nil
  then show ?case by (cases r) (simp_all add: ex_put_def)
qed (simp add: ex_put_def)

fun ex_to_allocvec :: "puncture_code \<Rightarrow> (string, u8 list) outcome" where
  "ex_to_allocvec (Invite c) = Ok (0 # ex_put (ic_id c) @ ex_put (ic_node_id c))"
| "ex_to_allocvec (Recovery c) = Ok (1 # ex_put (rc_id c))"

fun ex_from_bytes :: "u8 list \<Rightarrow> (string, puncture_code) outcome" where
  "ex_from_bytes [] = Err ''end of input''"
| "ex_from_bytes (t # s) =
     (case ex_take s of
        None \<Rightarrow> Err ''end of input''
      | Some (i, r) \<Rightarrow>
          if t = 0 then (case ex_take r of
              None \<Rightarrow> Err ''end of input''
            | Some (n, _) \<Rightarrow> Ok (puncture_invite i n))
          else Ok (puncture_recovery i))"

lemma ex_from_to: "\<exists>bs. ex_to_allocvec c = Ok bs \<and> ex_from_bytes bs = Ok c"
proof (cases c)
  case (Invite i)
  then show ?thesis
    using ex_take_put [of "ic_node_id i" "[]"] by (simp add: ex_take_put puncture_invite_def)
next
  case (Recovery r)
  then show ?thesis
    using ex_take_put [of "rc_id r" "[]"] by (simp add: puncture_recovery_def)
qed

definition ex_codec :: codec where
  "ex_codec = \<lparr>as_hex = ex_as_hex, from_hex = ex_from_hex, to_allocvec = ex_to_allocvec,
     from_bytes = ex_from_bytes\<rparr>"

lemma ex_codec_laws: "codec_laws ex_codec"
  by (simp add: codec_laws_def ex_codec_def ex_from_as_hex ex_from_to)

section \<open>The libraries and a node\<close>

definition ex_offer :: offer where
  "ex_offer = \<lparr>b12_id = [9], b12_text = ''lno1'', b12_description = Some ''tea'',
     b12_amount = None\<rparr>"

definition ex_silent_offer :: offer where
  "ex_silent_offer = \<lparr>b12_id = [8], b12_text = ''lno2'', b12_description = None,
     b12_amount = None\<rparr>"

definition ex_libs :: libs where
  "ex_libs = codec.extend ex_codec
     (libs.fields
       (\<lambda>s. and_then (ex_from_hex s) (\<lambda>bs. if length bs = 16 then Ok bs else Err ''length''))
       (\<lambda>_. Ok ())
       (\<lambda>s. if s = ''lno1'' then Some ex_offer else if s = ''lno2'' then Some ex_silent_offer else None)
       (\<lambda>_ a. Some a) Some Ok Some (\<lambda>i. ex_as_hex (rev i))
       (\<lambda>_. Some ''01 January 2025'') (\<lambda>_. Some ''<svg></svg>''))"

lemma ex_libs_codec [simp]: "codec.truncate ex_libs = ex_codec"
  by (simp add: ex_libs_def codec.defs ex_codec_def)

definition ex_invoice :: "u8 list \<Rightarrow> bolt11_invoice" where
  "ex_invoice h = \<lparr>b11_payment_hash = h, b11_text = ''ln'', b11_description = Direct ''tea'',
     b11_amount_msat = None\<rparr>"

definition ex_node :: ldk_node where
  "ex_node = \<lparr>nd_node_id = ''02aa'', nd_network = ''regtest'',
     nd_bolt11_receive = (\<lambda>amount _ _. Ok (ex_invoice [ucast (amount div 1000000)])),
     nd_bolt12_receive_variable = (\<lambda>_ _. Ok ex_offer),
     nd_bolt11_send = (\<lambda>i _. Ok (b11_payment_hash i)),
     nd_bolt12_send = (\<lambda>i _. Ok (b12_id i)),
     nd_send_to_address = (\<lambda>_ _ _. Ok [77]), nd_send_all_to_address = (\<lambda>_ _ _. Ok [78]),
     nd_new_address = Ok ''bcrt1'', nd_total_onchain_balance_sats = 1234567,
     nd_list_channels = [], nd_list_peers = [], nd_open_channel = (\<lambda>_ _ _ _ _. Ok 5),
     nd_close_channel = (\<lambda>_ _ _. Ok ()), nd_connect = (\<lambda>_ _ _. Ok ()),
     nd_disconnect = (\<lambda>_. Ok ()), nd_payment = (\<lambda>i. Some (Bolt11_kind i)),
     nd_onchain_payments = []\<rparr>"

definition ex_state :: app_state where
  "ex_state = \<lparr>app_args = default_args, app_node = ex_node, app_node_id = [1, 2],
     app_libs = ex_libs, app_lsp = (\<lambda>_. Err ''offline'')\<rparr>"

lemma runs_on_ex: "runs_on default_args ex_libs ex_state"
  by (simp add: runs_on_def ex_state_def)

lemma ex_libs_hex [simp]: "as_hex ex_libs = ex_as_hex"
  by (simp add: ex_libs_def ex_codec_def codec.defs)

lemma ex_state_simps [simp]:
  "app_args ex_state = default_args" "app_node ex_state = ex_node" "app_libs ex_state = ex_libs"
  "app_node_id ex_state = [1, 2]"
  by (simp_all add: ex_state_def)

section \<open>A run\<close>

text \<open>
  An operator issues an invite, a user registers with it, creates an invoice of 50000 sats, is
  paid, and pays an invoice of another node with 2000 sats, which succeeds with a fee of 1500
  msat. Every state is written out; the lemmas \<open>ex_step\<close> run the handlers on it.
\<close>

definition ex_clock :: "nat \<Rightarrow> i64" where
  "ex_clock n = 1000000 + of_nat n"

definition ex_rng :: "nat \<Rightarrow> nat \<Rightarrow> u8" where
  "ex_rng n i = of_nat (16 * n + i)"

definition ex_w0 :: world where
  "ex_w0 = init_world ex_clock ex_rng"

definition ex_invite_id :: string where
  "ex_invite_id = ex_as_hex (map (ex_rng 0) [0..<16])"

definition ex_invite :: invite_record where
  "ex_invite = \<lparr>ivt_id = ex_invite_id, ivt_user_limit = 2,
     ivt_expires_at = ex_clock 0 + 86400 * 1000, ivt_created_at = ex_clock 1\<rparr>"

definition ex_w1 :: world where
  "ex_w1 = ex_w0\<lparr>db := empty_db\<lparr>invites := [ex_invite]\<rparr>, ticks := 2, draws := 1\<rparr>"

definition ex_user :: user where
  "ex_user = \<lparr>usr_user_pk = ''alice'', usr_invite_id = ex_invite_id, usr_recovery_name = None,
     usr_created_at = ex_clock 4\<rparr>"

definition ex_w2 :: world where
  "ex_w2 = ex_w1\<lparr>db := (db ex_w1)\<lparr>users := [ex_user]\<rparr>, ticks := 5\<rparr>"

definition ex_invoice_row :: invoice_record where
  "ex_invoice_row = \<lparr>ivc_id = ex_as_hex [50], ivc_user_pk = ''alice'',
     ivc_amount_msat = Some 50000000, ivc_description = ''tea'', ivc_pr = ''ln'',
     ivc_expires_at = ex_clock 6 + 3600 * 1000, ivc_created_at = ex_clock 7\<rparr>"

definition ex_w3 :: world where
  "ex_w3 = ex_w2\<lparr>db := (db ex_w2)\<lparr>invoices := [ex_invoice_row]\<rparr>, ticks := 8\<rparr>"

definition ex_receive :: receive_record where
  "ex_receive = \<lparr>rcv_id = ex_as_hex [50], rcv_user_pk = ''alice'', rcv_amount_msat = 50000000,
     rcv_description = ''tea'', rcv_pr = ''ln'', rcv_created_at = ex_clock 8\<rparr>"

definition ex_w4 :: world where
  "ex_w4 = ex_w3\<lparr>db := (db ex_w3)\<lparr>receives := [ex_receive]\<rparr>, ticks := 9,
     event_bus := payment_events ''alice'' (receive_into_payment ex_receive True)
       ((db ex_w3)\<lparr>receives := [ex_receive]\<rparr>)\<rparr>"

definition ex_sent :: send_record where
  "ex_sent = \<lparr>snd_id = ex_as_hex [99], snd_user_pk = ''alice'', snd_amount_msat = 2000000,
     snd_fee_msat = 20000, snd_description = ''tea'', snd_pr = ''ln'', snd_status = ''pending'',
     snd_ln_address = None, snd_created_at = ex_clock 9\<rparr>"

definition ex_send :: "u8 list \<Rightarrow> u64 \<Rightarrow> bolt11_send_request" where
  "ex_send h amount = \<lparr>b11s_invoice = ex_invoice h, b11s_amount_msat = amount,
     b11s_ln_address = None\<rparr>"

definition ex_w5 :: world where
  "ex_w5 = ex_w4\<lparr>db := (db ex_w4)\<lparr>sends := [ex_sent]\<rparr>, ticks := 10,
     node_log := [Pay_bolt11 (ex_invoice [99]) 2000000],
     event_bus := event_bus ex_w4 @ payment_events ''alice'' (send_into_payment ex_sent True)
       ((db ex_w4)\<lparr>sends := [ex_sent]\<rparr>)\<rparr>"

lemmas ex_world_defs = ex_w0_def ex_w1_def ex_w2_def ex_w3_def ex_w4_def ex_w5_def init_world_def
  empty_db_def

lemmas ex_row_defs = ex_invite_def ex_user_def ex_invoice_row_def ex_receive_def ex_sent_def

lemma ex_step1:
  "run_state (issue_invite ex_state 2 86400) ex_w0 =
     (Ok (code_text ex_codec (puncture_invite (drawn ex_w0) [1, 2])), ex_w1)"
  by (subst run_issue_invite)
    (simp_all add: ex_codec_laws Let_def ex_world_defs invite_row_def drawn_def ex_row_defs
      ex_invite_id_def)

lemma ex_step2:
  "run_state (register ex_state ''alice'' \<lparr>rgr_invite_id = ex_invite_id\<rparr>) ex_w1 =
     (Ok \<lparr>rr_network = ''regtest'', rr_name = ''testing daemon''\<rparr>, ex_w2)"
  by (simp add: register_def register_user_with_invite_def get_invite_def count_invite_users_def
      ex_world_defs ex_row_defs ex_clock_def insert_user_def append_row_def default_args_def
      word_sle_eq)

lemma ex_step3:
  "run_state (bolt11_receive ex_state ''alice''
     \<lparr>b11r_amount_msat = 50000000, b11r_description = ''tea''\<rparr>) ex_w2 =
     (Ok (ex_invoice [50]), ex_w3)"
  by (simp add: bolt11_receive_def run_count_pending_invoices run_create_invoice Let_def
      ex_world_defs ex_row_defs ex_clock_def default_args_def pending_invoices_def word_sle_eq
      check_amount_bounds_def ex_node_def ex_libs_def codec.defs libs.defs invoice_row_def
      ex_invoice_def ex_codec_def)

lemma ex_step4:
  "run_state (process_ldk_event ex_state (PaymentReceived (Some [50]) 50000000)) ex_w3 =
     (Ok (), ex_w4)"
  by (simp add: run_payment_received ex_world_defs ex_row_defs payment_owner_def ex_node_def
      get_invoice_def Let_def receive_row_def insert_receive_def append_row_def
      del: process_ldk_event.simps)

lemma ex_balance4: "user_balance ''alice'' (db ex_w4) = 50000000"
  by (simp add: user_balance_def receive_sum_def send_sum_def ex_world_defs ex_row_defs
      i64_saturating_sub_def)

lemma ex_may_send: "may_send default_args ''alice'' 2000000 (db ex_w4)"
  using ex_balance4
  by (simp add: may_send_def covers_def within_bounds_def lightning_fee_def max_pending_def
      count_pending_sends_def pending_sends_def default_args_def word_sless_alt)
    (simp add: ex_world_defs)

lemma run_check_send_may:
  "may_send a u x (db w) \<Longrightarrow> run_state (check_send u x a) w = (Ok (lightning_fee a x), w)"
  using run_check_send_Ok [of u x a w "lightning_fee a x" w] by simp

lemma ex_unknown: "get_invoice ex_as_hex [99] (db ex_w4) = None"
  by (simp add: get_invoice_def ex_world_defs ex_row_defs)

lemma ex_step5:
  "run_state (bolt11_send ex_state ''alice'' (ex_send [99] 2000000)) ex_w4 = (Ok (), ex_w5)"
  using ex_unknown
  by (simp add: run_bolt11_send ex_send_def run_check_send_may ex_may_send ex_invoice_def ex_node_def
      run_record_and_push)
    (simp add: Let_def ex_w5_def ex_sent_def send_row_def lightning_fee_def default_args_def,
     simp add: ex_world_defs ex_invoice_def)

definition ex_w6 :: world where
  "ex_w6 = ex_w5\<lparr>db := settle (ex_as_hex [99]) ''successful'' 1500 (db ex_w5), ticks := 11,
     event_bus := event_bus ex_w5 @ action_events (Settle (ex_as_hex [99]) ''successful'' 1500)
       (settle (ex_as_hex [99]) ''successful'' 1500 (db ex_w5))\<rparr>"

lemma ex_sends5: "sends (db ex_w5) = [ex_sent]"
  by (simp add: ex_w5_def)

lemma ex_step6:
  "run_state (process_ldk_event ex_state (PaymentSuccessful (Some [99]) (Some 1500))) ex_w5 =
     (Ok (), ex_w6)"
  by (simp add: run_payment_result ex_sends5 Let_def ex_sent_def)
    (simp add: ex_w6_def, simp add: ex_w5_def)

section \<open>The run as steps of the daemon\<close>

definition ex_dec :: "string \<Rightarrow> bolt11_send_request \<Rightarrow> json decoders" where
  "ex_dec meth send =
     \<lparr>from_slice = (\<lambda>_. Ok (meth, Json_null)),
      register_from_value = (\<lambda>_. Ok \<lparr>rgr_invite_id = ex_invite_id\<rparr>),
      bolt11_receive_from_value =
        (\<lambda>_. Ok \<lparr>b11r_amount_msat = 50000000, b11r_description = ''tea''\<rparr>),
      unit_from_value = (\<lambda>_. Ok ()), bolt11_send_from_value = (\<lambda>_. Ok send),
      bolt12_send_from_value = (\<lambda>_. Err []), onchain_send_from_value = (\<lambda>_. Err []),
      set_recovery_name_from_value = (\<lambda>_. Err []), recover_from_value = (\<lambda>_. Err [])\<rparr>"

lemma ex_request:
  assumes "run_state (dispatch (ex_dec meth send) ex_state ''alice'' meth Json_null) w = (Ok v, w')"
  shows "daemon_step default_args ex_libs K w w'"
proof (rule daemon_step.client_request [OF runs_on_ex])
  show "run_state (handle_request (ex_dec meth send) ex_state ''alice'' [] (Ok ())) w = (Ok (Ok v), w')"
    using assms by (simp add: handle_request_def ex_dec_def)
qed

lemma ex_known: "user_exists ''alice'' (db ex_w2)" "user_exists ''alice'' (db ex_w4)"
  by (simp_all add: user_exists_def ex_world_defs ex_row_defs)

lemma ex_daemon1: "daemon_step default_args ex_libs K ex_w0 ex_w1"
proof (rule daemon_step.ui_request [OF runs_on_ex])
  let ?form = "\<lparr>invf_expiry_days = 1, invf_user_limit = 2\<rparr>"
  show "create_router ex_state ''/users/invite'' (Post (Invite_form ?form)) =
      Some (invite_submit ex_state ?form)"
    by (simp add: create_router_def)
  show "run_state (invite_submit ex_state ?form) ex_w0 =
      (code_page ex_libs ''Invite Code Generated'' ''Share this code with your users:''
        (code_text ex_codec (puncture_invite (drawn ex_w0) [1, 2])), ex_w1)"
    by (simp add: invite_submit_issues ex_step1)
qed

lemma ex_daemon2: "daemon_step default_args ex_libs K ex_w1 ex_w2"
  by (rule ex_request [where meth = "''register''" and send = "ex_send [] 0"])
    (simp add: dispatch_def run_client_method ex_step2 ex_dec_def)

lemma ex_daemon3: "daemon_step default_args ex_libs K ex_w2 ex_w3"
  by (rule ex_request [where meth = "''bolt11_receive''" and send = "ex_send [] 0"])
    (simp add: dispatch_def run_client_method ex_step3 ex_dec_def ex_known)

lemma ex_daemon4:
  "K (db ex_w3) (PaymentReceived (Some [50]) 50000000) \<Longrightarrow> daemon_step default_args ex_libs K ex_w3 ex_w4"
  by (rule daemon_step.node_event [OF runs_on_ex _ ex_step4])

lemma ex_daemon5: "daemon_step default_args ex_libs K ex_w4 ex_w5"
  by (rule ex_request [where meth = "''bolt11_send''" and send = "ex_send [99] 2000000"])
    (simp add: dispatch_def run_client_method ex_step5 ex_dec_def ex_known)

lemma ex_daemon6:
  "K (db ex_w5) (PaymentSuccessful (Some [99]) (Some 1500)) \<Longrightarrow>
     daemon_step default_args ex_libs K ex_w5 ex_w6"
  by (rule daemon_step.node_event [OF runs_on_ex _ ex_step6])

lemma ex_started: "started ex_w0"
  by (auto simp: started_def ex_w0_def)

lemma ex_reached:
  assumes "K (db ex_w3) (PaymentReceived (Some [50]) 50000000)"
    and "K (db ex_w5) (PaymentSuccessful (Some [99]) (Some 1500))"
  shows "(daemon_step default_args ex_libs K)\<^sup>*\<^sup>* ex_w0 ex_w6"
  using ex_daemon1 [of K] ex_daemon2 [of K] ex_daemon3 [of K] ex_daemon4 [of K, OF assms(1)] ex_daemon5 [of K] ex_daemon6 [of K, OF assms(2)]
  by (meson converse_rtranclp_into_rtranclp rtranclp.rtrancl_refl)

lemma ex_reached4:
  assumes "K (db ex_w3) (PaymentReceived (Some [50]) 50000000)"
  shows "(daemon_step default_args ex_libs K)\<^sup>*\<^sup>* ex_w0 ex_w4"
  using ex_daemon1 [of K] ex_daemon2 [of K] ex_daemon3 [of K] ex_daemon4 [of K, OF assms]
  by (meson converse_rtranclp_into_rtranclp rtranclp.rtrancl_refl)

lemma ex_reached4_honest:
  "(crash_step default_args ex_libs (honest_node ex_libs))\<^sup>*\<^sup>* ex_w0 ex_w4"
  by (intro daemon_steps_crash ex_reached4) (simp add: honest_node_def node_contract_def)

lemma ex_reached5_any: "(crash_step default_args ex_libs any_node)\<^sup>*\<^sup>* ex_w0 ex_w5"
  using ex_reached4 [of any_node] ex_daemon5 [of any_node]
  by (intro daemon_steps_crash) (simp add: any_node_def rtranclp.rtrancl_into_rtrancl)

lemma ex_reached_any: "(crash_step default_args ex_libs any_node)\<^sup>*\<^sup>* ex_w0 ex_w6"
  by (intro daemon_steps_crash ex_reached) (simp_all add: any_node_def)

text \<open>The account of the user at the end.\<close>

lemma ex_sends6: "sends (db ex_w6) = [ex_sent\<lparr>snd_status := ''successful'', snd_fee_msat := 1500\<rparr>]"
  by (simp add: ex_w6_def ex_sends5 settle_def settle_row_def ex_sent_def)

lemma ex_received6: "received ''alice'' (db ex_w6) = 50000000"
  by (simp add: ex_w6_def received_settle) (simp add: received_def ex_world_defs ex_row_defs)

lemma ex_spent6: "spent ''alice'' (db ex_w6) = 2001500"
  by (simp add: spent_def ex_sends6 counts_for_def cost_def ex_sent_def)

section \<open>A daemon with two users\<close>

text \<open>
  The state after the first payment, with a second user who has an invoice of 1000 sats and an
  offer, and with a recovery code for the first one.
\<close>

definition ex_bob :: user where
  "ex_bob = \<lparr>usr_user_pk = ''bob'', usr_invite_id = ex_invite_id, usr_recovery_name = None,
     usr_created_at = ex_clock 0\<rparr>"

definition ex_bob_invoice :: invoice_record where
  "ex_bob_invoice = \<lparr>ivc_id = ex_as_hex [1], ivc_user_pk = ''bob'',
     ivc_amount_msat = Some 1000000, ivc_description = ''tea'', ivc_pr = ''ln'',
     ivc_expires_at = ex_clock 0 + 3600 * 1000, ivc_created_at = ex_clock 0\<rparr>"

definition ex_bob_offer :: offer_record where
  "ex_bob_offer = \<lparr>ofr_id = ex_as_hex [7], ofr_user_pk = ''bob'', ofr_amount_msat = None,
     ofr_description = [], ofr_pr = ''lnb'', ofr_expires_at = None, ofr_created_at = ex_clock 0\<rparr>"

definition ex_recovery :: recovery_record where
  "ex_recovery = \<lparr>rec_id = ex_as_hex [3], rec_user_pk = ''alice'',
     rec_expires_at = ex_clock 0 + 86400 * 1000, rec_created_at = ex_clock 0\<rparr>"

definition ex_shop :: world where
  "ex_shop = ex_w4\<lparr>db := (db ex_w4)\<lparr>invoices := [ex_invoice_row, ex_bob_invoice],
     offers := [ex_bob_offer], recoveries := [ex_recovery], users := [ex_user, ex_bob]\<rparr>\<rparr>"

lemma ex_shop_tables:
  "sends (db ex_shop) = []" "receives (db ex_shop) = [ex_receive]"
  "invoices (db ex_shop) = [ex_invoice_row, ex_bob_invoice]"
  "offers (db ex_shop) = [ex_bob_offer]" "recoveries (db ex_shop) = [ex_recovery]"
  "users (db ex_shop) = [ex_user, ex_bob]" "invites (db ex_shop) = [ex_invite]"
  "clock ex_shop = ex_clock" "ticks ex_shop = 9" "rng ex_shop = ex_rng" "draws ex_shop = 1"
  "node_log ex_shop = []"
  by (simp_all add: ex_shop_def ex_world_defs)

lemma ex_shop_accounts:
  "received ''alice'' (db ex_shop) = 50000000" "spent ''alice'' (db ex_shop) = 0"
  "user_balance ''alice'' (db ex_shop) = 50000000"
  by (simp_all add: received_def spent_def ex_shop_tables user_balance_def receive_sum_def
      send_sum_def ex_receive_def i64_saturating_sub_def)

lemma ex_shop_may_send: "may_send default_args ''alice'' 1000000 (db ex_shop)"
  by (simp add: may_send_def covers_def within_bounds_def lightning_fee_def max_pending_def
      count_pending_sends_def pending_sends_def default_args_def word_sless_alt ex_shop_accounts
      ex_shop_tables)

lemma ex_shop_invoice: "get_invoice ex_as_hex [1] (db ex_shop) = Some ex_bob_invoice"
  by (simp add: get_invoice_def ex_shop_tables ex_bob_invoice_def ex_invoice_row_def)

lemma ex_fresh_id: "ex_as_hex [50] \<noteq> ex_as_hex (map f [0..<32])"
  by (simp add: upt_rec)

lemma ex_transfer:
  "\<exists>w'. run_state (transfer_and_push ex_as_hex u v amt fee pr desc res) ex_shop = (Ok res, w')"
  using ex_fresh_id [of "rng ex_shop (draws ex_shop)"]
  by (simp add: run_transfer_and_push Let_def insert_transfer_def insert_send_def
      insert_receive_def append_row_def ex_shop_tables ex_receive_def)

lemma ex_internal:
  "\<exists>w'. run_state (bolt11_send ex_state ''alice'' (ex_send [1] 1000000)) ex_shop = (Ok (), w')"
  using ex_transfer
  by (simp add: run_bolt11_send ex_send_def run_check_send_may ex_shop_may_send ex_invoice_def
      ex_shop_invoice amount_reaches_def) (simp add: ex_bob_invoice_def)

section \<open>Paying an invoice again\<close>

lemma ex_may_send5: "may_send default_args ''alice'' 2000000 (db ex_w5)"
proof -
  have "user_balance ''alice'' (db ex_w5) = 47980000"
    by (simp add: user_balance_def receive_sum_def send_sum_def ex_world_defs ex_row_defs
        i64_saturating_sub_def)
  then show ?thesis
    by (simp add: may_send_def covers_def within_bounds_def lightning_fee_def max_pending_def
        count_pending_sends_def pending_sends_def default_args_def word_sless_alt ex_sends5
        ex_sent_def)
qed

lemma ex_unknown5: "get_invoice ex_as_hex [99] (db ex_w5) = None"
  using ex_unknown by (simp add: get_invoice_def ex_w5_def)

lemma ex_retry:
  "\<exists>w'. run_state (bolt11_send ex_state ''alice'' (ex_send [99] 2000000)) ex_w5 =
     (Panic ''Failed to insert send payment'', w')"
  using ex_unknown5
  by (simp add: run_bolt11_send ex_send_def run_check_send_may ex_may_send5 ex_invoice_def
      ex_node_def run_record_and_push Let_def ex_sends5)
    (simp add: ex_sent_def)

section \<open>Recovering an account\<close>

text \<open>After the first payment the operator issues a recovery code for the user.\<close>

definition ex_recovery_row :: recovery_record where
  "ex_recovery_row = recovery_row ex_as_hex ex_w4 (drawn ex_w4) ''alice'' 86400"

definition ex_r5 :: world where
  "ex_r5 = ex_w4\<lparr>db := (db ex_w4)\<lparr>recoveries := [ex_recovery_row]\<rparr>, ticks := 11, draws := 2\<rparr>"

definition ex_recover :: recover_request where
  "ex_recover = \<lparr>rvr_recovery_id = ex_as_hex (drawn ex_w4)\<rparr>"

lemma ex_w4_frame: "recoveries (db ex_w4) = []" "draws ex_w4 = 1" "ticks ex_w4 = 9"
  by (simp_all add: ex_world_defs)

lemma ex_issue_recovery:
  "run_state (issue_recovery ex_state ''alice'' 86400) ex_w4 =
     (Ok (code_text ex_codec (puncture_recovery (drawn ex_w4))), ex_r5)"
  by (subst run_issue_recovery)
    (simp_all add: ex_codec_laws Let_def ex_w4_frame ex_r5_def ex_recovery_row_def)

lemma ex_daemon_r5: "daemon_step default_args ex_libs K ex_w4 ex_r5"
proof (rule daemon_step.ui_request [OF runs_on_ex])
  let ?form = "\<lparr>recf_user_pk = ''alice''\<rparr>"
  show "create_router ex_state ''/users/recover'' (Post (Recovery_form ?form)) =
      Some (recovery_submit ex_state ?form)"
    by (simp add: create_router_def)
  show "run_state (recovery_submit ex_state ?form) ex_w4 =
      (code_page ex_libs ''Recovery Code Generated''
        ''Share this code with the user to recover their account:''
        (code_text ex_codec (puncture_recovery (drawn ex_w4))), ex_r5)"
    by (simp add: recovery_submit_issues ex_issue_recovery ex_known)
qed

lemma ex_reached_r5_honest:
  "(crash_step default_args ex_libs (honest_node ex_libs))\<^sup>*\<^sup>* ex_w0 ex_r5"
  using ex_reached4_honest crash_step.completed [OF ex_daemon_r5]
  by (rule rtranclp.rtrancl_into_rtrancl)

lemma ex_r5_account:
  "received ''alice'' (db ex_r5) = 50000000" "spent ''alice'' (db ex_r5) = 0"
  "user_balance ''alice'' (db ex_r5) = 50000000"
  "get_recovery (rvr_recovery_id ex_recover) (db ex_r5) = Some ex_recovery_row"
  by (simp_all add: received_def spent_def user_balance_def receive_sum_def send_sum_def
      i64_saturating_sub_def ex_r5_def get_recovery_def ex_recover_def ex_recovery_row_def)
    (simp_all add: ex_world_defs ex_row_defs)

lemma ex_recover_run:
  "\<exists>w'. run_state (recover ex_state ''bob'' ex_recover) ex_r5 = (Ok 50000000, w')"
proof -
  have "\<not> rec_expires_at ex_recovery_row <s clock ex_r5 (ticks ex_r5)"
    by (simp add: ex_recovery_row_def recovery_row_def ex_r5_def ex_w4_frame)
      (simp add: ex_world_defs ex_clock_def word_sless_alt)
  moreover have "sends (db ex_r5) = []" "receives (db ex_r5) = [ex_receive]"
    by (simp_all add: ex_r5_def ex_world_defs)
  ultimately show ?thesis
    using ex_fresh_id [of "rng ex_r5 (draws ex_r5)"]
    by (simp add: recover_def ex_r5_account run_transfer_and_push Let_def insert_transfer_def
        insert_send_def insert_receive_def append_row_def ex_receive_def)
      (simp add: ex_recovery_row_def ex_r5_account)
qed

end
