(* ===== verification/Account_Properties.thy ===== *)
theory Account_Properties
  imports Examples
begin

text \<open>
  What the client handlers promise about registration, invoices, offers, on-chain payments and
  recovery, what a user sees of its account, and the boundary cases of the balance.
\<close>

section \<open>Registration\<close>

definition may_register :: "world \<Rightarrow> string \<Rightarrow> bool" where
  "may_register w k \<longleftrightarrow>
     (\<exists>i. get_invite k (db w) = Some i \<and> \<not> ivt_expires_at i <s clock w (ticks w) \<and>
        \<not> ivt_expires_at i <s clock w (Suc (ticks w)) \<and>
        count_invite_users k (db w) <s ivt_user_limit i)"

lemma register_ok_iff:
  "is_ok (fst (run_state (register st u rq) w)) \<longleftrightarrow> may_register w (rgr_invite_id rq)"
  by (auto simp: register_def may_register_def register_user_with_invite_def
      signed.not_le signed.not_less split: option.splits)

text \<open>
  C23: registration succeeds exactly when the invite exists, is not expired at either reading of
  the clock and has a place left; then the user exists, with a row of its own only when it had
  none, and nothing else has changed; otherwise nothing at all has.
\<close>

theorem register_exact:
  assumes "run_state (register st u rq) w = (v, w')"
  shows "(is_ok v \<longleftrightarrow> may_register w (rgr_invite_id rq)) \<and>
    db w' = (if is_ok v then or_ignore (db w) (insert_user \<lparr>usr_user_pk = u,
      usr_invite_id = rgr_invite_id rq, usr_recovery_name = None,
      usr_created_at = clock w (Suc (Suc (ticks w)))\<rparr> (db w)) else db w) \<and>
    (is_ok v \<longrightarrow> user_exists u (db w')) \<and> (\<forall>p. v \<noteq> Panic p)"
  using assms
  by (auto simp: register_def may_register_def register_user_with_invite_def run_if user_exists_def
      list_ex_key or_ignore_user signed.not_le signed.not_less split: option.splits if_split_asm)

theorem register_exact_witness:
  "user_exists ''alice'' (db ex_w2) \<and> may_register ex_w1 ex_invite_id"
  using register_exact [OF ex_step2] by (metis is_ok.simps(1) register_request.select_convs(1))

section \<open>Keys\<close>



section \<open>Receiving\<close>

text \<open>
  An invoice is created only for an amount between the configured bounds and while the user
  has fewer pending invoices than allowed; it is then stored under its payment hash, for this
  user and amount, and expires \<open>invoice_expiry_secs\<close> seconds after the clock.
\<close>

theorem invoice_recorded:
  assumes "run_state (bolt11_receive st u rq) w = (Ok invoice, w')"
  shows "within_bounds (app_args st) (u32_to_u64 (b11r_amount_msat rq)) \<and>
    of_nat (length (pending_invoices (clock w (ticks w)) u (db w)))
      <s u32_to_i64 (max_pending_payments_per_user (app_args st)) \<and>
    (\<exists>r. get_invoice (as_hex (app_libs st)) (b11_payment_hash invoice) (db w') = Some r \<and>
       ivc_user_pk r = u \<and> ivc_amount_msat r = Some (u32_to_i64 (b11r_amount_msat rq)) \<and>
       ivc_pr r = b11_text invoice \<and>
       ivc_expires_at r = clock w (Suc (ticks w)) +
         u32_to_i64 (invoice_expiry_secs (app_args st)) * 1000) \<and>
    (\<forall>h. h \<noteq> as_hex (app_libs st) (b11_payment_hash invoice) \<longrightarrow>
       List.find (\<lambda>r. ivc_id r = h) (invoices (db w')) = List.find (\<lambda>r. ivc_id r = h) (invoices (db w)))"
proof -
  let ?r = "invoice_row (as_hex (app_libs st)) (w\<lparr>ticks := Suc (ticks w)\<rparr>) u invoice
    (u32_to_i64 (b11r_amount_msat rq)) (b11r_description rq) (invoice_expiry_secs (app_args st))"
  have c: "within_bounds (app_args st) (u32_to_u64 (b11r_amount_msat rq))"
    "of_nat (length (pending_invoices (clock w (ticks w)) u (db w)))
      <s u32_to_i64 (max_pending_payments_per_user (app_args st))"
    "ivc_id ?r \<notin> ivc_id ` set (invoices (db w))" "invoices (db w') = invoices (db w) @ [?r]"
    using assms
    by (auto simp: bolt11_receive_def run_simps run_if Let_def check_amount_bounds_cases
        signed.not_le elim!: attempt_cases split: if_split_asm)
  have "insert_invoice ?r (db w) = Some ((db w)\<lparr>invoices := invoices (db w) @ [?r]\<rparr>)"
    using c(3) by (simp add: insert_invoice_def append_row_def list_ex_key)
  from invoice_table.lookup_inserted [OF this] invoice_table.lookup_other [OF this] c show ?thesis
    by (auto simp: get_invoice_def)
qed

theorem invoice_recorded_witness:
  "get_invoice ex_as_hex [50] (db ex_w3) \<noteq> None \<and> within_bounds default_args 50000000"
  using invoice_recorded [OF ex_step3] by (auto simp: ex_invoice_def)

section \<open>Offers\<close>

lemma first_newest:
  assumes "first_row (newest_first f rs) = Some r"
  shows "r \<in> set rs \<and> (\<forall>q \<in> set rs. sint (f q) \<le> sint (f r))"
proof -
  obtain qs where qs: "newest_first f rs = r # qs"
    using assms by (auto simp: first_row_def split: list.splits)
  then have "sorted (map (\<lambda>r. - sint (f r)) (r # qs))" "set (r # qs) = set rs"
    unfolding newest_first_def by (metis sorted_sort_key, metis set_sort)
  then show ?thesis by auto
qed

text \<open>
  As long as the newest offer of a user is less than a day old, \<open>bolt12_receive\<close> returns
  that offer, and leaves database and node as they are.
\<close>

theorem fresh_offer_reused:
  assumes "get_offer_by_user_pk u (db w) = Some r"
    and "clock w (ticks w) - 24 * 60 * 60 * 1000 <s ofr_created_at r"
  shows "fst (run_state (bolt12_receive st u) w) = Ok (ofr_pr r) \<and>
    db (snd (run_state (bolt12_receive st u) w)) = db w \<and>
    ofr_user_pk r = u \<and> r \<in> set (offers (db w)) \<and>
    (\<forall>q \<in> set (offers (db w)). ofr_user_pk q = u \<longrightarrow> sint (ofr_created_at q) \<le> sint (ofr_created_at r))"
  using assms first_newest [of ofr_created_at "filter (\<lambda>r. ofr_user_pk r = u) (offers (db w))" r]
  by (simp add: bolt12_receive_def get_offer_by_user_pk_def)

theorem fresh_offer_reused_witness:
  "fst (run_state (bolt12_receive ex_state ''bob'') ex_shop) = Ok ''lnb''"
proof -
  have "get_offer_by_user_pk ''bob'' (db ex_shop) = Some ex_bob_offer"
    by (simp add: get_offer_by_user_pk_def ex_shop_tables ex_bob_offer_def newest_first_def
        first_row_def)
  from fresh_offer_reused [OF this] show ?thesis
    by (simp add: ex_shop_tables ex_bob_offer_def ex_clock_def word_sless_alt)
qed

section \<open>On-chain payments\<close>


definition ex_onchain :: "u64 \<Rightarrow> onchain_send_request" where
  "ex_onchain amount = \<lparr>ocs_address = ''bcrt1'', ocs_amount_sats = amount\<rparr>"



text \<open>
  The product of satoshis and 1000 is 64 bits wide: an amount just above \<open>2 ^ 64 div 1000\<close> satoshis
  passes the check of the balance as 384 msat, and only the funds of the node stop the payment.
\<close>

lemma onchain_amount_wraps:
  "\<exists>w'. run_state (onchain_send ex_state ''alice'' (ex_onchain 18446744073709552)) ex_shop = (Ok [77], w') \<and>
     node_log w' = [Pay_onchain ''bcrt1'' 18446744073709552 None]"
  by (simp add: run_onchain_send ex_onchain_def ex_shop_accounts default_args_def ex_node_def
      ex_libs_def codec.defs libs.defs run_record_and_push Let_def ex_shop_tables)

section \<open>Recovery\<close>




text \<open>The bound is 20, not 19, and a tab is accepted, against the texts of the errors.\<close>

lemma recovery_name_boundary:
  "check_recovery_name ''abcdefghij klmnopqrs'' = Ok ()"
  "check_recovery_name [CHR ''a'', CHR 0x09, CHR 0x0A] = Ok ()"
  by (simp_all add: check_recovery_name_def is_ascii_alphabetic_def is_ascii_whitespace_def Let_def)


end
