(* ===== verification/Payment_History.thy ===== *)
theory Payment_History
  imports "HOL-Library.Multiset" Ledger
begin

text \<open>
  What a client sees of its history: \<open>user_payments\<close> loads the newest rows of each table, sorts
  them together and keeps the last ones. The abstract specification is \<open>latest\<close>: as many payments
  as asked for, none of those left out newer than one of those kept.
\<close>

definition latest :: "nat \<Rightarrow> ('a \<Rightarrow> int) \<Rightarrow> 'a multiset \<Rightarrow> 'a multiset \<Rightarrow> bool" where
  "latest n f A Z \<longleftrightarrow> Z \<subseteq># A \<and> size Z = min n (size A) \<and> (\<forall>p \<in># A - Z. \<forall>q \<in># Z. f p \<le> f q)"

lemma latest_image:
  assumes "latest n (\<lambda>x. f (h x)) A Z"
  shows "latest n f (image_mset h A) (image_mset h Z)"
  using assms
  by (auto simp: latest_def image_mset_subseteq_mono image_mset_Diff [symmetric])

lemma sorted_parts:
  assumes "sorted (map f xs)"
  shows "\<forall>p \<in> set (take k xs). \<forall>q \<in> set (drop k xs). f p \<le> f q"
proof -
  have "sorted (map f (take k xs) @ map f (drop k xs))"
    using assms by (metis append_take_drop_id map_append)
  then show ?thesis by (auto simp: sorted_append)
qed

lemma mset_take_diff: "mset xs - mset (take k xs) = mset (drop k xs)"
  by (metis add_diff_cancel_left' append_take_drop_id mset_append)

lemma mset_drop_diff: "mset xs - mset (drop k xs) = mset (take k xs)"
  by (metis add_diff_cancel_right' append_take_drop_id mset_append)

lemma mset_part: "mset (take k xs) \<subseteq># mset xs" "mset (drop k xs) \<subseteq># mset xs"
  by (metis append_take_drop_id mset_append mset_subset_eq_add_left,
      metis append_take_drop_id mset_append mset_subset_eq_add_right)

lemma latest_newest_first: "latest n (\<lambda>r. sint (g r)) (mset xs) (mset (take n (newest_first g xs)))"
proof -
  let ?ys = "newest_first g xs"
  have ys: "mset xs = mset ?ys" by (simp add: newest_first_def)
  have "sorted (map (\<lambda>r. - sint (g r)) ?ys)" by (simp add: newest_first_def)
  from sorted_parts [OF this, of n]
  show ?thesis by (auto simp: latest_def ys mset_take_diff mset_part)
qed

lemma latest_last_sorted:
  "latest n f (mset xs) (mset (drop (length (sort_key f xs) - n) (sort_key f xs)))"
proof -
  let ?ys = "sort_key f xs"
  have ys: "mset xs = mset ?ys" by simp
  show ?thesis
    unfolding ys latest_def mset_drop_diff
    using sorted_parts [of f ?ys "length ?ys - n"] mset_part(2) [of "length ?ys - n" ?ys]
    by (auto simp del: mset_sort)
qed

text \<open>The latest of the latest of two collections are the latest of both.\<close>

lemma latest_kept_above:
  assumes "latest n f M Z" and "n \<le> size (filter_mset (\<lambda>y. x \<le> f y) M)" and "q \<in># Z"
  shows "x \<le> f q"
proof (rule ccontr)
  assume low: "\<not> x \<le> f q"
  let ?G = "\<lambda>y. x \<le> f y"
  have sub: "Z \<subseteq># M" and size: "size Z \<le> n" and out: "\<forall>p \<in># M - Z. f p \<le> f q"
    using assms(1,3) by (auto simp: latest_def)
  from out low have "filter_mset ?G (M - Z) = {#}" unfolding filter_mset_eq_mempty_iff by (meson order_trans)
  then have "filter_mset ?G M = filter_mset ?G Z"
    using sub by (metis add.left_neutral filter_union_mset subset_mset.diff_add)
  moreover have "filter_mset ?G Z \<subset># Z"
    using assms(3) low by (metis filter_mset_eq_conv multiset_filter_subset subset_mset.less_le)
  ultimately show False
    using assms(2) size mset_subset_size [of "filter_mset ?G Z" Z] by simp
qed

lemma latest_left_out:
  assumes "latest n f C W" and "p \<in># C - W" and "W \<subseteq># M"
  shows "n \<le> size (filter_mset (\<lambda>y. f p \<le> f y) M)"
proof -
  have sub: "W \<subseteq># C" and size: "size W = min n (size C)" using assms(1) by (auto simp: latest_def)
  have "size (C - W) \<noteq> 0" using assms(2) by auto
  with size_Diff_submset [OF sub] size have "size W = n" by simp
  moreover have "filter_mset (\<lambda>y. f p \<le> f y) W = W"
    using assms(1,2) by (auto simp: latest_def filter_mset_eq_conv)
  ultimately show ?thesis
    using assms(3) by (metis multiset_filter_mono size_mset_mono)
qed

lemma latest_merge:
  assumes A: "latest n f A X" and B: "latest n f B Y" and Z: "latest n f (X + Y) Z"
  shows "latest n f (A + B) Z"
proof -
  have sub: "X \<subseteq># A" "Y \<subseteq># B" "Z \<subseteq># X + Y" and size: "size X = min n (size A)"
      "size Y = min n (size B)" "size Z = min n (size (X + Y))"
    using assms by (simp_all add: latest_def)
  have le: "Z \<subseteq># A + B" using sub by (meson subset_mset.add_mono subset_mset.order_trans)
  have "A + B - Z = (A - X) + (B - Y) + (X + Y - Z)"
    using sub by (smt (verit) add.assoc add.commute subset_mset.add_diff_assoc2
        subset_mset.diff_add subset_mset.diff_add_assoc union_mset_add_mset_left)
  moreover have "f p \<le> f q" if "p \<in># (A - X) + (B - Y) + (X + Y - Z)" "q \<in># Z" for p q
    using that latest_kept_above [OF Z latest_left_out [OF A]]
      latest_kept_above [OF Z latest_left_out [OF B]] Z
    by (fastforce simp: latest_def)
  ultimately show ?thesis
    using le size by (auto simp: latest_def)
qed

section \<open>The history of a user\<close>

definition all_payments :: "string \<Rightarrow> db \<Rightarrow> payment multiset" where
  "all_payments u d =
     mset (map (\<lambda>r. receive_into_payment r False) (filter (\<lambda>r. rcv_user_pk r = u) (receives d))) +
     mset (map (\<lambda>r. send_into_payment r False) (filter (\<lambda>r. snd_user_pk r = u) (sends d)))"

lemma into_payment_created [simp]:
  "pay_created_at (receive_into_payment r b) = rcv_created_at r"
  "pay_created_at (send_into_payment s b) = snd_created_at s"
  by (simp_all add: receive_into_payment_def send_into_payment_def)

text \<open>
  C26: the history a user gets are its latest 50 payments, received and sent (all of them when it
  has no more), from the oldest to the newest.
\<close>

theorem user_payments_latest:
  "latest 50 (\<lambda>p. sint (pay_created_at p)) (all_payments u d) (mset (user_payments u d)) \<and>
     sorted (map (\<lambda>p. sint (pay_created_at p)) (user_payments u d))"
proof
  let ?f = "\<lambda>p. sint (pay_created_at p)"
  let ?R = "filter (\<lambda>r. rcv_user_pk r = u) (receives d)"
  let ?S = "filter (\<lambda>r. snd_user_pk r = u) (sends d)"
  let ?rs = "map (\<lambda>r. receive_into_payment r False) (take 50 (newest_first rcv_created_at ?R))"
  let ?ss = "map (\<lambda>r. send_into_payment r False) (take 50 (newest_first snd_created_at ?S))"
  let ?ps = "sort_key ?f (?rs @ ?ss)"
  have eq: "user_payments u d = drop (length ?ps - 50) ?ps"
    by (simp add: user_payments_def Let_def)
  have "latest 50 ?f (mset (map (\<lambda>r. receive_into_payment r False) ?R)) (mset ?rs)"
    unfolding mset_map by (rule latest_image) (simp add: latest_newest_first del: mset_filter)
  moreover have "latest 50 ?f (mset (map (\<lambda>r. send_into_payment r False) ?S)) (mset ?ss)"
    unfolding mset_map by (rule latest_image) (simp add: latest_newest_first del: mset_filter)
  moreover have "latest 50 ?f (mset ?rs + mset ?ss) (mset (user_payments u d))"
    unfolding eq using latest_last_sorted [of 50 ?f "?rs @ ?ss"] by simp
  ultimately show "latest 50 ?f (all_payments u d) (mset (user_payments u d))"
    unfolding all_payments_def by (rule latest_merge)
  show "sorted (map ?f (user_payments u d))"
    unfolding eq drop_map [symmetric] by (intro sorted_wrt_drop) (rule sorted_sort_key)
qed

end
