(* ===== verification/Edge_Properties.thy ===== *)
theory Edge_Properties
  imports Examples
begin

text \<open>
  The edges of the daemon: what an account reads once it is overdrawn and how a configuration
  leads there, the payments the node makes although the handler then panics, who sees which
  event, and the limit on connections.
\<close>

section \<open>Overdrawn accounts\<close>

text \<open>
  C30: with a fee configuration below 1000 msat an internal payment can cost more than was
  checked. The balance of the payer is then not refused or zero: the subtraction saturates at
  \<open>i64::MIN\<close> only and the cast to \<open>u64\<close> turns the debt into more than \<open>2 ^ 63\<close> msat.
\<close>

theorem uncovered_fee_overdraws:
  assumes "run_state (bolt11_send st u rq) w = (Ok v, w')"
    and "get_invoice (as_hex (app_libs st)) (b11_payment_hash (b11s_invoice rq)) (db w) = Some i"
    and "spent u (db w) \<le> received u (db w)" and "received u (db w) < 2 ^ 62"
    and "received u (db w) - spent u (db w) < uint (b11s_amount_msat rq) + 1000"
  shows "received u (db w') < spent u (db w') \<and> 2 ^ 63 \<le> uint (user_balance u (db w'))"
proof -
  let ?amt = "b11s_amount_msat rq"
  obtain x where x: "bolt11_send_post st u rq (db w) v (Some x)" "enabled (app_args st) (db w) x"
      "performs x w w'"
    using bolt11_send_Ok [OF assms(1)] by blast
  then have post: "transfer_post u (ivc_user_pk i) ?amt 1000 (Some x)" "ivc_user_pk i \<noteq> u"
    using assms(2) by (auto simp: bolt11_send_post_def)
  have acc: "received u (db w') = received u (db w)" "spent u (db w') = spent u (db w) + uint ?amt + 1000"
    using performs_transfer [OF x(3) post(1) x(2), of u] post(2) by auto
  have bal: "uint (user_balance u (db w)) = received u (db w) - spent u (db w)"
    using assms(3,4) by (intro user_balance_exact) simp_all
  have "?amt \<le> user_balance u (db w)"
    using x(2) post(1) by (auto simp: transfer_post_def may_send_def covers_def)
  then have "uint ?amt \<le> received u (db w) - spent u (db w)" using bal by (simp add: word_le_def)
  then have small: "spent u (db w') < 2 ^ 63" using acc assms(4) by simp
  have over: "received u (db w') < spent u (db w')" using acc assms(5) by simp
  have "uint (user_balance u (db w')) = 2 ^ 64 - (spent u (db w') - received u (db w'))"
    using user_balance_overdrawn [OF over small] .
  then show ?thesis using over small received_nonneg [of u "db w'"] by simp
qed

definition ex_free :: app_state where
  "ex_free = ex_state\<lparr>app_args := default_args\<lparr>fee_ppm := 0, base_fee_msat := 0\<rparr>\<rparr>"

lemma ex_free_run:
  "\<exists>w'. run_state (bolt11_send ex_free ''alice'' (ex_send [1] 50000000)) ex_shop = (Ok (), w')"
proof -
  have "may_send (app_args ex_free) ''alice'' 50000000 (db ex_shop)"
    by (simp add: may_send_def covers_def within_bounds_def lightning_fee_def max_pending_def
        count_pending_sends_def pending_sends_def default_args_def word_sless_alt ex_shop_accounts
        ex_shop_tables ex_free_def)
  moreover have "app_libs ex_free = ex_libs" by (simp add: ex_free_def)
  ultimately show ?thesis
    using ex_transfer
    by (simp add: run_bolt11_send ex_send_def run_check_send_may ex_invoice_def
        ex_shop_invoice amount_reaches_def) (simp add: ex_bob_invoice_def)
qed

theorem uncovered_fee_overdraws_witness:
  "\<exists>w' :: world. received ''alice'' (db w') < spent ''alice'' (db w') \<and>
     2 ^ 63 \<le> uint (user_balance ''alice'' (db w'))"
proof -
  obtain w' where run: "run_state (bolt11_send ex_free ''alice'' (ex_send [1] 50000000)) ex_shop
      = (Ok (), w')"
    using ex_free_run by blast
  have "get_invoice (as_hex (app_libs ex_free))
      (b11_payment_hash (b11s_invoice (ex_send [1] 50000000))) (db ex_shop) = Some ex_bob_invoice"
    using ex_shop_invoice by (simp add: ex_send_def ex_invoice_def ex_free_def)
  from uncovered_fee_overdraws [OF run this] show ?thesis
    by (intro exI [of _ w']) (simp add: ex_send_def ex_shop_accounts)
qed

section \<open>Payments the handler loses\<close>

text \<open>
  C28: an offer without a description is paid by the node, and then the handler panics before it
  records the payment: the node has the command, and no account is debited.
\<close>

theorem silent_offer_paid_for_free:
  assumes "may_send (app_args st) u (b12s_amount_msat rq) (db w)"
    and "offer_from_str (app_libs st) (b12s_offer rq) = Some ofr" and "b12_description ofr = None"
    and "get_offer (as_hex (app_libs st)) (b12_id ofr) (db w) = None"
    and "nd_bolt12_send (app_node st) ofr (b12s_amount_msat rq) = Ok i"
  shows "\<exists>w'. run_state (bolt12_send st u rq) w = (Panic ''unwrap'', w') \<and>
    node_log w' = node_log w @ [Pay_bolt12 ofr (b12s_amount_msat rq)] \<and>
    db w' = db w \<and> event_bus w' = event_bus w"
  using assms by (simp add: run_bolt12_send run_check_send_may Let_def)

theorem silent_offer_paid_for_free_witness:
  "\<exists>w'. run_state (bolt12_send ex_state ''alice''
       \<lparr>b12s_offer = ''lno2'', b12s_amount_msat = 1000000\<rparr>) ex_shop = (Panic ''unwrap'', w') \<and>
     node_log w' = [Pay_bolt12 ex_silent_offer 1000000]"
  using silent_offer_paid_for_free [of ex_state "''alice''"
      "\<lparr>b12s_offer = ''lno2'', b12s_amount_msat = 1000000\<rparr>" ex_shop ex_silent_offer "[8]"]
  by (simp add: ex_shop_may_send ex_libs_def ex_silent_offer_def codec.defs libs.defs get_offer_def
      ex_shop_tables ex_bob_offer_def ex_codec_def ex_node_def) blast

text \<open>
  C27: when the node accepts an invoice whose payment id is recorded already, as it does after a
  failed attempt, the handler panics: the node pays the new amount, the old row stays as it is,
  and the success event then charges the amount of the old row.
\<close>

theorem retried_payment_charges_old_row:
  assumes "keys_ok (db w)" and "may_send (app_args st) u (b11s_amount_msat rq) (db w)"
    and "get_invoice (as_hex (app_libs st)) (b11_payment_hash (b11s_invoice rq)) (db w) = None"
    and "nd_bolt11_send (app_node st) (b11s_invoice rq) (b11s_amount_msat rq) = Ok i"
    and "r \<in> set (sends (db w))" and "snd_id r = as_hex (app_libs st) i"
    and "snd_user_pk r = u" and "snd_status r = ''failed''"
  shows "\<exists>w1 w2. run_state (bolt11_send st u rq) w = (Panic ''Failed to insert send payment'', w1) \<and>
    node_log w1 = node_log w @ [Pay_bolt11 (b11s_invoice rq) (b11s_amount_msat rq)] \<and>
    run_state (process_ldk_event st (PaymentSuccessful (Some i) (Some fee))) w1 = (Ok (), w2) \<and>
    spent u (db w2) = spent u (db w) + uint (snd_amount_msat r) + uint fee"
proof -
  let ?w1 = "w\<lparr>node_log := node_log w @ [Pay_bolt11 (b11s_invoice rq) (b11s_amount_msat rq)],
    ticks := Suc (ticks w)\<rparr>"
  have mem: "as_hex (app_libs st) i \<in> snd_id ` set (sends (db w))"
    using assms(5,6) by (metis imageI)
  have run: "run_state (bolt11_send st u rq) w = (Panic ''Failed to insert send payment'', ?w1)"
    using assms(2-4) mem
    by (simp add: run_bolt11_send run_check_send_may run_record_and_push Let_def)
  have find: "List.find (\<lambda>r. snd_id r = as_hex (app_libs st) i) (sends (db w)) = Some r"
    using assms(1,5,6) send_table.lookup_mem [of "db w" r] by (simp add: keys_ok_def)
  obtain w2 where ev: "run_state (process_ldk_event st (PaymentSuccessful (Some i) (Some fee))) ?w1
      = (Ok (), w2)" and d2: "db w2 = settle (snd_id r) ''successful'' fee (db w)"
    using find assms(6) by (simp add: run_payment_result Let_def)
  have dist: "distinct (map snd_id (sends (db w)))"
    using assms(1) by (simp add: keys_ok_def send_table.keys_unique_def)
  have "spent u (db w2) = spent u (db w) + uint (snd_amount_msat r) + uint fee"
    using spent_settle [OF dist assms(5) refl refl, of "''successful''" fee] assms(7,8)
    by (simp add: d2)
  with run ev show ?thesis by auto
qed

definition ex_failed :: world where
  "ex_failed = ex_w5\<lparr>db := settle (ex_as_hex [99]) ''failed'' 0 (db ex_w5)\<rparr>"

definition ex_failed_row :: send_record where
  "ex_failed_row = ex_sent\<lparr>snd_status := ''failed'', snd_fee_msat := 0\<rparr>"

lemma ex_failed_tables:
  "sends (db ex_failed) = [ex_failed_row]" "receives (db ex_failed) = [ex_receive]"
  "get_invoice ex_as_hex [99] (db ex_failed) = None" "keys_ok (db ex_failed)"
proof -
  show "sends (db ex_failed) = [ex_failed_row]"
    by (simp add: ex_failed_def ex_sends5 settle_def settle_row_def ex_sent_def ex_failed_row_def)
  show "receives (db ex_failed) = [ex_receive]"
    by (simp add: ex_failed_def settle_def) (simp add: ex_world_defs)
  show "get_invoice ex_as_hex [99] (db ex_failed) = None"
    using ex_unknown5 by (simp add: ex_failed_def get_invoice_def settle_def)
  have "keys_ok (db ex_w5)" by (rule crash_keys.reachable_inv [OF ex_started ex_reached5_any])
  from keys_ok_apply [OF this, of default_args "Settle (ex_as_hex [99]) ''failed'' 0"]
  show "keys_ok (db ex_failed)" by (simp add: ex_failed_def)
qed

lemma ex_failed_may_send: "may_send default_args ''alice'' 4000000 (db ex_failed)"
proof -
  have "user_balance ''alice'' (db ex_failed) = 50000000"
    by (simp add: user_balance_def receive_sum_def send_sum_def ex_failed_tables ex_failed_row_def
        ex_receive_def ex_sent_def i64_saturating_sub_def)
  then show ?thesis
    by (simp add: may_send_def covers_def within_bounds_def lightning_fee_def max_pending_def
        count_pending_sends_def pending_sends_def default_args_def word_sless_alt ex_failed_tables
        ex_failed_row_def)
qed

theorem retried_payment_charges_old_row_witness:
  "\<exists>w1 w2. run_state (bolt11_send ex_state ''alice'' (ex_send [99] 4000000)) ex_failed =
       (Panic ''Failed to insert send payment'', w1) \<and>
     run_state (process_ldk_event ex_state (PaymentSuccessful (Some [99]) (Some 1500))) w1 =
       (Ok (), w2) \<and>
     spent ''alice'' (db w2) = spent ''alice'' (db ex_failed) + 2001500"
proof -
  let ?rq = "ex_send [99] 4000000"
  have h: "may_send (app_args ex_state) ''alice'' (b11s_amount_msat ?rq) (db ex_failed)"
    "get_invoice (as_hex (app_libs ex_state)) (b11_payment_hash (b11s_invoice ?rq)) (db ex_failed) = None"
    "nd_bolt11_send (app_node ex_state) (b11s_invoice ?rq) (b11s_amount_msat ?rq) = Ok [99]"
    "ex_failed_row \<in> set (sends (db ex_failed))" "snd_id ex_failed_row = as_hex (app_libs ex_state) [99]"
    "snd_user_pk ex_failed_row = ''alice''" "snd_status ex_failed_row = ''failed''"
    "snd_amount_msat ex_failed_row = 2000000"
    using ex_failed_may_send ex_failed_tables
    by (simp_all add: ex_send_def ex_invoice_def ex_node_def ex_failed_row_def ex_sent_def)
  from retried_payment_charges_old_row [OF ex_failed_tables(4) h(1-7), of 1500] h(8)
  show ?thesis by auto
qed

section \<open>Who sees which event\<close>

text \<open>
  C24: a connection gets, after its own balance and payments, exactly the messages of its own
  user, in the order they were sent, and no message of another user; a lost part of the stream
  reaches it as an error.
\<close>

theorem events_of_own_user:
  "fst (run_state (events u (map Ok m @ lag)) w) =
     map Ok (Balance (user_balance u (db w)) # map Payment (user_payments u (db w)) @
       map snd (filter (\<lambda>x. fst x = u) m)) @ subscribe_to_events u lag \<and>
   (Err e \<in> set lag \<longrightarrow> Err e \<in> set (subscribe_to_events u lag))"
proof -
  have app: "subscribe_to_events u (map Ok m @ lag) =
      subscribe_to_events u (map Ok m) @ subscribe_to_events u lag"
    by (simp add: subscribe_to_events_def map_filter_def)
  have "Err e \<in> set (subscribe_to_events u lag)" if "Err e \<in> set lag"
    using that by (force simp: subscribe_to_events_def map_filter_def)
  then show ?thesis
    by (simp add: run_events_stream events_snapshot_def app subscribe_no_lag events_of_def)
qed

theorem events_of_own_user_witness:
  "Err ''lagged'' \<in> set (subscribe_to_events ''bob'' [Ok (''alice'', Balance 5), Err ''lagged''])"
  using events_of_own_user [of "''bob''" "[]" "[Ok (''alice'', Balance 5), Err ''lagged'']" ex_w4 "''lagged''"]
  by simp

section \<open>Connections\<close>

text \<open>
  C31: whatever connections are accepted, closed or lost to a panic, no node id ever has more
  than 10 live connections, and the end of a live one finds its counter.
\<close>

theorem connection_limit:
  assumes "conn_step\<^sup>*\<^sup>* no_connections s"
  shows "count_list (live s) n \<le> 10 \<and> (n \<in> set (live s) \<longrightarrow> fst (release n s) = Ok ())"
proof -
  have ok: "conn_ok s" using limit.reachable_inv [OF refl assms] .
  then have "int (count_list (live s) n + count_list (leaked s) n) =
      (case counters s n of None \<Rightarrow> 0 | Some c \<Rightarrow> uint c)" by (simp add: conn_ok_def)
  moreover have "(case counters s n of None \<Rightarrow> 0 | Some c \<Rightarrow> uint c) \<le> 10"
    using ok by (auto simp: conn_ok_def split: option.split)
  ultimately have "count_list (live s) n \<le> 10" by linarith
  with release_Ok [OF ok] show ?thesis by blast
qed

lemma admit_step: "conn_step s (snd (admit n s))"
  by (metis accepted prod.collapse)

definition ex_two :: connections where
  "ex_two = snd (admit ''a'' (snd (admit ''a'' no_connections)))"

lemma ex_two_reached: "conn_step\<^sup>*\<^sup>* no_connections ex_two"
  unfolding ex_two_def using admit_step by (meson rtranclp.rtrancl_into_rtrancl rtranclp.rtrancl_refl)

theorem connection_limit_witness:
  "count_list (live ex_two) ''a'' = 2 \<and> fst (release ''a'' ex_two) = Ok ()"
proof -
  have "live ex_two = [''a'', ''a'']"
    by (simp add: ex_two_def admit_def no_connections_def Let_def)
  with connection_limit [OF ex_two_reached, of "''a''"] show ?thesis by simp
qed

lemma leaked_grows: "conn_step s t \<Longrightarrow> count_list (leaked s) n \<le> count_list (leaked t) n"
  by (auto elim!: conn_stepE simp: admit_def release_def crash_def Let_def
      split: if_splits option.splits)

text \<open>
  C32: the counter of a connection whose task panics is not given back. A node id that lost ten
  connections this way is refused for as long as the daemon runs.
\<close>

theorem leaked_connections_lock_out:
  assumes "conn_step\<^sup>*\<^sup>* no_connections s" and "10 \<le> count_list (leaked s) n"
    and "conn_step\<^sup>*\<^sup>* s t"
  shows "fst (admit n t) = Err ''User has reached maximum of 10 simultaneous connections'' \<and>
    n \<notin> set (live t)"
proof -
  have ok: "conn_ok t"
    using limit.reachable_inv [OF refl rtranclp_trans [OF assms(1,3)]] .
  have "count_list (leaked s) n \<le> count_list (leaked t) n"
    using assms(3) by (induction rule: rtranclp_induct) (auto intro: order_trans leaked_grows)
  then have many: "10 \<le> count_list (leaked t) n" using assms(2) by simp
  have sum: "int (count_list (live t) n + count_list (leaked t) n) =
      (case counters t n of None \<Rightarrow> 0 | Some c \<Rightarrow> uint c)"
    using ok by (simp add: conn_ok_def)
  with many obtain c where c: "counters t n = Some c" "10 \<le> uint c"
    by (auto split: option.splits)
  then have "uint c \<le> 10" using ok by (auto simp: conn_ok_def)
  with c sum many have "count_list (live t) n = 0" "\<not> c < 10" by (simp_all add: word_less_def)
  with c show ?thesis
    by (auto simp: admit_def Let_def count_list_0_iff)
qed

definition ex_leak :: "nat \<Rightarrow> connections" where
  "ex_leak k = \<lparr>counters = (\<lambda>_. None)(''a'' \<mapsto> of_nat k), live = [], leaked = replicate k ''a''\<rparr>"

lemma ex_leak_first: "conn_step\<^sup>*\<^sup>* no_connections (ex_leak 0)"
proof -
  let ?s = "snd (admit ''a'' no_connections)"
  have "release ''a'' ?s = (Ok (), ex_leak 0)" "''a'' \<in> set (live ?s)"
    by (simp_all add: admit_def release_def no_connections_def ex_leak_def Let_def)
  then have "conn_step ?s (ex_leak 0)" by (meson closed)
  with admit_step [of no_connections "''a''"] show ?thesis
    by (meson rtranclp.rtrancl_into_rtrancl rtranclp.rtrancl_refl)
qed

lemma ex_leak_more:
  assumes "k < 10"
  shows "conn_step\<^sup>*\<^sup>* (ex_leak k) (ex_leak (Suc k))"
proof -
  let ?s = "snd (admit ''a'' (ex_leak k))"
  have "(of_nat k :: u64) < 10"
    using assms by (simp add: word_less_nat_alt unat_of_nat)
  then have "crash ''a'' ?s = ex_leak (Suc k)" "''a'' \<in> set (live ?s)"
    by (simp_all add: admit_def crash_def ex_leak_def Let_def add.commute)
  then have "conn_step ?s (ex_leak (Suc k))" by (metis panicked)
  with admit_step [of "ex_leak k" "''a''"] show ?thesis
    by (meson rtranclp.rtrancl_into_rtrancl rtranclp.rtrancl_refl)
qed

lemma ex_leak_reached: "k \<le> 10 \<Longrightarrow> conn_step\<^sup>*\<^sup>* no_connections (ex_leak k)"
proof (induction k)
  case 0
  show ?case by (rule ex_leak_first)
next
  case (Suc k)
  then have "conn_step\<^sup>*\<^sup>* no_connections (ex_leak k)" "k < 10" by simp_all
  then show ?case using ex_leak_more by (rule_tac rtranclp_trans)
qed

theorem leaked_connections_lock_out_witness:
  "fst (admit ''a'' (ex_leak 10)) = Err ''User has reached maximum of 10 simultaneous connections''"
proof -
  have "10 \<le> count_list (leaked (ex_leak 10)) ''a''"
    by (simp add: ex_leak_def numeral_eq_Suc)
  from leaked_connections_lock_out [OF ex_leak_reached this rtranclp.rtrancl_refl] show ?thesis
    by simp
qed

end
