(* ===== verification/Admin_Properties.thy ===== *)
theory Admin_Properties
  imports Account_Properties
begin

text \<open>
  What the operator's interfaces promise: the path of an invite and of a recovery code from the
  operator to the client, the routes of the command line tool, the ids of channels, the
  validity of invites, and the amounts on the pages.
\<close>

section \<open>Invite codes\<close>

lemma truncate_hex [simp]: "as_hex (codec.truncate l) = as_hex l"
  by (simp add: codec.defs)

lemma fresh_invite_unused:
  assumes "invites_ok d" and "k \<notin> ivt_id ` set (invites d)"
  shows "count_invite_users k d = 0"
proof -
  have "k \<notin> set (map usr_invite_id (users d))" using assms by (auto simp: invites_ok_def)
  then have "members k d = 0" unfolding members_def by (rule count_notin)
  then show ?thesis by (simp add: count_invite_users_members)
qed

text \<open>
  C22: the code \<open>puncture-cli user invite\<close> prints decodes to an invite code with the node id of
  this daemon, and a client that presents the id of the code is registered, as long as the
  invite has not expired and its limit is not zero.
\<close>

theorem invite_code_registers:
  assumes "codec_laws (codec.truncate (app_libs st))" and "started w0"
    and "(crash_step a l any_node)\<^sup>*\<^sup>* w0 w"
    and "run_state (user_invite st rq) w = (Ok code, w1)" and "0 < inv_user_limit rq"
    and "\<forall>n \<in> {ticks w1, Suc (ticks w1)}.
      \<not> clock w (ticks w) + u32_to_i64 (inv_expiry_days rq * 60 * 60 * 24) * 1000 <s clock w1 n"
  shows "\<exists>c. and_then (decode (codec.truncate (app_libs st)) code) to_invite = Ok c \<and>
    ic_node_id c = app_node_id st \<and>
    is_ok (fst (run_state (register st u
      \<lparr>rgr_invite_id = invite_code_id (codec.truncate (app_libs st)) c\<rparr>) w1))"
proof -
  let ?cd = "codec.truncate (app_libs st)" and ?id = "as_hex (app_libs st) (drawn w)"
  let ?r = "invite_row (as_hex (app_libs st)) w (drawn w) (inv_user_limit rq)
    (inv_expiry_days rq * 60 * 60 * 24)"
  have inv: "invites_ok (db w)" using crash_capacity.reachable_inv [OF assms(2,3)] by simp
  have c: "code = code_text ?cd (puncture_invite (drawn w) (app_node_id st))"
    "?id \<notin> ivt_id ` set (invites (db w))" "db w1 = (db w)\<lparr>invites := invites (db w) @ [?r]\<rparr>"
    and clk: "clock w1 = clock w"
    using assms(4)
    by (auto simp: user_invite_issues run_issue_invite [OF assms(1)] Let_def split: if_split_asm)
  have "insert_invite ?r (db w) = Some (db w1)"
    using c(2,3) by (simp add: insert_invite_def append_row_def list_ex_key)
  from invite_table.lookup_inserted [OF this] have found: "get_invite ?id (db w1) = Some ?r"
    by (simp add: get_invite_def)
  have "count_invite_users ?id (db w1) = 0"
    using fresh_invite_unused [OF inv c(2)] c(3) by (simp add: count_invite_users_def)
  moreover have "0 < uint (inv_user_limit rq)" using assms(5) by (simp add: word_less_def)
  ultimately have "may_register w1 ?id"
    using assms(6) found clk
    by (simp add: may_register_def invite_row_def word_sless_alt)
  then have "is_ok (fst (run_state (register st u \<lparr>rgr_invite_id = ?id\<rparr>) w1))"
    by (simp add: register_ok_iff)
  then show ?thesis
    using encode_text(2) [OF assms(1)] by (simp add: c(1) puncture_invite_def invite_code_id_def)
qed

theorem invite_code_registers_witness:
  "\<exists>c. and_then (decode ex_codec (code_text ex_codec (puncture_invite (drawn ex_w0) [1, 2])))
       to_invite = Ok c \<and> ic_node_id c = [1, 2] \<and>
     is_ok (fst (run_state (register ex_state ''alice'' \<lparr>rgr_invite_id = invite_code_id ex_codec c\<rparr>) ex_w1))"
proof -
  let ?rq = "\<lparr>inv_expiry_days = 1, inv_user_limit = 2\<rparr>"
  have run: "run_state (user_invite ex_state ?rq) ex_w0 =
      (Ok (code_text ex_codec (puncture_invite (drawn ex_w0) [1, 2])), ex_w1)"
    by (simp add: user_invite_issues ex_step1)
  have laws: "codec_laws (codec.truncate (app_libs ex_state))" by (simp add: ex_codec_laws)
  show ?thesis
    using invite_code_registers [OF laws ex_started rtranclp.rtrancl_refl run, of "''alice''"]
    by (simp add: ex_world_defs ex_clock_def word_sless_alt)
qed

section \<open>Recovery codes\<close>



section \<open>The two interfaces of the operator\<close>

text \<open>
  Every command of \<open>puncture-cli\<close> reaches the handler it is meant for: the route and the body
  the tool sends are those the daemon's router has for it.
\<close>

theorem commands_reach_handlers:
  "router st (fst (cli_request c)) (snd (cli_request c)) = command_handler st c"
  by (cases c rule: cli_request.cases) (simp_all add: router_def route_defs)

text \<open>Issuing a code, whatever the codec does with it.\<close>

lemma run_attempt_ok: "run_state (attempt r ok) s = (r, s)"
  by (cases r) simp_all

lemma run_issue_codes:
  "run_state (issue_invite st limit secs) w =
     (let r = invite_row (as_hex (app_libs st)) w (drawn w) limit secs;
          w1 = w\<lparr>draws := Suc (draws w), ticks := Suc (Suc (ticks w))\<rparr>
      in if ivt_id r \<in> ivt_id ` set (invites (db w)) then (Panic ''Failed to create invite'', w1)
         else (encode (codec.truncate (app_libs st)) (puncture_invite (drawn w) (app_node_id st)),
               w1\<lparr>db := (db w)\<lparr>invites := invites (db w) @ [r]\<rparr>\<rparr>))"
  "run_state (issue_recovery st u secs) w =
     (let r = recovery_row (as_hex (app_libs st)) w (drawn w) u secs;
          w1 = w\<lparr>draws := Suc (draws w), ticks := Suc (Suc (ticks w))\<rparr>
      in if rec_id r \<in> rec_id ` set (recoveries (db w)) then (Panic ''Failed to create recovery'', w1)
         else (encode (codec.truncate (app_libs st)) (puncture_recovery (drawn w)),
               w1\<lparr>db := (db w)\<lparr>recoveries := recoveries (db w) @ [r]\<rparr>\<rparr>))"
  by (auto simp: issue_invite_def issue_recovery_def run_simps Let_def drawn_def invite_row_def
      recovery_row_def run_attempt_ok)

text \<open>
  The web interface and the command line issue the same codes with the same effect: the
  invite form does what \<open>user invite\<close> does, the recovery form what \<open>user recover\<close> does, whatever
  expiry the latter asks for, and both refuse an unknown user.
\<close>

theorem web_and_cli_agree:
  "run_state (invite_submit st \<lparr>invf_expiry_days = days, invf_user_limit = limit\<rparr>) w =
     (case run_state (user_invite st \<lparr>inv_expiry_days = days, inv_user_limit = limit\<rparr>) w of
        (r, w') \<Rightarrow> (and_then (map_err ce_error r) (code_page (app_libs st) ''Invite Code Generated''
          ''Share this code with your users:''), w')) \<and>
   run_state (recovery_submit st \<lparr>recf_user_pk = u\<rparr>) w =
     (case run_state (user_recover st \<lparr>crv_user_pk = u, crv_expiry_days = days'\<rparr>) w of
        (Err e, w') \<Rightarrow> (Ok unknown_user_page, w')
      | (r, w') \<Rightarrow> (and_then (map_err ce_error r) (code_page (app_libs st) ''Recovery Code Generated''
          ''Share this code with the user to recover their account:''), w'))"
proof
  let ?enc = "to_allocvec (codec.truncate (app_libs st))"
  show "run_state (invite_submit st \<lparr>invf_expiry_days = days, invf_user_limit = limit\<rparr>) w =
     (case run_state (user_invite st \<lparr>inv_expiry_days = days, inv_user_limit = limit\<rparr>) w of
        (r, w') \<Rightarrow> (and_then (map_err ce_error r) (code_page (app_libs st) ''Invite Code Generated''
          ''Share this code with your users:''), w'))"
    by (cases "?enc (puncture_invite (drawn w) (app_node_id st))")
      (simp_all add: invite_submit_issues user_invite_issues run_issue_codes encode_def Let_def)
  show "run_state (recovery_submit st \<lparr>recf_user_pk = u\<rparr>) w =
     (case run_state (user_recover st \<lparr>crv_user_pk = u, crv_expiry_days = days'\<rparr>) w of
        (Err e, w') \<Rightarrow> (Ok unknown_user_page, w')
      | (r, w') \<Rightarrow> (and_then (map_err ce_error r) (code_page (app_libs st) ''Recovery Code Generated''
          ''Share this code with the user to recover their account:''), w'))"
    by (cases "?enc (puncture_recovery (drawn w))")
      (simp_all add: recovery_submit_issues user_recover_issues run_issue_codes run_if encode_def Let_def)
qed

section \<open>Channels\<close>

text \<open>
  The id that the list of channels shows for a channel closes exactly this channel, when the
  hex library decodes the 16 bytes it encoded.
\<close>

theorem listed_channel_closes:
  assumes "\<forall>bs. length bs = 16 \<longrightarrow> from_hex_16 (app_libs st) (as_hex (app_libs st) bs) = Ok bs"
    and "i \<in> set (ldk_channel_list st)"
  shows "\<exists>c \<in> set (nd_list_channels (app_node st)).
    run_state (ldk_channel_close st \<lparr>cc_user_channel_id = ci_user_channel_id i,
        cc_counterparty_node_id = ci_counterparty_node_id i, cc_force = force\<rparr>) w =
    run_state (do {
      r \<leftarrow> node_call (Close_channel force (cd_user_channel_id c) (cd_counterparty_node_id c))
        (nd_close_channel (app_node st) force (cd_user_channel_id c) (cd_counterparty_node_id c));
      ret (map_err internal r) }) w"
proof -
  obtain c where c: "c \<in> set (nd_list_channels (app_node st))"
    "i = channel_info_of (as_hex (app_libs st)) c"
    using assms(2) by (auto simp: ldk_channel_list_def)
  have "run_state (attempt r ok) s = (r, s)" for r :: "(cli_error, unit) outcome" and s :: world
    by (cases r) simp_all
  with assms(1) c show ?thesis
    by (intro bexI [OF _ c(1)]) (simp add: ldk_channel_close_def channel_info_of_def)
qed

lemma digit_chars:
  "digit_char (Suc 0) = CHR ''1''" "digit_char 1 = CHR ''1''" "digit_char 2 = CHR ''2''"
  "digit_char 3 = CHR ''3''" "digit_char 4 = CHR ''4''" "digit_char 5 = CHR ''5''"
  "digit_char 6 = CHR ''6''" "digit_char 7 = CHR ''7''"
  by code_simp+

text \<open>The id \<open>ldk_channel_open\<close> returns is decimal, and closing with it is refused.\<close>

lemma opened_channel_id_decimal:
  "\<exists>w'. run_state (ldk_channel_open ex_state \<lparr>oc_node_id = ''02bb'', oc_socket_address = ''h:1'',
       oc_channel_amount_sats = 100000, oc_push_to_counterparty_msat = None, oc_public = True\<rparr>) ex_w4
     = (Ok ''5'', w')"
  "\<not> is_ok (fst (run_state (ldk_channel_close ex_state \<lparr>cc_user_channel_id = ''5'',
       cc_counterparty_node_id = ''02bb'', cc_force = False\<rparr>) w))"
  by (simp_all add: ldk_channel_open_def ldk_channel_close_def ex_libs_def codec.defs libs.defs
      run_node_call ex_node_def digit_chars decimal.simps [of 5])

definition ex_channel :: channel_details where
  "ex_channel = \<lparr>cd_user_channel_id = 258, cd_counterparty_node_id = ''02bb'',
     cd_channel_value_sats = 100000, cd_outbound_capacity_msat = 60000000,
     cd_inbound_capacity_msat = 40000000, cd_is_channel_ready = True, cd_is_usable = True,
     cd_is_outbound = True, cd_funding_txo = None, cd_confirmations = Some 6,
     cd_confirmations_required = Some 3\<rparr>"

definition ex_channel_state :: app_state where
  "ex_channel_state = ex_state\<lparr>app_node := ex_node\<lparr>nd_list_channels := [ex_channel]\<rparr>\<rparr>"

theorem listed_channel_closes_witness:
  "\<exists>w'. run_state (ldk_channel_close ex_channel_state
       \<lparr>cc_user_channel_id = ex_as_hex (to_be_bytes 258), cc_counterparty_node_id = ''02bb'',
        cc_force = False\<rparr>) ex_w4 = (Ok (), w') \<and>
     node_log w' = [Close_channel False 258 ''02bb'']"
proof -
  have law: "\<forall>bs. length bs = 16 \<longrightarrow>
      from_hex_16 (app_libs ex_channel_state) (as_hex (app_libs ex_channel_state) bs) = Ok bs"
    by (simp add: ex_channel_state_def) (simp add: ex_libs_def codec.defs libs.defs ex_codec_def ex_from_as_hex)
  have list: "ldk_channel_list ex_channel_state = [channel_info_of ex_as_hex ex_channel]"
    by (simp add: ldk_channel_list_def ex_channel_state_def)
  show ?thesis
    using listed_channel_closes [OF law, of "channel_info_of ex_as_hex ex_channel" False ex_w4] list
    by (simp add: ex_channel_state_def channel_info_of_def ex_channel_def run_node_call ex_node_def)
      (simp add: ex_world_defs)
qed

section \<open>Validity of an invite\<close>

text \<open>
  C39: an invite of up to 49710 days is valid for exactly that many days of 86400000
  milliseconds; beyond, the number of seconds wraps around in 32 bits.
\<close>

theorem invite_validity:
  assumes "run_state (user_invite st rq) w = (Ok code, w1)"
  shows "\<exists>r. invites (db w1) = invites (db w) @ [r] \<and>
    sint (ivt_expires_at r - clock w (ticks w)) =
      1000 * ((86400 * uint (inv_expiry_days rq)) mod 2 ^ 32) \<and>
    (uint (inv_expiry_days rq) \<le> 49710 \<longrightarrow>
      sint (ivt_expires_at r - clock w (ticks w)) = 86400000 * uint (inv_expiry_days rq))"
proof -
  let ?secs = "86400 * inv_expiry_days rq"
  have row: "\<exists>r. invites (db w1) = invites (db w) @ [r] \<and>
      ivt_expires_at r = clock w (ticks w) + u32_to_i64 ?secs * 1000"
    using assms
    by (auto simp: user_invite_issues issue_invite_def run_simps Let_def invite_row_def attempt_def
        split: outcome.splits if_split_asm)
  have secs: "uint ?secs = (86400 * uint (inv_expiry_days rq)) mod 2 ^ 32"
    by (simp add: uint_word_ariths)
  have lt: "uint ?secs < 4294967296" by (rule uint_u32_less)
  have up: "uint (u32_to_i64 ?secs) = uint ?secs" by (simp add: uint_up_ucast is_up)
  have "uint (u32_to_i64 ?secs * 1000) = 1000 * uint ?secs"
    using lt by (simp add: uint_word_ariths up mod_pos_pos_trivial del: uint_mult_lem)
  then have "sint (u32_to_i64 ?secs * 1000) = 1000 * uint ?secs"
    using lt by (subst sint_eq_uint_64) simp_all
  then have s: "sint (u32_to_i64 ?secs * 1000) = 1000 * ((86400 * uint (inv_expiry_days rq)) mod 2 ^ 32)"
    by (simp only: secs)
  have small: "(86400 * uint (inv_expiry_days rq)) mod 2 ^ 32 = 86400 * uint (inv_expiry_days rq)"
    if "uint (inv_expiry_days rq) \<le> 49710"
    using that by (intro mod_pos_pos_trivial) simp_all
  from row obtain r where "invites (db w1) = invites (db w) @ [r]"
      "ivt_expires_at r - clock w (ticks w) = u32_to_i64 ?secs * 1000"
    by auto
  with s small show ?thesis by (intro exI [of _ r]) simp
qed

theorem invite_validity_witness:
  "\<exists>r. invites (db ex_w1) = [r] \<and> sint (ivt_expires_at r - ex_clock 0) = 86400000"
proof -
  let ?rq = "\<lparr>inv_expiry_days = 1, inv_user_limit = 2\<rparr>"
  have run: "run_state (user_invite ex_state ?rq) ex_w0 =
      (Ok (code_text ex_codec (puncture_invite (drawn ex_w0) [1, 2])), ex_w1)"
    by (simp add: user_invite_issues ex_step1)
  from invite_validity [OF run] show ?thesis by (simp add: ex_w0_def init_world_def empty_db_def)
qed

section \<open>Amounts on the pages\<close>

lemma digit_no_comma: "n < 10 \<Longrightarrow> digit_char n \<noteq> CHR '',''"
proof
  assume "n < 10" and "digit_char n = CHR '',''"
  then have "(of_char (char_of (48 + n)) :: nat) = 44" by (simp add: digit_char_def)
  then show False using \<open>n < 10\<close> by simp
qed

lemma decimal_no_comma: "CHR '','' \<notin> set (decimal n)"
proof (induction n rule: decimal.induct)
  case (1 n)
  then show ?case
    using digit_no_comma [of n] digit_no_comma [of "n mod 10"]
    by (subst decimal.simps) auto
qed

lemma decimal_nonempty: "decimal n \<noteq> []"
  by (subst decimal.simps) simp

lemma join_snoc: "ss \<noteq> [] \<Longrightarrow> join sep (ss @ [s]) = join sep ss @ sep @ s"
proof (induction ss)
  case (Cons x ss)
  then show ?case by (cases ss) auto
qed simp

definition grouped :: "string \<Rightarrow> string" where
  "grouped xs = join '','' (rev (rchunks 3 xs))"

lemma grouped_simps:
  "xs \<noteq> [] \<Longrightarrow> length xs \<le> 3 \<Longrightarrow> grouped xs = xs"
  "3 < length xs \<Longrightarrow> grouped xs =
     grouped (take (length xs - 3) xs) @ CHR '','' # drop (length xs - 3) xs"
proof -
  show "xs \<noteq> [] \<Longrightarrow> length xs \<le> 3 \<Longrightarrow> grouped xs = xs"
    by (subst grouped_def, subst rchunks.simps) (simp add: rchunks.simps [of 3 "[]"])
  assume "3 < length xs"
  then have "rchunks 3 (take (length xs - 3) xs) \<noteq> []"
    by (subst rchunks.simps) auto
  with \<open>3 < length xs\<close> show "grouped xs =
      grouped (take (length xs - 3) xs) @ CHR '','' # drop (length xs - 3) xs"
    by (subst grouped_def, subst rchunks.simps) (auto simp: join_snoc grouped_def)
qed

lemma grouped_spec:
  assumes "xs \<noteq> []" and "CHR '','' \<notin> set xs"
  shows "filter (\<lambda>c. c \<noteq> CHR '','') (grouped xs) = xs \<and> hd (grouped xs) = hd xs \<and> grouped xs \<noteq> [] \<and>
    (\<forall>i < length (grouped xs). rev (grouped xs) ! i = CHR '','' \<longleftrightarrow> i mod 4 = 3)"
  using assms
proof (induction "length xs" arbitrary: xs rule: less_induct)
  case less
  show ?case
  proof (cases "length xs \<le> 3")
    case True
    have "rev xs ! i \<noteq> CHR '',''" if "i < length xs" for i
      using that less.prems(2) by (metis length_rev nth_mem set_rev)
    with True less.prems show ?thesis
      by (auto simp: grouped_simps(1) filter_id_conv)
  next
    case False
    let ?a = "take (length xs - 3) xs" and ?b = "drop (length xs - 3) xs"
    have a: "?a \<noteq> []" "CHR '','' \<notin> set ?a" "length ?a < length xs"
      using False less.prems(2) by (auto dest: in_set_takeD)
    have b: "length ?b = 3" "CHR '','' \<notin> set ?b"
      using False less.prems(2) by (auto dest: in_set_dropD)
    note IH = less.hyps [OF a(3,1,2)]
    have g: "grouped xs = grouped ?a @ CHR '','' # ?b" using False by (simp add: grouped_simps(2))
    have "rev (grouped xs) ! i = CHR '','' \<longleftrightarrow> i mod 4 = 3" if i: "i < length (grouped xs)" for i
    proof (cases "i < 4")
      case True
      have "rev ?b ! j \<noteq> CHR '',''" if "j < 3" for j
        using that b by (metis length_rev nth_mem set_rev)
      with True b show ?thesis by (cases "i = 3") (auto simp: g nth_append)
    next
      case False
      then have "i - 4 < length (grouped ?a)" using i b by (simp add: g)
      moreover have "rev (grouped xs) ! i = rev (grouped ?a) ! (i - 4)"
        using False b by (simp add: g nth_append)
      moreover have "i mod 4 = (i - 4) mod 4" using False by (simp add: le_mod_geq)
      ultimately show ?thesis using IH by simp
    qed
    moreover have "filter (\<lambda>c. c \<noteq> CHR '','') ?b = ?b" using b by (auto simp: filter_id_conv)
    moreover have "hd ?a = hd xs" using a(1) by simp
    ultimately show ?thesis using IH by (simp add: g)
  qed
qed

text \<open>
  An amount on a page reads back as the number: without its commas it is the decimal form,
  and the commas stand exactly at every fourth place from the right, never in front.
\<close>

theorem format_sats_groups:
  "filter (\<lambda>c. c \<noteq> CHR '','') (format_sats s) = decimal (unat s) \<and>
   hd (format_sats s) \<noteq> CHR '','' \<and>
   (\<forall>i < length (format_sats s). rev (format_sats s) ! i = CHR '','' \<longleftrightarrow> i mod 4 = 3)"
proof -
  have "format_sats s = grouped (decimal (unat s))" by (simp add: format_sats_def grouped_def)
  moreover have "hd (decimal (unat s)) \<noteq> CHR '',''"
    using decimal_no_comma [of "unat s"] decimal_nonempty [of "unat s"] by (metis hd_in_set)
  ultimately show ?thesis
    using grouped_spec [OF decimal_nonempty decimal_no_comma, of "unat s"] by simp
qed

theorem format_sats_groups_witness:
  "filter (\<lambda>c. c \<noteq> CHR '','') (format_sats 1234567) = ''1234567''"
  using format_sats_groups [of 1234567] by (simp add: decimal.simps digit_chars)

end
