(* ===== verification/Client_Lib.thy ===== *)
theory Client_Lib
  imports Client_Api
begin

text \<open>
  The client library, \<open>puncture-client/src/lib.rs\<close> and \<open>db.rs\<close>: the table of the daemons a
  client knows, the start of a client, the requests over a connection, the event loop and the task that keeps the
  connection. The endpoint and its streams are third-party: an \<open>exchange\<close> is what opening a
  stream, writing the request and reading to the end gives, on any state \<open>'s\<close> of the remote side.
  The JSON library is the record \<open>client_json\<close>.
\<close>

section \<open>The table of daemons\<close>

record daemon_record =
  dmn_node_id :: string
  dmn_network :: string
  dmn_name :: string
  dmn_created_at :: i64

definition insert_daemon :: "daemon_record \<Rightarrow> daemon_record list \<Rightarrow> daemon_record list option" where
  "insert_daemon r ds = append_row dmn_node_id r ds"

interpretation daemon_table: keyed_table "\<lambda>ds. ds" dmn_node_id insert_daemon
  "\<lambda>k ds. List.find (\<lambda>r. dmn_node_id r = k) ds"
  by unfold_locales (simp_all add: insert_daemon_def append_row_def list_ex_key)

text \<open>\<open>now\<close> is the reading of the clock.\<close>

definition save_daemon ::
  "string \<Rightarrow> register_response \<Rightarrow> i64 \<Rightarrow> daemon_record list \<Rightarrow> daemon_record list"
where
  "save_daemon node_id config now ds =
     (case insert_daemon \<lparr>dmn_node_id = node_id, dmn_network = rr_network config,
             dmn_name = rr_name config, dmn_created_at = now\<rparr> ds of
        Some ds' \<Rightarrow> ds' | None \<Rightarrow> ds)"

definition list_daemon_records :: "daemon_record list \<Rightarrow> daemon_record list" where
  "list_daemon_records ds = ds"

definition delete_daemon_record :: "string \<Rightarrow> daemon_record list \<Rightarrow> daemon_record list" where
  "delete_daemon_record node_id ds = filter (\<lambda>r. dmn_node_id r \<noteq> node_id) ds"

section \<open>A new client\<close>

text \<open>
  \<open>PunctureClient::new\<close> on a directory: \<open>bind_endpoint\<close> is the endpoint with the key of the directory, and
  \<open>random\<close> the bytes drawn when there is no key file yet. Every failure is a panic.
\<close>

definition puncture_client_new ::
  "(string \<Rightarrow> (string, unit) outcome) \<Rightarrow> (u8 list \<Rightarrow> (string, 'e) outcome) \<Rightarrow> 'c database_lib \<Rightarrow>
   string \<Rightarrow> u8 list \<Rightarrow> u8 list option \<Rightarrow> (string, 'e \<times> 'c) outcome \<times> u8 list option"
where
  "puncture_client_new create_dir_all bind_endpoint lib data_dir random file =
     (case unwrap_or_panic ''Failed to create data directory'' (create_dir_all data_dir) of
        Ok _ \<Rightarrow>
          (case read_or_generate random file of
             (Ok secret_key, file') \<Rightarrow>
               (and_then (unwrap_or_panic ''Failed to bind_endpoint iroh endpoint'' (bind_endpoint secret_key)) (\<lambda>endpoint.
                  map_ok (Pair endpoint)
                    (unwrap_or_panic ''Failed to setup database'' (database_new lib data_dir 3))), file')
           | (Err e, file') \<Rightarrow> (Err e, file')
           | (Panic p, file') \<Rightarrow> (Panic p, file'))
      | Err e \<Rightarrow> (Err e, file)
      | Panic p \<Rightarrow> (Panic p, file))"

text \<open>A client of the same directory is the same user again.\<close>

lemma puncture_client_again:
  assumes "length random = 32"
    and "puncture_client_new create_dir_all bind_endpoint lib data_dir random file = (Ok client, file')"
  shows "puncture_client_new create_dir_all bind_endpoint lib data_dir random' file' = (Ok client, file')"
proof -
  obtain key where "read_or_generate random file = (Ok key, file')"
    using assms(2) by (auto simp: puncture_client_new_def split: outcome.splits prod.splits)
  with read_or_generate_stable [OF assms(1) this, of random'] assms(2) show ?thesis
    by (simp add: puncture_client_new_def split: outcome.splits)
qed

section \<open>Requests\<close>

text \<open>The names of the methods, as in \<open>puncture-client-core\<close>.\<close>

definition ENDPOINT_REGISTER :: string where
  "ENDPOINT_REGISTER = ''register''"

definition ENDPOINT_BOLT11_RECEIVE :: string where
  "ENDPOINT_BOLT11_RECEIVE = ''bolt11_receive''"

definition ENDPOINT_BOLT12_RECEIVE :: string where
  "ENDPOINT_BOLT12_RECEIVE = ''bolt12_receive''"

definition ENDPOINT_BOLT11_SEND :: string where
  "ENDPOINT_BOLT11_SEND = ''bolt11_send''"

definition ENDPOINT_BOLT12_SEND :: string where
  "ENDPOINT_BOLT12_SEND = ''bolt12_send''"

definition ENDPOINT_ONCHAIN_SEND :: string where
  "ENDPOINT_ONCHAIN_SEND = ''onchain_send''"

definition ENDPOINT_SET_RECOVERY_NAME :: string where
  "ENDPOINT_SET_RECOVERY_NAME = ''set_recovery_name''"

definition ENDPOINT_RECOVER :: string where
  "ENDPOINT_RECOVER = ''recover''"

lemmas endpoint_defs = ENDPOINT_REGISTER_def
  ENDPOINT_BOLT11_RECEIVE_def
  ENDPOINT_BOLT12_RECEIVE_def
  ENDPOINT_BOLT11_SEND_def
  ENDPOINT_BOLT12_SEND_def
  ENDPOINT_ONCHAIN_SEND_def
  ENDPOINT_SET_RECOVERY_NAME_def
  ENDPOINT_RECOVER_def

datatype rpc_params =
    Register_params register_request
  | Bolt11_receive_params bolt11_receive_request
  | Unit_params
  | Bolt11_send_params bolt11_send_request
  | Bolt12_send_params bolt12_send_request
  | Onchain_send_params onchain_send_request
  | Set_recovery_name_params set_recovery_name_request
  | Recover_params recover_request

type_synonym 'a reply = "u8 list \<Rightarrow> (string, (string, 'a) outcome) outcome"

record client_json =
  to_vec :: "string \<Rightarrow> rpc_params \<Rightarrow> (string, u8 list) outcome"
  register_reply :: "register_response reply"
  bolt11_receive_reply :: "bolt11_invoice reply"
  bolt12_receive_reply :: "string reply"
  unit_reply :: "unit reply"
  onchain_send_reply :: "u8 list reply"
  recover_reply :: "u64 reply"
  event_from_slice :: "u8 list \<Rightarrow> (string, app_event) outcome"

type_synonym 's exchange = "u8 list \<Rightarrow> ('s, (string, u8 list) outcome) state"

text \<open>\<open>read_to_end(limit)\<close> of a stream that carries the bytes.\<close>

definition read_to_end :: "nat \<Rightarrow> u8 list \<Rightarrow> (string, u8 list) outcome" where
  "read_to_end limit bytes = (if limit < length bytes then Err ''TooLong'' else Ok bytes)"

definition request_json ::
  "client_json \<Rightarrow> 's exchange \<Rightarrow> string \<Rightarrow> rpc_params \<Rightarrow> 'a reply \<Rightarrow>
   ('s, (string, (string, 'a) outcome) outcome) state"
where
  "request_json js connection meth request parse_reply =
     attempt (unwrap_or_panic ''Failed to serialize request'' (to_vec js meth request)) (\<lambda>bytes. do {
       response \<leftarrow> connection bytes;
       ret (and_then response (\<lambda>response.
         and_then (read_to_end 1000000 response) parse_reply))
     })"

text \<open>\<open>r.map_err(|_| msg)?\<close> on a nested result.\<close>

fun flatten_reply :: "string \<Rightarrow> (string, (string, 'a) outcome) outcome \<Rightarrow> (string, 'a) outcome" where
  "flatten_reply msg (Ok r) = r"
| "flatten_reply msg (Err _) = Err msg"
| "flatten_reply msg (Panic p) = Panic p"

definition conn_request ::
  "client_json \<Rightarrow> 's exchange option \<Rightarrow> string \<Rightarrow> rpc_params \<Rightarrow> 'a reply \<Rightarrow>
   ('s, (string, 'a) outcome) state"
where
  "conn_request js receiver meth request parse_reply =
     (case receiver of
        None \<Rightarrow> err ''Disconnected''
      | Some connection \<Rightarrow> do {
          r \<leftarrow> request_json js connection meth request parse_reply;
          ret (flatten_reply ''Request failed'' r)
        })"

definition conn_bolt11_receive ::
  "client_json \<Rightarrow> 's exchange option \<Rightarrow> u32 \<Rightarrow> string \<Rightarrow> ('s, (string, bolt11_invoice) outcome) state"
where
  "conn_bolt11_receive js receiver amount_msat description =
     conn_request js receiver ENDPOINT_BOLT11_RECEIVE
       (Bolt11_receive_params \<lparr>b11r_amount_msat = amount_msat, b11r_description = description\<rparr>)
       (bolt11_receive_reply js)"

definition conn_bolt11_send ::
  "client_json \<Rightarrow> 's exchange option \<Rightarrow> bolt11_invoice \<Rightarrow> u64 \<Rightarrow> string option \<Rightarrow>
   ('s, (string, unit) outcome) state"
where
  "conn_bolt11_send js receiver invoice amount_msat ln_address =
     conn_request js receiver ENDPOINT_BOLT11_SEND
       (Bolt11_send_params \<lparr>b11s_invoice = invoice, b11s_amount_msat = amount_msat,
          b11s_ln_address = ln_address\<rparr>)
       (unit_reply js)"

definition conn_bolt12_receive ::
  "client_json \<Rightarrow> 's exchange option \<Rightarrow> ('s, (string, string) outcome) state"
where
  "conn_bolt12_receive js receiver =
     conn_request js receiver ENDPOINT_BOLT12_RECEIVE Unit_params (bolt12_receive_reply js)"

definition conn_bolt12_send ::
  "client_json \<Rightarrow> 's exchange option \<Rightarrow> offer \<Rightarrow> u64 \<Rightarrow> ('s, (string, unit) outcome) state"
where
  "conn_bolt12_send js receiver offer amount_msat =
     conn_request js receiver ENDPOINT_BOLT12_SEND
       (Bolt12_send_params \<lparr>b12s_offer = b12_text offer, b12s_amount_msat = amount_msat\<rparr>)
       (unit_reply js)"

definition conn_onchain_send ::
  "client_json \<Rightarrow> 's exchange option \<Rightarrow> string \<Rightarrow> u64 \<Rightarrow> ('s, (string, u8 list) outcome) state"
where
  "conn_onchain_send js receiver address amount_sats =
     conn_request js receiver ENDPOINT_ONCHAIN_SEND
       (Onchain_send_params \<lparr>ocs_address = address, ocs_amount_sats = amount_sats\<rparr>)
       (onchain_send_reply js)"

definition conn_set_recovery_name ::
  "client_json \<Rightarrow> 's exchange option \<Rightarrow> string option \<Rightarrow> ('s, (string, unit) outcome) state"
where
  "conn_set_recovery_name js receiver recovery_name =
     conn_request js receiver ENDPOINT_SET_RECOVERY_NAME
       (Set_recovery_name_params \<lparr>srn_recovery_name = recovery_name\<rparr>) (unit_reply js)"

definition conn_recover ::
  "client_json \<Rightarrow> codec \<Rightarrow> 's exchange option \<Rightarrow> recovery_code \<Rightarrow> ('s, (string, u64) outcome) state"
where
  "conn_recover js cd receiver recovery_code =
     conn_request js receiver ENDPOINT_RECOVER
       (Recover_params \<lparr>rvr_recovery_id = recovery_code_id cd recovery_code\<rparr>) (recover_reply js)"

section \<open>The client\<close>

text \<open>
  \<open>PunctureClient\<close>: the state is that of the remote side and the client's own table. \<open>connect\<close>
  is the endpoint, \<open>print\<close> and \<open>parse\<close> are the text form of a node id. The connection that
  \<open>register\<close> returns is to the node of the invite.
\<close>

definition client_register ::
  "client_json \<Rightarrow> codec \<Rightarrow> (node_id \<Rightarrow> (string, 's exchange) outcome) \<Rightarrow> (node_id \<Rightarrow> string) \<Rightarrow> i64 \<Rightarrow>
   invite_code \<Rightarrow> 's \<times> daemon_record list \<Rightarrow> (string, node_id) outcome \<times> 's \<times> daemon_record list"
where
  "client_register js cd connect print now invite =
     (\<lambda>(s, ds).
        case map_err (\<lambda>_. ''Failed to connect'') (connect (ic_node_id invite)) of
          Ok connection \<Rightarrow>
            (case run_state (request_json js connection ENDPOINT_REGISTER
                    (Register_params \<lparr>rgr_invite_id = invite_code_id cd invite\<rparr>)
                    (register_reply js)) s of
               (r, s') \<Rightarrow>
                 (case flatten_reply ''Failed to register'' r of
                    Ok response \<Rightarrow>
                      (Ok (ic_node_id invite), s',
                        save_daemon (print (ic_node_id invite)) response now ds)
                  | Err e \<Rightarrow> (Err e, s', ds)
                  | Panic p \<Rightarrow> (Panic p, s', ds)))
        | Err e \<Rightarrow> (Err e, s, ds)
        | Panic p \<Rightarrow> (Panic p, s, ds))"

record daemon =
  da_node_id :: node_id
  da_name :: string

definition list_daemons ::
  "(string \<Rightarrow> (string, node_id) outcome) \<Rightarrow> daemon_record list \<Rightarrow> (string, daemon list) outcome"
where
  "list_daemons parse ds =
     all_ok (map (\<lambda>r. map_ok (\<lambda>n. \<lparr>da_node_id = n, da_name = dmn_name r\<rparr>)
                        (unwrap_or_panic ''unwrap'' (parse (dmn_node_id r))))
               (list_daemon_records ds))"

definition delete_daemon ::
  "(node_id \<Rightarrow> string) \<Rightarrow> daemon \<Rightarrow> daemon_record list \<Rightarrow> daemon_record list"
where
  "delete_daemon print daemon ds = delete_daemon_record (print (da_node_id daemon)) ds"

section \<open>Events\<close>

text \<open>
  One attempt of \<open>accept_event\<close>: whether the background task has a connection, and what accepting
  a stream and what reading it gives.
\<close>

definition accept_event ::
  "client_json \<Rightarrow> (string, u8 list) outcome option \<Rightarrow> (string, app_event) outcome"
where
  "accept_event js stream =
     (case stream of
        None \<Rightarrow> Err ''Disconnected''
      | Some bytes \<Rightarrow> and_then bytes (\<lambda>bytes.
          and_then (read_to_end 100000 bytes) (event_from_slice js)))"

text \<open>
  \<open>next_event\<close> on the attempts to come: the event with the attempts left and the number of
  seconds slept, or \<open>None\<close> while there is no event.
\<close>

fun next_event ::
  "client_json \<Rightarrow> (string, u8 list) outcome option list \<Rightarrow>
   (app_event \<times> (string, u8 list) outcome option list \<times> nat) option"
where
  "next_event js [] = None"
| "next_event js (a # attempts) =
     (case accept_event js a of
        Ok event \<Rightarrow> Some (event, attempts, 0)
      | _ \<Rightarrow> map_option (\<lambda>(e, rest, n). (e, rest, Suc n)) (next_event js attempts))"

section \<open>The connection task\<close>

text \<open>
  \<open>backoff_durations\<close>: the i-th delay in milliseconds, i from 1, in 64-bit arithmetic.
\<close>

definition backoff_duration :: "u64 \<Rightarrow> u64" where
  "backoff_duration i = min (i * i * 100) 10000"

datatype reconnect_action = Publish nat | Unpublish | Sleep u64

text \<open>
  \<open>reconnect\<close> on the results of the connection attempts to come: \<open>None\<close> is an error, a
  connection is its number and is held until it is closed; \<open>i\<close> is the next index of the backoff iterator.
\<close>

fun reconnect :: "u64 \<Rightarrow> nat option list \<Rightarrow> reconnect_action list" where
  "reconnect i [] = []"
| "reconnect i (Some connection # rs) =
     Publish connection # Unpublish # Sleep (backoff_duration 1) # reconnect 2 rs"
| "reconnect i (None # rs) = Sleep (backoff_duration i) # reconnect (i + 1) rs"

section \<open>A client and the daemon\<close>

text \<open>
  The daemon at the other end of a connection that delivers what is written: \<open>enc\<close> is the
  encoder of responses. A request that ends the connection or panics leaves no response.
\<close>

definition serve ::
  "'j decoders \<Rightarrow> ((string, response) outcome \<Rightarrow> u8 list) \<Rightarrow> app_state \<Rightarrow> string \<Rightarrow> world exchange"
where
  "serve dec enc st u bytes = do {
     r \<leftarrow> handle_request dec st u bytes (Ok ());
     ret (case r of
            Ok response \<Rightarrow> Ok (enc response)
          | Err e \<Rightarrow> Err ''ConnectionLost''
          | Panic p \<Rightarrow> Err ''ConnectionLost'')
   }"

text \<open>
  The two JSON libraries agree on one request: the daemon reads the method and parameters the
  client wrote, and the client reads the reply of type \<open>'a\<close> the daemon writes.
\<close>

definition wire_request ::
  "client_json \<Rightarrow> 'j decoders \<Rightarrow> string \<Rightarrow> rpc_params \<Rightarrow> ('j \<Rightarrow> (string, 'r) outcome) \<Rightarrow> 'r \<Rightarrow> bool"
where
  "wire_request js dec meth params from_value rq \<longleftrightarrow>
     (\<exists>bytes j. to_vec js meth params = Ok bytes \<and> length bytes \<le> 100000 \<and>
        from_slice dec bytes = Ok (meth, j) \<and> from_value j = Ok rq)"

definition wire_reply ::
  "((string, response) outcome \<Rightarrow> u8 list) \<Rightarrow> ('a \<Rightarrow> response) \<Rightarrow> 'a reply \<Rightarrow>
   (string, 'a) outcome \<Rightarrow> bool"
where
  "wire_reply enc to_value reply r \<longleftrightarrow>
     ((\<forall>p. r \<noteq> Panic p) \<longrightarrow>
        length (enc (map_ok to_value r)) \<le> 1000000 \<and> reply (enc (map_ok to_value r)) = Ok r)"

fun lost_panic :: "('e, 'a) outcome \<Rightarrow> (string, ('e, 'a) outcome) outcome" where
  "lost_panic (Panic _) = Err ''ConnectionLost''"
| "lost_panic r = Ok r"

text \<open>What a client gets for a request is what the daemon's method returns.\<close>

lemma request_json_served:
  assumes req: "wire_request js dec meth params from_value rq"
    and rep: "wire_reply enc to_value reply r"
    and disp: "\<And>j. from_value j = Ok rq \<Longrightarrow> run_state (dispatch dec st u meth j) w = (map_ok to_value r, w')"
  shows "run_state (request_json js (serve dec enc st u) meth params reply) w =
    (lost_panic r, w')"
proof -
  obtain bytes j where b: "to_vec js meth params = Ok bytes" "length bytes \<le> 100000"
    "from_slice dec bytes = Ok (meth, j)" "from_value j = Ok rq"
    using req unfolding wire_request_def by blast
  have "(\<forall>p. r \<noteq> Panic p) \<longrightarrow>
      length (enc (map_ok to_value r)) \<le> 1000000 \<and> reply (enc (map_ok to_value r)) = Ok r"
    using rep unfolding wire_reply_def by blast
  with b disp [OF b(4)] show ?thesis
    by (cases r) (auto simp: request_json_def serve_def handle_request_def read_to_end_def)
qed

lemma conn_request_served:
  assumes "wire_request js dec meth params from_value rq" and "wire_reply enc to_value reply r"
    and "\<And>j. from_value j = Ok rq \<Longrightarrow> run_state (dispatch dec st u meth j) w = (map_ok to_value r, w')"
  shows "run_state (conn_request js (Some (serve dec enc st u)) meth params reply) w =
    (flatten_reply ''Request failed'' (lost_panic r), w')"
  by (simp add: conn_request_def request_json_served [OF assms])

section \<open>Delays\<close>

text \<open>No product wraps around for the first 429496729 attempts, more than 130 years of them.\<close>

lemma uint_backoff:
  assumes "uint i \<le> 429496729"
  shows "uint (backoff_duration i) = min (uint i * uint i * 100) 10000"
proof -
  have "uint i * uint i \<le> 429496729 * 429496729"
    using assms by (intro mult_mono) simp_all
  then have "uint (i * i * 100) = uint i * uint i * 100"
    by (simp add: uint_word_ariths mod_pos_pos_trivial)
  then show ?thesis by (simp add: backoff_duration_def min_def word_le_def)
qed

lemma backoff_within:
  assumes "0 < uint i" and "uint i \<le> 429496729"
  shows "100 \<le> backoff_duration i \<and> backoff_duration i \<le> 10000"
proof -
  have "1 * 1 \<le> uint i * uint i" using assms(1) by (intro mult_mono) simp_all
  with uint_backoff [OF assms(2)] show ?thesis by (simp add: word_le_def)
qed

end
