(* ===== verification/Payment_Request.thy ===== *)
theory Payment_Request
  imports World
begin

text \<open>
  \<open>puncture-payment-request/src/lib.rs\<close>: what a wallet user pastes or scans, parsed to a payment
  with or without an amount, and the resolution of the latter, over LNURL where needed. The
  parsers of the Lightning and Bitcoin libraries and the HTTP client are the fields of \<open>web\<close>; an
  LNURL and a Lightning address are what the code reads of them.
\<close>

section \<open>Payment requests\<close>

record bolt11_payment_request =
  p11_invoice :: bolt11_invoice
  p11_amount_msat :: u64
  p11_ln_address :: "string option"

record bolt12_payment_request =
  p12_offer :: offer
  p12_amount_msat :: u64

record onchain_payment_request =
  poc_address :: string
  poc_amount_sats :: u64

datatype payment_request_with_amount =
    With_bolt11 bolt11_payment_request
  | With_bolt12 bolt12_payment_request
  | With_onchain onchain_payment_request

record ln_url =
  lu_endpoint :: string

record lightning_address =
  la_text :: string
  la_endpoint :: string

datatype payment_request_without_amount =
    Bolt11 bolt11_invoice
  | Bolt12 offer
  | Ln_url ln_url
  | Lightning_address lightning_address
  | Onchain string

fun request_amount_msat :: "payment_request_with_amount \<Rightarrow> u64" where
  "request_amount_msat (With_bolt11 r) = p11_amount_msat r"
| "request_amount_msat (With_bolt12 r) = p12_amount_msat r"
| "request_amount_msat (With_onchain r) = poc_amount_sats r * 1000"

fun request_description :: "payment_request_with_amount \<Rightarrow> string" where
  "request_description (With_bolt11 r) =
     (case b11_description (p11_invoice r) of Direct description \<Rightarrow> description | Hash _ \<Rightarrow> [])"
| "request_description (With_bolt12 r) =
     (case b12_description (p12_offer r) of Some description \<Rightarrow> description | None \<Rightarrow> [])"
| "request_description (With_onchain r) = []"

section \<open>Parsing\<close>

record ln_url_pay_response =
  lp_callback :: string
  lp_min_sendable :: u64
  lp_max_sendable :: u64

text \<open>\<open>None\<close> is an error of the library: of the parser, of the transfer or of the JSON decoder.\<close>

record 'body web =
  web_bolt11 :: "string \<Rightarrow> bolt11_invoice option"
  web_offer :: "string \<Rightarrow> offer option"
  web_ln_url :: "string \<Rightarrow> ln_url option"
  web_lightning_address :: "string \<Rightarrow> lightning_address option"
  web_address :: "string \<Rightarrow> string option"
  web_get :: "string \<Rightarrow> 'body option"
  web_pay_response :: "'body \<Rightarrow> ln_url_pay_response option"
  web_invoice_response :: "'body \<Rightarrow> bolt11_invoice option"

function parse_with_amount :: "'body web \<Rightarrow> string \<Rightarrow> payment_request_with_amount option" where
  "parse_with_amount web request =
     (case strip_prefix ''lightning:'' request of
        Some stripped \<Rightarrow> parse_with_amount web stripped
      | None \<Rightarrow>
        (case Option.bind (web_bolt11 web request)
                (\<lambda>invoice. map_option (\<lambda>amount_msat. With_bolt11
                   \<lparr>p11_invoice = invoice, p11_amount_msat = amount_msat, p11_ln_address = None\<rparr>)
                   (b11_amount_msat invoice)) of
           Some r \<Rightarrow> Some r
         | None \<Rightarrow>
           (case web_offer web request of
              Some offer \<Rightarrow>
                (case b12_amount offer of
                   Some (Bitcoin amount_msats) \<Rightarrow>
                     Some (With_bolt12 \<lparr>p12_offer = offer, p12_amount_msat = amount_msats\<rparr>)
                 | _ \<Rightarrow> None)
            | None \<Rightarrow> None)))"
  by pat_completeness auto
termination
  by (relation "measure (\<lambda>(web, request). length request)") (auto dest: strip_prefix_shorter)

declare parse_with_amount.simps [simp del]

function parse_without_amount :: "'body web \<Rightarrow> string \<Rightarrow> payment_request_without_amount option" where
  "parse_without_amount web request =
     (case strip_prefix ''lightning:'' request of
        Some stripped \<Rightarrow> parse_without_amount web stripped
      | None \<Rightarrow>
     (case strip_prefix ''lnurl:'' request of
        Some stripped \<Rightarrow> parse_without_amount web stripped
      | None \<Rightarrow>
     (case strip_prefix ''bitcoin:'' request of
        Some stripped \<Rightarrow> parse_without_amount web stripped
      | None \<Rightarrow>
     (case Option.bind (web_bolt11 web request)
             (\<lambda>invoice. if b11_amount_msat invoice = None then Some (Bolt11 invoice) else None) of
        Some r \<Rightarrow> Some r
      | None \<Rightarrow>
     (case Option.bind (web_offer web request)
             (\<lambda>offer. if b12_amount offer = None then Some (Bolt12 offer) else None) of
        Some r \<Rightarrow> Some r
      | None \<Rightarrow>
     (case web_ln_url web request of
        Some lnurl \<Rightarrow> Some (Ln_url lnurl)
      | None \<Rightarrow>
     (case web_lightning_address web request of
        Some lightning_address \<Rightarrow> Some (Lightning_address lightning_address)
      | None \<Rightarrow> map_option Onchain (web_address web request))))))))"
  by pat_completeness auto
termination
  by (relation "measure (\<lambda>(web, request). length request)") (auto dest: strip_prefix_shorter)

declare parse_without_amount.simps [simp del]

section \<open>Resolution\<close>

definition resolve_endpoint :: "'body web \<Rightarrow> string \<Rightarrow> u64 \<Rightarrow> (string, bolt11_invoice) outcome" where
  "resolve_endpoint web endpoint amount =
     (case web_get web endpoint of
        None \<Rightarrow> Err ''Failed to fetch LNURL''
      | Some body \<Rightarrow>
     (case web_pay_response web body of
        None \<Rightarrow> Err ''Failed to parse LNURL response''
      | Some response \<Rightarrow>
        if amount < lp_min_sendable response then Err ''Amount too low''
        else if lp_max_sendable response < amount then Err ''Amount too high''
        else
     (case web_get web (lp_callback response @ ''?amount='' @ decimal (unat amount)) of
        None \<Rightarrow> Err ''Failed to fetch LNURL callback''
      | Some body \<Rightarrow>
     (case web_invoice_response web body of
        None \<Rightarrow> Err ''Failed to parse LNURL callback response''
      | Some pr \<Rightarrow> Ok pr))))"

fun resolve ::
  "'body web \<Rightarrow> payment_request_without_amount \<Rightarrow> u64 \<Rightarrow>
   (string, payment_request_with_amount) outcome"
where
  "resolve web (Bolt11 invoice) amount_msat =
     Ok (With_bolt11 \<lparr>p11_invoice = invoice, p11_amount_msat = amount_msat,
       p11_ln_address = None\<rparr>)"
| "resolve web (Bolt12 offer) amount_msat =
     Ok (With_bolt12 \<lparr>p12_offer = offer, p12_amount_msat = amount_msat\<rparr>)"
| "resolve web (Ln_url lnurl) amount_msat =
     and_then (resolve_endpoint web (lu_endpoint lnurl) amount_msat) (\<lambda>invoice.
       Ok (With_bolt11 \<lparr>p11_invoice = invoice, p11_amount_msat = amount_msat,
         p11_ln_address = None\<rparr>))"
| "resolve web (Lightning_address ln_address) amount_msat =
     and_then (resolve_endpoint web (la_endpoint ln_address) amount_msat) (\<lambda>invoice.
       Ok (With_bolt11 \<lparr>p11_invoice = invoice, p11_amount_msat = amount_msat,
         p11_ln_address = Some (la_text ln_address)\<rparr>))"
| "resolve web (Onchain address) amount_msat =
     Ok (With_onchain \<lparr>poc_address = address, poc_amount_sats = amount_msat div 1000\<rparr>)"

section \<open>What parsing and resolution keep\<close>

lemma resolve_endpoint_Ok:
  assumes "resolve_endpoint web endpoint amount = Ok pr"
  obtains body response body' where "web_get web endpoint = Some body"
    "web_pay_response web body = Some response"
    "lp_min_sendable response \<le> amount" "amount \<le> lp_max_sendable response"
    "web_get web (lp_callback response @ ''?amount='' @ decimal (unat amount)) = Some body'"
    "web_invoice_response web body' = Some pr"
  using assms by (auto simp: resolve_endpoint_def split: option.splits if_split_asm)

lemma sats_down: "uint ((amount :: u64) div 1000 * 1000) = uint amount - uint amount mod 1000"
proof -
  have "uint amount div 1000 * 1000 \<le> uint amount" by simp
  moreover have "uint amount < 18446744073709551616" by (rule uint_less_64)
  ultimately have "uint amount div 1000 * 1000 < 18446744073709551616" by linarith
  then have "uint amount div 1000 * 1000 mod 18446744073709551616 = uint amount div 1000 * 1000"
    by (intro mod_pos_pos_trivial) (simp_all add: pos_imp_zdiv_nonneg_iff)
  then have "uint (amount div 1000 * 1000) = uint amount div 1000 * 1000"
    by (simp add: uint_word_ariths uint_div)
  then show ?thesis by (simp add: minus_mod_eq_div_mult)
qed

lemma parse_prefix:
  "parse_without_amount web (''lightning:'' @ s) = parse_without_amount web s"
  "parse_without_amount web (''lnurl:'' @ s) = parse_without_amount web s"
  "parse_without_amount web (''bitcoin:'' @ s) = parse_without_amount web s"
  "parse_with_amount web (''lightning:'' @ s) = parse_with_amount web s"
  by (subst parse_without_amount.simps parse_with_amount.simps, simp add: strip_prefix_def)+

end
