(* ===== verification/Startup.thy ===== *)
theory Startup
  imports World
begin

text \<open>
  The start of the daemon, \<open>main\<close> in \<open>puncture-daemon/src/main.rs\<close>: the configuration of the
  Lightning node from the arguments, the connections to public nodes on the first start, the
  database and the secret key of the client interface. The calls of the node builder are values, in the order the
  code makes them; what they do, the runtime, the tasks and the shutdown are left out.
\<close>

section \<open>Configuring the node\<close>

datatype builder_call =
    Set_log_facade_logger
  | Set_node_alias string
  | Set_storage_dir_path string
  | Set_network string
  | Set_gossip_source_rgs string
  | Set_chain_source_bitcoind_rpc string nat string string
  | Set_chain_source_esplora string
  | Set_liquidity_source_lsps1 string string "string option"
  | Set_listening_addresses "socket_addr list"

definition option_context :: "string \<Rightarrow> 'a option \<Rightarrow> (string, 'a) outcome" where
  "option_context e x = (case x of Some y \<Rightarrow> Ok y | None \<Rightarrow> Err e)"

definition chain_source :: "args \<Rightarrow> (string, builder_call) outcome" where
  "chain_source a =
     (case (bitcoind_rpc_url a, esplora_rpc_url a) of
        (Some bitcoind_url, None) \<Rightarrow>
          and_then (option_context ''Invalid bitcoind RPC URL: missing host''
              (url_host_str bitcoind_url)) (\<lambda>host.
            and_then (option_context ''Invalid bitcoind RPC URL: missing port''
                (url_port bitcoind_url)) (\<lambda>port.
              Ok (Set_chain_source_bitcoind_rpc host port (url_username bitcoind_url)
                    (case url_password bitcoind_url of Some p \<Rightarrow> p | None \<Rightarrow> []))))
      | (None, Some esplora_url) \<Rightarrow> Ok (Set_chain_source_esplora (url_text esplora_url))
      | _ \<Rightarrow> Panic ''XOR relation is enforced by argument group'')"

definition liquidity_source ::
  "(string \<Rightarrow> (string, string) outcome) \<Rightarrow> args \<Rightarrow> (string, builder_call list) outcome"
where
  "liquidity_source parse_address a =
     (case (lsp1_node_id a, lsp1_socket_address a) of
        (Some node_id, Some socket_address) \<Rightarrow>
          and_then (map_err (\<lambda>_. ''Invalid LSP1 socket address'')
              (parse_address socket_address)) (\<lambda>address.
            Ok [Set_liquidity_source_lsps1 node_id address (lsp1_token a)])
      | _ \<Rightarrow> Ok [])"

definition configure_node ::
  "(string \<Rightarrow> (string, string) outcome) \<Rightarrow> args \<Rightarrow> (string, builder_call list) outcome"
where
  "configure_node parse_address a =
     and_then (chain_source a) (\<lambda>chain.
       and_then (liquidity_source parse_address a) (\<lambda>liquidity.
         Ok ([Set_log_facade_logger, Set_node_alias ''puncture-daemon'',
              Set_storage_dir_path (ldk_data_dir a), Set_network (bitcoin_network a)]
           @ (if bitcoin_network a = ''bitcoin''
              then [Set_gossip_source_rgs ''https://rapidsync.lightningdevkit.org/snapshot'']
              else [])
           @ [chain] @ liquidity @ [Set_listening_addresses [ldk_bind a]])))"

section \<open>The first start\<close>

definition public_nodes :: "(string \<times> string) list" where
  "public_nodes =
     [(''03864ef025fde8fb587d989186ce6a4a186895ee44a926bfc370e2c366597a3f8f'',
       ''3.33.236.230:9735''),
      (''027100442c3b79f606f80f322d98d499eefcb060599efc5d4ecb00209c2cb54190'',
       ''3.230.33.224:9735''),
      (''03c8e5f583585cac1de2b7503a6ccd3c12ba477cfd139cd4905be504c2f48e86bd'',
       ''34.73.189.183:9735'')]"

text \<open>The connections attempted; a failed one is logged and the next one is tried.\<close>

definition first_start_connects :: "args \<Rightarrow> u8 list option \<Rightarrow> (string \<times> string \<times> bool) list" where
  "first_start_connects a file =
     (if \<not> secret_exists file \<and> bitcoin_network a = ''bitcoin''
      then map (\<lambda>(node, address). (node, address, True)) public_nodes else [])"

text \<open>
  \<open>main\<close> up to the endpoint: the builder calls, the connections, the database, the secret key and
  the key file it leaves. \<open>random\<close> are the bytes of a new key.
\<close>

definition start_daemon ::
  "(string \<Rightarrow> (string, string) outcome) \<Rightarrow> 'c database_lib \<Rightarrow> args \<Rightarrow> u8 list \<Rightarrow> u8 list option \<Rightarrow>
   (string, builder_call list \<times> (string \<times> string \<times> bool) list \<times> 'c \<times> u8 list) outcome \<times>
   u8 list option"
where
  "start_daemon parse_address lib a random file =
     (case configure_node parse_address a of
        Ok calls \<Rightarrow>
          (let connects = first_start_connects a file
           in case database_new lib (puncture_data_dir a) 100 of
                Ok conn \<Rightarrow>
                  (case read_or_generate random file of
                     (Ok key, file') \<Rightarrow> (Ok (calls, connects, conn, key), file')
                   | (Err e, file') \<Rightarrow> (Err e, file')
                   | (Panic p, file') \<Rightarrow> (Panic p, file'))
              | Err e \<Rightarrow> (Err e, file)
              | Panic p \<Rightarrow> (Panic p, file))
      | Err e \<Rightarrow> (Err e, file)
      | Panic p \<Rightarrow> (Panic p, file))"

fun is_chain_source :: "builder_call \<Rightarrow> bool" where
  "is_chain_source (Set_chain_source_bitcoind_rpc h p u q) = True"
| "is_chain_source (Set_chain_source_esplora u) = True"
| "is_chain_source _ = False"

lemma chain_source_is: "chain_source a = Ok c \<Longrightarrow> is_chain_source c"
  by (auto simp: chain_source_def option_context_def split: option.splits)

lemma liquidity_source_is: "liquidity_source f a = Ok cs \<Longrightarrow> filter is_chain_source cs = []"
  by (cases "lsp1_node_id a"; cases "lsp1_socket_address a"; cases "f (the (lsp1_socket_address a))")
    (auto simp: liquidity_source_def)

lemma configure_node_Ok:
  assumes "configure_node f a = Ok calls"
  obtains c where "chain_source a = Ok c" "filter is_chain_source calls = [c]"
proof -
  from assms obtain c cs where "chain_source a = Ok c" "liquidity_source f a = Ok cs"
    by (cases "chain_source a"; cases "liquidity_source f a") (auto simp: configure_node_def)
  with assms that show thesis
    by (auto simp: configure_node_def chain_source_is liquidity_source_is)
qed

end
