(* ===== verification/Settlement.thy ===== *)
theory Settlement
  imports Crash
begin

text \<open>
  Payments over infinite runs of the daemon: a payment that is pending is settled in the end, if
  the Lightning node reports the end of it, and a settled payment never becomes pending again.
\<close>

section \<open>The status of a payment\<close>

definition status_of :: "string \<Rightarrow> db \<Rightarrow> string option" where
  "status_of k d = map_option snd_status (List.find (\<lambda>r. snd_id r = k) (sends d))"

definition final_status :: "string \<Rightarrow> bool" where
  "final_status s \<longleftrightarrow> s = ''successful'' \<or> s = ''failed''"

definition is_pending :: "string \<Rightarrow> db \<Rightarrow> bool" where
  "is_pending k d \<longleftrightarrow> status_of k d = Some ''pending''"

definition is_settled :: "string \<Rightarrow> db \<Rightarrow> bool" where
  "is_settled k d \<longleftrightarrow> (\<exists>s. status_of k d = Some s \<and> final_status s)"

lemma status_of_append:
  "status_of k d = Some s \<Longrightarrow> status_of k (d\<lparr>sends := sends d @ [r]\<rparr>) = Some s"
  by (auto simp: status_of_def find_append)

lemma status_of_settle:
  "status_of k (settle j st fee d) =
     (if k = j then map_option (\<lambda>_. st) (status_of k d) else status_of k d)"
proof -
  have "List.find (\<lambda>r. snd_id r = k) (map (settle_row j st fee) rs)
      = map_option (settle_row j st fee) (List.find (\<lambda>r. snd_id r = k) rs)" for rs
    by (induction rs) auto
  then show ?thesis
    by (cases "List.find (\<lambda>r. snd_id r = k) (sends d)")
      (auto simp: status_of_def settle_def settle_row_def dest: find_Some_iff_mem)
qed

text \<open>An action of the book keeps the status of a payment or settles it.\<close>

lemma status_of_apply:
  assumes "enabled a d x" and "status_of k d = Some s"
  shows "status_of k (apply_action x d) = Some s \<or> is_settled k (apply_action x d)"
proof (cases x)
  case (Settle j st fee)
  with assms show ?thesis by (auto simp: status_of_settle is_settled_def final_status_def)
next
  case (Transfer r q)
  with assms(2) status_of_append [of k d s r] show ?thesis
    by (simp add: status_of_def)
next
  case (Debit r)
  with assms(2) show ?thesis by (simp add: status_of_append)
qed (use assms in \<open>simp_all add: or_ignore_user or_ignore_receive status_of_def\<close>)

lemma status_of_step:
  assumes "daemon_step a l K w w'" and "status_of k (db w) = Some s"
  shows "status_of k (db w') = Some s \<or> is_settled k (db w')"
  using daemon_step_book [OF assms(1) admits_any] assms(2)
  by (auto simp: book_of_def elim!: book_step.cases dest: status_of_apply)

text \<open>Half an update settles the payment too.\<close>

lemma status_of_torn_update:
  assumes "d' \<in> set (torn_update hx i st fee d)" and "final_status st" and "status_of k d = Some s"
  shows "status_of k d' = Some s \<or> is_settled k d'"
proof -
  have find: "List.find (\<lambda>r. snd_id r = k) (map (\<lambda>r. if snd_id r = j then r\<lparr>snd_status := st\<rparr> else r) rs)
      = map_option (\<lambda>r. if snd_id r = j then r\<lparr>snd_status := st\<rparr> else r) (List.find (\<lambda>r. snd_id r = k) rs)"
    for j rs
    by (induction rs) auto
  have "status_of k (set_send_status j st d) = Some s \<or> is_settled k (set_send_status j st d)" for j
    using assms(2,3)
    by (cases "List.find (\<lambda>r. snd_id r = k) (sends d)")
      (auto simp: status_of_def is_settled_def set_send_status_def find)
  moreover have "set_send_fee j fee (set_send_status j st d) = settle j st fee d" for j
    by (rule set_status_fee_settle)
  ultimately show ?thesis
    using assms by (auto simp: torn_update_def Let_def status_of_settle is_settled_def)
qed

lemma status_of_crash:
  assumes "crash_step a l K w w'" and "status_of k (db w) = Some s"
  shows "status_of k (db w') = Some s \<or> is_settled k (db w')"
  using assms(1)
proof (cases rule: crash_step.cases)
  case completed
  then show ?thesis using assms(2) by (rule status_of_step)
next
  case (event_crash st e)
  show ?thesis
  proof (cases "(st, e)" rule: process_ldk_event.cases)
    case (5 st' i fee)
    with event_crash(3) assms(2) status_of_torn_update [of _ _ i "''successful''"] show ?thesis
      by (auto simp: final_status_def)
  next
    case (7 st' i)
    with event_crash(3) assms(2) status_of_torn_update [of _ _ i "''failed''"] show ?thesis
      by (auto simp: final_status_def)
  next
    case (2 st' i amt)
    obtain r w1 where run: "run_state (process_ldk_event st e) w = (r, w1)" by fastforce
    have "daemon_step a l K w w1"
      by (rule daemon_step.node_event [of a l st K w e r w1]) (use event_crash(1,2) run in simp_all)
    from status_of_step [OF this assms(2)] assms(2) event_crash(3) run 2 show ?thesis
      by (auto simp del: process_ldk_event.simps)
  qed (use event_crash(3) assms(2) in auto)
qed (use assms(2) in auto)

section \<open>The reports of the node\<close>

text \<open>The node reports the end of the payment with this id, successful or failed.\<close>

definition reports :: "args \<Rightarrow> libs \<Rightarrow> string \<Rightarrow> world \<Rightarrow> world \<Rightarrow> bool" where
  "reports a l k w w' \<longleftrightarrow> (\<exists>st i e r. runs_on a l st \<and> k = as_hex l i \<and>
     (e = PaymentFailed (Some i) \<or> (\<exists>fee. e = PaymentSuccessful (Some i) (Some fee))) \<and>
     run_state (process_ldk_event st e) w = (r, w'))"

lemma payment_result_settles:
  assumes "run_state (payment_result st i status fee missing) w = (r, w')" and "final_status status"
    and "status_of (as_hex (app_libs st) i) (db w) = Some s"
  shows "is_settled (as_hex (app_libs st) i) (db w')"
proof -
  have "db w' = settle (as_hex (app_libs st) i) status fee (db w)"
    using assms(1) settle_absent [of "as_hex (app_libs st) i" "db w" status fee]
    by (auto simp: run_payment_result Let_def simp del: action_events.simps split: option.splits)
  with assms(2,3) show ?thesis by (simp add: is_settled_def status_of_settle)
qed

lemma reports_settles:
  assumes "reports a l k w w'" and "status_of k (db w) = Some s"
  shows "is_settled k (db w')"
  using assms payment_result_settles [of _ _ "''successful''"] payment_result_settles [of _ _ "''failed''"]
  by (fastforce simp: reports_def runs_on_def final_status_def)

interpretation payments: progress "crash_step a l K"
  "reports a l k" "\<lambda>w. is_pending k (db w)" "\<lambda>w. is_settled k (db w)" for a l K k
proof
  fix s t assume "is_pending k (db s)" "crash_step a l K s t"
  then show "is_pending k (db t) \<or> is_settled k (db t)"
    unfolding is_pending_def using status_of_crash by blast
next
  fix s t assume s: "is_settled k (db s)" and step: "crash_step a l K s t"
  from s obtain q where "status_of k (db s) = Some q" "final_status q"
    by (auto simp: is_settled_def)
  with status_of_crash [OF step this(1)] show "is_settled k (db t)"
    by (auto simp: is_settled_def)
next
  fix s t assume "is_pending k (db s)" "reports a l k s t"
  then show "is_settled k (db t)"
    unfolding is_pending_def by (blast intro: reports_settles)
qed

end
