(* ===== verification/Concurrency.thy ===== *)
theory Concurrency
  imports System
begin

text \<open>
  Requests between each other: the database connection is behind one mutex
  (\<open>Database::get_connection\<close>, \<open>puncture-core/src/db.rs\<close>), and a request of a client takes it
  twice, for the check that the user is registered (\<open>client_method!\<close>) and for its handler. Between
  the two anything else may take the mutex. A section that holds it is one step here; the daemon
  as a whole still does what it does when every request is one step.
\<close>

section \<open>The two sections of a request\<close>

text \<open>The first section, which releases the mutex with \<open>drop(conn)\<close>.\<close>

definition method_check :: "string \<Rightarrow> bool \<Rightarrow> unit rpc" where
  "method_check user_id auth = do {
     registered \<leftarrow> query (user_exists user_id);
     if auth \<and> \<not> registered then err ''Method requires a registered user'' else ok ()
   }"

text \<open>The handler, with the parameters decoded in between.\<close>

definition method_run ::
  "(app_state \<Rightarrow> string \<Rightarrow> 'r \<Rightarrow> 'a rpc) \<Rightarrow> ('a \<Rightarrow> response) \<Rightarrow> app_state \<Rightarrow> string \<Rightarrow>
   (string, 'r) outcome \<Rightarrow> response rpc"
where
  "method_run func to_value state user_id params =
     attempt (map_err (\<lambda>e. ''Failed to deserialize request: '' @ e) params) (\<lambda>request. do {
       r \<leftarrow> func state user_id request;
       ret (map_ok to_value r)
     })"

definition needs_user :: "string \<Rightarrow> bool option" where
  "needs_user meth =
     (if meth = ''register'' then Some False
      else if meth \<in> {''bolt11_receive'', ''bolt12_receive'', ''bolt11_send'', ''bolt12_send'',
        ''onchain_send'', ''set_recovery_name'', ''recover''} then Some True
      else None)"

definition dispatch_run ::
  "'j decoders \<Rightarrow> app_state \<Rightarrow> string \<Rightarrow> string \<Rightarrow> 'j \<Rightarrow> response rpc"
where
  "dispatch_run dec state user_id meth params =
     (if meth = ''register''
      then method_run register Register_response state user_id (register_from_value dec params)
      else if meth = ''bolt11_receive''
      then method_run bolt11_receive Bolt11_receive_response state user_id
             (bolt11_receive_from_value dec params)
      else if meth = ''bolt12_receive''
      then method_run (\<lambda>st u _. bolt12_receive st u) Bolt12_receive_response state user_id
             (unit_from_value dec params)
      else if meth = ''bolt11_send''
      then method_run bolt11_send Unit_response state user_id (bolt11_send_from_value dec params)
      else if meth = ''bolt12_send''
      then method_run bolt12_send Unit_response state user_id (bolt12_send_from_value dec params)
      else if meth = ''onchain_send''
      then method_run onchain_send Onchain_send_response state user_id
             (onchain_send_from_value dec params)
      else if meth = ''set_recovery_name''
      then method_run set_recovery_name Unit_response state user_id
             (set_recovery_name_from_value dec params)
      else if meth = ''recover''
      then method_run recover Recover_response state user_id (recover_from_value dec params)
      else err (''Method '' @ [CHR 0x27] @ meth @ [CHR 0x27] @ '' not found''))"

lemma client_method_sections:
  "run_state (client_method func f st u params auth) w =
     (case run_state (method_check u auth) w of
        (Ok _, w') \<Rightarrow> run_state (method_run func f st u params) w'
      | (Err e, w') \<Rightarrow> (Err e, w')
      | (Panic p, w') \<Rightarrow> (Panic p, w'))"
  by (cases params) (simp_all add: client_method_def method_check_def method_run_def)

lemma run_method_check:
  "run_state (method_check u auth) w =
     (if auth \<and> \<not> user_exists u (db w) then Err ''Method requires a registered user'' else Ok (), w)"
  by (simp add: method_check_def)

lemma client_method_run:
  "(auth \<Longrightarrow> user_exists u (db w)) \<Longrightarrow>
     run_state (client_method func f st u params auth) w = run_state (method_run func f st u params) w"
  by (auto simp: client_method_sections run_method_check)

text \<open>When the user of a request is registered, the whole request is its second section.\<close>

lemma dispatch_second_section:
  assumes "needs_user meth = Some True \<Longrightarrow> user_exists u (db w)"
  shows "run_state (dispatch dec st u meth params) w = run_state (dispatch_run dec st u meth params) w"
  using assms by (auto simp: dispatch_def dispatch_run_def needs_user_def client_method_run)

section \<open>Interleaved requests\<close>

text \<open>A request that has passed its first section and waits for the mutex.\<close>

record waiting =
  wt_state :: app_state
  wt_decoders :: "json decoders"
  wt_user :: string
  wt_method :: string
  wt_params :: json

definition checked :: "waiting \<Rightarrow> db \<Rightarrow> bool" where
  "checked q d \<longleftrightarrow> (needs_user (wt_method q) = Some True \<longrightarrow> user_exists (wt_user q) d)"

definition second_section :: "waiting \<Rightarrow> response rpc" where
  "second_section q = dispatch_run (wt_decoders q) (wt_state q) (wt_user q) (wt_method q) (wt_params q)"

definition request_of :: "args \<Rightarrow> libs \<Rightarrow> u8 list \<Rightarrow> waiting \<Rightarrow> bool" where
  "request_of a l bytes q \<longleftrightarrow> runs_on a l (wt_state q) \<and> length bytes \<le> 100000 \<and>
     from_slice (wt_decoders q) bytes = Ok (wt_method q, wt_params q)"

text \<open>
  A step is one section. A waiting request is any of those that wait, so that the order in which
  the mutex is given does not matter; it may also be dropped with its connection. A restart drops
  them all.
\<close>

inductive section_step ::
  "args \<Rightarrow> libs \<Rightarrow> (db \<Rightarrow> ldk_event \<Rightarrow> bool) \<Rightarrow> world \<times> waiting list \<Rightarrow> world \<times> waiting list \<Rightarrow> bool"
  for a l K where
  check_passed: "request_of a l bytes q \<Longrightarrow> needs_user (wt_method q) = Some auth \<Longrightarrow>
    run_state (method_check (wt_user q) auth) w = (Ok (), w') \<Longrightarrow>
    section_step a l K (w, qs) (w', qs @ [q])"
| check_failed: "request_of a l bytes q \<Longrightarrow> needs_user (wt_method q) = Some auth \<Longrightarrow>
    run_state (method_check (wt_user q) auth) w = (Err e, w') \<Longrightarrow> section_step a l K (w, qs) (w', qs)"
| handled: "run_state (second_section q) w = (r, w') \<Longrightarrow>
    section_step a l K (w, qs @ q # rs) (w', qs @ rs)"
| dropped: "section_step a l K (w, qs @ q # rs) (w, qs @ rs)"
| event_processed: "runs_on a l st \<Longrightarrow> K (db w) e \<Longrightarrow>
    run_state (process_ldk_event st e) w = (r', w') \<Longrightarrow> section_step a l K (w, qs) (w', qs)"
| command_handled: "runs_on a l st \<Longrightarrow> router st route body = Some m \<Longrightarrow>
    run_state m w = (r'', w') \<Longrightarrow> section_step a l K (w, qs) (w', qs)"
| form_handled: "runs_on a l st \<Longrightarrow> create_router st path request = Some m' \<Longrightarrow>
    run_state m' w = (r''', w') \<Longrightarrow> section_step a l K (w, qs) (w', qs)"
| restarted: "section_step a l K (w, qs) (w\<lparr>event_bus := []\<rparr>, [])"

inductive_cases section_stepE: "section_step a l K s t"

text \<open>Users are never removed, so a passed check stays valid.\<close>

lemma user_exists_iff: "user_exists u d \<longleftrightarrow> u \<in> set (map usr_user_pk (users d))"
  by (auto simp: user_exists_def list_ex_iff)

lemma user_exists_apply: "user_exists u d \<Longrightarrow> user_exists u (apply_action x d)"
  by (cases x) (auto simp: user_exists_iff or_ignore_user or_ignore_receive map_set_recovery_name)

lemma user_exists_step:
  assumes "daemon_step a l K w w'" and "user_exists u (db w)"
  shows "user_exists u (db w')"
  using daemon_step_book [OF assms(1) admits_any] assms(2)
  by (auto simp: book_of_def elim!: book_step.cases intro: user_exists_apply)

text \<open>
  Every request that waits has passed its check, and a section is a step of the daemon or does
  nothing.
\<close>

definition all_checked :: "args \<Rightarrow> libs \<Rightarrow> world \<times> waiting list \<Rightarrow> bool" where
  "all_checked a l s \<longleftrightarrow>
     (\<forall>q \<in> set (snd s). checked q (db (fst s)) \<and> (\<exists>bytes. request_of a l bytes q))"

lemma second_section_step:
  assumes "request_of a l bytes q" and "checked q (db w)"
    and "run_state (second_section q) w = (r, w')"
  shows "daemon_step a l K w w'"
proof -
  have "run_state (dispatch (wt_decoders q) (wt_state q) (wt_user q) (wt_method q) (wt_params q)) w
      = (r, w')"
    using assms(2,3) dispatch_second_section [of "wt_method q" "wt_user q" w]
    unfolding checked_def second_section_def by metis
  then have "\<exists>r'. run_state (handle_request (wt_decoders q) (wt_state q) (wt_user q) bytes (Ok ())) w = (r', w')"
    using assms(1) by (cases r) (auto simp: handle_request_def request_of_def)
  with assms(1) show ?thesis
    by (auto simp: request_of_def intro: daemon_step.client_request)
qed

lemma section_refines:
  assumes "section_step a l K s t" and "all_checked a l s"
  shows "(daemon_step a l K)\<^sup>=\<^sup>= (fst s) (fst t)"
  using assms
  by (cases rule: section_step.cases)
    (auto simp: run_method_check all_checked_def intro: second_section_step daemon_step.intros)

lemma checked_refined:
  "checked q (db w) \<Longrightarrow> (daemon_step a l K)\<^sup>=\<^sup>= w w' \<Longrightarrow> checked q (db w')"
  by (auto simp: checked_def dest: user_exists_step)

lemma all_checked_step:
  assumes step: "section_step a l K s t" and inv: "all_checked a l s"
  shows "all_checked a l t"
proof -
  note refined = checked_refined [OF _ section_refines [OF step inv]]
  show ?thesis
    using step inv refined
    by (cases rule: section_step.cases)
      (auto simp: all_checked_def run_method_check checked_def split: if_splits)
qed

interpretation interleaving: safety "\<lambda>(w, qs). started w \<and> qs = []" "section_step a l K" "all_checked a l"
  for a l K
proof
  fix s :: "world \<times> waiting list" assume "(\<lambda>(w, qs). started w \<and> qs = []) s"
  then show "all_checked a l s" by (auto simp: all_checked_def)
qed (rule all_checked_step)

lemma sections_refine:
  assumes "(section_step a l K)\<^sup>*\<^sup>* s t" and "all_checked a l s"
  shows "(daemon_step a l K)\<^sup>*\<^sup>* (fst s) (fst t)"
  using assms
proof (induction rule: rtranclp_induct)
  case (step t u)
  then have "all_checked a l t" by (blast intro: interleaving.inv_run)
  with step show ?case
    by (auto dest: section_refines intro: rtranclp.rtrancl_into_rtrancl)
qed simp

text \<open>And a step of the daemon is one section, or the two sections of a request.\<close>

lemma dispatch_unknown:
  assumes "needs_user meth = None"
  shows "run_state (dispatch dec st u meth params) w =
    (Err (''Method '' @ [CHR 0x27] @ meth @ [CHR 0x27] @ '' not found''), w)"
  using assms by (simp add: needs_user_def dispatch_def split: if_split_asm)

lemma dispatch_refused:
  assumes "needs_user meth = Some True" and "\<not> user_exists u (db w)"
  shows "run_state (dispatch dec st u meth params) w = (Err ''Method requires a registered user'', w)"
  using assms by (auto simp: needs_user_def dispatch_def run_client_method split: if_split_asm)

lemma request_sections:
  assumes run: "run_state (handle_request (dec :: json decoders) st u bytes io) w = (r, w')"
    and st: "runs_on a l st"
  shows "(section_step a l K)\<^sup>*\<^sup>* (w, []) (w', [])"
proof (cases "w' = w")
  case False
  then obtain meth params r' where len: "length bytes \<le> 100000"
    and dec: "from_slice dec bytes = Ok (meth, params)"
    and disp: "run_state (dispatch dec st u meth params) w = (r', w')"
    using run by (cases "from_slice dec bytes")
      (auto simp: handle_request_def run_if attempt_def split: if_split_asm prod.splits outcome.splits)
  define q where "q = \<lparr>wt_state = st, wt_decoders = dec, wt_user = u, wt_method = meth,
    wt_params = params\<rparr>"
  have req: "request_of a l bytes q" using len dec st by (simp add: request_of_def q_def)
  from False disp dispatch_unknown [of meth dec st u params w] obtain auth
    where auth: "needs_user meth = Some auth"
    by (cases "needs_user meth") auto
  with False disp dispatch_refused [of meth u w dec st params]
  have known: "auth \<longrightarrow> user_exists u (db w)" by auto
  then have "run_state (method_check (wt_user q) auth) w = (Ok (), w)"
    by (auto simp: run_method_check q_def)
  moreover have "needs_user (wt_method q) = Some auth" using auth by (simp add: q_def)
  ultimately have "section_step a l K (w, []) (w, [] @ [q])"
    using section_step.check_passed [OF req] by blast
  moreover have "run_state (second_section q) w = (r', w')"
    using disp known auth dispatch_second_section [of meth u w dec st params]
    by (simp add: second_section_def q_def)
  then have "section_step a l K (w, [] @ q # []) (w', [] @ [])" by (rule section_step.handled)
  ultimately show ?thesis
    by (metis append_Nil converse_rtranclp_into_rtranclp rtranclp.rtrancl_refl)
qed simp

lemma daemon_step_sections:
  assumes "daemon_step a l K w w'"
  shows "(section_step a l K)\<^sup>*\<^sup>* (w, []) (w', [])"
  using assms
proof (cases rule: daemon_stepE [consumes 1])
  case (1 st dec u bytes io r)
  then show ?thesis by (blast intro: request_sections)
qed (auto intro: section_step.intros)

lemma sections_complete:
  "(daemon_step a l K)\<^sup>*\<^sup>* w w' \<Longrightarrow> (section_step a l K)\<^sup>*\<^sup>* (w, []) (w', [])"
  by (induction rule: rtranclp_induct) (auto dest: daemon_step_sections)

end
