(* ===== verification/Shutdown.thy ===== *)
theory Shutdown
  imports Prelude
begin

text \<open>
  The tasks of the daemon and its shutdown, the second half of \<open>main\<close> in
  \<open>puncture-daemon/src/main.rs\<close>: \<open>main\<close> spawns the client interface (\<open>run_api\<close>), the command line
  interface (\<open>run_cli\<close>), the web interface (\<open>run_ui\<close>) and the event loop (\<open>process_ldk_events\<close>),
  waits for the signal, stops the node, cancels the token all tasks share and joins them. What a
  task does with a request is in the other theories; here it runs, panics, or ends once the token
  is cancelled.
\<close>

section \<open>The process\<close>

datatype daemon_task = Client_task | Cli_task | Events_task | Ui_task

datatype task_status = Running | Ended | Panicked

datatype main_pc =
    Awaiting_signal
  | Stopping_node
  | Cancelling
  | Joining daemon_task
  | Exited "(string, unit) outcome"

record process =
  pc :: main_pc
  signalled :: bool
  cancelled :: bool
  status :: "daemon_task \<Rightarrow> task_status"

definition spawned :: process where
  "spawned = \<lparr>pc = Awaiting_signal, signalled = False, cancelled = False, status = (\<lambda>_. Running)\<rparr>"

text \<open>The order in which \<open>main\<close> joins the tasks; the error of a task that panicked is logged.\<close>

fun after_join :: "daemon_task \<Rightarrow> main_pc" where
  "after_join Client_task = Joining Cli_task"
| "after_join Cli_task = Joining Events_task"
| "after_join Events_task = Joining Ui_task"
| "after_join Ui_task = Exited (Ok ())"

text \<open>\<open>node.stop()?\<close> leaves \<open>main\<close> with its error, before the token is cancelled.\<close>

fun after_stop :: "(string, unit) outcome \<Rightarrow> main_pc" where
  "after_stop (Ok _) = Cancelling"
| "after_stop (Err e) = Exited (Err e)"
| "after_stop (Panic p) = Exited (Panic p)"

text \<open>The next step of \<open>main\<close>; \<open>None\<close> while it is blocked. \<open>stop\<close> is the result of \<open>node.stop\<close>.\<close>

fun main_next :: "(string, unit) outcome \<Rightarrow> main_pc \<Rightarrow> process \<Rightarrow> process option" where
  "main_next stop Awaiting_signal p = (if signalled p then Some (p\<lparr>pc := Stopping_node\<rparr>) else None)"
| "main_next stop Stopping_node p = Some (p\<lparr>pc := after_stop stop\<rparr>)"
| "main_next stop Cancelling p = Some (p\<lparr>cancelled := True, pc := Joining Client_task\<rparr>)"
| "main_next stop (Joining t) p =
     (if status p t = Running then None else Some (p\<lparr>pc := after_join t\<rparr>))"
| "main_next stop (Exited r) p = None"

inductive process_step :: "(string, unit) outcome \<Rightarrow> process \<Rightarrow> process \<Rightarrow> bool" for stop where
  signal: "process_step stop p (p\<lparr>signalled := True\<rparr>)"
| main: "main_next stop (pc p) p = Some q \<Longrightarrow> process_step stop p q"
| works: "status p t = Running \<Longrightarrow> process_step stop p p"
| panics: "status p t = Running \<Longrightarrow> process_step stop p (p\<lparr>status := (status p)(t := Panicked)\<rparr>)"
| ends: "status p t = Running \<Longrightarrow> cancelled p \<Longrightarrow>
    process_step stop p (p\<lparr>status := (status p)(t := Ended)\<rparr>)"
| idle: "process_step stop p p"

inductive_cases process_stepE: "process_step stop p q"

fun_cases main_nextE: "main_next stop x p = Some q"

lemma all_daemon_tasks:
  "(\<forall>t. P t) \<longleftrightarrow> P Client_task \<and> P Cli_task \<and> P Events_task \<and> P Ui_task"
  by (metis daemon_task.exhaust)

section \<open>Progress of main\<close>

fun pc_rank :: "main_pc \<Rightarrow> nat" where
  "pc_rank Awaiting_signal = 7"
| "pc_rank Stopping_node = 6"
| "pc_rank Cancelling = 5"
| "pc_rank (Joining Client_task) = 4"
| "pc_rank (Joining Cli_task) = 3"
| "pc_rank (Joining Events_task) = 2"
| "pc_rank (Joining Ui_task) = 1"
| "pc_rank (Exited r) = 0"

lemma pc_rank_0: "pc_rank x = 0 \<longleftrightarrow> (\<exists>r. x = Exited r)"
  by (cases x rule: pc_rank.cases) auto

lemma after_join_rank [simp]: "pc_rank (after_join t) < pc_rank (Joining t)"
  by (cases t) simp_all

lemma main_next_rank: "main_next stop x p = Some q \<Longrightarrow> pc_rank (pc q) < pc_rank x"
  by (elim main_nextE; cases stop) (auto split: if_split_asm)

lemma step_pc: "process_step stop p q \<Longrightarrow> pc q = pc p \<or> pc_rank (pc q) < pc_rank (pc p)"
  by (auto elim!: process_stepE dest: main_next_rank)

text \<open>No step takes a signal, a cancellation or the end of a task back.\<close>

lemma main_next_keeps:
  "main_next stop x p = Some q \<Longrightarrow>
     signalled q = signalled p \<and> (cancelled p \<longrightarrow> cancelled q) \<and> status q = status p"
  by (elim main_nextE) (auto split: if_split_asm)

lemma step_keeps:
  assumes "process_step stop p q"
  shows "signalled p \<Longrightarrow> signalled q" and "cancelled p \<Longrightarrow> cancelled q"
    and "status p t \<noteq> Running \<Longrightarrow> status q t \<noteq> Running"
  using assms by (auto elim!: process_stepE dest: main_next_keeps split: if_split_asm)

text \<open>\<open>main\<close> joins only after the cancellation, and returns with success when all have ended.\<close>

fun joined :: "main_pc \<Rightarrow> daemon_task list" where
  "joined (Joining Cli_task) = [Client_task]"
| "joined (Joining Events_task) = [Client_task, Cli_task]"
| "joined (Joining Ui_task) = [Client_task, Cli_task, Events_task]"
| "joined (Exited (Ok _)) = [Client_task, Cli_task, Events_task, Ui_task]"
| "joined _ = []"

fun past_cancel :: "main_pc \<Rightarrow> bool" where
  "past_cancel (Joining t) \<longleftrightarrow> True"
| "past_cancel (Exited (Ok _)) \<longleftrightarrow> True"
| "past_cancel _ \<longleftrightarrow> False"

definition main_ok :: "process \<Rightarrow> bool" where
  "main_ok p \<longleftrightarrow> (past_cancel (pc p) \<longrightarrow> cancelled p) \<and>
     (\<forall>t \<in> set (joined (pc p)). status p t \<noteq> Running)"

lemma main_ok_next:
  assumes "main_ok p" and "main_next stop (pc p) p = Some q"
  shows "main_ok q"
proof (cases "pc p")
  case Stopping_node
  with assms(2) show ?thesis by (cases stop) (auto simp: main_ok_def)
next
  case (Joining t)
  with assms show ?thesis by (cases t) (auto simp: main_ok_def split: if_split_asm)
qed (use assms in \<open>auto simp: main_ok_def split: if_split_asm\<close>)

lemma main_ok_step:
  assumes "main_ok p" and "process_step stop p q"
  shows "main_ok q"
  using assms(2)
proof (cases rule: process_stepE [consumes 1])
  case 2
  with assms(1) show ?thesis by (blast intro: main_ok_next)
qed (use assms(1) in \<open>auto simp: main_ok_def\<close>)

lemma main_ok_spawned: "main_ok spawned"
  by (simp add: main_ok_def spawned_def)

interpretation main_loop: safety "\<lambda>p. p = spawned" "process_step stop" main_ok for stop
  by unfold_locales (simp add: main_ok_spawned, rule main_ok_step)

section \<open>Fair runs\<close>

text \<open>
  The scheduler runs \<open>main\<close> when it is not blocked for ever, and a task whose token is cancelled
  ends or panics: its \<open>select!\<close> takes the branch of the token some time, and \<open>axum\<close> finishes the
  requests it has accepted.
\<close>

definition main_fair :: "(string, unit) outcome \<Rightarrow> (nat \<Rightarrow> process) \<Rightarrow> bool" where
  "main_fair stop ps \<longleftrightarrow> (\<forall>i. (\<forall>j \<ge> i. main_next stop (pc (ps j)) (ps j) \<noteq> None) \<longrightarrow>
     (\<exists>j \<ge> i. pc (ps (Suc j)) \<noteq> pc (ps j)))"

definition tasks_fair :: "(nat \<Rightarrow> process) \<Rightarrow> bool" where
  "tasks_fair ps \<longleftrightarrow> (\<forall>i t. cancelled (ps i) \<longrightarrow> (\<exists>j \<ge> i. status (ps j) t \<noteq> Running))"

lemma run_keeps:
  assumes "run_of step ps" and "\<And>s t. step s t \<Longrightarrow> P s \<Longrightarrow> P t" and "P (ps i)" and "i \<le> j"
  shows "P (ps j)"
  using assms(4)
proof (induction j rule: dec_induct)
  case base
  then show ?case by (rule assms(3))
next
  case (step j)
  with assms(1,2) show ?case unfolding run_of_def by blast
qed

lemma main_moves_on:
  assumes run: "run_of (process_step stop) ps" and ok: "main_ok (ps 0)"
    and fair: "main_fair stop ps" "tasks_fair ps" and signal: "signalled (ps s)"
    and live: "\<nexists>r. pc (ps i) = Exited r"
  shows "\<exists>j \<ge> i. pc_rank (pc (ps j)) < pc_rank (pc (ps i))"
proof (rule ccontr)
  assume stuck: "\<not> ?thesis"
  have same: "pc (ps j) = pc (ps i)" if "i \<le> j" for j
    using that
  proof (induction j rule: dec_induct)
    case (step j)
    with run step_pc [of stop "ps j" "ps (Suc j)"] stuck show ?case
      unfolding run_of_def by (metis le_SucI)
  qed simp
  have "\<exists>k \<ge> i. \<forall>j \<ge> k. main_next stop (pc (ps j)) (ps j) \<noteq> None"
  proof (cases "pc (ps i)")
    case Awaiting_signal
    have "signalled (ps j)" if "s \<le> j" for j
      using run_keeps [of "process_step stop" ps signalled, OF run step_keeps(1) signal that] .
    with same Awaiting_signal show ?thesis by (intro exI [of _ "max i s"]) simp
  next
    case (Joining t)
    have "main_ok (ps i)"
      using run_keeps [of "process_step stop" ps main_ok, OF run _ ok] main_ok_step by blast
    with Joining have "cancelled (ps i)" by (simp add: main_ok_def)
    with fair(2) obtain k where k: "i \<le> k" "status (ps k) t \<noteq> Running"
      unfolding tasks_fair_def by blast
    have "status (ps j) t \<noteq> Running" if "k \<le> j" for j
      using run_keeps [of "process_step stop" ps "\<lambda>p. status p t \<noteq> Running", OF run step_keeps(3) k(2) that] .
    with same Joining k(1) show ?thesis by (intro exI [of _ k]) simp
  next
    case Stopping_node
    with same show ?thesis by (intro exI [of _ i]) simp
  next
    case Cancelling
    with same show ?thesis by (intro exI [of _ i]) simp
  next
    case (Exited r)
    with live show ?thesis by simp
  qed
  then obtain k where k: "i \<le> k" "\<forall>j \<ge> k. main_next stop (pc (ps j)) (ps j) \<noteq> None" by blast
  with fair(1) obtain j where "k \<le> j" "pc (ps (Suc j)) \<noteq> pc (ps j)"
    unfolding main_fair_def by blast
  with same [of j] same [of "Suc j"] k(1) show False by simp
qed

lemma main_exits:
  assumes "run_of (process_step stop) ps" and "main_ok (ps 0)"
    and "main_fair stop ps" "tasks_fair ps" and "signalled (ps s)"
  shows "\<exists>j r. pc (ps j) = Exited r"
proof -
  have "\<exists>j r. pc (ps j) = Exited r" for i :: nat
  proof (induction "pc_rank (pc (ps i))" arbitrary: i rule: less_induct)
    case less
    with main_moves_on [OF assms, of i] show ?case by metis
  qed
  then show ?thesis .
qed

text \<open>The node that stops leaves no error to return.\<close>

lemma exit_Ok_step:
  "process_step (Ok ()) p q \<Longrightarrow> (\<forall>r. pc p = Exited r \<longrightarrow> r = Ok ()) \<Longrightarrow> \<forall>r. pc q = Exited r \<longrightarrow> r = Ok ()"
  by (elim process_stepE main_nextE) (auto split: if_split_asm elim: after_join.elims)

text \<open>
  A task that panics is noticed when it is joined, so not before the signal: until then the daemon
  goes on without it, and without the event loop no payment is credited or settled.
\<close>

lemma panic_unnoticed:
  assumes "process_step stop p q" and "pc p = Awaiting_signal" and "\<not> signalled p"
  shows "pc q = Awaiting_signal \<and> cancelled q = cancelled p \<and>
    (\<forall>t. status p t = Panicked \<longrightarrow> status q t = Panicked)"
  using assms by (auto elim!: process_stepE)

end
