(* ===== verification/Run_Properties.thy ===== *)
theory Run_Properties
  imports Settlement Concurrency Shutdown Examples
begin

text \<open>
  Runs of the daemon: a pending payment is settled in the end, the interleaving of requests cannot
  be told from a serial run, and a shutdown comes to its end.
\<close>

section \<open>Payments\<close>

text \<open>
  C5: in every infinite run of the daemon in which the Lightning node reports, sooner or later, the
  end of each pending payment and the daemon gets through that event, every pending payment
  becomes successful or failed at some time and stays settled from then on, whatever the clients
  and the operator do and however often the daemon crashes.
\<close>

theorem pending_payment_settles:
  assumes "run_of (crash_step a l K) ws"
    and "\<forall>k i. is_pending k (db (ws i)) \<longrightarrow> (\<exists>j \<ge> i. reports a l k (ws j) (ws (Suc j)))"
    and "is_pending k (db (ws i))"
  shows "\<exists>j \<ge> i. \<forall>m \<ge> j. is_settled k (db (ws m))"
  using payments.eventually_settled [OF assms(1,3)] assms(2,3) by blast

text \<open>The example run, which goes on with requests of the operator that change nothing.\<close>

definition ex_run :: "nat \<Rightarrow> world" where
  "ex_run i = (if i = 0 then ex_w0 else if i = 1 then ex_w1 else if i = 2 then ex_w2
     else if i = 3 then ex_w3 else if i = 4 then ex_w4 else if i = 5 then ex_w5 else ex_w6)"

lemma ex_idle: "daemon_step default_args ex_libs K w w"
proof (rule daemon_step.ui_request [OF runs_on_ex])
  show "create_router ex_state ''/users'' Get = Some (users_page ex_libs)"
    by (simp add: create_router_def)
  show "run_state (users_page ex_libs) w = (fst (run_state (users_page ex_libs) w), w)"
    by (simp add: users_page_def)
qed

lemma ex_run_steps: "run_of (crash_step default_args ex_libs any_node) ex_run"
  unfolding run_of_def
proof
  fix i :: nat
  have cases: "i = 0 \<or> i = 1 \<or> i = 2 \<or> i = 3 \<or> i = 4 \<or> i = 5 \<or> 6 \<le> i" by linarith
  have "daemon_step default_args ex_libs any_node (ex_run i) (ex_run (Suc i))"
    using cases ex_daemon1 [of any_node] ex_daemon2 [of any_node] ex_daemon3 [of any_node]
      ex_daemon4 [of any_node] ex_daemon5 [of any_node] ex_daemon6 [of any_node] ex_idle [of any_node]
    by (auto simp: ex_run_def any_node_def)
  then show "crash_step default_args ex_libs any_node (ex_run i) (ex_run (Suc i))"
    by (rule crash_step.completed)
qed

lemma ex_pending: "is_pending k (db (ex_run i)) \<Longrightarrow> i = 5 \<and> k = ex_as_hex [99]"
proof -
  assume pending: "is_pending k (db (ex_run i))"
  then have "\<not> 6 \<le> i"
    by (auto simp: is_pending_def status_of_def ex_run_def ex_sends6 split: if_splits)
  moreover have "sends (db (ex_run i)) = []" if "i < 5"
    using that by (auto simp: ex_run_def ex_w4_frame) (auto simp: ex_world_defs)
  then have "\<not> i < 5"
    using pending by (auto simp: is_pending_def status_of_def)
  ultimately have "i = 5" by simp
  with pending show ?thesis
    by (auto simp: is_pending_def status_of_def ex_run_def ex_sends5 ex_sent_def split: if_splits)
qed

lemma ex_reports: "reports default_args ex_libs (ex_as_hex [99]) (ex_run 5) (ex_run (Suc 5))"
  using runs_on_ex ex_step6 unfolding reports_def
  by (auto simp: ex_run_def simp del: process_ldk_event.simps
      intro!: exI [of _ ex_state] exI [of _ "[99]"] exI [of _ "PaymentSuccessful (Some [99]) (Some 1500)"])

theorem pending_payment_settles_witness:
  "is_pending (ex_as_hex [99]) (db (ex_run 5)) \<and>
     (\<exists>j \<ge> 5. \<forall>m \<ge> j. is_settled (ex_as_hex [99]) (db (ex_run m)))"
proof -
  have pending: "is_pending (ex_as_hex [99]) (db (ex_run 5))"
    by (simp add: is_pending_def status_of_def ex_run_def ex_sends5 ex_sent_def)
  have "\<forall>k i. is_pending k (db (ex_run i)) \<longrightarrow>
      (\<exists>j \<ge> i. reports default_args ex_libs k (ex_run j) (ex_run (Suc j)))"
    using ex_reports ex_pending by blast
  from pending_payment_settles [OF ex_run_steps this pending] pending show ?thesis by blast
qed

section \<open>Interleaved requests\<close>

text \<open>
  C4: although a request takes the mutex of the database twice, with other requests, node events,
  commands and forms in between, every state the daemon reaches so is one it reaches when every
  request is one step (and conversely, \<open>sections_complete\<close>), and the handler of each request that
  waits for its second turn answers and changes the state as the whole request would now.
\<close>

theorem requests_serialise:
  assumes "(section_step a l K)\<^sup>*\<^sup>* (w0, []) (w, qs)"
  shows "(daemon_step a l K)\<^sup>*\<^sup>* w0 w \<and>
    (\<forall>q \<in> set qs. run_state (second_section q) w =
       run_state (dispatch (wt_decoders q) (wt_state q) (wt_user q) (wt_method q) (wt_params q)) w)"
proof -
  have init: "all_checked a l (w0, [])" by (simp add: all_checked_def)
  have "(daemon_step a l K)\<^sup>*\<^sup>* w0 w" using sections_refine [OF assms init] by simp
  moreover have "all_checked a l (w, qs)" using assms init by (rule interleaving.inv_run)
  then have "checked q (db w)" if "q \<in> set qs" for q using that by (simp add: all_checked_def)
  then have "\<forall>q \<in> set qs. run_state (second_section q) w =
      run_state (dispatch (wt_decoders q) (wt_state q) (wt_user q) (wt_method q) (wt_params q)) w"
    unfolding checked_def second_section_def by (blast intro: dispatch_second_section [symmetric])
  ultimately show ?thesis by blast
qed

text \<open>A payment that waits for the mutex while a form is handled.\<close>

definition ex_waiting :: waiting where
  "ex_waiting = \<lparr>wt_state = ex_state, wt_decoders = ex_dec ''bolt11_send'' (ex_send [99] 2000000),
     wt_user = ''alice'', wt_method = ''bolt11_send'', wt_params = Json_null\<rparr>"

theorem requests_serialise_witness:
  "(section_step default_args ex_libs any_node)\<^sup>*\<^sup>* (ex_w0, []) (ex_w4, [ex_waiting]) \<and>
     run_state (second_section ex_waiting) ex_w4 =
     run_state (dispatch (ex_dec ''bolt11_send'' (ex_send [99] 2000000)) ex_state ''alice''
       ''bolt11_send'' Json_null) ex_w4"
proof -
  have req: "request_of default_args ex_libs [] ex_waiting"
    using runs_on_ex by (simp add: request_of_def ex_waiting_def ex_dec_def)
  have "needs_user (wt_method ex_waiting) = Some True"
    by (simp add: needs_user_def ex_waiting_def)
  moreover have "run_state (method_check (wt_user ex_waiting) True) ex_w4 = (Ok (), ex_w4)"
    using ex_known by (simp add: run_method_check ex_waiting_def)
  ultimately have "section_step default_args ex_libs any_node (ex_w4, []) (ex_w4, [] @ [ex_waiting])"
    using section_step.check_passed [OF req] by blast
  moreover have "(section_step default_args ex_libs any_node)\<^sup>*\<^sup>* (ex_w0, []) (ex_w4, [])"
    by (rule sections_complete, rule ex_reached4) (simp add: any_node_def)
  ultimately have run: "(section_step default_args ex_libs any_node)\<^sup>*\<^sup>* (ex_w0, []) (ex_w4, [ex_waiting])"
    by (simp add: rtranclp.rtrancl_into_rtrancl)
  from requests_serialise [OF run] run show ?thesis
    by (simp add: ex_waiting_def)
qed

section \<open>The shutdown\<close>

text \<open>
  C37: once the daemon gets the signal, and when the node can be stopped, \<open>main\<close> returns with
  success, after all four tasks have ended, even those that panicked; if \<open>main\<close> is scheduled
  when it can go on and a cancelled task does not run for ever.
\<close>

theorem shutdown_completes:
  assumes "run_of (process_step (Ok ())) ps" and "ps 0 = spawned"
    and "main_fair (Ok ()) ps" and "tasks_fair ps" and "signalled (ps s)"
  shows "\<exists>j. pc (ps j) = Exited (Ok ()) \<and> (\<forall>t. status (ps j) t \<noteq> Running)"
proof -
  have init: "main_ok (ps 0)" by (simp add: assms(2) main_ok_spawned)
  obtain j r where j: "pc (ps j) = Exited r"
    using main_exits [OF assms(1) init assms(3-5)] by blast
  have "\<forall>r. pc (ps j) = Exited r \<longrightarrow> r = Ok ()"
    by (rule run_keeps [of "process_step (Ok ())" ps _ 0 j, OF assms(1) exit_Ok_step])
      (simp_all add: assms(2) spawned_def)
  moreover have "main_ok (ps j)"
    using run_keeps [of "process_step (Ok ())" ps main_ok 0 j] assms(1) main_ok_step init by blast
  ultimately show ?thesis using j by (auto simp: main_ok_def all_daemon_tasks)
qed

text \<open>A shutdown in which the event loop panics.\<close>

definition ex_process :: "nat \<Rightarrow> process" where
  "ex_process i = \<lparr>
     pc = (if i < 2 then Awaiting_signal else if i = 2 then Stopping_node else if i = 3 then Cancelling
       else if i < 9 then Joining Client_task else if i = 9 then Joining Cli_task
       else if i = 10 then Joining Events_task else if i = 11 then Joining Ui_task
       else Exited (Ok ())),
     signalled = (1 \<le> i), cancelled = (4 \<le> i),
     status = (\<lambda>t. case t of
         Client_task \<Rightarrow> if 5 \<le> i then Ended else Running
       | Cli_task \<Rightarrow> if 6 \<le> i then Ended else Running
       | Events_task \<Rightarrow> if 7 \<le> i then Panicked else Running
       | Ui_task \<Rightarrow> if 8 \<le> i then Ended else Running)\<rparr>"

lemma task_step:
  assumes "status p t = Running" and "r = Panicked \<or> r = Ended \<and> cancelled p"
    and "\<forall>u. status q u = (if u = t then r else status p u)"
    and "pc q = pc p" "signalled q = signalled p" "cancelled q = cancelled p"
  shows "process_step stop p q"
proof -
  have q: "q = p\<lparr>status := (status p)(t := r)\<rparr>"
    using assms(3-6) by (intro process.equality ext) simp_all
  show ?thesis
    unfolding q using assms(1,2) by (auto intro: process_step.panics process_step.ends)
qed

lemma ex_process_step: "process_step (Ok ()) (ex_process i) (ex_process (Suc i))"
proof -
  have "i = 0 \<or> i = 1 \<or> i = 2 \<or> i = 3 \<or> i = 4 \<or> i = 5 \<or> i = 6 \<or> i = 7 \<or> i = 8 \<or> i = 9 \<or> i = 10 \<or>
      i = 11 \<or> 12 \<le> i"
    by presburger
  then consider "i = 0" | "i \<in> {1, 2, 3, 8, 9, 10, 11}" | "i \<in> {4, 5, 6, 7}" | "12 \<le> i" by auto
  then show ?thesis
  proof cases
    case 1
    then have "ex_process (Suc i) = (ex_process i)\<lparr>signalled := True\<rparr>"
      by (simp add: ex_process_def fun_eq_iff all_daemon_tasks)
    then show ?thesis by (simp add: process_step.signal)
  next
    case 2
    then have "main_next (Ok ()) (pc (ex_process i)) (ex_process i) = Some (ex_process (Suc i))"
      by (auto simp: ex_process_def fun_eq_iff all_daemon_tasks)
    then show ?thesis by (rule process_step.main)
  next
    case 3
    then show ?thesis
      by (intro task_step [of _ "if i = 4 then Client_task else if i = 5 then Cli_task
            else if i = 6 then Events_task else Ui_task" "if i = 6 then Panicked else Ended"])
        (auto simp: ex_process_def all_daemon_tasks)
  next
    case 4
    then have "ex_process (Suc i) = ex_process i" by (simp add: ex_process_def)
    then show ?thesis by (simp add: process_step.idle)
  qed
qed

theorem shutdown_completes_witness:
  "\<exists>j. pc (ex_process j) = Exited (Ok ()) \<and> status (ex_process j) Events_task = Panicked"
proof -
  have run: "run_of (process_step (Ok ())) ex_process"
    by (simp add: run_of_def ex_process_step)
  have init: "ex_process 0 = spawned"
    by (simp add: ex_process_def spawned_def fun_eq_iff all_daemon_tasks)
  have main: "main_fair (Ok ()) ex_process"
    unfolding main_fair_def
  proof (intro allI impI)
    fix i assume "\<forall>j \<ge> i. main_next (Ok ()) (pc (ex_process j)) (ex_process j) \<noteq> None"
    then have "main_next (Ok ()) (pc (ex_process (max i 12))) (ex_process (max i 12)) \<noteq> None" by simp
    moreover have "pc (ex_process j) = Exited (Ok ())" if "12 \<le> j" for j
      using that by (simp add: ex_process_def)
    then have "pc (ex_process (max i 12)) = Exited (Ok ())" by simp
    ultimately show "\<exists>j \<ge> i. pc (ex_process (Suc j)) \<noteq> pc (ex_process j)" by simp
  qed
  have tasks: "tasks_fair ex_process"
    unfolding tasks_fair_def
  proof (intro allI impI)
    fix i t
    show "\<exists>j \<ge> i. status (ex_process j) t \<noteq> Running"
      by (intro exI [of _ "max i 8"]) (cases t; simp add: ex_process_def)
  qed
  have "signalled (ex_process 1)" by (simp add: ex_process_def)
  from shutdown_completes [OF run init main tasks this] obtain j where
    j: "pc (ex_process j) = Exited (Ok ())" by blast
  then have "12 \<le> j" by (simp add: ex_process_def split: if_split_asm)
  then have "status (ex_process j) Events_task = Panicked" by (simp add: ex_process_def)
  with j show ?thesis by blast
qed

end
