(* ===== verification/Crash_Properties.thy ===== *)
theory Crash_Properties
  imports Examples
begin

text \<open>
  What a crash of the daemon costs: nothing while an event of the node is processed, the debit of a
  payment while it is sent.
\<close>

text \<open>
  C16: however often the daemon crashes while it processes an event of the node, at whichever
  statement, the event it processes when the node delivers it again leaves the tables as they
  would be without a crash, up to the time noted on a received payment, and every user with the
  same balance.
\<close>

theorem event_survives_crashes:
  assumes "interrupted st e w w'"
    and "run_state (process_ldk_event st e) w = (r1, w1)"
    and "run_state (process_ldk_event st e) w' = (r2, w2)"
  shows "same_accounts (db w1) (db w2) \<and> user_balance u (db w2) = user_balance u (db w1)"
proof -
  have "same_accounts (db w1) (db w2)"
    using interrupted_settles [OF assms(1)] assms(2,3) by (simp add: settled_db_def)
  with same_accounts_balances(3) show ?thesis by blast
qed

text \<open>A crash between the two statements that settle the example payment.\<close>

definition ex_crashed :: world where
  "ex_crashed = ex_w5\<lparr>db := set_send_status (ex_as_hex [99]) ''successful'' (db ex_w5), event_bus := []\<rparr>"

theorem event_survives_crashes_witness:
  "db ex_crashed \<noteq> db ex_w5 \<and> db ex_crashed \<noteq> db ex_w6 \<and>
     (\<exists>r w2. run_state (process_ldk_event ex_state (PaymentSuccessful (Some [99]) (Some 1500))) ex_crashed
        = (r, w2) \<and> sends (db w2) = sends (db ex_w6))"
proof -
  let ?e = "PaymentSuccessful (Some [99]) (Some 1500)"
  have crash: "interrupted ex_state ?e ex_w5 ex_crashed"
    by (rule interrupted.crashed [OF interrupted.undisturbed])
      (simp add: torn_update_def Let_def ex_crashed_def)
  obtain r w2 where run: "run_state (process_ldk_event ex_state ?e) ex_crashed = (r, w2)" by fastforce
  have "sends (db ex_crashed) = [ex_sent\<lparr>snd_status := ''successful''\<rparr>]"
    by (simp add: ex_crashed_def set_send_status_def ex_sends5) (simp add: ex_sent_def)
  then have "db ex_crashed \<noteq> db ex_w5" "db ex_crashed \<noteq> db ex_w6"
    using ex_sends5 ex_sends6 by (auto simp: ex_sent_def)
  moreover have "sends (db w2) = sends (db ex_w6)"
    using event_survives_crashes [OF crash ex_step6 run] by (simp add: same_accounts_def)
  ultimately show ?thesis using run by blast
qed



end
