(* ===== verification/Client_Properties.thy ===== *)
theory Client_Properties
  imports Examples
begin

text \<open>
  What the client handlers promise: the effect of each payment on the accounts, the branches
  that refuse a request and leave everything as it is, registration, invoices, offers and
  recovery. The proofs rest on the equations \<open>run_\<dots>\<close> and the interpretations of
  \<open>book_handler\<close> in \<open>Client_Refines\<close> and \<open>Client_Api\<close>.
\<close>

section \<open>Payments\<close>

text \<open>
  C10: a successful payment of an invoice of this daemon moves exactly the amount from the payer
  to the owner of the invoice, who is another user, costs the payer 1000 msat more, touches no
  other account and does not involve the Lightning node.
\<close>

theorem internal_payment_conserves:
  assumes "run_state (bolt11_send st u rq) w = (Ok v, w')"
    and "get_invoice (as_hex (app_libs st)) (b11_payment_hash (b11s_invoice rq)) (db w) = Some i"
  shows "ivc_user_pk i \<noteq> u \<and>
    (\<forall>k. received k (db w') = received k (db w) +
       (if k = ivc_user_pk i then uint (b11s_amount_msat rq) else 0)) \<and>
    (\<forall>k. spent k (db w') = spent k (db w) +
       (if k = u then uint (b11s_amount_msat rq) + 1000 else 0)) \<and>
    node_log w' = node_log w"
proof -
  obtain x where x: "bolt11_send_post st u rq (db w) v (Some x)" "enabled (app_args st) (db w) x"
      "performs x w w'"
    using bolt11_send_Ok [OF assms(1)] by blast
  then have post: "transfer_post u (ivc_user_pk i) (b11s_amount_msat rq) 1000 (Some x)"
      "ivc_user_pk i \<noteq> u"
    using assms(2) by (auto simp: bolt11_send_post_def)
  show ?thesis
    using performs_transfer [OF x(3) post(1) x(2)] bolt11_send_log [OF assms(1)] assms(2) post(2)
    by simp
qed

theorem internal_payment_conserves_witness:
  "\<exists>w' :: world. received ''bob'' (db w') = received ''bob'' (db ex_shop) + 1000000 \<and>
     spent ''alice'' (db w') = 1001000 \<and> node_log w' = []"
proof -
  obtain w' where run: "run_state (bolt11_send ex_state ''alice'' (ex_send [1] 1000000)) ex_shop
      = (Ok (), w')"
    using ex_internal by blast
  have "get_invoice (as_hex (app_libs ex_state))
      (b11_payment_hash (b11s_invoice (ex_send [1] 1000000))) (db ex_shop) = Some ex_bob_invoice"
    using ex_shop_invoice by (simp add: ex_send_def ex_invoice_def)
  from internal_payment_conserves [OF run this] show ?thesis
    by (intro exI [of _ w'])
      (simp add: ex_bob_invoice_def ex_send_def ex_shop_accounts ex_shop_tables)
qed

text \<open>
  C11: a successful payment of any other invoice hands exactly that invoice and amount to the
  node once and records one pending send with the id of the node, which debits the payer the
  amount and the fee of the check and nobody else.
\<close>

theorem external_payment_debits:
  assumes "run_state (bolt11_send st u rq) w = (Ok v, w')"
    and "get_invoice (as_hex (app_libs st)) (b11_payment_hash (b11s_invoice rq)) (db w) = None"
  shows "\<exists>s i. nd_bolt11_send (app_node st) (b11s_invoice rq) (b11s_amount_msat rq) = Ok i \<and>
    sends (db w') = sends (db w) @ [s] \<and> snd_id s = as_hex (app_libs st) i \<and>
    snd_status s = ''pending'' \<and>
    node_log w' = node_log w @ [Pay_bolt11 (b11s_invoice rq) (b11s_amount_msat rq)] \<and>
    (\<forall>k. received k (db w') = received k (db w)) \<and>
    (\<forall>k. spent k (db w') = spent k (db w) + (if k = u then uint (b11s_amount_msat rq) +
       uint (lightning_fee (app_args st) (b11s_amount_msat rq)) else 0))"
proof -
  obtain x where x: "bolt11_send_post st u rq (db w) v (Some x)" "performs x w w'"
    using bolt11_send_Ok [OF assms(1)] by blast
  then have post: "debit_post u (b11s_amount_msat rq)
      (lightning_fee (app_args st) (b11s_amount_msat rq)) ''pending'' (Some x)"
    using assms(2) by (simp add: bolt11_send_post_def)
  have rec: "\<exists>s i. nd_bolt11_send (app_node st) (b11s_invoice rq) (b11s_amount_msat rq) = Ok i \<and>
      sends (db w') = sends (db w) @ [s] \<and> snd_id s = as_hex (app_libs st) i \<and>
      snd_status s = ''pending''"
    using bolt11_send_external [OF assms] by blast
  show ?thesis
    using rec performs_debit [OF x(2) post] bolt11_send_log [OF assms(1)] assms(2) by auto
qed

theorem external_payment_debits_witness:
  "spent ''alice'' (db ex_w5) = spent ''alice'' (db ex_w4) + (2000000 + 20000)"
proof -
  have "get_invoice (as_hex (app_libs ex_state))
      (b11_payment_hash (b11s_invoice (ex_send [99] 2000000))) (db ex_w4) = None"
    using ex_unknown by (simp add: ex_send_def ex_invoice_def)
  from external_payment_debits [OF ex_step5 this] show ?thesis
    by (auto simp: ex_send_def lightning_fee_def default_args_def)
qed




text \<open>
  C18: a request of a client that fails, whatever its method, leaves the database and the event
  bus as they were; when it ends in an error, and not in a panic, also the Lightning node.
\<close>

theorem failed_request_no_effect:
  assumes "run_state (dispatch dec st u meth params) w = (r, w')" and "\<not> is_ok r"
  shows "db w' = db w \<and> event_bus w' = event_bus w \<and> (\<forall>e. r = Err e \<longrightarrow> node_log w' = node_log w)"
  using assms dispatch_h.on_err [of _ _ _ _ _ w _ w'] dispatch_h.on_panic [of _ _ _ _ _ w _ w']
  by (cases r) (fastforce simp: unchanged_def)+

lemma ex_own_invoice:
  "run_state (dispatch (ex_dec ''bolt11_send'' (ex_send [50] 2000000)) ex_state ''alice''
     ''bolt11_send'' Json_null) ex_w4 = (Err ''This is your own invoice'', ex_w4)"
proof -
  have "get_invoice ex_as_hex [50] (db ex_w4) = Some ex_invoice_row"
    by (simp add: get_invoice_def ex_world_defs ex_row_defs)
  then show ?thesis
    by (simp add: dispatch_def run_client_method ex_dec_def ex_known run_bolt11_send ex_send_def
        run_check_send_may ex_may_send ex_invoice_def) (simp add: ex_invoice_row_def)
qed

theorem failed_request_no_effect_witness:
  "(\<exists>w'. run_state (dispatch (ex_dec ''bolt11_send'' (ex_send [50] 2000000)) ex_state ''alice''
     ''bolt11_send'' Json_null) ex_w4 = (Err ''This is your own invoice'', w') \<and>
     db w' = db ex_w4 \<and> node_log w' = node_log ex_w4) \<and>
   (\<exists>w'. run_state (dispatch (ex_dec ''bolt11_send'' (ex_send [99] 2000000)) ex_state ''alice''
     ''bolt11_send'' Json_null) ex_w5 = (Panic ''Failed to insert send payment'', w') \<and>
     db w' = db ex_w5 \<and> event_bus w' = event_bus ex_w5)"
proof -
  obtain w' where "run_state (bolt11_send ex_state ''alice'' (ex_send [99] 2000000)) ex_w5 =
      (Panic ''Failed to insert send payment'', w')"
    using ex_retry by blast
  moreover have "user_exists ''alice'' (db ex_w5)"
    using ex_known(2) by (simp add: ex_w5_def user_exists_def)
  ultimately have run: "run_state (dispatch (ex_dec ''bolt11_send'' (ex_send [99] 2000000)) ex_state
      ''alice'' ''bolt11_send'' Json_null) ex_w5 = (Panic ''Failed to insert send payment'', w')"
    by (simp add: dispatch_def run_client_method ex_dec_def)
  from run failed_request_no_effect [OF run] failed_request_no_effect [OF ex_own_invoice]
    ex_own_invoice
  show ?thesis by auto
qed

text \<open>
  C19: a user who is not registered can call no method but \<open>register\<close>: every other name,
  known or not, is refused without any effect.
\<close>

theorem unregistered_user_refused:
  assumes "\<not> user_exists u (db w)" and "meth \<noteq> ''register''"
  shows "\<exists>e. run_state (dispatch dec st u meth params) w = (Err e, w)"
  using assms by (auto simp: dispatch_def run_client_method)

theorem unregistered_user_refused_witness:
  "\<exists>e. run_state (dispatch (ex_dec ''recover'' (ex_send [1] 1)) ex_state ''carol'' ''recover''
     Json_null) ex_w4 = (Err e, ex_w4)"
  by (rule unregistered_user_refused) (simp_all add: user_exists_def ex_world_defs ex_row_defs)

end
