(* ===== verification/Node_Properties.thy ===== *)
theory Node_Properties
  imports Examples
begin

text \<open>
  What the events of the Lightning node do to the accounts: a received payment is credited once,
  to the user whose invoice or offer was paid; a failed payment is refunded in full and a
  successful one down to the fee paid; the loop empties the queue.
\<close>

section \<open>Results of sent payments\<close>

lemma find_send_mem:
  assumes "keys_ok d" and "r \<in> set (sends d)" and "snd_id r = k"
  shows "List.find (\<lambda>r. snd_id r = k) (sends d) = Some r"
  using assms send_table.lookup_mem [of d r] by (simp add: keys_ok_def)

lemma result_accounts:
  assumes keys: "keys_ok (db w)" and r: "r \<in> set (sends (db w))"
    and k: "snd_id r = as_hex (app_libs st) i" and live: "snd_status r \<noteq> ''failed''"
    and run: "run_state (payment_result st i status fee missing) w = (v, w')"
  shows "v = Ok () \<and> (\<forall>u. received u (db w') = received u (db w)) \<and>
    (\<forall>u. spent u (db w') = spent u (db w) - (if u = snd_user_pk r then cost r -
       (if status = ''failed'' then 0 else uint (snd_amount_msat r) + uint fee) else 0))"
proof -
  have d: "v = Ok ()" "db w' = settle (snd_id r) status fee (db w)"
    using run find_send_mem [OF keys r k] k
    by (auto simp: run_payment_result Let_def simp del: action_events.simps)
  have dist: "distinct (map snd_id (sends (db w)))"
    using keys by (simp add: keys_ok_def send_table.keys_unique_def)
  have other: "spent u (db w') = spent u (db w)" if "u \<noteq> snd_user_pk r" for u
    unfolding d(2) using distinct_map_key [OF dist r] that by (intro spent_settle_other) metis
  show ?thesis
    using d(1) other spent_settle [OF dist r refl refl, of status fee] live
    by (auto simp: d(2) received_settle)
qed

text \<open>
  C13: when the node reports that a payment failed, the payer gets back the amount and the whole
  reserved fee, no other account moves, and the event is processed without an error.
\<close>

theorem failed_payment_refunded:
  assumes "started w0" and "(crash_step a l any_node)\<^sup>*\<^sup>* w0 w" and "app_libs st = l"
    and "r \<in> set (sends (db w))" and "snd_id r = as_hex l i" and "snd_status r \<noteq> ''failed''"
    and "run_state (process_ldk_event st (PaymentFailed (Some i))) w = (v, w')"
  shows "v = Ok () \<and> (\<forall>u. received u (db w') = received u (db w)) \<and>
    (\<forall>u. spent u (db w') = spent u (db w) - (if u = snd_user_pk r
       then uint (snd_amount_msat r) + uint (snd_fee_msat r) else 0))"
  using result_accounts [OF crash_keys.reachable_inv [OF assms(1,2)] assms(4) _ assms(6), of st i
      "''failed''" 0 "''failed payment not found''" v w'] assms(3,5,7)
  by (simp add: cost_def)

theorem failed_payment_refunded_witness:
  "\<exists>v w'. run_state (process_ldk_event ex_state (PaymentFailed (Some [99]))) ex_w5 = (v, w') \<and>
     spent ''alice'' (db w') = spent ''alice'' (db ex_w5) - 2020000"
proof -
  obtain v w' where run: "run_state (process_ldk_event ex_state (PaymentFailed (Some [99]))) ex_w5
      = (v, w')"
    by fastforce
  have "snd_id ex_sent = as_hex ex_libs [99]" "snd_status ex_sent \<noteq> ''failed''"
    by (simp_all add: ex_sent_def)
  with failed_payment_refunded [OF ex_started ex_reached5_any _ _ _ _ run, of ex_sent] show ?thesis
    using run by (auto simp: ex_sends5 ex_sent_def)
qed

text \<open>
  C14: when the node reports that a pending payment succeeded, the payer has paid the amount and
  the fee the node paid: the part of the reserved fee that was not used is given back.
\<close>

theorem successful_payment_settles:
  assumes "started w0" and "(crash_step a l any_node)\<^sup>*\<^sup>* w0 w" and "app_libs st = l"
    and "r \<in> set (sends (db w))" and "snd_id r = as_hex l i" and "snd_status r = ''pending''"
    and "run_state (process_ldk_event st (PaymentSuccessful (Some i) (Some fee))) w = (v, w')"
  shows "v = Ok () \<and> (\<forall>u. received u (db w') = received u (db w)) \<and>
    (\<forall>u. spent u (db w') = spent u (db w) - (if u = snd_user_pk r
       then uint (snd_fee_msat r) - uint fee else 0))"
  using result_accounts [OF crash_keys.reachable_inv [OF assms(1,2)] assms(4), of st i
      "''successful''" fee "''successful payment not found''" v w'] assms(3,5,6,7)
  by (simp add: cost_def)

theorem successful_payment_settles_witness:
  "spent ''alice'' (db ex_w6) = spent ''alice'' (db ex_w5) - (20000 - 1500)"
  using successful_payment_settles [OF ex_started ex_reached5_any _ _ _ _ ex_step6, of ex_sent]
  by (simp add: ex_sends5 ex_sent_def)

section \<open>Received payments\<close>

lemma received_accounts:
  assumes "payment_owner st i (db w) = Some (u, desc, pr)"
    and "run_state (process_ldk_event st (PaymentReceived (Some i) amt)) w = (v, w')"
  shows "v = Ok () \<and> (\<exists>r. rcv_id r = as_hex (app_libs st) i \<and> rcv_user_pk r = u \<and>
    rcv_amount_msat r = amt \<and> db w' = or_ignore (db w) (insert_receive r (db w)))"
  using assms
  by (auto simp: run_payment_received Let_def simp del: process_ldk_event.simps
      intro!: exI [of _ "receive_row (as_hex (app_libs st)) (clock w (ticks w)) i amt (u, desc, pr)"])

text \<open>
  C15: a payment the node reports as received, for an invoice or an offer of a user, is credited
  to that user with the amount received and to nobody else; when the node reports it again (it
  does until the event is acknowledged), the database does not change any more.
\<close>

theorem received_payment_credited_once:
  assumes "payment_owner st i (db w) = Some (u, desc, pr)"
    and "as_hex (app_libs st) i \<notin> rcv_id ` set (receives (db w))"
    and "run_state (process_ldk_event st (PaymentReceived (Some i) amt)) w = (v1, w1)"
    and "run_state (process_ldk_event st (PaymentReceived (Some i) amt)) w1 = (v2, w2)"
  shows "v1 = Ok () \<and> v2 = Ok () \<and> db w2 = db w1 \<and>
    (\<forall>k. received k (db w1) = received k (db w) + (if k = u then uint amt else 0)) \<and>
    (\<forall>k. spent k (db w1) = spent k (db w))"
proof -
  obtain r where r: "rcv_id r = as_hex (app_libs st) i" "rcv_user_pk r = u" "rcv_amount_msat r = amt"
      and d1: "db w1 = (db w)\<lparr>receives := receives (db w) @ [r]\<rparr>" and v1: "v1 = Ok ()"
    using received_accounts [OF assms(1,3)] assms(2) by (auto simp: or_ignore_receive)
  have "payment_owner st i (db w1) = payment_owner st i (db w)"
    by (simp add: d1 payment_owner_def get_invoice_def get_offer_def cong: option.case_cong payment_kind.case_cong)
  then have owner: "payment_owner st i (db w1) = Some (u, desc, pr)"
    using assms(1) by simp
  obtain r' where "rcv_id r' = as_hex (app_libs st) i" and v2: "v2 = Ok ()"
      and "db w2 = or_ignore (db w1) (insert_receive r' (db w1))"
    using received_accounts [OF owner assms(4)] by blast
  then have "db w2 = db w1" using r(1) by (simp add: or_ignore_receive d1)
  with v1 v2 r show ?thesis by (auto simp: d1 balance_simps)
qed

theorem received_payment_credited_once_witness:
  "\<exists>v2 w2. run_state (process_ldk_event ex_state (PaymentReceived (Some [50]) 50000000)) ex_w4 =
     (v2, w2) \<and> db w2 = db ex_w4 \<and>
     received ''alice'' (db ex_w4) = received ''alice'' (db ex_w3) + 50000000"
proof -
  obtain v2 w2 where run: "run_state (process_ldk_event ex_state
      (PaymentReceived (Some [50]) 50000000)) ex_w4 = (v2, w2)"
    by fastforce
  have "payment_owner ex_state [50] (db ex_w3) = Some (''alice'', ''tea'', ''ln'')"
    by (simp add: payment_owner_def ex_node_def get_invoice_def ex_world_defs ex_row_defs)
  from received_payment_credited_once [OF this _ ex_step4 run] run show ?thesis
    by (simp add: ex_world_defs)
qed

text \<open>
  C17: the path of an invoice: when \<open>bolt11_receive\<close> returns an invoice to a user and the node
  reports a payment of its hash, the amount paid is credited to that user.
\<close>

theorem invoice_pays_its_creator:
  assumes "run_state (bolt11_receive st u rq) w = (Ok invoice, w1)" and "app_libs st' = app_libs st"
    and "nd_payment (app_node st') i = Some (Bolt11_kind (b11_payment_hash invoice))"
    and "as_hex (app_libs st) i \<notin> rcv_id ` set (receives (db w))"
    and "run_state (process_ldk_event st' (PaymentReceived (Some i) amt)) w1 = (v, w2)"
  shows "v = Ok () \<and> (\<forall>k. received k (db w2) = received k (db w) + (if k = u then uint amt else 0))"
proof -
  let ?hx = "as_hex (app_libs st)"
  obtain x where "bolt11_receive_post st u rq (db w) invoice (Some x)"
      "enabled (app_args st) (db w) x" "performs x w w1"
    using bolt11_receive_Ok [OF assms(1)] by blast
  then obtain r where r: "ivc_user_pk r = u" "ivc_id r = ?hx (b11_payment_hash invoice)"
      "ivc_id r \<notin> ivc_id ` set (invoices (db w))" "db w1 = (db w)\<lparr>invoices := invoices (db w) @ [r]\<rparr>"
    by (auto simp: bolt11_receive_post_def performs_def)
  have "insert_invoice r (db w) = Some (db w1)"
    using r(3,4) by (simp add: insert_invoice_def append_row_def list_ex_key)
  from invoice_table.lookup_inserted [OF this] r(1,2)
  have owner: "payment_owner st' i (db w1) = Some (u, ivc_description r, ivc_pr r)"
    by (simp add: payment_owner_def assms(2,3) get_invoice_def)
  obtain q where "rcv_id q = ?hx i" "rcv_user_pk q = u" "rcv_amount_msat q = amt" "v = Ok ()"
      "db w2 = or_ignore (db w1) (insert_receive q (db w1))"
    using received_accounts [OF owner assms(5)] assms(2) by auto
  then show ?thesis
    using assms(4) r(4) by (auto simp: or_ignore_receive balance_simps received_def)
qed

theorem invoice_pays_its_creator_witness:
  "received ''alice'' (db ex_w4) = received ''alice'' (db ex_w2) + 50000000"
proof -
  have "nd_payment (app_node ex_state) [50] = Some (Bolt11_kind (b11_payment_hash (ex_invoice [50])))"
    by (simp add: ex_node_def ex_invoice_def)
  moreover have "as_hex (app_libs ex_state) [50] \<notin> rcv_id ` set (receives (db ex_w2))"
    by (simp add: ex_world_defs)
  ultimately show ?thesis
    using invoice_pays_its_creator [OF ex_step3 refl _ _ ex_step4] by simp
qed

section \<open>The queue of events\<close>

text \<open>The ids and the fee the code unwraps are there.\<close>

fun complete_event :: "ldk_event \<Rightarrow> bool" where
  "complete_event (PaymentReceived i amt) \<longleftrightarrow> i \<noteq> None"
| "complete_event (PaymentSuccessful i fee) \<longleftrightarrow> i \<noteq> None \<and> fee \<noteq> None"
| "complete_event (PaymentFailed i) \<longleftrightarrow> i \<noteq> None"
| "complete_event Other_event \<longleftrightarrow> True"

lemma complete_event_returns:
  assumes "complete_event e" and "run_state (process_ldk_event st e) w = (r, w')"
  shows "\<nexists>p. r = Panic p"
proof (cases "(st, e)" rule: process_ldk_event.cases)
  case (2 st' i amt)
  with assms(2) show ?thesis
    by (auto simp: run_payment_received Let_def simp del: process_ldk_event.simps split: option.splits)
qed (use assms in \<open>auto simp: run_payment_result Let_def split: option.splits\<close>)

text \<open>
  C36: the loop processes a queue of complete events to its end, errors included, in as many
  turns as there are events, when the node accepts every acknowledgement.
\<close>

theorem event_queue_drained:
  assumes "list_all complete_event queue"
  shows "fst (run_state (process_ldk_events st (replicate (length queue) True) queue) w) = []"
  using assms
proof (induction queue arbitrary: w)
  case (Cons e queue)
  obtain r w1 where r: "run_state (process_ldk_event st e) w = (r, w1)" by fastforce
  with Cons.prems complete_event_returns [of e st w r w1] have "\<nexists>p. r = Panic p" by simp
  with r Cons show ?case by (cases r) auto
qed simp

theorem event_queue_drained_witness:
  "fst (run_state (process_ldk_events ex_state [True, True]
     [PaymentReceived (Some [50]) 50000000, PaymentFailed (Some [4])]) ex_w3) = []"
  using event_queue_drained [of "[PaymentReceived (Some [50]) 50000000, PaymentFailed (Some [4])]"
      ex_state ex_w3]
  by (simp add: numeral_2_eq_2)

end
