(* ===== verification/Ui_Properties.thy ===== *)
theory Ui_Properties
  imports Examples
begin

text \<open>
  The pages of the web interface against its router: every form the interface serves posts to a
  route whose handler takes the fields of the form, every link leads to a page, and every reference
  to an element of the page (the targets of the collapsing sections, the labels) has its element.
\<close>

section \<open>Reading a page\<close>

text \<open>The forms, the names of the inputs, the ids and the references of some markup.\<close>

fun forms_in :: "markup \<Rightarrow> markup list" where
  "forms_in (Element t a cs) =
     (if t = ''form'' then [Element t a cs] else []) @ concat (map forms_in cs)"
| "forms_in (Void_element t a) = []"
| "forms_in (Text s) = []"
| "forms_in (Raw s) = []"

definition attr_values :: "string \<Rightarrow> (string \<times> string option) list \<Rightarrow> string list" where
  "attr_values k a = List.map_filter (\<lambda>(j, v). if j = k then v else None) a"

fun inputs_in :: "markup \<Rightarrow> string list" where
  "inputs_in (Element t a cs) =
     (if t = ''input'' then attr_values ''name'' a else []) @ concat (map inputs_in cs)"
| "inputs_in (Void_element t a) = []"
| "inputs_in (Text s) = []"
| "inputs_in (Raw s) = []"

fun ids_in :: "markup \<Rightarrow> string list" where
  "ids_in (Element t a cs) = attr_values ''id'' a @ concat (map ids_in cs)"
| "ids_in (Void_element t a) = attr_values ''id'' a"
| "ids_in (Text s) = []"
| "ids_in (Raw s) = []"

definition attr_refs :: "(string \<times> string option) list \<Rightarrow> string list" where
  "attr_refs a = map tl (attr_values ''data-bs-target'' a @ attr_values ''data-bs-parent'' a) @
     attr_values ''for'' a @ attr_values ''aria-controls'' a"

fun refs_in :: "markup \<Rightarrow> string list" where
  "refs_in (Element t a cs) = attr_refs a @ concat (map refs_in cs)"
| "refs_in (Void_element t a) = attr_refs a"
| "refs_in (Text s) = []"
| "refs_in (Raw s) = []"

text \<open>The links that stay in the interface.\<close>

definition attr_links :: "(string \<times> string option) list \<Rightarrow> string list" where
  "attr_links a =
     filter (\<lambda>s. case s of [] \<Rightarrow> False | c # _ \<Rightarrow> c = CHR ''/'') (attr_values ''href'' a)"

lemmas attr_defs = attr_refs_def attr_links_def

fun links_in :: "markup \<Rightarrow> string list" where
  "links_in (Element t a cs) = attr_links a @ concat (map links_in cs)"
| "links_in (Void_element t a) = attr_links a"
| "links_in (Text s) = []"
| "links_in (Raw s) = []"

definition forms :: "html \<Rightarrow> markup list" where "forms h = concat (map forms_in h)"
definition inputs :: "html \<Rightarrow> string list" where "inputs h = concat (map inputs_in h)"
definition ids :: "html \<Rightarrow> string list" where "ids h = concat (map ids_in h)"
definition refs :: "html \<Rightarrow> string list" where "refs h = concat (map refs_in h)"
definition links :: "html \<Rightarrow> string list" where "links h = concat (map links_in h)"

text \<open>The fields of the form structs, with whether a field may be missing (\<open>serde(default)\<close>).\<close>

fun struct_fields :: "ui_form \<Rightarrow> (string \<times> bool) list" where
  "struct_fields (Open_channel_form f) = [(''node_id'', False), (''socket_address'', False),
     (''channel_amount_sats'', False), (''public'', True)]"
| "struct_fields (Request_channel_form f) = [(''lsp_balance_sat'', False), (''public'', True)]"
| "struct_fields (Close_channel_form f) = [(''user_channel_id'', False),
     (''counterparty_node_id'', False), (''force'', True)]"
| "struct_fields (Connect_peer_form f) = [(''node_id'', False), (''socket_address'', False),
     (''persist'', True)]"
| "struct_fields (Disconnect_peer_form f) = [(''counterparty_node_id'', False)]"
| "struct_fields Empty_form = []"
| "struct_fields (Onchain_send_form f) = [(''address'', False), (''amount_sats'', False)]"
| "struct_fields (Onchain_drain_form f) = [(''address'', False)]"
| "struct_fields (Invite_form f) = [(''expiry_days'', False), (''user_limit'', False)]"
| "struct_fields (Recovery_form f) = [(''user_pk'', False)]"

text \<open>A form posts to a route whose handler takes a struct with the fields of the form.\<close>

fun fits :: "app_state \<Rightarrow> markup \<Rightarrow> bool" where
  "fits st (Element t a cs) \<longleftrightarrow>
     (\<exists>path form m. attr_values ''hx-post'' a = [path] \<and>
        create_router st path (Post form) = Some m \<and> distinct (inputs cs) \<and>
        set (inputs cs) \<subseteq> set (map fst (struct_fields form)) \<and>
        set (map fst (filter (\<lambda>f. \<not> snd f) (struct_fields form))) \<subseteq> set (inputs cs))"
| "fits st h \<longleftrightarrow> False"

definition served :: "app_state \<Rightarrow> string \<Rightarrow> bool" where
  "served st path \<longleftrightarrow> create_router st path Get \<noteq> None"

definition well_formed :: "app_state \<Rightarrow> html \<Rightarrow> bool" where
  "well_formed st h \<longleftrightarrow> (\<forall>f \<in> set (forms h). fits st f) \<and> (\<forall>p \<in> set (links h). served st p) \<and>
     set (refs h) \<subseteq> set (ids h)"

section \<open>Markup that is put together\<close>

lemma read_Nil [simp]: "forms [] = []" "inputs [] = []" "ids [] = []" "refs [] = []"
  "links [] = []"
  by (simp_all add: forms_def inputs_def ids_def refs_def links_def)

lemma read_Cons [simp]:
  "forms (x # h) = forms_in x @ forms h" "inputs (x # h) = inputs_in x @ inputs h"
  "ids (x # h) = ids_in x @ ids h" "refs (x # h) = refs_in x @ refs h"
  "links (x # h) = links_in x @ links h"
  by (simp_all add: forms_def inputs_def ids_def refs_def links_def)

lemma read_append [simp]:
  "forms (g @ h) = forms g @ forms h" "inputs (g @ h) = inputs g @ inputs h"
  "ids (g @ h) = ids g @ ids h" "refs (g @ h) = refs g @ refs h"
  "links (g @ h) = links g @ links h"
  by (simp_all add: forms_def inputs_def ids_def refs_def links_def)

lemma read_concat [simp]:
  "forms (concat hs) = concat (map forms hs)" "ids (concat hs) = concat (map ids hs)"
  "refs (concat hs) = concat (map refs hs)" "links (concat hs) = concat (map links hs)"
  by (induction hs) simp_all

lemma read_children [simp]:
  "concat (map forms_in h) = forms h" "concat (map inputs_in h) = inputs h"
  "concat (map ids_in h) = ids h" "concat (map refs_in h) = refs h"
  "concat (map links_in h) = links h"
  by (simp_all add: forms_def inputs_def ids_def refs_def links_def)

lemma attr_values_simps [simp]:
  "attr_values k [] = []"
  "attr_values k ((j, v) # a) =
     (if j = k then (case v of Some s \<Rightarrow> s # attr_values k a | None \<Rightarrow> attr_values k a)
      else attr_values k a)"
  by (simp_all add: attr_values_def map_filter_def split: option.split)

lemma well_formed_append:
  "well_formed st g \<Longrightarrow> well_formed st h \<Longrightarrow> well_formed st (g @ h)"
  by (auto simp: well_formed_def)

section \<open>The forms\<close>

lemmas form_defs = open_channel_form_html_def request_channel_form_html_def
  connect_peer_form_html_def disconnect_peer_form_html_def close_channel_form_html_def
  receive_bitcoin_form_def send_bitcoin_form_def drain_wallet_form_def invite_form_html_def
  recovery_form_for_user_def

lemma routes_take:
  "create_router st ''/lightning/channel/open'' (Post (Open_channel_form f1)) = Some (open_channel_submit st f1)"
  "create_router st ''/lightning/channel/request'' (Post (Request_channel_form f2)) = Some (request_channel_submit st f2)"
  "create_router st ''/lightning/peer/connect'' (Post (Connect_peer_form f3)) = Some (connect_peer_submit st f3)"
  "create_router st ''/lightning/peer/disconnect'' (Post (Disconnect_peer_form f4)) = Some (disconnect_peer_submit st f4)"
  "create_router st ''/lightning/channel/close'' (Post (Close_channel_form f5)) = Some (close_channel_submit st f5)"
  "create_router st ''/onchain/receive'' (Post Empty_form) = Some (ret (onchain_receive_submit st))"
  "create_router st ''/onchain/send'' (Post (Onchain_send_form f6)) = Some (onchain_send_submit st f6)"
  "create_router st ''/onchain/drain'' (Post (Onchain_drain_form f7)) = Some (onchain_drain_submit st f7)"
  "create_router st ''/users/invite'' (Post (Invite_form f8)) = Some (invite_submit st f8)"
  "create_router st ''/users/recover'' (Post (Recovery_form f9)) = Some (recovery_submit st f9)"
  by (simp_all add: create_router_def)

lemma fitsI:
  assumes "create_router st path (Post form) = Some m" and "attr_values ''hx-post'' a = [path]"
    and "distinct (inputs cs)" and "set (inputs cs) \<subseteq> set (map fst (struct_fields form))"
    and "set (map fst (filter (\<lambda>f. \<not> snd f) (struct_fields form))) \<subseteq> set (inputs cs)"
  shows "fits st (Element t a cs)"
  using assms by auto

lemma one_form:
  assumes "fits st (Element ''form'' a cs)" and "forms cs = []" and "attr_refs a = []"
    and "attr_links a = []" and "links cs = []"
    and "set (refs cs) \<subseteq> set (ids cs)"
  shows "well_formed st [Element ''form'' a cs]"
  using assms by (auto simp: well_formed_def simp del: fits.simps)

lemmas form_intros = routes_take [THEN fitsI, THEN one_form]

lemma form_well_formed:
  "well_formed st (open_channel_form_html e)" "well_formed st (request_channel_form_html e)"
  "well_formed st (connect_peer_form_html e)" "well_formed st (disconnect_peer_form_html n e)"
  "well_formed st (close_channel_form_html c n i e)" "well_formed st receive_bitcoin_form"
  "well_formed st (send_bitcoin_form e)" "well_formed st (drain_wallet_form e)"
  "well_formed st invite_form_html" "well_formed st (recovery_form_for_user u)"
  unfolding form_defs
  by (rule form_intros(1) form_intros(2) form_intros(3) form_intros(4) form_intros(5)
      form_intros(6) form_intros(7) form_intros(8) form_intros(9) form_intros(10);
      simp add: attr_defs split: option.split; fail)+

section \<open>The parts of a page\<close>

text \<open>A part of a page may refer to elements of the page around it.\<close>

definition well_formed_within :: "app_state \<Rightarrow> string set \<Rightarrow> html \<Rightarrow> bool" where
  "well_formed_within st outer h \<longleftrightarrow>
     (\<forall>f \<in> set (forms h). fits st f) \<and> (\<forall>p \<in> set (links h). served st p) \<and>
     set (refs h) \<subseteq> set (ids h) \<union> outer"

lemma form_parts:
  assumes "well_formed st h"
  shows "f \<in> set (forms h) \<Longrightarrow> fits st f" and "x \<in> set (refs h) \<Longrightarrow> x \<in> set (ids h)"
    and "p \<in> set (links h) \<Longrightarrow> served st p"
  using assms by (auto simp: well_formed_def)

lemmas form_part [dest] = form_well_formed [THEN form_parts(1)] form_well_formed [THEN form_parts(2)]
  form_well_formed [THEN form_parts(3)]

lemma no_forms [simp]:
  "forms (copyable_hex_input v s) = []" "refs (copyable_hex_input v s) = []"
  "ids (copyable_hex_input v s) = []" "links (copyable_hex_input v s) = []"
  by (simp_all add: copyable_hex_input_def attr_defs)

lemma item_well_formed:
  "user_item l i u = Ok h \<Longrightarrow> well_formed_within st {''usersAccordion''} h"
  "channel_item hx i c = Ok h \<Longrightarrow> well_formed_within st {''channelsAccordion''} h"
  "peer_item i p = Ok h \<Longrightarrow> well_formed_within st {''peersAccordion''} h"
  "payment_item l i t = Ok h \<Longrightarrow> well_formed_within st {''paymentsAccordion''} h"
  subgoal by (auto simp: user_item_def well_formed_within_def attr_defs)
  subgoal by (auto simp: channel_item_def well_formed_within_def attr_defs)
  subgoal by (auto simp: peer_item_def well_formed_within_def attr_defs split: if_splits)
  subgoal by (auto simp: payment_item_def well_formed_within_def attr_defs
        split: prod.splits confirmation_status.splits)
  done


text \<open>The items of an accordion, put together in its element.\<close>

lemma items_well_formed:
  assumes items: "all_ok (map f xs) = Ok hs" and f: "\<And>x h. f x = Ok h \<Longrightarrow> well_formed_within st A h"
  shows "well_formed_within st A (concat hs)"
  using items unfolding all_ok_Ok
proof (induction xs arbitrary: hs)
  case (Cons x xs)
  then obtain h hs' where hs: "hs = h # hs'" "f x = Ok h" "map f xs = map Ok hs'"
    by (cases hs) auto
  show ?case
    using f [OF hs(2)] Cons.IH [OF hs(3)] by (auto simp: hs(1) well_formed_within_def)
qed (simp add: well_formed_within_def)

lemma within_parts [dest]:
  assumes "well_formed_within st A h"
  shows "f \<in> set (forms h) \<Longrightarrow> fits st f"
    and "x \<in> set (refs h) \<Longrightarrow> x \<in> set (ids h) \<or> x \<in> A"
    and "p \<in> set (links h) \<Longrightarrow> served st p"
  using assms by (auto simp: well_formed_within_def)

lemma content_well_formed:
  "well_formed_within st {''usersAccordion''} items \<Longrightarrow> well_formed st (users_content False items)"
  "well_formed st (users_content True items')"
  "well_formed_within st {''channelsAccordion''} cs \<Longrightarrow> well_formed_within st {''peersAccordion''} ps \<Longrightarrow>
     well_formed st (lightning_content a b nc cs np ps)"
  "well_formed_within st {''paymentsAccordion''} items \<Longrightarrow> well_formed st (onchain_content c np items)"
  unfolding users_content_def lightning_content_def onchain_content_def
  by (auto simp: well_formed_def attr_defs split: if_splits)

lemma sidebar_well_formed:
  "well_formed st users_sidebar" "well_formed st (lightning_sidebar n)" "well_formed st onchain_sidebar"
  unfolding users_sidebar_def lightning_sidebar_def onchain_sidebar_def
  by (auto simp: well_formed_def attr_defs)

lemma navigation_served: "served st ''/''" "served st ''/onchain''" "served st ''/users''"
  by (simp_all add: served_def create_router_def)

lemma base_well_formed:
  "well_formed st c \<Longrightarrow> well_formed st a \<Longrightarrow> well_formed st (base_template t p c a)"
  by (auto simp: well_formed_def base_template_def attr_defs navigation_served)

text \<open>
  The form that reports a failed close is always rendered with the index 0, so it takes the id of
  the checkbox of the first channel of the page it replaces a part of.
\<close>

lemma decimal_0: "decimal 0 = ''0''"
  by code_simp

lemma failed_close_takes_first_id:
  "run_state (try_close_channel st form) w = (Err e, w') \<Longrightarrow>
     \<exists>h. run_state (close_channel_submit st form) w = (Ok h, w') \<and> ''forceClose-0'' \<in> set (ids h)"
  "channel_item hx 0 c = Ok h \<Longrightarrow> ''forceClose-0'' \<in> set (ids h)"
  by (auto simp: close_channel_submit_def submit_def channel_item_def close_channel_form_html_def
      decimal_0)

section \<open>The pages and the answers to the forms\<close>

lemma enumerate_items:
  assumes "all_ok (map (\<lambda>(i, x). f i x) (enumerate n xs)) = Ok hs"
    and "\<And>i x h. f i x = Ok h \<Longrightarrow> well_formed_within st A h"
  shows "well_formed_within st A (concat hs)"
  by (rule items_well_formed [OF assms(1)]) (auto intro: assms(2))

lemma users_template_well_formed:
  assumes "users_template l us = Ok h" shows "well_formed st h"
proof -
  obtain items where items: "all_ok (map (\<lambda>(i, u). user_item l i u) (enumerate 0 us)) = Ok items"
    and h: "h = base_template ''Users'' ''/users'' (users_content (us = []) (concat items)) users_sidebar"
    using assms by (auto simp: users_template_def)
  have "well_formed_within st {''usersAccordion''} (concat items)"
    by (rule enumerate_items [OF items item_well_formed(1)])
  then have "well_formed st (users_content (us = []) (concat items))"
    by (cases "us = []") (auto intro: content_well_formed)
  then show ?thesis
    unfolding h by (intro base_well_formed sidebar_well_formed)
qed

lemma lightning_template_well_formed:
  assumes "lightning_template hx n i o' cs ps = Ok h" shows "well_formed st h"
  using assms unfolding lightning_template_def
  by (auto intro!: base_well_formed sidebar_well_formed content_well_formed
      elim!: enumerate_items item_well_formed)

lemma onchain_template_well_formed:
  assumes "onchain_template l b ts = Ok h" shows "well_formed st h"
  using assms unfolding onchain_template_def
  by (auto intro!: base_well_formed sidebar_well_formed content_well_formed
      elim!: enumerate_items item_well_formed)

lemma reply_well_formed:
  "qr_code_with_copy l d = Ok h \<Longrightarrow> well_formed st h"
  "code_page l t s d = Ok h \<Longrightarrow> well_formed st h"
  "well_formed st (success_message s)" "well_formed st (transaction_page x)"
  "well_formed st unknown_user_page"
proof -
  show qr: "well_formed st h" if "qr_code_with_copy l d = Ok h" for h
    using that by (auto simp: qr_code_with_copy_def well_formed_def attr_defs split: option.splits)
  show "well_formed st h" if "code_page l t s d = Ok h"
    using that by (auto simp: code_page_def success_replacement_def well_formed_def attr_defs
        dest!: qr [unfolded well_formed_def])
qed (simp_all add: success_message_def transaction_page_def success_replacement_def
      unknown_user_page_def well_formed_def attr_defs)

text \<open>What a handler shows is well formed.\<close>

definition shows_well_formed :: "app_state \<Rightarrow> html rpc \<Rightarrow> bool" where
  "shows_well_formed st m \<longleftrightarrow> (\<forall>w h w'. run_state m w = (Ok h, w') \<longrightarrow> well_formed st h)"

lemma submit_well_formed:
  assumes "\<And>x h. f x = Ok h \<Longrightarrow> well_formed st h" and "\<And>e. well_formed st (g e)"
  shows "shows_well_formed st (submit f g m)"
  using assms by (auto simp: shows_well_formed_def submit_def split: prod.splits outcome.splits)

lemma ret_well_formed:
  "(\<And>h. r = Ok h \<Longrightarrow> well_formed st h) \<Longrightarrow> shows_well_formed st (ret r)"
  by (simp add: shows_well_formed_def)

lemma codes_well_formed:
  "shows_well_formed st (invite_submit st f)" "shows_well_formed st (recovery_submit st g)"
  "shows_well_formed st (users_page l)"
  by (auto simp: shows_well_formed_def invite_submit_issues recovery_submit_issues users_page_def
      intro: reply_well_formed users_template_well_formed split: prod.splits if_split_asm)

lemma router_well_formed:
  "create_router st path request = Some m \<Longrightarrow> shows_well_formed st m"
  unfolding create_router_def submit_defs
  by (auto split: if_split_asm ui_request.splits ui_form.splits
      simp: lightning_page_def onchain_page_def onchain_receive_submit_def Let_def
      intro!: submit_well_formed ret_well_formed codes_well_formed
      intro: reply_well_formed form_well_formed lightning_template_well_formed
        onchain_template_well_formed)

text \<open>
  C38: Whatever the web interface serves, a page or the answer to a form, is well formed: every form
  in it posts to a route of the router whose handler takes a form with exactly these fields (a
  field may be missing only where the handler has a default), every link that stays in the interface
  leads to a page of the router, and every label and every collapsing section refers to an element
  of what is served.
\<close>

theorem served_markup_well_formed:
  assumes "create_router st path request = Some m" and "run_state m w = (Ok h, w')"
  shows "well_formed st h"
  using router_well_formed [OF assms(1)] assms(2) unfolding shows_well_formed_def by blast

text \<open>The page with the users, when one of them has a recovery name.\<close>

definition ex_named :: world where
  "ex_named = ex_w4\<lparr>db := (db ex_w4)\<lparr>users := [ex_user\<lparr>usr_recovery_name := Some ''alice''\<rparr>]\<rparr>\<rparr>"

lemma ex_list_users: "list_users (db ex_named) = [\<lparr>ui_user_pk = ''alice'',
    ui_balance_msat = user_balance ''alice'' (db ex_named), ui_recovery_name = Some ''alice'',
    ui_created_at = ex_clock 4\<rparr>]"
  by (simp add: list_users_def ex_named_def ex_user_def)

lemma ex_users_page:
  "\<exists>h. run_state (users_page ex_libs) ex_named = (Ok h, ex_named) \<and> length (forms h) = 2"
proof -
  have time: "format_timestamp ex_libs t = Ok ''01 January 2025''" for t
    by (simp add: format_timestamp_def ex_libs_def libs.defs codec.defs option_unwrap_def)
  show ?thesis
    by (simp add: users_page_def ex_list_users users_template_def user_item_def option_unwrap_def
        time base_template_def users_content_def users_sidebar_def invite_form_html_def
        recovery_form_for_user_def)
qed

theorem served_markup_well_formed_witness:
  "\<exists>h m. create_router ex_state ''/users'' Get = Some m \<and> run_state m ex_named = (Ok h, ex_named) \<and>
     length (forms h) = 2 \<and> well_formed ex_state h"
proof -
  obtain h where h: "run_state (users_page ex_libs) ex_named = (Ok h, ex_named)" "length (forms h) = 2"
    using ex_users_page by blast
  have m: "create_router ex_state ''/users'' Get = Some (users_page ex_libs)"
    by (simp add: create_router_def)
  show ?thesis
    using served_markup_well_formed [OF m h(1)] m h by blast
qed

end
