(* ===== verification/Wire.thy ===== *)
theory Wire
  imports Client_Lib Examples
begin

text \<open>
  A JSON library for the examples: it satisfies what \<open>Client_Lib\<close> asks of the two sides of a
  connection, for every request, response and event. A value is the list of its fields, each a list
  of bytes; the text is \<open>put_fields\<close> of it.
\<close>

section \<open>Fields\<close>

definition put_fields :: "u8 list list \<Rightarrow> u8 list" where
  "put_fields fs = concat (map ex_put fs)"

primrec take_some :: "nat \<Rightarrow> u8 list \<Rightarrow> u8 list list" where
  "take_some 0 bs = []"
| "take_some (Suc n) bs =
     (case ex_take bs of None \<Rightarrow> [] | Some (f, rest) \<Rightarrow> f # take_some n rest)"

definition take_fields :: "u8 list \<Rightarrow> u8 list list" where
  "take_fields bs = take_some (length bs) bs"

text \<open>The number of bytes.\<close>

definition fields_size :: "u8 list list \<Rightarrow> nat" where
  "fields_size fs = sum_list (map (\<lambda>f. 2 * length f + 1) fs)"

lemma fields_size_simps [simp]:
  "fields_size [] = 0" "fields_size (f # fs) = 2 * length f + 1 + fields_size fs"
  "fields_size (fs @ gs) = fields_size fs + fields_size gs"
  by (simp_all add: fields_size_def)

lemma length_ex_put: "length (ex_put bs) = 2 * length bs + 1"
  by (induction bs) (simp_all add: ex_put_def)

lemma length_put_fields [simp]: "length (put_fields fs) = fields_size fs"
  by (induction fs) (simp_all add: put_fields_def length_ex_put)

lemma take_some_put: "length fs \<le> n \<Longrightarrow> take_some n (put_fields fs) = fs"
proof (induction n arbitrary: fs)
  case (Suc n)
  then show ?case by (cases fs) (simp_all add: put_fields_def ex_take_put)
qed simp

lemma take_put_fields [simp]: "take_fields (put_fields fs) = fs"
proof -
  have "length fs \<le> fields_size fs" by (induction fs) simp_all
  then show ?thesis by (simp add: take_fields_def take_some_put)
qed

section \<open>The values of a field\<close>

definition put_text :: "string \<Rightarrow> u8 list" where
  "put_text s = map (\<lambda>c. of_nat (of_char c)) s"

definition take_text :: "u8 list \<Rightarrow> string" where
  "take_text bs = map (\<lambda>b. char_of (unat b)) bs"

definition put_word :: "u64 \<Rightarrow> u8 list" where
  "put_word x = be_bytes 8 (ucast x)"

definition take_word :: "u8 list \<Rightarrow> u64" where
  "take_word bs = ucast (from_be_bytes bs)"

definition put_option :: "('a \<Rightarrow> u8 list) \<Rightarrow> 'a option \<Rightarrow> u8 list" where
  "put_option put x = (case x of None \<Rightarrow> [] | Some y \<Rightarrow> 0 # put y)"

definition take_option :: "(u8 list \<Rightarrow> 'a) \<Rightarrow> u8 list \<Rightarrow> 'a option" where
  "take_option get bs = (case bs of [] \<Rightarrow> None | _ # rest \<Rightarrow> Some (get rest))"

lemma take_put_text [simp]: "take_text (put_text s) = s"
proof -
  have "char_of (unat (of_nat (of_char c) :: u8)) = c" for c :: char
    using of_char_mod_256 [of c] by (simp add: unat_of_nat)
  then show ?thesis by (simp add: take_text_def put_text_def comp_def)
qed

lemma length_put_text [simp]: "length (put_text s) = length s"
  by (simp add: put_text_def)

lemma take_put_word [simp]: "take_word (put_word x) = x"
  unfolding take_word_def put_word_def from_be_bytes_be_bytes
  by (rule bit_word_eqI) (auto simp: bit_simps)

lemma length_put_word [simp]: "length (put_word x) = 8"
  by (simp add: put_word_def)

lemma take_put_option [simp]:
  "(\<And>y. get (put y) = y) \<Longrightarrow> take_option get (put_option put x) = x"
  by (cases x) (simp_all add: take_option_def put_option_def)

lemma length_put_option [simp]:
  "length (put_option put None) = 0" "length (put_option put (Some y)) = Suc (length (put y))"
  by (simp_all add: put_option_def)

lemma ucast_u32 [simp]: "ucast (ucast (x :: u32) :: u64) = x"
  by (rule bit_word_eqI) (auto simp: bit_simps)

section \<open>Requests\<close>

fun put_description :: "bolt11_description \<Rightarrow> u8 list" where
  "put_description (Direct s) = 0 # put_text s"
| "put_description (Hash h) = 1 # put_text h"

definition take_description :: "u8 list \<Rightarrow> bolt11_description" where
  "take_description bs = (if take 1 bs = [0] then Direct (take_text (tl bs)) else Hash (take_text (tl bs)))"

lemma take_put_description [simp]: "take_description (put_description d) = d"
  by (cases d) (simp_all add: take_description_def)

definition put_invoice :: "bolt11_invoice \<Rightarrow> u8 list list" where
  "put_invoice i = [b11_payment_hash i, put_text (b11_text i), put_description (b11_description i),
     put_option put_word (b11_amount_msat i)]"

definition take_invoice :: "u8 list \<Rightarrow> u8 list \<Rightarrow> u8 list \<Rightarrow> u8 list \<Rightarrow> bolt11_invoice" where
  "take_invoice h t d a = \<lparr>b11_payment_hash = h, b11_text = take_text t,
     b11_description = take_description d, b11_amount_msat = take_option take_word a\<rparr>"

fun put_params :: "rpc_params \<Rightarrow> u8 list list" where
  "put_params (Register_params r) = [put_text (rgr_invite_id r)]"
| "put_params (Bolt11_receive_params r) =
     [put_word (ucast (b11r_amount_msat r)), put_text (b11r_description r)]"
| "put_params Unit_params = []"
| "put_params (Bolt11_send_params r) = put_invoice (b11s_invoice r) @
     [put_word (b11s_amount_msat r), put_option put_text (b11s_ln_address r)]"
| "put_params (Bolt12_send_params r) = [put_text (b12s_offer r), put_word (b12s_amount_msat r)]"
| "put_params (Onchain_send_params r) = [put_text (ocs_address r), put_word (ocs_amount_sats r)]"
| "put_params (Set_recovery_name_params r) = [put_option put_text (srn_recovery_name r)]"
| "put_params (Recover_params r) = [put_text (rvr_recovery_id r)]"

definition wire_dec :: "u8 list list decoders" where
  "wire_dec =
     \<lparr>from_slice = (\<lambda>bs. case take_fields bs of m # fs \<Rightarrow> Ok (take_text m, fs) | _ \<Rightarrow> Err ''EOF''),
      register_from_value = (\<lambda>fs. case fs of [i] \<Rightarrow> Ok \<lparr>rgr_invite_id = take_text i\<rparr>
        | _ \<Rightarrow> Err ''fields''),
      bolt11_receive_from_value = (\<lambda>fs. case fs of [a, d] \<Rightarrow>
          Ok \<lparr>b11r_amount_msat = ucast (take_word a), b11r_description = take_text d\<rparr>
        | _ \<Rightarrow> Err ''fields''),
      unit_from_value = (\<lambda>fs. case fs of [] \<Rightarrow> Ok () | _ \<Rightarrow> Err ''fields''),
      bolt11_send_from_value = (\<lambda>fs. case fs of [h, t, d, m, a, l] \<Rightarrow>
          Ok \<lparr>b11s_invoice = take_invoice h t d m, b11s_amount_msat = take_word a,
            b11s_ln_address = take_option take_text l\<rparr>
        | _ \<Rightarrow> Err ''fields''),
      bolt12_send_from_value = (\<lambda>fs. case fs of [t, a] \<Rightarrow>
          Ok \<lparr>b12s_offer = take_text t, b12s_amount_msat = take_word a\<rparr> | _ \<Rightarrow> Err ''fields''),
      onchain_send_from_value = (\<lambda>fs. case fs of [t, a] \<Rightarrow>
          Ok \<lparr>ocs_address = take_text t, ocs_amount_sats = take_word a\<rparr> | _ \<Rightarrow> Err ''fields''),
      set_recovery_name_from_value = (\<lambda>fs. case fs of [n] \<Rightarrow>
          Ok \<lparr>srn_recovery_name = take_option take_text n\<rparr> | _ \<Rightarrow> Err ''fields''),
      recover_from_value = (\<lambda>fs. case fs of [i] \<Rightarrow> Ok \<lparr>rvr_recovery_id = take_text i\<rparr>
        | _ \<Rightarrow> Err ''fields'')\<rparr>"

lemma wire_dec_params [simp]:
  "register_from_value wire_dec (put_params (Register_params r1)) = Ok r1"
  "bolt11_receive_from_value wire_dec (put_params (Bolt11_receive_params r2)) = Ok r2"
  "unit_from_value wire_dec (put_params Unit_params) = Ok ()"
  "bolt11_send_from_value wire_dec (put_params (Bolt11_send_params r4)) = Ok r4"
  "bolt12_send_from_value wire_dec (put_params (Bolt12_send_params r5)) = Ok r5"
  "onchain_send_from_value wire_dec (put_params (Onchain_send_params r6)) = Ok r6"
  "set_recovery_name_from_value wire_dec (put_params (Set_recovery_name_params r7)) = Ok r7"
  "recover_from_value wire_dec (put_params (Recover_params r8)) = Ok r8"
  by (simp_all add: wire_dec_def put_invoice_def take_invoice_def)

section \<open>Responses and events\<close>

fun put_response :: "response \<Rightarrow> u8 list list" where
  "put_response (Register_response r) = [put_text (rr_network r), put_text (rr_name r)]"
| "put_response (Bolt11_receive_response i) = put_invoice i"
| "put_response (Bolt12_receive_response s) = [put_text s]"
| "put_response (Unit_response u) = []"
| "put_response (Onchain_send_response t) = [t]"
| "put_response (Recover_response x) = [put_word x]"

fun wire_enc :: "(string, response) outcome \<Rightarrow> u8 list" where
  "wire_enc (Ok r) = put_fields ([] # put_response r)"
| "wire_enc (Err e) = put_fields [[1], put_text e]"
| "wire_enc (Panic p) = []"

definition wire_reply_of :: "(u8 list list \<Rightarrow> (string, 'a) outcome) \<Rightarrow> 'a Client_Lib.reply" where
  "wire_reply_of get bs =
     (case take_fields bs of
        [] # fs \<Rightarrow> map_ok Ok (get fs)
      | [_ # _, e] \<Rightarrow> Ok (Err (take_text e))
      | _ \<Rightarrow> Err ''fields'')"

fun put_event :: "app_event \<Rightarrow> u8 list list" where
  "put_event (Balance x) = [put_word x]"
| "put_event (Update i s f) = [put_text i, put_text s, put_word f]"
| "put_event (Payment p) = [put_text (pay_id p), put_text (pay_payment_type p),
     (if pay_is_live p then [1] else []), put_word (pay_amount_msat p), put_word (pay_fee_msat p),
     put_text (pay_description p), put_text (pay_status p), put_option put_text (pay_ln_address p),
     put_word (pay_created_at p)]"

definition wire_event :: "app_event \<Rightarrow> u8 list" where
  "wire_event e = put_fields (put_event e)"

definition take_event :: "u8 list list \<Rightarrow> (string, app_event) outcome" where
  "take_event fs =
     (case fs of
        [x] \<Rightarrow> Ok (Balance (take_word x))
      | [i, s, f] \<Rightarrow> Ok (Update (take_text i) (take_text s) (take_word f))
      | [i, t, l, a, f, d, s, n, c] \<Rightarrow> Ok (Payment
          \<lparr>pay_id = take_text i, pay_payment_type = take_text t, pay_is_live = (l \<noteq> []),
           pay_amount_msat = take_word a, pay_fee_msat = take_word f,
           pay_description = take_text d, pay_status = take_text s,
           pay_ln_address = take_option take_text n, pay_created_at = take_word c\<rparr>)
      | _ \<Rightarrow> Err ''fields'')"

definition wire_json :: client_json where
  "wire_json =
     \<lparr>to_vec = (\<lambda>meth params. Ok (put_fields (put_text meth # put_params params))),
      register_reply = wire_reply_of (\<lambda>fs. case fs of [n, d] \<Rightarrow>
          Ok \<lparr>rr_network = take_text n, rr_name = take_text d\<rparr> | _ \<Rightarrow> Err ''fields''),
      bolt11_receive_reply = wire_reply_of (\<lambda>fs. case fs of [h, t, d, a] \<Rightarrow>
          Ok (take_invoice h t d a) | _ \<Rightarrow> Err ''fields''),
      bolt12_receive_reply = wire_reply_of (\<lambda>fs. case fs of [t] \<Rightarrow> Ok (take_text t)
        | _ \<Rightarrow> Err ''fields''),
      unit_reply = wire_reply_of (\<lambda>fs. case fs of [] \<Rightarrow> Ok () | _ \<Rightarrow> Err ''fields''),
      onchain_send_reply = wire_reply_of (\<lambda>fs. case fs of [t] \<Rightarrow> Ok t | _ \<Rightarrow> Err ''fields''),
      recover_reply = wire_reply_of (\<lambda>fs. case fs of [x] \<Rightarrow> Ok (take_word x)
        | _ \<Rightarrow> Err ''fields''),
      event_from_slice = (\<lambda>bs. take_event (take_fields bs))\<rparr>"

lemma wire_json_event:
  "event_from_slice wire_json (wire_event e) = Ok e"
  by (cases e) (simp_all add: wire_json_def wire_event_def take_event_def)

lemma accept_wire_event:
  "fields_size (put_event e) \<le> 100000 \<Longrightarrow> accept_event wire_json (Some (Ok (wire_event e))) = Ok e"
  using wire_json_event [of e] by (simp add: accept_event_def read_to_end_def wire_event_def)

text \<open>The replies, as pairs of what the daemon's response is made of and what the client reads.\<close>

lemma wire_json_replies [simp]:
  "register_reply wire_json (wire_enc (Ok (Register_response r1))) = Ok (Ok r1)"
  "bolt11_receive_reply wire_json (wire_enc (Ok (Bolt11_receive_response r2))) = Ok (Ok r2)"
  "bolt12_receive_reply wire_json (wire_enc (Ok (Bolt12_receive_response r3))) = Ok (Ok r3)"
  "unit_reply wire_json (wire_enc (Ok (Unit_response ()))) = Ok (Ok ())"
  "onchain_send_reply wire_json (wire_enc (Ok (Onchain_send_response r5))) = Ok (Ok r5)"
  "recover_reply wire_json (wire_enc (Ok (Recover_response r6))) = Ok (Ok r6)"
  by (simp_all add: wire_json_def wire_reply_of_def put_invoice_def take_invoice_def)

lemma wire_json_replies_Err [simp]:
  "register_reply wire_json (wire_enc (Err e)) = Ok (Err e)"
  "bolt11_receive_reply wire_json (wire_enc (Err e)) = Ok (Err e)"
  "bolt12_receive_reply wire_json (wire_enc (Err e)) = Ok (Err e)"
  "unit_reply wire_json (wire_enc (Err e)) = Ok (Err e)"
  "onchain_send_reply wire_json (wire_enc (Err e)) = Ok (Err e)"
  "recover_reply wire_json (wire_enc (Err e)) = Ok (Err e)"
  by (simp_all add: wire_json_def wire_reply_of_def)

lemma length_wire_enc [simp]:
  "length (wire_enc (Ok r)) = fields_size ([] # put_response r)"
  "length (wire_enc (Err e)) = 2 * length e + 4"
  by simp_all

lemma length_put_description [simp]:
  "length (put_description d) = Suc (length (bolt11_description_to_string d))"
  by (cases d) simp_all

lemma size_put_params [simp]:
  "fields_size (put_params (Register_params r1)) = 2 * length (rgr_invite_id r1) + 1"
  "fields_size (put_params (Bolt11_receive_params r2)) = 2 * length (b11r_description r2) + 18"
  "fields_size (put_params Unit_params) = 0"
  "fields_size (put_params (Bolt11_send_params r4)) = fields_size (put_invoice (b11s_invoice r4)) +
     18 + 2 * length (put_option put_text (b11s_ln_address r4))"
  "fields_size (put_params (Bolt12_send_params r5)) = 2 * length (b12s_offer r5) + 18"
  "fields_size (put_params (Onchain_send_params r6)) = 2 * length (ocs_address r6) + 18"
  "fields_size (put_params (Set_recovery_name_params r7)) =
     2 * length (put_option put_text (srn_recovery_name r7)) + 1"
  "fields_size (put_params (Recover_params r8)) = 2 * length (rvr_recovery_id r8) + 1"
  by simp_all

declare put_params.simps [simp del] wire_enc.simps [simp del]

text \<open>
  What a request over this library and a connection that delivers it gives: the handler's result,
  when the request and the response are not too long.
\<close>

definition fits :: "string \<Rightarrow> rpc_params \<Rightarrow> bool" where
  "fits meth p \<longleftrightarrow> fields_size (put_text meth # put_params p) \<le> 100000"

lemma request_json_wire:
  assumes "fits meth p" and "run_state (dispatch wire_dec st u meth (put_params p)) w = (r, w')"
    and "length (wire_enc r) \<le> 1000000" and "\<forall>m. r \<noteq> Panic m"
  shows "run_state (request_json wire_json (serve wire_dec wire_enc st u) meth p parse) w =
    (parse (wire_enc r), w')"
proof -
  have "to_vec wire_json meth p = Ok (put_fields (put_text meth # put_params p))"
      "from_slice wire_dec (put_fields (put_text meth # put_params p)) = Ok (meth, put_params p)"
    by (simp_all add: wire_json_def wire_dec_def)
  with assms show ?thesis
    by (cases r) (simp_all add: request_json_def serve_def handle_request_def read_to_end_def fits_def)
qed

lemma conn_request_wire:
  assumes "fits meth p" and "run_state (dispatch wire_dec st u meth (put_params p)) w = (r, w')"
    and "length (wire_enc r) \<le> 1000000" and "\<forall>m. r \<noteq> Panic m"
    and "parse (wire_enc r) = Ok v"
  shows "run_state (conn_request wire_json (Some (serve wire_dec wire_enc st u)) meth p parse) w = (v, w')"
  using request_json_wire [OF assms(1-4), of parse] assms(5) by (simp add: conn_request_def)

end
