(* ===== verification/Testing_Rig.thy ===== *)
theory Testing_Rig
  imports Testing Wire
begin

text \<open>
  A rig for the integration test, and what the handlers and the calls of a client do on it. The second node and the daemon's
  node answer as such nodes do: the id of a payment of an invoice is its hash, a payment of the
  second node is received, a payment to it succeeds at no fee, unless the test fails it. The
  daemon's balance and channel appear after some requests, and its first payment finds no route.
\<close>

section \<open>The rig\<close>

definition tr_invoice :: "u8 list \<Rightarrow> u64 \<Rightarrow> bolt11_invoice" where
  "tr_invoice h a = \<lparr>b11_payment_hash = h, b11_text = ''ln'', b11_description = Direct [],
     b11_amount_msat = Some a\<rparr>"

definition tr_offer :: "u8 \<Rightarrow> string \<Rightarrow> offer_amount option \<Rightarrow> offer" where
  "tr_offer i s a = \<lparr>b12_id = [i], b12_text = s, b12_description = Some [], b12_amount = a\<rparr>"

definition tr_libs :: libs where
  "tr_libs = ex_libs\<lparr>offer_from_str := (\<lambda>s.
     if s = ''lno1'' then Some (tr_offer 201 s None) else if s = ''lno2'' then Some (tr_offer 202 s None)
     else if s = ''lno3'' then Some (tr_offer 203 s None)
     else if s = ''lno4'' then Some (tr_offer 204 s (Some (Bitcoin 50000))) else None)\<rparr>"

definition tr_channel :: channel_details where
  "tr_channel = \<lparr>cd_user_channel_id = 7, cd_counterparty_node_id = ''02bb'',
     cd_channel_value_sats = 4000000, cd_outbound_capacity_msat = 1900000000,
     cd_inbound_capacity_msat = 1900000000, cd_is_channel_ready = True, cd_is_usable = True,
     cd_is_outbound = True, cd_funding_txo = Some ''f0:0'', cd_confirmations = Some 6,
     cd_confirmations_required = Some 6\<rparr>"

definition tr_node :: "nat \<Rightarrow> ldk_node" where
  "tr_node n = ex_node\<lparr>
     nd_bolt11_receive := (\<lambda>a _ _. Ok (tr_invoice [ucast (a div 100000)] a)),
     nd_bolt12_receive_variable := (\<lambda>_ _. Ok (if n < 25 then tr_offer 201 ''lno1'' None
        else tr_offer 202 ''lno2'' None)),
     nd_bolt11_send := (\<lambda>i _. if n < 16 then Err ''RouteNotFound'' else Ok (b11_payment_hash i)),
     nd_total_onchain_balance_sats := (if n < 3 then 0 else 5000000000),
     nd_list_channels := (if n < 6 then [] else [tr_channel]),
     nd_payment := (\<lambda>i. Some (if i = [220] \<or> i = [221] then Bolt12_offer_kind [201] else Bolt11_kind i))\<rparr>"

definition tr_state :: "nat \<Rightarrow> app_state" where
  "tr_state n = \<lparr>app_args = start_daemon_args, app_node = tr_node n, app_node_id = [1, 2],
     app_libs = tr_libs, app_lsp = (\<lambda>_. Err ''offline'')\<rparr>"

definition tr_settles :: "node_command \<Rightarrow> ldk_event list" where
  "tr_settles c =
     (case c of
        Pay_bolt11 i a \<Rightarrow> (if b11_payment_hash i = [250]
          then [PaymentSuccessful (Some [250]) (Some 0)] else [])
      | Pay_bolt12 off a \<Rightarrow> [PaymentSuccessful (Some (b12_id off)) (Some 0)]
      | _ \<Rightarrow> [])"

definition tr_rig :: "u8 list list rig" where
  "tr_rig = \<lparr>rg_state = tr_state, rg_json = wire_json, rg_dec = wire_dec, rg_enc = wire_enc,
     rg_event = wire_event, rg_print_node = ex_as_hex, rg_parse_node = ex_from_hex,
     rg_user_pk = (\<lambda>d. [last d]), rg_now = 5, rg_patience = 60, pn_node_id = ''02bb'',
     pn_bolt11_receive = (\<lambda>a. Ok (tr_invoice [250] a)),
     pn_bolt11_receive_for_hash = (\<lambda>a h. Ok (tr_invoice h a)),
     pn_bolt12_receive_variable_amount = Ok (tr_offer 203 ''lno3'' None),
     pn_bolt12_receive = (\<lambda>a. Ok (tr_offer 204 ''lno4'' (Some (Bitcoin a)))),
     pn_bolt11_send = (\<lambda>n i. Ok [PaymentReceived (Some (b11_payment_hash i))
        (case b11_amount_msat i of Some a \<Rightarrow> a | None \<Rightarrow> 0)]),
     pn_bolt12_send = (\<lambda>n off a. Ok [PaymentReceived (Some [218 + of_nat n]) a]),
     pn_fail_for_hash = (\<lambda>h. Ok [PaymentFailed (Some h)]), pn_settles = tr_settles,
     bd_generate_to_address = (\<lambda>_ _. Ok ()), bd_get_mempool_entry = (\<lambda>_. Ok ()),
     bd_outpoint_txid = take 2\<rparr>"

definition tr_rng :: "nat \<Rightarrow> nat \<Rightarrow> u8" where
  "tr_rng n i = of_nat n"

text \<open>The start: a daemon without users, clients that know no daemon.\<close>

definition tr_start :: test_world where
  "tr_start = \<lparr>tw_world = init_world ex_clock tr_rng, tw_requests = 0, tw_payments = 0,
     tw_reports = [], tw_daemons = (\<lambda>_. []), tw_streams = []\<rparr>"

lemma tr_rig_simps [simp]:
  "rg_state tr_rig = tr_state" "rg_json tr_rig = wire_json" "rg_dec tr_rig = wire_dec"
  "rg_enc tr_rig = wire_enc" "rg_event tr_rig = wire_event" "rg_print_node tr_rig = ex_as_hex"
  "rg_parse_node tr_rig = ex_from_hex" "rg_user_pk tr_rig d = [last d]" "rg_now tr_rig = 5"
  "rg_patience tr_rig = 60" "pn_settles tr_rig = tr_settles" "rig_libs tr_rig = tr_libs"
  by (simp_all add: tr_rig_def rig_libs_def tr_state_def)

lemma tr_state_simps [simp]:
  "app_args (tr_state q) = start_daemon_args" "app_node (tr_state q) = tr_node q"
  "app_node_id (tr_state q) = [1, 2]" "app_libs (tr_state q) = tr_libs"
  by (simp_all add: tr_state_def)

lemma tr_libs_simps [simp]:
  "codec.truncate tr_libs = ex_codec" "as_hex tr_libs = ex_as_hex" "as_hex ex_codec = ex_as_hex"
  "description_new tr_libs s = Ok ()" "require_network tr_libs net adr = Some adr"
  by (simp_all add: tr_libs_def ex_libs_def ex_codec_def codec.defs libs.defs)

lemma start_daemon_args_simps [simp]:
  "bitcoin_network start_daemon_args = ''regtest''"
  "daemon_name start_daemon_args = ''testing daemon''"
  "fee_ppm start_daemon_args = 5000" "base_fee_msat start_daemon_args = 10000"
  "invoice_expiry_secs start_daemon_args = 3600"
  "onchain_base_fee_msat start_daemon_args = 5000000"
  "min_amount_sats start_daemon_args = 1" "max_amount_sats start_daemon_args = 100000"
  "max_pending_payments_per_user start_daemon_args = 10"
  by (simp_all add: start_daemon_args_def default_args_def)

declare upt_rec_numeral [simp del]

lemma map_tr_rng [simp]: "map (tr_rng k) [0..<m] = replicate m (of_nat k)"
  using map_replicate_const [of "of_nat k :: u8" "[0..<m]"] by (simp add: tr_rng_def [abs_def])

lemma length_ex_as_hex [simp]: "length (ex_as_hex bs) = 2 * length bs"
  by (induction bs) (simp_all add: ex_as_hex_def)

section \<open>What the handlers do\<close>

text \<open>
  \<open>gives m d n k r d' n' k' ms cs\<close>: on a database \<open>d\<close> after \<open>n\<close> readings of the clock and \<open>k\<close> draws
  of random bytes, \<open>m\<close> returns \<open>r\<close> with \<open>d'\<close>, \<open>n'\<close> and \<open>k'\<close>, after sending the messages \<open>ms\<close> and
  giving the node the commands \<open>cs\<close>.
\<close>

definition gives ::
  "(world, 'r) state \<Rightarrow> db \<Rightarrow> nat \<Rightarrow> nat \<Rightarrow> 'r \<Rightarrow> db \<Rightarrow> nat \<Rightarrow> nat \<Rightarrow> bus \<Rightarrow> node_command list \<Rightarrow> bool"
where
  "gives m d n k r d' n' k' ms cs \<longleftrightarrow>
     (\<forall>w. db w = d \<longrightarrow> clock w = ex_clock \<longrightarrow> ticks w = n \<longrightarrow> rng w = tr_rng \<longrightarrow> draws w = k \<longrightarrow>
        run_state m w = (r, w\<lparr>db := d', ticks := n', draws := k', event_bus := event_bus w @ ms,
          node_log := node_log w @ cs\<rparr>))"

text \<open>The rows the handlers write.\<close>

definition tr_invoice_row :: "nat \<Rightarrow> string \<Rightarrow> u8 list \<Rightarrow> i64 \<Rightarrow> invoice_record" where
  "tr_invoice_row n u h amount = \<lparr>ivc_id = ex_as_hex h, ivc_user_pk = u, ivc_amount_msat = Some amount,
     ivc_description = [], ivc_pr = ''ln'', ivc_expires_at = ex_clock n + 3600000,
     ivc_created_at = ex_clock (Suc n)\<rparr>"

definition tr_receive :: "nat \<Rightarrow> string \<Rightarrow> u8 list \<Rightarrow> i64 \<Rightarrow> string \<Rightarrow> string \<Rightarrow> receive_record" where
  "tr_receive n u i amount description pr = \<lparr>rcv_id = ex_as_hex i, rcv_user_pk = u,
     rcv_amount_msat = amount, rcv_description = description, rcv_pr = pr,
     rcv_created_at = ex_clock n\<rparr>"

definition tr_send ::
  "nat \<Rightarrow> string \<Rightarrow> u8 list \<Rightarrow> i64 \<Rightarrow> i64 \<Rightarrow> string \<Rightarrow> string \<Rightarrow> string \<Rightarrow> send_record"
where
  "tr_send n u i amount fee status description pr = \<lparr>snd_id = ex_as_hex i, snd_user_pk = u,
     snd_amount_msat = amount, snd_fee_msat = fee, snd_description = description, snd_pr = pr,
     snd_status = status, snd_ln_address = None, snd_created_at = ex_clock n\<rparr>"

lemmas tr_row_defs = tr_invoice_row_def tr_receive_def tr_send_def

lemma gives_register:
  assumes "get_invite i d = Some r" and "sint (ex_clock (Suc n)) \<le> sint (ivt_expires_at r)"
    and "sint (ex_clock n) \<le> sint (ivt_expires_at r)"
    and "sint (count_invite_users i d) < sint (ivt_user_limit r)"
  shows "gives (register (tr_state q) u \<lparr>rgr_invite_id = i\<rparr>) d n k
    (Ok \<lparr>rr_network = ''regtest'', rr_name = ''testing daemon''\<rparr>)
    (or_ignore d (insert_user \<lparr>usr_user_pk = u, usr_invite_id = i, usr_recovery_name = None,
       usr_created_at = ex_clock (Suc (Suc n))\<rparr> d)) (Suc (Suc (Suc n))) k [] []"
  using assms
  by (simp add: gives_def register_def register_user_with_invite_def word_sless_alt word_sle_eq)

lemma gives_bolt11_receive:
  assumes "length (pending_invoices (ex_clock n) u d) < 10"
    and "check_amount_bounds start_daemon_args (u32_to_u64 (b11r_amount_msat rq)) = Ok ()"
    and "b11r_description rq = []"
    and "h = [ucast (u32_to_u64 (b11r_amount_msat rq) div 100000)]"
    and "ex_as_hex h \<notin> ivc_id ` set (invoices d)"
  shows "gives (bolt11_receive (tr_state q) u rq) d n k
    (Ok (tr_invoice h (u32_to_u64 (b11r_amount_msat rq))))
    (d\<lparr>invoices := invoices d @ [tr_invoice_row (Suc n) u h (u32_to_i64 (b11r_amount_msat rq))]\<rparr>)
    (Suc (Suc (Suc n))) k [] []"
proof -
  have "sint (of_nat (length (pending_invoices (ex_clock n) u d)) :: i64) < 10"
    using assms(1) by (simp add: sint_of_nat_64)
  then show ?thesis
    using assms(2-)
    by (simp add: gives_def bolt11_receive_def run_count_pending_invoices run_create_invoice Let_def
        word_sle_eq tr_node_def invoice_row_def tr_invoice_row_def tr_invoice_def image_iff)
qed

text \<open>The transfer inside the daemon, by invoice or by offer.\<close>

definition tr_transfer :: "nat \<Rightarrow> nat \<Rightarrow> string \<Rightarrow> string \<Rightarrow> i64 \<Rightarrow> i64 \<Rightarrow> string \<Rightarrow> string \<Rightarrow> db \<Rightarrow> db" where
  "tr_transfer n k u v amount fee description pr d =
     d\<lparr>sends := sends d @ [tr_send n u (replicate 32 (of_nat k)) amount fee ''successful'' description pr],
       receives := receives d @ [tr_receive (Suc n) v (replicate 32 (of_nat k)) amount description pr]\<rparr>"

definition tr_transfer_events ::
  "nat \<Rightarrow> nat \<Rightarrow> string \<Rightarrow> string \<Rightarrow> i64 \<Rightarrow> i64 \<Rightarrow> string \<Rightarrow> string \<Rightarrow> db \<Rightarrow> bus"
where
  "tr_transfer_events n k u v amount fee description pr d =
     payment_events u (send_into_payment
       (tr_send n u (replicate 32 (of_nat k)) amount fee ''successful'' description pr) True) d @
     payment_events v (receive_into_payment
       (tr_receive (Suc n) v (replicate 32 (of_nat k)) amount description pr) True) d"

definition fresh_transfer :: "nat \<Rightarrow> db \<Rightarrow> bool" where
  "fresh_transfer k d \<longleftrightarrow> ex_as_hex (replicate 32 (of_nat k)) \<notin> snd_id ` set (sends d) \<and>
     ex_as_hex (replicate 32 (of_nat k)) \<notin> rcv_id ` set (receives d)"

lemma gives_transfer:
  assumes "fresh_transfer k d"
  shows "gives (transfer_and_push ex_as_hex u v amount fee pr description res) d n k (Ok res)
    (tr_transfer n k u v amount fee description pr d) (Suc (Suc n)) (Suc k)
    (tr_transfer_events n k u v amount fee description pr
      (tr_transfer n k u v amount fee description pr d)) []"
  using assms
  by (simp add: gives_def run_transfer_and_push Let_def transfer_send_def transfer_receive_def
      insert_transfer_def insert_send_def insert_receive_def append_row_def list_ex_key
      fresh_transfer_def tr_transfer_def tr_transfer_events_def tr_send_def tr_receive_def)

lemma gives_record:
  assumes "ex_as_hex i \<notin> snd_id ` set (sends d)"
    and "s = tr_send n u i amount fee status description pr"
  shows "gives (record_and_push ex_as_hex i u amount fee description pr status None res) d n k (Ok res)
    (d\<lparr>sends := sends d @ [s]\<rparr>) (Suc n) k
    (payment_events u (send_into_payment s True) (d\<lparr>sends := sends d @ [s]\<rparr>)) []"
  using assms
  by (simp add: gives_def run_record_and_push Let_def send_row_def tr_send_def)

lemma gives_bolt11_send_internal:
  assumes "may_send start_daemon_args u x d" and "get_invoice ex_as_hex (b11_payment_hash i) d = Some r"
    and "ivc_user_pk r \<noteq> u" and "amount_reaches (ivc_amount_msat r) x" and "fresh_transfer k d"
  shows "gives (bolt11_send (tr_state q) u
      \<lparr>b11s_invoice = i, b11s_amount_msat = x, b11s_ln_address = None\<rparr>) d n k (Ok ())
    (tr_transfer n k u (ivc_user_pk r) x 1000 (ivc_description r) (ivc_pr r) d) (Suc (Suc n)) (Suc k)
    (tr_transfer_events n k u (ivc_user_pk r) x 1000 (ivc_description r) (ivc_pr r)
      (tr_transfer n k u (ivc_user_pk r) x 1000 (ivc_description r) (ivc_pr r) d)) []"
  using assms gives_transfer [OF assms(5)]
  by (simp add: gives_def run_bolt11_send run_check_send_may)

lemma gives_bolt11_send_external:
  assumes "may_send start_daemon_args u x d" and "get_invoice ex_as_hex h d = None" and "16 \<le> q"
    and "ex_as_hex h \<notin> snd_id ` set (sends d)" and "i = tr_invoice h a"
    and "s = tr_send n u h x (lightning_fee start_daemon_args x) ''pending'' [] ''ln''"
  shows "gives (bolt11_send (tr_state q) u
      \<lparr>b11s_invoice = i, b11s_amount_msat = x, b11s_ln_address = None\<rparr>) d n k (Ok ())
    (d\<lparr>sends := sends d @ [s]\<rparr>) (Suc n) k
    (payment_events u (send_into_payment s True) (d\<lparr>sends := sends d @ [s]\<rparr>)) [Pay_bolt11 i x]"
  using assms
  by (simp add: gives_def run_bolt11_send run_check_send_may tr_node_def tr_invoice_def
      run_record_and_push Let_def send_row_def tr_send_def)

lemma gives_bolt11_send_no_route:
  assumes "may_send start_daemon_args u x d" and "get_invoice ex_as_hex (b11_payment_hash i) d = None"
    and "q < 16"
  shows "gives (bolt11_send (tr_state q) u
      \<lparr>b11s_invoice = i, b11s_amount_msat = x, b11s_ln_address = None\<rparr>) d n k
    (Err ''RouteNotFound'') d n k [] []"
  using assms by (simp add: gives_def run_bolt11_send run_check_send_may tr_node_def)

lemma gives_bolt12_receive:
  assumes "get_offer_by_user_pk u d = None"
    and "off = (if q < 25 then tr_offer 201 ''lno1'' None else tr_offer 202 ''lno2'' None)"
    and "ex_as_hex (b12_id off) \<notin> ofr_id ` set (offers d)"
  shows "gives (bolt12_receive (tr_state q) u) d n k (Ok (b12_text off))
    (d\<lparr>offers := offers d @ [offer_row ex_as_hex (ex_clock n) u off]\<rparr>) (Suc n) k [] []"
  using assms
  by (simp add: gives_def bolt12_receive_def create_new_offer_def run_create_offer Let_def tr_node_def)

lemma gives_bolt12_send_internal:
  assumes "may_send start_daemon_args u x d" and "offer_from_str tr_libs text = Some off"
    and "get_offer ex_as_hex (b12_id off) d = Some r" and "ofr_user_pk r \<noteq> u"
    and "amount_reaches (ofr_amount_msat r) x" and "fresh_transfer k d"
  shows "gives (bolt12_send (tr_state q) u \<lparr>b12s_offer = text, b12s_amount_msat = x\<rparr>) d n k (Ok ())
    (tr_transfer n k u (ofr_user_pk r) x 1000 (ofr_description r) (ofr_pr r) d) (Suc (Suc n)) (Suc k)
    (tr_transfer_events n k u (ofr_user_pk r) x 1000 (ofr_description r) (ofr_pr r)
      (tr_transfer n k u (ofr_user_pk r) x 1000 (ofr_description r) (ofr_pr r) d)) []"
  using assms gives_transfer [OF assms(6)]
  by (simp add: gives_def run_bolt12_send run_check_send_may)

lemma gives_bolt12_send_external:
  assumes "may_send start_daemon_args u x d" and "offer_from_str tr_libs text = Some off"
    and "get_offer ex_as_hex (b12_id off) d = None" and "b12_description off = Some []"
    and "ex_as_hex (b12_id off) \<notin> snd_id ` set (sends d)"
    and "s = tr_send n u (b12_id off) x (lightning_fee start_daemon_args x) ''pending'' [] (b12_text off)"
  shows "gives (bolt12_send (tr_state q) u \<lparr>b12s_offer = text, b12s_amount_msat = x\<rparr>) d n k (Ok ())
    (d\<lparr>sends := sends d @ [s]\<rparr>) (Suc n) k
    (payment_events u (send_into_payment s True) (d\<lparr>sends := sends d @ [s]\<rparr>)) [Pay_bolt12 off x]"
  using assms
  by (simp add: gives_def run_bolt12_send run_check_send_may tr_node_def ex_node_def
      run_record_and_push Let_def send_row_def tr_send_def)

lemma gives_onchain_send:
  assumes "\<not> x < 1000" and "\<not> user_balance u d < x * 1000"
    and "\<not> user_balance u d < x * 1000 + 5000000" and "ex_as_hex [77] \<notin> snd_id ` set (sends d)"
    and "s = tr_send n u [77] (x * 1000) 5000000 ''successful'' [] adr"
  shows "gives (onchain_send (tr_state q) u \<lparr>ocs_address = adr, ocs_amount_sats = x\<rparr>) d n k (Ok [77])
    (d\<lparr>sends := sends d @ [s]\<rparr>) (Suc n) k
    (payment_events u (send_into_payment s True) (d\<lparr>sends := sends d @ [s]\<rparr>)) [Pay_onchain adr x None]"
  using assms
  by (simp add: gives_def run_onchain_send tr_node_def ex_node_def run_record_and_push Let_def
      send_row_def tr_send_def)

lemma gives_set_recovery_name:
  assumes "check_recovery_name name = Ok ()"
  shows "gives (set_recovery_name (tr_state q) u \<lparr>srn_recovery_name = Some name\<rparr>) d n k (Ok ())
    (set_recovery_name_rows u (Some name) d) n k [] []"
  using assms by (simp add: gives_def set_recovery_name_def)

lemma gives_recover:
  assumes "get_recovery i d = Some r" and "sint (ex_clock n) \<le> sint (rec_expires_at r)"
    and "u \<noteq> rec_user_pk r" and "x = user_balance (rec_user_pk r) d" and "x \<noteq> 0" and "fresh_transfer k d"
  shows "gives (recover (tr_state q) u \<lparr>rvr_recovery_id = i\<rparr>) d n k (Ok x)
    (tr_transfer (Suc n) k (rec_user_pk r) u x 0 ''Recovery'' (rec_id r) d) (Suc (Suc (Suc n))) (Suc k)
    (tr_transfer_events (Suc n) k (rec_user_pk r) u x 0 ''Recovery'' (rec_id r)
      (tr_transfer (Suc n) k (rec_user_pk r) u x 0 ''Recovery'' (rec_id r) d)) []"
  unfolding gives_def
proof (intro allI impI)
  fix w :: world assume "db w = d" "clock w = ex_clock" "ticks w = n" "rng w = tr_rng" "draws w = k"
  then show "run_state (recover (tr_state q) u \<lparr>rvr_recovery_id = i\<rparr>) w = (Ok x,
      w\<lparr>db := tr_transfer (Suc n) k (rec_user_pk r) u x 0 ''Recovery'' (rec_id r) d,
        ticks := Suc (Suc (Suc n)), draws := Suc k,
        event_bus := event_bus w @ tr_transfer_events (Suc n) k (rec_user_pk r) u x 0 ''Recovery''
          (rec_id r) (tr_transfer (Suc n) k (rec_user_pk r) u x 0 ''Recovery'' (rec_id r) d),
        node_log := node_log w @ []\<rparr>)"
    using assms gives_transfer [OF assms(6), of "rec_user_pk r" u x 0 "rec_id r" "''Recovery''" x "Suc n",
        unfolded gives_def, rule_format, of "w\<lparr>ticks := Suc n\<rparr>"]
    by (simp add: recover_def word_sless_alt)
qed

text \<open>The reports of the node.\<close>

lemma gives_received:
  assumes "payment_owner (tr_state q) i d = Some (u, description, pr)"
    and "r = tr_receive n u i x description pr" and "ex_as_hex i \<notin> rcv_id ` set (receives d)"
  shows "gives (process_ldk_event (tr_state q) (PaymentReceived (Some i) x)) d n k (Ok ())
    (d\<lparr>receives := receives d @ [r]\<rparr>) (Suc n) k
    (payment_events u (receive_into_payment r True) (d\<lparr>receives := receives d @ [r]\<rparr>)) []"
  using assms
  by (simp add: gives_def run_payment_received Let_def receive_row_def tr_receive_def insert_receive_def
      append_row_def list_ex_key del: process_ldk_event.simps)

lemma gives_result:
  assumes "List.find (\<lambda>r. snd_id r = ex_as_hex i) (sends d) \<noteq> None"
  shows "gives (payment_result (tr_state q) i status fee missing) d n k (Ok ())
    (settle (ex_as_hex i) status fee d) (Suc n) k
    (action_events (Settle (ex_as_hex i) status fee) (settle (ex_as_hex i) status fee d)) []"
  using assms
  by (auto simp: gives_def run_payment_result Let_def simp del: action_events.simps split: option.splits)

lemma gives_successful:
  assumes "List.find (\<lambda>r. snd_id r = ex_as_hex i) (sends d) \<noteq> None"
  shows "gives (process_ldk_event (tr_state q) (PaymentSuccessful (Some i) (Some fee))) d n k (Ok ())
    (settle (ex_as_hex i) ''successful'' fee d) (Suc n) k
    (action_events (Settle (ex_as_hex i) ''successful'' fee) (settle (ex_as_hex i) ''successful'' fee d)) []"
  using gives_result [OF assms] by (simp del: action_events.simps)

lemma gives_failed:
  assumes "List.find (\<lambda>r. snd_id r = ex_as_hex i) (sends d) \<noteq> None"
  shows "gives (process_ldk_event (tr_state q) (PaymentFailed (Some i))) d n k (Ok ())
    (settle (ex_as_hex i) ''failed'' 0 d) (Suc n) k
    (action_events (Settle (ex_as_hex i) ''failed'' 0) (settle (ex_as_hex i) ''failed'' 0 d)) []"
  using gives_result [OF assms] by (simp del: action_events.simps)

section \<open>What the calls of the client do\<close>

lemma gives_map:
  assumes "gives m d n k r d' n' k' ms cs"
  shows "gives (do { x \<leftarrow> m; ret (f x) }) d n k (f r) d' n' k' ms cs"
  using assms by (simp add: gives_def)

text \<open>A request that is dispatched to the handler \<open>func\<close>.\<close>

lemma gives_dispatch:
  assumes "gives (func (tr_state q) u rq) d n k r d' n' k' ms cs" and "auth \<longrightarrow> user_exists u d"
  shows "gives (client_method func to_value (tr_state q) u (Ok rq) auth) d n k (map_ok to_value r) d' n' k' ms cs"
  using assms by (auto simp: gives_def run_client_method)

lemma gives_request:
  assumes "gives (dispatch wire_dec (tr_state q) u meth (put_params p)) d n k r d' n' k' ms cs"
    and "fits meth p" and "length (wire_enc r) \<le> 1000000" and "\<forall>m. r \<noteq> Panic m"
    and "parse (wire_enc r) = Ok v"
  shows "gives (conn_request wire_json (Some (serve wire_dec wire_enc (tr_state q) u)) meth p parse)
    d n k v d' n' k' ms cs"
  using assms by (auto simp: gives_def intro!: conn_request_wire [where r = r])

lemma gives_conn_bolt11_receive:
  assumes "gives (bolt11_receive (tr_state q) u \<lparr>b11r_amount_msat = x, b11r_description = s\<rparr>) d n k (Ok i)
      d' n' k' ms cs"
    and "user_exists u d" and "fits ENDPOINT_BOLT11_RECEIVE (Bolt11_receive_params \<lparr>b11r_amount_msat = x, b11r_description = s\<rparr>)"
    and "fields_size (put_invoice i) \<le> 900000"
  shows "gives (conn_bolt11_receive wire_json (Some (serve wire_dec wire_enc (tr_state q) u)) x s)
    d n k (Ok i) d' n' k' ms cs"
  unfolding conn_bolt11_receive_def
  by (rule gives_request [where r = "Ok (Bolt11_receive_response i)"])
    (use assms gives_dispatch [where func = bolt11_receive and to_value = Bolt11_receive_response and auth = True,
        OF assms(1)] in \<open>auto simp: dispatch_def endpoint_defs\<close>)

lemma gives_conn_bolt11_send:
  assumes "gives (bolt11_send (tr_state q) u \<lparr>b11s_invoice = i, b11s_amount_msat = x, b11s_ln_address = l\<rparr>) d n k r
      d' n' k' ms cs"
    and "user_exists u d" and "fits ENDPOINT_BOLT11_SEND (Bolt11_send_params
      \<lparr>b11s_invoice = i, b11s_amount_msat = x, b11s_ln_address = l\<rparr>)"
    and "r = Ok () \<or> r = Err ''RouteNotFound''"
  shows "gives (conn_bolt11_send wire_json (Some (serve wire_dec wire_enc (tr_state q) u)) i x l)
    d n k r d' n' k' ms cs"
  unfolding conn_bolt11_send_def
  by (rule gives_request [where r = "map_ok Unit_response r"])
    (use assms gives_dispatch [where func = bolt11_send and to_value = Unit_response and auth = True,
        OF assms(1)] in \<open>auto simp: dispatch_def endpoint_defs\<close>)

lemma gives_conn_bolt12_receive:
  assumes "gives (bolt12_receive (tr_state q) u) d n k (Ok s)
      d' n' k' ms cs"
    and "user_exists u d" and "fits ENDPOINT_BOLT12_RECEIVE Unit_params"
    and "length s \<le> 100000"
  shows "gives (conn_bolt12_receive wire_json (Some (serve wire_dec wire_enc (tr_state q) u)))
    d n k (Ok s) d' n' k' ms cs"
  unfolding conn_bolt12_receive_def
  by (rule gives_request [where r = "Ok (Bolt12_receive_response s)"])
    (use assms gives_dispatch [where func = "\<lambda>st u _. bolt12_receive st u" and to_value = Bolt12_receive_response and auth = True,
        OF assms(1)] in \<open>auto simp: dispatch_def endpoint_defs\<close>)

lemma gives_conn_bolt12_send:
  assumes "gives (bolt12_send (tr_state q) u \<lparr>b12s_offer = b12_text off, b12s_amount_msat = x\<rparr>) d n k (Ok ())
      d' n' k' ms cs"
    and "user_exists u d" and "fits ENDPOINT_BOLT12_SEND (Bolt12_send_params \<lparr>b12s_offer = b12_text off, b12s_amount_msat = x\<rparr>)"
  shows "gives (conn_bolt12_send wire_json (Some (serve wire_dec wire_enc (tr_state q) u)) off x)
    d n k (Ok ()) d' n' k' ms cs"
  unfolding conn_bolt12_send_def
  by (rule gives_request [where r = "Ok (Unit_response ())"])
    (use assms gives_dispatch [where func = bolt12_send and to_value = Unit_response and auth = True,
        OF assms(1)] in \<open>auto simp: dispatch_def endpoint_defs\<close>)

lemma gives_conn_onchain_send:
  assumes "gives (onchain_send (tr_state q) u \<lparr>ocs_address = adr, ocs_amount_sats = x\<rparr>) d n k (Ok t)
      d' n' k' ms cs"
    and "user_exists u d" and "fits ENDPOINT_ONCHAIN_SEND (Onchain_send_params \<lparr>ocs_address = adr, ocs_amount_sats = x\<rparr>)"
    and "length t \<le> 100"
  shows "gives (conn_onchain_send wire_json (Some (serve wire_dec wire_enc (tr_state q) u)) adr x)
    d n k (Ok t) d' n' k' ms cs"
  unfolding conn_onchain_send_def
  by (rule gives_request [where r = "Ok (Onchain_send_response t)"])
    (use assms gives_dispatch [where func = onchain_send and to_value = Onchain_send_response and auth = True,
        OF assms(1)] in \<open>auto simp: dispatch_def endpoint_defs\<close>)

lemma gives_conn_set_recovery_name:
  assumes "gives (set_recovery_name (tr_state q) u \<lparr>srn_recovery_name = s\<rparr>) d n k (Ok ())
      d' n' k' ms cs"
    and "user_exists u d" and "fits ENDPOINT_SET_RECOVERY_NAME (Set_recovery_name_params \<lparr>srn_recovery_name = s\<rparr>)"
  shows "gives (conn_set_recovery_name wire_json (Some (serve wire_dec wire_enc (tr_state q) u)) s)
    d n k (Ok ()) d' n' k' ms cs"
  unfolding conn_set_recovery_name_def
  by (rule gives_request [where r = "Ok (Unit_response ())"])
    (use assms gives_dispatch [where func = set_recovery_name and to_value = Unit_response and auth = True,
        OF assms(1)] in \<open>auto simp: dispatch_def endpoint_defs\<close>)

lemma gives_conn_recover:
  assumes "gives (recover (tr_state q) u \<lparr>rvr_recovery_id = recovery_code_id cd c\<rparr>) d n k (Ok x)
      d' n' k' ms cs"
    and "user_exists u d" and "fits ENDPOINT_RECOVER (Recover_params \<lparr>rvr_recovery_id = recovery_code_id cd c\<rparr>)"
  shows "gives (conn_recover wire_json cd (Some (serve wire_dec wire_enc (tr_state q) u)) c)
    d n k (Ok x) d' n' k' ms cs"
  unfolding conn_recover_def
  by (rule gives_request [where r = "Ok (Recover_response x)"])
    (use assms gives_dispatch [where func = recover and to_value = Recover_response and auth = True,
        OF assms(1)] in \<open>auto simp: dispatch_def endpoint_defs\<close>)

end
