(* ===== verification/Testing_View.thy ===== *)
theory Testing_View
  imports Testing_Rig
begin

text \<open>
  What the test sees of its world, and a rule for each of its operations: \<open>passes m v r v'\<close> says
  that \<open>m\<close> returns \<open>r\<close> from every world that looks like \<open>v\<close>, and that the world then looks like
  \<open>v'\<close>. The bus, the log of the node and some of the streams are not seen.
\<close>

record view =
  vw_db :: db
  vw_ticks :: nat
  vw_draws :: nat
  vw_requests :: nat
  vw_payments :: nat
  vw_reports :: "ldk_event list"
  vw_daemons :: "string \<Rightarrow> daemon_record list"
  vw_connections :: nat
  vw_streams :: "(nat \<times> string \<times> app_event list) list"

definition seen :: "view \<Rightarrow> test_world \<Rightarrow> bool" where
  "seen v t \<longleftrightarrow> db (tw_world t) = vw_db v \<and> clock (tw_world t) = ex_clock \<and>
     ticks (tw_world t) = vw_ticks v \<and> rng (tw_world t) = tr_rng \<and> draws (tw_world t) = vw_draws v \<and>
     tw_requests t = vw_requests v \<and> tw_payments t = vw_payments v \<and> tw_reports t = vw_reports v \<and>
     tw_daemons t = vw_daemons v \<and> length (tw_streams t) = vw_connections v \<and>
     (\<forall>(i, s) \<in> set (vw_streams v). i < vw_connections v \<and> tw_streams t ! i = s)"

definition passes :: "(test_world, 'a) state \<Rightarrow> view \<Rightarrow> 'a \<Rightarrow> view \<Rightarrow> bool" where
  "passes m v r v' \<longleftrightarrow>
     (\<forall>t. seen v t \<longrightarrow> fst (run_state m t) = r \<and> seen v' (snd (run_state m t)))"

lemma passesI:
  "(\<And>t. seen v t \<Longrightarrow> \<exists>t'. run_state m t = (r, t') \<and> seen v' t') \<Longrightarrow> passes m v r v'"
  by (fastforce simp: passes_def)

lemma passesE:
  assumes "passes m v r v'" and "seen v t"
  obtains t' where "run_state m t = (r, t')" and "seen v' t'"
  using assms by (cases "run_state m t") (auto simp: passes_def)

section \<open>Composition\<close>

lemma passes_bind:
  assumes "passes m v r v1" and "passes (f r) v1 r' v'"
  shows "passes (m \<bind> f) v r' v'"
  by (rule passesI) (use assms in \<open>auto elim!: passesE simp: run_simps\<close>)

lemma passes_and_run:
  assumes "passes m v (Ok x) v1" and "passes (f x) v1 r v'"
  shows "passes (and_run m f) v r v'"
  unfolding and_run_def by (rule passes_bind [OF assms(1)]) (simp add: assms(2))

lemma passes_and_run_Err:
  assumes "passes m v (Err e) v'"
  shows "passes (and_run m f) v (Err e) v'"
  by (rule passesI) (use assms in \<open>auto elim!: passesE simp: and_run_def\<close>)

lemma passes_unwrap: "passes m v (Ok x) v' \<Longrightarrow> passes (unwrap m) v (Ok x) v'"
  by (rule passesI) (auto elim!: passesE simp: unwrap_def)

lemma passes_ret: "passes (ret r) v r v"
  by (simp add: passes_def)

lemma passes_ret_eq: "x = r \<Longrightarrow> passes (ret x) v r v"
  by (simp add: passes_ret)

lemma passes_ok: "passes (ok x) v (Ok x) v"
  by (simp add: passes_def)

lemma passes_unwrapped: "r = Ok x \<Longrightarrow> passes (unwrapped r) v (Ok x) v"
  by (simp add: unwrapped_def passes_ret)

lemma passes_assert: "b \<Longrightarrow> passes (assert_that b) v (Ok ()) v"
  by (simp add: assert_that_def passes_ok)

lemma passes_ensure:
  "b \<Longrightarrow> passes (ensure b m) v (Ok ()) v" "\<not> b \<Longrightarrow> passes (ensure b m) v (Err m) v"
  by (simp_all add: passes_def ensure_def)

lemma passes_client_new: "passes (client_new tr_rig d) v (Ok [last d]) v"
  by (simp add: client_new_def passes_ok)

lemma passes_forget:
  "passes (forget_daemon tr_rig u d) v (Ok ())
     (v\<lparr>vw_daemons := (vw_daemons v)(u := delete_daemon ex_as_hex d (vw_daemons v u))\<rparr>)"
  by (simp add: passes_def seen_def forget_daemon_def)

lemma passes_daemons:
  "r = list_daemons ex_from_hex (vw_daemons v u) \<Longrightarrow> passes (daemons_of tr_rig u) v r v"
  by (simp add: passes_def seen_def daemons_of_def)

lemma passes_pop:
  assumes "list_daemons ex_from_hex (vw_daemons v u) = Ok ds" and "ds \<noteq> []"
  shows "passes (pop_daemon tr_rig u) v (Ok (last ds)) v"
  unfolding pop_daemon_def
  by (rule passes_and_run [OF passes_daemons [OF assms(1) [symmetric]]]) (simp add: assms(2) passes_ok)

definition open_stream :: "string \<Rightarrow> app_event list \<Rightarrow> view \<Rightarrow> view" where
  "open_stream u q v = v\<lparr>vw_connections := Suc (vw_connections v),
     vw_streams := vw_streams v @ [(vw_connections v, u, q)]\<rparr>"

lemma seen_open_stream:
  "seen v t \<Longrightarrow> seen (open_stream u q v) (t\<lparr>tw_streams := tw_streams t @ [(u, q)]\<rparr>)"
  by (auto simp: seen_def open_stream_def nth_append)

lemma passes_connect:
  "passes (connect u) v (Ok \<lparr>cn_stream = vw_connections v, cn_user = u\<rparr>)
     (open_stream u (events_snapshot u (vw_db v)) v)"
proof (rule passesI)
  fix t assume t: "seen v t"
  then have "run_state (connect u) t = (Ok \<lparr>cn_stream = vw_connections v, cn_user = u\<rparr>,
      t\<lparr>tw_streams := tw_streams t @ [(u, events_snapshot u (vw_db v))]\<rparr>)"
    by (auto simp: connect_def seen_def)
  with seen_open_stream [OF t] show "\<exists>t'. run_state (connect u) t =
      (Ok \<lparr>cn_stream = vw_connections v, cn_user = u\<rparr>, t') \<and>
      seen (open_stream u (events_snapshot u (vw_db v)) v) t'" by blast
qed

lemma passes_less:
  assumes "passes m v r v1" and "set (vw_streams v') \<subseteq> set (vw_streams v1)"
    and "v1\<lparr>vw_streams := vw_streams v'\<rparr> = v'"
  shows "passes m v r v'"
proof -
  have "seen v1 t \<Longrightarrow> seen (v1\<lparr>vw_streams := vw_streams v'\<rparr>) t" for t
    using assms(2) by (auto simp: seen_def)
  then show ?thesis using assms(1) unfolding assms(3) by (auto simp: passes_def)
qed

lemma passes_peer:
  assumes "pay (vw_payments v) = Ok reports"
  shows "passes (pay_by_peer pay) v (Ok ())
    (v\<lparr>vw_payments := Suc (vw_payments v), vw_reports := vw_reports v @ reports\<rparr>)"
  using assms by (simp add: passes_def seen_def pay_by_peer_def)

lemma passes_retry_times:
  assumes "passes m v (Ok x) v'"
  shows "passes (retry_times (Suc n) m s) v (Ok x) v'"
  using assms by (simp add: passes_bind [OF assms] passes_ok)

lemma passes_retry:
  assumes "passes m v (Ok x) v'"
  shows "passes (retry m s) v (Ok x) v'"
  using passes_retry_times [OF assms, of 29 s] by (simp add: retry_def)

lemma passes_retry_times_Err:
  assumes "passes m v (Err e) v1" and "passes (retry_times n m s) v1 r v'"
  shows "passes (retry_times (Suc n) m s) v r v'"
  unfolding retry_times.simps(2) by (rule passes_bind [OF assms(1)]) (simp add: assms(2))

lemma passes_retry_twice:
  assumes "passes m v (Err e) v1" and "passes m v1 (Ok x) v'"
  shows "passes (retry m s) v (Ok x) v'"
  using passes_retry_times_Err [OF assms(1) passes_retry_times [OF assms(2), of 28 s]]
  by (simp add: retry_def)

lemma passes_while_error_Ok:
  assumes "passes m v (Ok x) v'"
  shows "passes (while_error (Suc n) m) v (Ok ()) v'"
  unfolding while_error.simps(2) by (rule passes_bind [OF assms(1)]) (simp add: passes_ok)

lemma passes_while_error_Err:
  assumes "passes m v (Err e) v1" and "passes (while_error n m) v1 r v'"
  shows "passes (while_error (Suc n) m) v r v'"
  unfolding while_error.simps(2) by (rule passes_bind [OF assms(1)]) (simp add: assms(2))

lemma passes_while_error:
  assumes "passes m v (Err e) v1" and "passes m v1 (Ok x) v'"
  shows "passes (while_error (rg_patience tr_rig) m) v (Ok ()) v'"
  using passes_while_error_Err [OF assms(1) passes_while_error_Ok [OF assms(2), of 58]] by simp

section \<open>Steps of the daemon\<close>

definition deliver ::
  "bus \<Rightarrow> (nat \<times> string \<times> app_event list) list \<Rightarrow> (nat \<times> string \<times> app_event list) list"
where
  "deliver ms = map (\<lambda>(i, u, q). (i, u, q @ events_of u ms))"

lemma deliver_simps [simp]:
  "deliver ms [] = []" "deliver ms ((i, u, q) # s) = (i, u, q @ events_of u ms) # deliver ms s"
  by (simp_all add: deliver_def)

lemma deliver_nothing [simp]: "deliver [] s = s"
  by (simp add: deliver_def)

definition after_gives ::
  "view \<Rightarrow> db \<Rightarrow> nat \<Rightarrow> nat \<Rightarrow> bus \<Rightarrow> node_command list \<Rightarrow> view"
where
  "after_gives v d' n' k' ms cs = v\<lparr>vw_db := d', vw_ticks := n', vw_draws := k',
     vw_requests := Suc (vw_requests v), vw_reports := vw_reports v @ concat (map tr_settles cs),
     vw_streams := deliver ms (vw_streams v)\<rparr>"

lemma seen_after_gives:
  assumes "seen v t"
  shows "seen (after_gives v d' n' k' ms cs) (after_step tr_rig ((tw_world t)\<lparr>db := d', ticks := n',
     draws := k', event_bus := event_bus (tw_world t) @ ms, node_log := node_log (tw_world t) @ cs\<rparr>) t)"
  using assms by (fastforce simp: seen_def after_step_def after_gives_def deliver_def)

lemma passes_on_daemon:
  assumes "gives (f (tr_state (vw_requests v))) (vw_db v) (vw_ticks v) (vw_draws v) r d' n' k' ms cs"
  shows "passes (on_daemon tr_rig f) v r (after_gives v d' n' k' ms cs)"
proof (rule passesI)
  fix t assume t: "seen v t"
  then have "run_state (on_daemon tr_rig f) t = (r, after_step tr_rig ((tw_world t)\<lparr>db := d', ticks := n',
      draws := k', event_bus := event_bus (tw_world t) @ ms, node_log := node_log (tw_world t) @ cs\<rparr>) t)"
    using assms by (simp add: on_daemon_def gives_def seen_def)
  with seen_after_gives [OF t] show "\<exists>t'. run_state (on_daemon tr_rig f) t = (r, t') \<and>
      seen (after_gives v d' n' k' ms cs) t'" by blast
qed

lemma passes_connection:
  assumes "gives (f (Some (serve wire_dec wire_enc (tr_state (vw_requests v)) (cn_user c))))
    (vw_db v) (vw_ticks v) (vw_draws v) r d' n' k' ms cs"
  shows "passes (on_connection tr_rig c f) v r (after_gives v d' n' k' ms cs)"
  unfolding on_connection_def by (rule passes_on_daemon) (simp add: assms)

section \<open>Messages\<close>

definition read_stream :: "nat \<Rightarrow> string \<Rightarrow> app_event list \<Rightarrow> view \<Rightarrow> view" where
  "read_stream i u q v = v\<lparr>vw_streams := map (\<lambda>(j, s). (j, if j = i then (u, q) else s)) (vw_streams v)\<rparr>"

lemma seen_stream:
  "seen v t \<Longrightarrow> map_of (vw_streams v) i = Some s \<Longrightarrow> tw_streams t ! i = s"
  by (auto simp: seen_def dest: map_of_SomeD)

lemma seen_read_stream:
  "seen v t \<Longrightarrow> seen (read_stream i u q v) (t\<lparr>tw_streams := (tw_streams t)[i := (u, q)]\<rparr>)"
  by (fastforce simp: seen_def read_stream_def nth_list_update)

lemma run_next_event_of:
  "run_state (next_event_of R c) t = run_state (await_event R c (Suc (length (tw_reports t)))) t"
  by (simp add: next_event_of_def run_simps del: await_event.simps)

lemma passes_next:
  assumes "map_of (vw_streams v) (cn_stream c) = Some (u, e # q)" and "fields_size (put_event e) \<le> 100000"
  shows "passes (next_event_of tr_rig c) v (Ok e) (read_stream (cn_stream c) u q v)"
proof (rule passesI)
  fix t assume t: "seen v t"
  have "run_state (next_event_of tr_rig c) t =
      (Ok e, t\<lparr>tw_streams := (tw_streams t)[cn_stream c := (u, q)]\<rparr>)"
    using seen_stream [OF t assms(1)] assms(2)
    by (simp add: run_next_event_of take_message_def accept_wire_event)
  with seen_read_stream [OF t] show "\<exists>t'. run_state (next_event_of tr_rig c) t = (Ok e, t') \<and>
      seen (read_stream (cn_stream c) u q v) t'" by blast
qed

text \<open>No message: the daemon goes on with the first report, and the wait with what is left of its fuel.\<close>

lemma passes_report:
  assumes "vw_reports v = e # es"
    and "gives (process_ldk_event (tr_state (vw_requests v)) e) (vw_db v) (vw_ticks v) (vw_draws v)
      (Ok ()) d' n' k' ms []"
  shows "passes (process_report tr_rig) v (Ok ()) ((after_gives v d' n' k' ms [])\<lparr>vw_reports := es\<rparr>)"
proof -
  have "passes (on_daemon tr_rig (\<lambda>st. process_ldk_event st e)) (v\<lparr>vw_reports := es\<rparr>) (Ok ())
      (after_gives (v\<lparr>vw_reports := es\<rparr>) d' n' k' ms [])"
    by (rule passes_on_daemon) (simp add: assms(2))
  then have "passes (do { r \<leftarrow> on_daemon tr_rig (\<lambda>st. process_ldk_event st e);
      ret (case r of Panic p \<Rightarrow> Panic p | _ \<Rightarrow> Ok ()) }) (v\<lparr>vw_reports := es\<rparr>) (Ok ())
      (after_gives (v\<lparr>vw_reports := es\<rparr>) d' n' k' ms [])"
    by (rule passes_bind) (simp add: passes_ret)
  then show ?thesis
    unfolding process_report_def
    by (intro passes_bind [where v = v and ?v1.0 = "v\<lparr>vw_reports := es\<rparr>" and r = "e # es"])
      (use assms(1) in \<open>simp_all add: passes_def seen_def after_gives_def\<close>)
qed

lemma run_await_report:
  assumes "tw_streams t ! cn_stream c = (u, [])"
  shows "run_state (await_event R c (Suc n)) t =
    run_state (and_run (process_report R) (\<lambda>_. await_event R c n)) t"
  using assms by (simp add: take_message_def run_simps)

lemma passes_next_report:
  assumes "map_of (vw_streams v) (cn_stream c) = Some (u, [])" and "vw_reports v = e # es"
    and "gives (process_ldk_event (tr_state (vw_requests v)) e) (vw_db v) (vw_ticks v) (vw_draws v)
      (Ok ()) d' n' k' ms []"
    and "passes (next_event_of tr_rig c) ((after_gives v d' n' k' ms [])\<lparr>vw_reports := es\<rparr>) r v'"
  shows "passes (next_event_of tr_rig c) v r v'"
proof (rule passesI)
  fix t assume t: "seen v t"
  obtain t1 where t1: "run_state (process_report tr_rig) t = (Ok (), t1)"
      "seen ((after_gives v d' n' k' ms [])\<lparr>vw_reports := es\<rparr>) t1"
    using passesE [OF passes_report [OF assms(2,3)] t] .
  obtain t' where t': "run_state (next_event_of tr_rig c) t1 = (r, t')" "seen v' t'"
    using passesE [OF assms(4) t1(2)] .
  have "tw_streams t ! cn_stream c = (u, [])" "length (tw_reports t) = Suc (length es)"
      "tw_reports t1 = es"
    using t t1(2) assms(2) seen_stream [OF t assms(1)] by (simp_all add: seen_def)
  then have "run_state (next_event_of tr_rig c) t = (r, t')"
    using t1(1) t'(1) run_await_report [of t c u tr_rig "Suc (length es)"]
    by (simp add: run_next_event_of and_run_def run_simps del: await_event.simps)
  with t'(2) show "\<exists>t'. run_state (next_event_of tr_rig c) t = (r, t') \<and> seen v' t'" by simp
qed

lemma passes_assert_event:
  assumes "passes (next_event_of tr_rig c) v (Ok e) v'" and "e = expected"
  shows "passes (assert_event tr_rig c expected) v (Ok ()) v'"
  unfolding assert_event_def by (rule passes_and_run [OF assms(1)]) (simp add: assms(2) passes_assert)

lemma passes_next_payment:
  assumes "passes (next_event_of tr_rig c) v (Ok (Payment p)) v'" and "pay_amount_msat p = amount"
    and "pay_fee_msat p = fee" and "pay_status p = status"
  shows "passes (next_payment tr_rig c amount fee status) v (Ok p) v'"
  unfolding next_payment_def
  by (rule passes_and_run [OF assms(1)])
    (simp add: assms(2-) assert_payment_def passes_def and_run_def assert_that_def)

section \<open>The command line tool\<close>

definition next_request :: "view \<Rightarrow> view" where
  "next_request v = v\<lparr>vw_requests := Suc (vw_requests v)\<rparr>"

lemma after_gives_nothing:
  "after_gives v (vw_db v) (vw_ticks v) (vw_draws v) [] [] = next_request v"
  by (simp add: after_gives_def next_request_def deliver_def)

lemma passes_cli:
  assumes "router (tr_state (vw_requests v)) (fst (cli_request command)) (snd (cli_request command)) =
      reply f m"
    and "gives m (vw_db v) (vw_ticks v) (vw_draws v) (Ok x) d' n' k' [] cs" and "parse (f x) = Some y"
  shows "passes (run_puncture_cli tr_rig command parse) v (Ok y) (after_gives v d' n' k' [] cs)"
  unfolding run_puncture_cli_def
  by (rule passes_on_daemon) (use assms in \<open>auto simp: gives_def reply_def ok_or_def\<close>)

text \<open>A command that leaves the daemon as it is.\<close>

lemma passes_cli_same:
  assumes "router (tr_state (vw_requests v)) (fst (cli_request command)) (snd (cli_request command)) =
      reply f m"
    and "gives m (vw_db v) (vw_ticks v) (vw_draws v) (Ok x) (vw_db v) (vw_ticks v) (vw_draws v) [] cs"
    and "\<forall>c \<in> set cs. tr_settles c = []" and "parse (f x) = Some y"
  shows "passes (run_puncture_cli tr_rig command parse) v (Ok y) (next_request v)"
proof -
  have "after_gives v (vw_db v) (vw_ticks v) (vw_draws v) [] cs = next_request v"
    using assms(3) by (simp add: after_gives_def next_request_def deliver_def)
  then show ?thesis using passes_cli [where parse = parse, OF assms(1,2,4)] by simp
qed

lemma passes_cli_ret:
  assumes "router (tr_state (vw_requests v)) (fst (cli_request command)) (snd (cli_request command)) =
      reply f (ret (Ok x))" and "parse (f x) = Some y"
  shows "passes (run_puncture_cli tr_rig command parse) v (Ok y) (next_request v)"
  by (rule passes_cli_same [where f = f and m = "ret (Ok x)" and x = x and cs = "[]"])
    (use assms in \<open>simp_all add: gives_def\<close>)

lemma passes_cli_balances:
  "passes (cli_balances tr_rig) v (Ok (ldk_balances (tr_state (vw_requests v)))) (next_request v)"
  unfolding cli_balances_def
  by (rule passes_cli_ret [where f = Balances_response]) (simp_all add: router_def route_defs ok_def)

lemma passes_cli_list_channels:
  "passes (cli_list_channels tr_rig) v (Ok (ldk_channel_list (tr_state (vw_requests v)))) (next_request v)"
  unfolding cli_list_channels_def
  by (rule passes_cli_ret [where f = Channels_response]) (simp_all add: router_def route_defs ok_def)

lemma passes_cli_onchain_receive:
  "passes (cli_onchain_receive tr_rig) v (Ok ''bcrt1'') (next_request v)"
  unfolding cli_onchain_receive_def
  by (rule passes_and_run [OF passes_cli_ret [where f = Address_response and x = "''bcrt1''" and y = "''bcrt1''"]])
    (simp_all add: router_def route_defs ldk_onchain_receive_def tr_node_def ex_node_def passes_ok)

lemma passes_cli_list_users:
  "passes (cli_list_users tr_rig) v (Ok (list_users (vw_db v))) (next_request v)"
  unfolding cli_list_users_def
  by (rule passes_cli_same [where f = Users_response and x = "list_users (vw_db v)" and cs = "[]"
        and m = "do { us \<leftarrow> user_list (tr_state (vw_requests v)); ok us }"])
    (simp_all add: router_def route_defs gives_def user_list_def)

lemma decimal_5: "decimal 5 = ''5''"
  by code_simp

lemma passes_cli_open_channel:
  "passes (cli_open_channel tr_rig n p) v (Ok ''5'') (next_request v)"
  unfolding cli_open_channel_def
  by (rule passes_cli_same [where f = Open_channel_response and x = "''5''"
        and m = "ldk_channel_open (tr_state (vw_requests v)) \<lparr>oc_node_id = n,
          oc_socket_address = ''127.0.0.1:'' @ p, oc_channel_amount_sats = 4000000,
          oc_push_to_counterparty_msat = Some 2000000000, oc_public = False\<rparr>"
        and cs = "[Open_channel False n (''127.0.0.1:'' @ p) 4000000 (Some 2000000000)]"])
    (simp_all add: router_def route_defs gives_def ldk_channel_open_def tr_node_def ex_node_def
      tr_libs_def ex_libs_def libs.defs codec.defs run_node_call tr_settles_def decimal_5)

text \<open>The codes: an invite for ten users and a recovery, both for a day.\<close>

definition tr_invite_row :: "nat \<Rightarrow> nat \<Rightarrow> invite_record" where
  "tr_invite_row n k = \<lparr>ivt_id = ex_as_hex (replicate 16 (of_nat k)), ivt_user_limit = 10,
     ivt_expires_at = ex_clock n + 86400000, ivt_created_at = ex_clock (Suc n)\<rparr>"

definition tr_recovery_row :: "nat \<Rightarrow> nat \<Rightarrow> string \<Rightarrow> recovery_record" where
  "tr_recovery_row n k u = \<lparr>rec_id = ex_as_hex (replicate 16 (of_nat k)), rec_user_pk = u,
     rec_expires_at = ex_clock n + 86400000, rec_created_at = ex_clock (Suc n)\<rparr>"

lemma passes_cli_invite:
  assumes "ivt_id (tr_invite_row (vw_ticks v) (vw_draws v)) \<notin> ivt_id ` set (invites (vw_db v))"
  shows "passes (cli_invite tr_rig) v
    (Ok (code_text ex_codec (puncture_invite (replicate 16 (of_nat (vw_draws v))) [1, 2])))
    (after_gives v ((vw_db v)\<lparr>invites := invites (vw_db v) @ [tr_invite_row (vw_ticks v) (vw_draws v)]\<rparr>)
      (Suc (Suc (vw_ticks v))) (Suc (vw_draws v)) [] [])"
  unfolding cli_invite_def
  by (rule passes_cli [where f = Invite_response and m = "user_invite (tr_state (vw_requests v)) \<lparr>inv_expiry_days = 1, inv_user_limit = 10\<rparr>"])
    (use assms in \<open>simp_all add: router_def route_defs gives_def user_invite_issues run_issue_invite
      ex_codec_laws Let_def invite_row_def tr_invite_row_def drawn_def\<close>)

lemma passes_cli_recover:
  assumes "user_exists u (vw_db v)"
    and "rec_id (tr_recovery_row (vw_ticks v) (vw_draws v) u) \<notin> rec_id ` set (recoveries (vw_db v))"
  shows "passes (cli_recover tr_rig u) v
    (Ok (code_text ex_codec (puncture_recovery (replicate 16 (of_nat (vw_draws v))))))
    (after_gives v ((vw_db v)\<lparr>recoveries := recoveries (vw_db v) @
        [tr_recovery_row (vw_ticks v) (vw_draws v) u]\<rparr>)
      (Suc (Suc (vw_ticks v))) (Suc (vw_draws v)) [] [])"
  unfolding cli_recover_def
  by (rule passes_cli [where f = Recovery_response and m = "user_recover (tr_state (vw_requests v)) \<lparr>crv_user_pk = u, crv_expiry_days = 1\<rparr>"])
    (use assms in \<open>simp_all add: router_def route_defs gives_def user_recover_issues run_issue_recovery
      ex_codec_laws Let_def recovery_row_def tr_recovery_row_def drawn_def run_if\<close>)

section \<open>Registration\<close>

definition tr_user :: "nat \<Rightarrow> string \<Rightarrow> string \<Rightarrow> string option \<Rightarrow> user" where
  "tr_user n u i name = \<lparr>usr_user_pk = u, usr_invite_id = i, usr_recovery_name = name,
     usr_created_at = ex_clock n\<rparr>"

definition tr_daemon :: daemon_record where
  "tr_daemon = \<lparr>dmn_node_id = ex_as_hex [1, 2], dmn_network = ''regtest'',
     dmn_name = ''testing daemon'', dmn_created_at = 5\<rparr>"

lemma passes_set_daemons:
  "passes (State (\<lambda>t. ((), t\<lparr>tw_daemons := (tw_daemons t)(u := ds)\<rparr>))) v ()
     (v\<lparr>vw_daemons := (vw_daemons v)(u := ds)\<rparr>)"
  by (simp add: passes_def seen_def)

lemma passes_register:
  assumes "i = ex_as_hex (ic_id invite)" and "get_invite i (vw_db v) = Some r"
    and "ic_node_id invite = [1, 2]" and "length i \<le> 100"
    and "sint (ex_clock (Suc (vw_ticks v))) \<le> sint (ivt_expires_at r)"
    and "sint (ex_clock (vw_ticks v)) \<le> sint (ivt_expires_at r)"
    and "sint (count_invite_users i (vw_db v)) < sint (ivt_user_limit r)"
    and "d' = or_ignore (vw_db v) (insert_user (tr_user (Suc (Suc (vw_ticks v))) u i None) (vw_db v))"
    and "ds = (case insert_daemon tr_daemon (vw_daemons v u) of Some ds \<Rightarrow> ds | None \<Rightarrow> vw_daemons v u)"
  shows "passes (register_client tr_rig u invite) v
    (Ok \<lparr>cn_stream = vw_connections v, cn_user = u\<rparr>)
    (open_stream u (events_snapshot u d')
      ((after_gives v d' (Suc (Suc (Suc (vw_ticks v)))) (vw_draws v) [] [])
        \<lparr>vw_daemons := (vw_daemons v)(u := ds)\<rparr>))"
proof -
  let ?q = "vw_requests v" and ?n = "vw_ticks v"
  have "gives (dispatch wire_dec (tr_state ?q) u ENDPOINT_REGISTER
      (put_params (Register_params \<lparr>rgr_invite_id = i\<rparr>))) (vw_db v) ?n (vw_draws v)
      (Ok (Register_response \<lparr>rr_network = ''regtest'', rr_name = ''testing daemon''\<rparr>))
      d' (Suc (Suc (Suc ?n))) (vw_draws v) [] []"
    using gives_dispatch [where func = register and to_value = Register_response and auth = False,
        OF gives_register [OF assms(2,5,6,7), of ?q u "vw_draws v"]] assms(8)
    by (simp add: dispatch_def endpoint_defs tr_user_def)
  moreover have "fits ENDPOINT_REGISTER (Register_params \<lparr>rgr_invite_id = i\<rparr>)"
    using assms(4) by (simp add: fits_def endpoint_defs)
  ultimately have "gives (request_json wire_json (serve wire_dec wire_enc (tr_state ?q) u)
      ENDPOINT_REGISTER (Register_params \<lparr>rgr_invite_id = i\<rparr>) (register_reply wire_json))
      (vw_db v) ?n (vw_draws v)
      (Ok (Ok \<lparr>rr_network = ''regtest'', rr_name = ''testing daemon''\<rparr>))
      d' (Suc (Suc (Suc ?n))) (vw_draws v) [] []"
    unfolding gives_def by (auto simp: request_json_wire)
  then have g: "gives (State (\<lambda>w.
       case client_register wire_json (codec.truncate (app_libs (tr_state ?q)))
              (\<lambda>n. if n = app_node_id (tr_state ?q) then Ok (serve wire_dec wire_enc (tr_state ?q) u)
                    else Err ''unknown node'')
              ex_as_hex 5 invite (w, vw_daemons v u) of
         (r, w', ds') \<Rightarrow> ((r, ds'), w'))) (vw_db v) ?n (vw_draws v) (Ok [1, 2], ds)
      d' (Suc (Suc (Suc ?n))) (vw_draws v) [] []"
    using assms(3,1,9)
    by (simp add: gives_def client_register_def save_daemon_def tr_daemon_def invite_code_id_def)
  show ?thesis
    unfolding register_client_def tr_rig_simps
    by (rule passes_bind [where r = "vw_daemons v u" and ?v1.0 = v],
        simp add: passes_def seen_def,
        rule passes_bind [where r = "(Ok [1, 2], ds)"], rule passes_on_daemon, rule g, simp only: prod.case,
        rule passes_bind, rule passes_set_daemons, simp only: attempt_simps)
      (use passes_connect [of u "(after_gives v d' (Suc (Suc (Suc ?n))) (vw_draws v) [] [])
        \<lparr>vw_daemons := (vw_daemons v)(u := ds)\<rparr>"] in \<open>simp add: after_gives_def\<close>)
qed

section \<open>The calls of the clients\<close>

lemma passes_receive:
  assumes "user_exists (cn_user c) (vw_db v)" and "length (invoices (vw_db v)) < 10"
    and "check_amount_bounds start_daemon_args (u32_to_u64 x) = Ok ()"
    and "h = [ucast (u32_to_u64 x div 100000)]" and "ex_as_hex h \<notin> ivc_id ` set (invoices (vw_db v))"
  shows "passes (unwrap (receive_of tr_rig c x [])) v (Ok (tr_invoice h (u32_to_u64 x)))
    (after_gives v ((vw_db v)\<lparr>invoices := invoices (vw_db v) @
        [tr_invoice_row (Suc (vw_ticks v)) (cn_user c) h (u32_to_i64 x)]\<rparr>)
      (Suc (Suc (Suc (vw_ticks v)))) (vw_draws v) [] [])"
proof -
  have "length (pending_invoices now u (vw_db v)) < 10" for now u
    using assms(2) by (auto simp: pending_invoices_def intro: order.strict_trans1 [OF length_filter_le]
        order.strict_trans1 [OF order.trans [OF length_filter_le length_filter_le]]
        order.strict_trans1 [OF order.trans [OF length_filter_le order.trans [OF length_filter_le length_filter_le]]]
        simp del: filter_filter)
  then show ?thesis
    unfolding receive_of_def tr_rig_simps
    by (intro passes_unwrap passes_connection gives_conn_bolt11_receive
        gives_bolt11_receive [where rq = "\<lparr>b11r_amount_msat = x, b11r_description = []\<rparr>", simplified])
      (use assms in \<open>simp_all add: fits_def endpoint_defs put_invoice_def tr_invoice_def\<close>)
qed

lemma passes_send_internal:
  assumes "get_invoice ex_as_hex h (vw_db v) = Some r" and "may_send start_daemon_args (cn_user c) x (vw_db v)"
    and "user_exists (cn_user c) (vw_db v)"
    and "ivc_user_pk r \<noteq> cn_user c" and "amount_reaches (ivc_amount_msat r) x"
    and "fresh_transfer (vw_draws v) (vw_db v)" and "length h < 100"
    and "d' = tr_transfer (vw_ticks v) (vw_draws v) (cn_user c) (ivc_user_pk r) x 1000
      (ivc_description r) (ivc_pr r) (vw_db v)"
    and "ms = tr_transfer_events (vw_ticks v) (vw_draws v) (cn_user c) (ivc_user_pk r) x 1000
      (ivc_description r) (ivc_pr r) d'"
  shows "passes (unwrap (send_of tr_rig c (tr_invoice h y) x None)) v (Ok ())
    (after_gives v d' (Suc (Suc (vw_ticks v))) (Suc (vw_draws v)) ms [])"
  unfolding send_of_def tr_rig_simps assms(8,9)
  by (intro passes_unwrap passes_connection gives_conn_bolt11_send gives_bolt11_send_internal)
    (use assms in \<open>simp_all add: fits_def endpoint_defs put_invoice_def tr_invoice_def\<close>)

lemma passes_send_external:
  assumes "get_invoice ex_as_hex h (vw_db v) = None" and "may_send start_daemon_args (cn_user c) x (vw_db v)"
    and "user_exists (cn_user c) (vw_db v)" and "16 \<le> vw_requests v"
    and "ex_as_hex h \<notin> snd_id ` set (sends (vw_db v))" and "length h < 100"
    and "s = tr_send (vw_ticks v) (cn_user c) h x (lightning_fee start_daemon_args x) ''pending'' [] ''ln''"
    and "d' = (vw_db v)\<lparr>sends := sends (vw_db v) @ [s]\<rparr>"
  shows "passes (send_of tr_rig c (tr_invoice h y) x None) v (Ok ())
    (after_gives v d' (Suc (vw_ticks v)) (vw_draws v)
      (payment_events (cn_user c) (send_into_payment s True) d') [Pay_bolt11 (tr_invoice h y) x])"
  unfolding send_of_def tr_rig_simps assms(8)
  by (intro passes_connection gives_conn_bolt11_send gives_bolt11_send_external)
    (use assms in \<open>simp_all add: fits_def endpoint_defs put_invoice_def tr_invoice_def\<close>)

lemma passes_send_no_route:
  assumes "get_invoice ex_as_hex h (vw_db v) = None" and "may_send start_daemon_args (cn_user c) x (vw_db v)"
    and "user_exists (cn_user c) (vw_db v)" and "vw_requests v < 16" and "length h < 100"
  shows "passes (send_of tr_rig c (tr_invoice h y) x None) v (Err ''RouteNotFound'') (next_request v)"
proof -
  have "passes (send_of tr_rig c (tr_invoice h y) x None) v (Err ''RouteNotFound'')
      (after_gives v (vw_db v) (vw_ticks v) (vw_draws v) [] [])"
    unfolding send_of_def tr_rig_simps
    by (intro passes_connection gives_conn_bolt11_send gives_bolt11_send_no_route)
      (use assms in \<open>simp_all add: fits_def endpoint_defs put_invoice_def tr_invoice_def\<close>)
  then show ?thesis by (simp add: after_gives_nothing)
qed

lemma passes_offer:
  assumes "user_exists (cn_user c) (vw_db v)" and "get_offer_by_user_pk (cn_user c) (vw_db v) = None"
    and "off = (if vw_requests v < 25 then tr_offer 201 ''lno1'' None else tr_offer 202 ''lno2'' None)"
    and "ex_as_hex (b12_id off) \<notin> ofr_id ` set (offers (vw_db v))"
  shows "passes (offer_of tr_rig c) v (Ok off)
    (after_gives v ((vw_db v)\<lparr>offers := offers (vw_db v) @
        [offer_row ex_as_hex (ex_clock (vw_ticks v)) (cn_user c) off]\<rparr>)
      (Suc (vw_ticks v)) (vw_draws v) [] [])"
proof -
  have parsed: "offer_from_str tr_libs (b12_text off) = Some off" "length (b12_text off) \<le> 100000"
    using assms(3) by (simp_all add: tr_libs_def tr_offer_def)
  show ?thesis
    unfolding offer_of_def tr_rig_simps
    by (rule passes_and_run, rule passes_unwrap, rule passes_connection,
        rule gives_conn_bolt12_receive [OF gives_bolt12_receive [OF assms(2,3,4)]])
      (use assms(1) parsed in \<open>simp_all add: fits_def endpoint_defs passes_unwrapped ok_or_def\<close>)
qed

lemma passes_pay_offer_internal:
  assumes "get_offer ex_as_hex (b12_id off) (vw_db v) = Some r" and "may_send start_daemon_args (cn_user c) x (vw_db v)"
    and "offer_from_str tr_libs (b12_text off) = Some off" and "length (b12_text off) < 100"
    and "user_exists (cn_user c) (vw_db v)" and "ofr_user_pk r \<noteq> cn_user c"
    and "amount_reaches (ofr_amount_msat r) x" and "fresh_transfer (vw_draws v) (vw_db v)"
    and "d' = tr_transfer (vw_ticks v) (vw_draws v) (cn_user c) (ofr_user_pk r) x 1000
      (ofr_description r) (ofr_pr r) (vw_db v)"
    and "ms = tr_transfer_events (vw_ticks v) (vw_draws v) (cn_user c) (ofr_user_pk r) x 1000
      (ofr_description r) (ofr_pr r) d'"
  shows "passes (unwrap (pay_offer_of tr_rig c off x)) v (Ok ())
    (after_gives v d' (Suc (Suc (vw_ticks v))) (Suc (vw_draws v)) ms [])"
  unfolding pay_offer_of_def tr_rig_simps assms(9,10)
  by (intro passes_unwrap passes_connection gives_conn_bolt12_send gives_bolt12_send_internal)
    (use assms in \<open>simp_all add: fits_def endpoint_defs\<close>)

lemma passes_pay_offer_external:
  assumes "get_offer ex_as_hex (b12_id off) (vw_db v) = None" and "may_send start_daemon_args (cn_user c) x (vw_db v)"
    and "offer_from_str tr_libs (b12_text off) = Some off" and "length (b12_text off) < 100"
    and "user_exists (cn_user c) (vw_db v)" and "b12_description off = Some []"
    and "ex_as_hex (b12_id off) \<notin> snd_id ` set (sends (vw_db v))"
    and "s = tr_send (vw_ticks v) (cn_user c) (b12_id off) x (lightning_fee start_daemon_args x)
      ''pending'' [] (b12_text off)"
    and "d' = (vw_db v)\<lparr>sends := sends (vw_db v) @ [s]\<rparr>"
  shows "passes (unwrap (pay_offer_of tr_rig c off x)) v (Ok ())
    (after_gives v d' (Suc (vw_ticks v)) (vw_draws v)
      (payment_events (cn_user c) (send_into_payment s True) d') [Pay_bolt12 off x])"
  unfolding pay_offer_of_def tr_rig_simps assms(9)
  by (intro passes_unwrap passes_connection gives_conn_bolt12_send gives_bolt12_send_external)
    (use assms in \<open>simp_all add: fits_def endpoint_defs\<close>)

lemma passes_onchain:
  assumes "user_exists (cn_user c) (vw_db v)" and "\<not> x < 1000"
    and "\<not> user_balance (cn_user c) (vw_db v) < x * 1000"
    and "\<not> user_balance (cn_user c) (vw_db v) < x * 1000 + 5000000"
    and "ex_as_hex [77] \<notin> snd_id ` set (sends (vw_db v))" and "length adr < 100"
    and "s = tr_send (vw_ticks v) (cn_user c) [77] (x * 1000) 5000000 ''successful'' [] adr"
    and "d' = (vw_db v)\<lparr>sends := sends (vw_db v) @ [s]\<rparr>"
  shows "passes (unwrap (on_connection tr_rig c (\<lambda>e. conn_onchain_send wire_json e adr x))) v (Ok [77])
    (after_gives v d' (Suc (vw_ticks v)) (vw_draws v)
      (payment_events (cn_user c) (send_into_payment s True) d') [Pay_onchain adr x None])"
  unfolding assms(8)
  by (intro passes_unwrap passes_connection gives_conn_onchain_send gives_onchain_send)
    (use assms in \<open>simp_all add: fits_def endpoint_defs\<close>)

lemma passes_set_recovery_name:
  assumes "user_exists (cn_user c) (vw_db v)" and "check_recovery_name name = Ok ()"
    and "length name < 100"
  shows "passes (unwrap (on_connection tr_rig c (\<lambda>e. conn_set_recovery_name wire_json e (Some name)))) v
    (Ok ()) (after_gives v (set_recovery_name_rows (cn_user c) (Some name) (vw_db v))
      (vw_ticks v) (vw_draws v) [] [])"
  by (intro passes_unwrap passes_connection gives_conn_set_recovery_name gives_set_recovery_name)
    (use assms in \<open>simp_all add: fits_def endpoint_defs\<close>)

lemma passes_recover:
  assumes "i = recovery_code_id ex_codec code" and "get_recovery i (vw_db v) = Some r"
    and "user_exists (cn_user c) (vw_db v)" and "length i < 100"
    and "sint (ex_clock (vw_ticks v)) \<le> sint (rec_expires_at r)" and "cn_user c \<noteq> rec_user_pk r"
    and "x = user_balance (rec_user_pk r) (vw_db v)" and "x \<noteq> 0"
    and "fresh_transfer (vw_draws v) (vw_db v)"
    and "d' = tr_transfer (Suc (vw_ticks v)) (vw_draws v) (rec_user_pk r) (cn_user c) x 0 ''Recovery''
      (rec_id r) (vw_db v)"
    and "ms = tr_transfer_events (Suc (vw_ticks v)) (vw_draws v) (rec_user_pk r) (cn_user c) x 0
      ''Recovery'' (rec_id r) d'"
  shows "passes (unwrap (on_connection tr_rig c (\<lambda>e. conn_recover wire_json ex_codec e code))) v (Ok x)
    (after_gives v d' (Suc (Suc (Suc (vw_ticks v)))) (Suc (vw_draws v)) ms [])"
  unfolding assms(10,11)
  by (intro passes_unwrap passes_connection gives_conn_recover gives_recover)
    (use assms in \<open>simp_all add: fits_def endpoint_defs\<close>)

section \<open>The reports\<close>

lemma passes_next_received:
  assumes "vw_reports v = PaymentReceived (Some i) x # es"
    and "map_of (vw_streams v) (cn_stream c) = Some (w, [])"
    and "payment_owner (tr_state (vw_requests v)) i (vw_db v) = Some (u, description, pr)"
    and "ex_as_hex i \<notin> rcv_id ` set (receives (vw_db v))"
    and "r = tr_receive (vw_ticks v) u i x description pr"
    and "d' = (vw_db v)\<lparr>receives := receives (vw_db v) @ [r]\<rparr>"
    and "v1 = (after_gives v d' (Suc (vw_ticks v)) (vw_draws v)
      (payment_events u (receive_into_payment r True) d') [])\<lparr>vw_reports := es\<rparr>"
    and "passes (next_event_of tr_rig c) v1 e v'"
  shows "passes (next_event_of tr_rig c) v e v'"
  by (rule passes_next_report [OF assms(2,1) gives_received [OF assms(3,5,4)]])
    (use assms(6-8) in simp)

lemma passes_next_successful:
  assumes "vw_reports v = PaymentSuccessful (Some i) (Some fee) # es"
    and "map_of (vw_streams v) (cn_stream c) = Some (w, [])"
    and "List.find (\<lambda>r. snd_id r = ex_as_hex i) (sends (vw_db v)) \<noteq> None"
    and "d' = settle (ex_as_hex i) ''successful'' fee (vw_db v)"
    and "v1 = (after_gives v d' (Suc (vw_ticks v)) (vw_draws v)
      (action_events (Settle (ex_as_hex i) ''successful'' fee) d') [])\<lparr>vw_reports := es\<rparr>"
    and "passes (next_event_of tr_rig c) v1 e v'"
  shows "passes (next_event_of tr_rig c) v e v'"
  by (rule passes_next_report [OF assms(2,1) gives_successful [OF assms(3)]])
    (use assms(4-6) in \<open>simp del: action_events.simps\<close>)

lemma passes_next_failed:
  assumes "vw_reports v = PaymentFailed (Some i) # es"
    and "map_of (vw_streams v) (cn_stream c) = Some (w, [])"
    and "List.find (\<lambda>r. snd_id r = ex_as_hex i) (sends (vw_db v)) \<noteq> None"
    and "d' = settle (ex_as_hex i) ''failed'' 0 (vw_db v)"
    and "v1 = (after_gives v d' (Suc (vw_ticks v)) (vw_draws v)
      (action_events (Settle (ex_as_hex i) ''failed'' 0) d') [])\<lparr>vw_reports := es\<rparr>"
    and "passes (next_event_of tr_rig c) v1 e v'"
  shows "passes (next_event_of tr_rig c) v e v'"
  by (rule passes_next_report [OF assms(2,1) gives_failed [OF assms(3)]])
    (use assms(4-6) in \<open>simp del: action_events.simps\<close>)

end
