(* ===== verification/Testing_Run.thy ===== *)
theory Testing_Run
  imports Testing_View
begin

text \<open>
  The integration test passes on the rig of \<open>Testing_Rig\<close>, section by section.
\<close>

section \<open>Evaluation\<close>

lemma row_simps [simp]:
  "ivc_id (tr_invoice_row n u h x) = ex_as_hex h" "ivc_user_pk (tr_invoice_row n u h x) = u"
  "ivc_amount_msat (tr_invoice_row n u h x) = Some x" "ivc_description (tr_invoice_row n u h x) = []"
  "ivc_pr (tr_invoice_row n u h x) = ''ln''"
  "rcv_id (tr_receive n u i x ds pr) = ex_as_hex i" "rcv_user_pk (tr_receive n u i x ds pr) = u"
  "rcv_amount_msat (tr_receive n u i x ds pr) = x" "rcv_description (tr_receive n u i x ds pr) = ds"
  "rcv_created_at (tr_receive n u i x ds pr) = ex_clock n"
  "snd_id (tr_send n u i x f st ds pr) = ex_as_hex i" "snd_user_pk (tr_send n u i x f st ds pr) = u"
  "snd_amount_msat (tr_send n u i x f st ds pr) = x" "snd_fee_msat (tr_send n u i x f st ds pr) = f"
  "snd_status (tr_send n u i x f st ds pr) = st" "snd_description (tr_send n u i x f st ds pr) = ds"
  "snd_created_at (tr_send n u i x f st ds pr) = ex_clock n" "snd_ln_address (tr_send n u i x f st ds pr) = None"
  "tr_send n u i x f st ds pr\<lparr>snd_status := st', snd_fee_msat := f'\<rparr> = tr_send n u i x f' st' ds pr"
  "usr_user_pk (tr_user n u j name) = u" "usr_invite_id (tr_user n u j name) = j"
  "usr_recovery_name (tr_user n u j name) = name"
  "tr_user n u j name\<lparr>usr_recovery_name := name'\<rparr> = tr_user n u j name'"
  "ivt_id (tr_invite_row n k) = ex_as_hex (replicate 16 (of_nat k))" "ivt_user_limit (tr_invite_row n k) = 10"
  "ivt_expires_at (tr_invite_row n k) = ex_clock n + 86400000"
  "rec_id (tr_recovery_row n k u) = ex_as_hex (replicate 16 (of_nat k))"
  "rec_user_pk (tr_recovery_row n k u) = u" "rec_expires_at (tr_recovery_row n k u) = ex_clock n + 86400000"
  by (simp_all add: tr_row_defs tr_user_def tr_invite_row_def tr_recovery_row_def)

lemma single_eq_replicate [simp]:
  "([x] = replicate 32 y) = False" "(replicate 32 y = [x]) = False"
proof -
  have "length [x] \<noteq> length (replicate 32 y)" by simp
  then show "([x] = replicate 32 y) = False" "(replicate 32 y = [x]) = False" by metis+
qed

lemma sint_ex_clock [simp]: "n < 1000000 \<Longrightarrow> sint (ex_clock n) = 1000000 + int n"
  using sint_of_nat_64 [of "1000000 + n"] by (simp add: ex_clock_def)

lemma sint_ex_clock_day [simp]: "n < 1000000 \<Longrightarrow> sint (ex_clock n + 86400000) = 87400000 + int n"
  using sint_of_nat_64 [of "87400000 + n"] by (simp add: ex_clock_def algebra_simps)

lemmas step_simps = after_gives_def next_request_def open_stream_def read_stream_def

lemmas query_simps = get_invite_def user_exists_def count_invite_users_def user_balance_def
  receive_sum_def send_sum_def i64_saturating_sub_def insert_user_def insert_daemon_def append_row_def
  events_snapshot_def user_payments_def newest_first_def Let_def get_offer_by_user_pk_def first_row_def
  get_recovery_def recovery_code_id_def set_recovery_name_rows_def list_users_def

lemma settle_tr_send [simp]:
  "settle_row k status fee (tr_send n u i x f st ds pr) =
     (if ex_as_hex i = k then tr_send n u i x fee status ds pr else tr_send n u i x f st ds pr)"
  by (simp add: settle_row_def)

lemma payment_into [simp]:
  "pay_amount_msat (send_into_payment s l) = snd_amount_msat s"
  "pay_fee_msat (send_into_payment s l) = snd_fee_msat s"
  "pay_status (send_into_payment s l) = snd_status s"
  "pay_created_at (send_into_payment s l) = snd_created_at s"
  "pay_id (send_into_payment s l) = snd_id s"
  "pay_amount_msat (receive_into_payment r l) = rcv_amount_msat r"
  "pay_fee_msat (receive_into_payment r l) = 0"
  "pay_status (receive_into_payment r l) = ''successful''"
  "pay_created_at (receive_into_payment r l) = rcv_created_at r"
  by (simp_all add: send_into_payment_def receive_into_payment_def)

lemma size_payment [simp]:
  "fields_size (put_event (Payment (send_into_payment (tr_send n u i x f st ds pr) l))) \<le> 100000 \<longleftrightarrow>
     4 * length i + 2 * length ds + 2 * length st + (if l then 2 else 0) \<le> 99935"
  "fields_size (put_event (Payment (receive_into_payment (tr_receive n u i x ds pr) l))) \<le> 100000 \<longleftrightarrow>
     4 * length i + 2 * length ds + (if l then 2 else 0) \<le> 99909"
  by (simp_all add: send_into_payment_def receive_into_payment_def add.assoc)

declare put_event.simps(3) [simp del]

lemma rig_peer [simp]:
  "pn_bolt11_send tr_rig n (tr_invoice h x) = Ok [PaymentReceived (Some h) x]"
  "pn_bolt12_send tr_rig n off x = Ok [PaymentReceived (Some [218 + of_nat n]) x]"
  "pn_fail_for_hash tr_rig h = Ok [PaymentFailed (Some h)]"
  "pn_bolt11_receive tr_rig x = Ok (tr_invoice [250] x)"
  "pn_bolt11_receive_for_hash tr_rig x h = Ok (tr_invoice h x)"
  "pn_bolt12_receive_variable_amount tr_rig = Ok (tr_offer 203 ''lno3'' None)"
  "pn_bolt12_receive tr_rig x = Ok (tr_offer 204 ''lno4'' (Some (Bitcoin x)))"
  by (simp_all add: tr_rig_def tr_invoice_def)

lemma hash_tr_invoice [simp]: "b11_payment_hash (tr_invoice h x) = h"
  by (simp add: tr_invoice_def)

lemma tr_offer_simps [simp]:
  "b12_id (tr_offer i s a) = [i]" "b12_text (tr_offer i s a) = s" "b12_amount (tr_offer i s a) = a"
  "b12_description (tr_offer i s a) = Some []"
  by (simp_all add: tr_offer_def)

lemma offer_from_tr_libs [simp]:
  "offer_from_str tr_libs ''lno1'' = Some (tr_offer 201 ''lno1'' None)"
  "offer_from_str tr_libs ''lno2'' = Some (tr_offer 202 ''lno2'' None)"
  "offer_from_str tr_libs ''lno3'' = Some (tr_offer 203 ''lno3'' None)"
  "offer_from_str tr_libs ''lno4'' = Some (tr_offer 204 ''lno4'' (Some (Bitcoin 50000)))"
  by (simp_all add: tr_libs_def)

lemma tr_daemon_simps [simp]:
  "dmn_node_id tr_daemon = ex_as_hex [1, 2]" "list_daemons ex_from_hex [] = Ok []"
  "list_daemons ex_from_hex [tr_daemon] = Ok [\<lparr>da_node_id = [1, 2], da_name = ''testing daemon''\<rparr>]"
  "delete_daemon ex_as_hex \<lparr>da_node_id = [1, 2], da_name = name\<rparr> [tr_daemon] = []"
  by (simp_all add: tr_daemon_def list_daemons_def list_daemon_records_def delete_daemon_def
      delete_daemon_record_def ex_from_as_hex)

lemma offer_row_simps [simp]:
  "ofr_id (offer_row hx now u off) = hx (b12_id off)" "ofr_user_pk (offer_row hx now u off) = u"
  "ofr_amount_msat (offer_row hx now u off) = None" "ofr_description (offer_row hx now u off) = []"
  "ofr_pr (offer_row hx now u off) = b12_text off"
  by (simp_all add: offer_row_def)

lemma length_dummy_address [simp]: "length dummy_address = 44"
  by (simp add: dummy_address_def)

lemma name_joschisan [simp]: "check_recovery_name ''joschisan'' = Ok ()"
  by code_simp

lemma owner_by_hash:
  "i \<noteq> [220] \<Longrightarrow> i \<noteq> [221] \<Longrightarrow> payment_owner (tr_state q) i d =
     map_option (\<lambda>r. (ivc_user_pk r, ivc_description r, ivc_pr r)) (get_invoice ex_as_hex i d)"
  by (simp add: payment_owner_def tr_node_def)

lemma owner_by_offer:
  "payment_owner (tr_state q) [220] d =
     map_option (\<lambda>r. (ofr_user_pk r, ofr_description r, ofr_pr r)) (get_offer ex_as_hex [201] d)"
  "payment_owner (tr_state q) [221] d =
     map_option (\<lambda>r. (ofr_user_pk r, ofr_description r, ofr_pr r)) (get_offer ex_as_hex [201] d)"
  by (simp_all add: payment_owner_def tr_node_def)

lemmas send_simps = may_send_def count_pending_sends_def pending_sends_def word_sless_alt max_pending_def
  within_bounds_def covers_def lightning_fee_def amount_reaches_def get_invoice_def get_offer_def
  fresh_transfer_def tr_transfer_def tr_transfer_events_def payment_events_def check_amount_bounds_def
  owner_by_hash owner_by_offer tr_settles_def settle_def
  encode_text(2) [OF ex_codec_laws] puncture_recovery_def

declare numeral_2_eq_2 [symmetric, simp]

section \<open>Running a section\<close>

text \<open>
  A section is a sequence of the operations of \<open>Testing_View\<close>: after each one the result and the
  view are evaluated. The first premise of a rule decides whether it applies.
\<close>

lemma passes_from: "v = v1 \<Longrightarrow> passes m v1 r v' \<Longrightarrow> passes m v r v'"
  by simp

lemma passes_then:
  assumes "passes m v (Ok x) v1" and "x = y" and "v1 = v2" and "passes (f y) v2 r v'"
  shows "passes (and_run m f) v r v'"
  using assms by (blast intro: passes_and_run)

lemma passes_last:
  assumes "passes m v (Ok x) v1" and "x = y" and "set (vw_streams v') \<subseteq> set (vw_streams v1)"
    and "v1\<lparr>vw_streams := vw_streams v'\<rparr> = v'"
  shows "passes m v (Ok y) v'"
  using passes_less [OF assms(1,3,4)] assms(2) by simp

lemma passes_send_when_routed:
  assumes "passes m v (Err e) v1" and "v1 = v2" and "passes m v2 (Ok x) v'"
  shows "passes (while_error 60 m) v (Ok ()) v'"
  using passes_while_error [OF assms(1)] assms(2,3) by simp

lemma passes_assert_daemons:
  assumes "list_daemons ex_from_hex (vw_daemons v u) = Ok ds" and "P ds"
  shows "passes (and_run (daemons_of tr_rig u) (\<lambda>ds. assert_that (P ds))) v (Ok ()) v"
  by (rule passes_and_run, rule passes_daemons [OF assms(1) [symmetric]], rule passes_assert, rule assms(2))

lemma passes_mempool:
  "passes (retry (ret (bd_get_mempool_entry tr_rig t)) s) v (Ok ()) v"
  by (rule passes_retry, rule passes_ret_eq) (simp add: tr_rig_def)

lemmas after_report = passes_next_received [OF _ _ _ _ _ _ _ passes_next]
  passes_next_successful [OF _ _ _ _ _ passes_next] passes_next_failed [OF _ _ _ _ _ passes_next]

lemmas operation_rules = passes_client_new passes_register [THEN passes_unwrap]
  passes_assert_event [OF passes_next] passes_next_payment [OF passes_next]
  after_report [THEN passes_assert_event] after_report [THEN passes_next_payment]
  passes_receive passes_peer passes_peer [THEN passes_unwrap]
  passes_send_internal passes_send_external [THEN passes_unwrap]
  passes_send_when_routed [OF passes_send_no_route _ passes_send_external]
  passes_unwrapped passes_pop passes_connect passes_offer passes_pay_offer_internal
  passes_pay_offer_external passes_forget passes_assert_daemons passes_daemons passes_assert
  passes_cli_recover [THEN passes_unwrap] passes_recover passes_set_recovery_name
  passes_cli_list_users [THEN passes_unwrap] passes_onchain passes_mempool passes_ok

section \<open>The start\<close>

definition view_0 :: view where
  "view_0 = \<lparr>vw_db = empty_db, vw_ticks = 0, vw_draws = 0, vw_requests = 0, vw_payments = 0,
     vw_reports = [], vw_daemons = (\<lambda>_. []), vw_connections = 0, vw_streams = []\<rparr>"

definition tr_code :: invite_code where
  "tr_code = \<lparr>ic_id = replicate 16 0, ic_node_id = [1, 2]\<rparr>"

definition view_1 :: view where
  "view_1 = view_0\<lparr>vw_db := empty_db\<lparr>invites := [tr_invite_row 0 0]\<rparr>, vw_ticks := 2, vw_draws := 1,
     vw_requests := 9\<rparr>"

lemma onchain_balance_passes:
  assumes "vw_requests v = 2"
  shows "passes (retry (and_run (cli_balances tr_rig) (\<lambda>balances.
      ensure (10000000 < bal_total_onchain_balance_sats balances) m)) s)
    v (Ok ()) (next_request (next_request v))"
  by (rule passes_retry_twice; rule passes_and_run [OF passes_cli_balances]; rule passes_ensure)
    (simp_all add: assms next_request_def ldk_balances_def tr_node_def)

lemma funding_passes:
  assumes "vw_requests v = 5"
  shows "passes (retry (and_run (cli_list_channels tr_rig) (\<lambda>channels.
      ret (ok_or e (if channels = [] then None else ci_funding_txo (last channels))))) s)
    v (Ok ''f0:0'') (next_request (next_request v))"
  by (rule passes_retry_twice [where e = e]; rule passes_and_run [OF passes_cli_list_channels]; rule passes_ret_eq)
    (simp_all add: assms next_request_def ldk_channel_list_def tr_node_def ok_or_def
      tr_channel_def channel_info_of_def)

lemma capacity_passes:
  assumes "vw_requests v = 7"
  shows "passes (retry (and_run (cli_balances tr_rig) (\<lambda>balances.
      and_run (ensure (1000000000 < bal_total_outbound_capacity_msat balances) m) (\<lambda>_.
      ensure (1000000000 < bal_total_inbound_capacity_msat balances) m'))) s)
    v (Ok ()) (next_request v)"
  by (rule passes_retry, rule passes_and_run [OF passes_cli_balances], rule passes_and_run; rule passes_ensure)
    (simp_all add: assms ldk_balances_def tr_node_def usable_outbound_msat_def usable_inbound_msat_def
      tr_channel_def)

lemma rig_bitcoind:
  "bd_generate_to_address tr_rig n a = Ok ()" "bd_get_mempool_entry tr_rig t = Ok ()"
  by (simp_all add: tr_rig_def)

lemma test_main_passes:
  assumes "passes (run_test tr_rig tr_code) view_1 (Ok ()) v"
  shows "passes (test_main tr_rig) view_0 (Ok ()) v"
  unfolding test_main_def rig_bitcoind
  apply (rule passes_then, rule passes_retry, rule passes_cli_balances, rule refl)
   apply (simp add: view_0_def empty_db_def next_request_def; rule refl)
  apply (rule passes_then, rule passes_cli_onchain_receive, (simp add: step_simps; rule refl)+)
  apply (rule passes_then, rule passes_ret, (rule refl)+)
  apply (rule passes_then, rule onchain_balance_passes, (simp add: step_simps; rule refl)+)
  apply (rule passes_then, rule passes_retry, rule passes_cli_open_channel, (simp add: step_simps; rule refl)+)
  apply (rule passes_then, rule funding_passes, (simp add: step_simps; rule refl)+)
  apply (rule passes_then, rule passes_retry, rule passes_ret, (rule refl)+)
  apply (rule passes_then, rule passes_ret, (rule refl)+)
  apply (rule passes_then, rule capacity_passes, (simp add: step_simps; rule refl)+)
  apply (rule passes_then, rule passes_cli_invite, (simp add: step_simps; rule refl)+)
  apply (rule passes_then, rule passes_unwrapped, (simp add: encode_text [OF ex_codec_laws]; rule refl)+)
  apply (rule passes_then, rule passes_unwrapped, (simp add: puncture_invite_def; rule refl)+)
  apply (use assms in \<open>simp add: view_1_def view_0_def tr_code_def empty_db_def\<close>)
  done

section \<open>The sections of the test\<close>

abbreviation conn :: "nat \<Rightarrow> string \<Rightarrow> connection" where
  "conn n u \<equiv> \<lparr>cn_stream = n, cn_user = u\<rparr>"

abbreviation tr_user_of :: "nat \<Rightarrow> string \<Rightarrow> user" where
  "tr_user_of n u \<equiv> tr_user n u (ex_as_hex (replicate 16 0)) None"

abbreviation invoice_1 :: invoice_record where
  "invoice_1 \<equiv> tr_invoice_row 9 ''a'' [10] 1000000"

abbreviation invoice_2 :: invoice_record where
  "invoice_2 \<equiv> tr_invoice_row 13 ''b'' [5] 500000"

abbreviation invoice_3 :: invoice_record where
  "invoice_3 \<equiv> tr_invoice_row 22 ''a'' [1] 100000"

abbreviation invoice_4 :: invoice_record where
  "invoice_4 \<equiv> tr_invoice_row 57 ''d'' [150] 15000000"

abbreviation receive_1 :: receive_record where
  "receive_1 \<equiv> tr_receive 11 ''a'' [10] 1000000 [] ''ln''"

abbreviation receive_2 :: receive_record where
  "receive_2 \<equiv> tr_receive 16 ''b'' (replicate 32 1) 500000 [] ''ln''"

abbreviation receive_3 :: receive_record where
  "receive_3 \<equiv> tr_receive 25 ''a'' (replicate 32 2) 100000 [] ''ln''"

abbreviation receive_4 :: receive_record where
  "receive_4 \<equiv> tr_receive 27 ''a'' [220] 100000 [] ''lno1''"

abbreviation receive_5 :: receive_record where
  "receive_5 \<equiv> tr_receive 28 ''a'' [221] 100000 [] ''lno1''"

abbreviation receive_6 :: receive_record where
  "receive_6 \<equiv> tr_receive 31 ''b'' (replicate 32 3) 100000 [] ''lno2''"

abbreviation receive_7 :: receive_record where
  "receive_7 \<equiv> tr_receive 52 ''c'' (replicate 32 5) 698000 ''Recovery'' (ex_as_hex (replicate 16 4))"

abbreviation receive_8 :: receive_record where
  "receive_8 \<equiv> tr_receive 59 ''d'' [150] 15000000 [] ''ln''"

abbreviation send_1 :: send_record where
  "send_1 \<equiv> tr_send 15 ''a'' (replicate 32 1) 500000 1000 ''successful'' [] ''ln''"

abbreviation send_2 :: send_record where
  "send_2 \<equiv> tr_send 17 ''b'' [250] 100000 0 ''successful'' [] ''ln''"

abbreviation send_3 :: send_record where
  "send_3 \<equiv> tr_send 19 ''b'' (replicate 32 0) 100000 0 ''failed'' [] ''ln''"

abbreviation send_4 :: send_record where
  "send_4 \<equiv> tr_send 24 ''b'' (replicate 32 2) 100000 1000 ''successful'' [] ''ln''"

abbreviation send_5 :: send_record where
  "send_5 \<equiv> tr_send 30 ''a'' (replicate 32 3) 100000 1000 ''successful'' [] ''lno2''"

abbreviation send_6 :: send_record where
  "send_6 \<equiv> tr_send 32 ''b'' [203] 100000 0 ''successful'' [] ''lno3''"

abbreviation send_7 :: send_record where
  "send_7 \<equiv> tr_send 34 ''b'' [204] 50000 0 ''successful'' [] ''lno4''"

abbreviation send_8 :: send_record where
  "send_8 \<equiv> tr_send 51 ''a'' (replicate 32 5) 698000 0 ''successful'' ''Recovery'' (ex_as_hex (replicate 16 4))"

abbreviation send_9 :: send_record where
  "send_9 \<equiv> tr_send 60 ''d'' [77] 10000000 5000000 ''successful'' [] dummy_address"

abbreviation offer_1 :: offer_record where
  "offer_1 \<equiv> offer_row ex_as_hex (ex_clock 26) ''a'' (tr_offer 201 ''lno1'' None)"

abbreviation offer_2 :: offer_record where
  "offer_2 \<equiv> offer_row ex_as_hex (ex_clock 29) ''b'' (tr_offer 202 ''lno2'' None)"

definition view_2 :: view where
  "view_2 = \<lparr>vw_db = \<lparr>invites = [tr_invite_row 0 0],
       invoices = [],
       receives = [],
       sends = [],
       offers = [], recoveries = [],
       users = [tr_user_of 4 ''a'', tr_user_of 7 ''b'']\<rparr>,
     vw_ticks = 8, vw_draws = 1, vw_requests = 11, vw_payments = 0, vw_reports = [],
     vw_daemons = (\<lambda>_. [])(''a'' := [tr_daemon], ''b'' := [tr_daemon]),
     vw_connections = 2, vw_streams = [(0, ''a'', []), (1, ''b'', [])]\<rparr>"

definition view_3 :: view where
  "view_3 = \<lparr>vw_db = \<lparr>invites = [tr_invite_row 0 0],
       invoices = [invoice_1],
       receives = [receive_1],
       sends = [],
       offers = [], recoveries = [],
       users = [tr_user_of 4 ''a'', tr_user_of 7 ''b'']\<rparr>,
     vw_ticks = 12, vw_draws = 1, vw_requests = 13, vw_payments = 1, vw_reports = [],
     vw_daemons = (\<lambda>_. [])(''a'' := [tr_daemon], ''b'' := [tr_daemon]),
     vw_connections = 2, vw_streams = [(0, ''a'', []), (1, ''b'', [])]\<rparr>"

definition view_4 :: view where
  "view_4 = \<lparr>vw_db = \<lparr>invites = [tr_invite_row 0 0],
       invoices = [invoice_1, invoice_2],
       receives = [receive_1, receive_2],
       sends = [send_1],
       offers = [], recoveries = [],
       users = [tr_user_of 4 ''a'', tr_user_of 7 ''b'']\<rparr>,
     vw_ticks = 17, vw_draws = 2, vw_requests = 15, vw_payments = 1, vw_reports = [],
     vw_daemons = (\<lambda>_. [])(''a'' := [tr_daemon], ''b'' := [tr_daemon]),
     vw_connections = 2, vw_streams = [(0, ''a'', []), (1, ''b'', [])]\<rparr>"

definition view_5 :: view where
  "view_5 = \<lparr>vw_db = \<lparr>invites = [tr_invite_row 0 0],
       invoices = [invoice_1, invoice_2],
       receives = [receive_1, receive_2],
       sends = [send_1, send_2],
       offers = [], recoveries = [],
       users = [tr_user_of 4 ''a'', tr_user_of 7 ''b'']\<rparr>,
     vw_ticks = 19, vw_draws = 2, vw_requests = 18, vw_payments = 1, vw_reports = [],
     vw_daemons = (\<lambda>_. [])(''a'' := [tr_daemon], ''b'' := [tr_daemon]),
     vw_connections = 2, vw_streams = [(0, ''a'', []), (1, ''b'', [])]\<rparr>"

definition view_6 :: view where
  "view_6 = \<lparr>vw_db = \<lparr>invites = [tr_invite_row 0 0],
       invoices = [invoice_1, invoice_2],
       receives = [receive_1, receive_2],
       sends = [send_1, send_2, send_3],
       offers = [], recoveries = [],
       users = [tr_user_of 4 ''a'', tr_user_of 7 ''b'']\<rparr>,
     vw_ticks = 21, vw_draws = 2, vw_requests = 20, vw_payments = 2, vw_reports = [],
     vw_daemons = (\<lambda>_. [])(''a'' := [tr_daemon], ''b'' := [tr_daemon]),
     vw_connections = 2, vw_streams = [(0, ''a'', []), (1, ''b'', [])]\<rparr>"

definition view_7 :: view where
  "view_7 = \<lparr>vw_db = \<lparr>invites = [tr_invite_row 0 0],
       invoices = [invoice_1, invoice_2],
       receives = [receive_1, receive_2],
       sends = [send_1, send_2, send_3],
       offers = [], recoveries = [],
       users = [tr_user_of 4 ''a'', tr_user_of 7 ''b'']\<rparr>,
     vw_ticks = 21, vw_draws = 2, vw_requests = 20, vw_payments = 2, vw_reports = [],
     vw_daemons = (\<lambda>_. [])(''a'' := [tr_daemon], ''b'' := [tr_daemon]),
     vw_connections = 4, vw_streams = [(2, ''a'', []), (3, ''b'', [])]\<rparr>"

definition view_8 :: view where
  "view_8 = \<lparr>vw_db = \<lparr>invites = [tr_invite_row 0 0],
       invoices = [invoice_1, invoice_2, invoice_3],
       receives = [receive_1, receive_2, receive_3],
       sends = [send_1, send_2, send_3, send_4],
       offers = [], recoveries = [],
       users = [tr_user_of 4 ''a'', tr_user_of 7 ''b'']\<rparr>,
     vw_ticks = 26, vw_draws = 3, vw_requests = 22, vw_payments = 2, vw_reports = [],
     vw_daemons = (\<lambda>_. [])(''a'' := [tr_daemon], ''b'' := [tr_daemon]),
     vw_connections = 4, vw_streams = [(2, ''a'', []), (3, ''b'', [])]\<rparr>"

definition view_9 :: view where
  "view_9 = \<lparr>vw_db = \<lparr>invites = [tr_invite_row 0 0],
       invoices = [invoice_1, invoice_2, invoice_3],
       receives = [receive_1, receive_2, receive_3, receive_4, receive_5],
       sends = [send_1, send_2, send_3, send_4],
       offers = [offer_1], recoveries = [],
       users = [tr_user_of 4 ''a'', tr_user_of 7 ''b'']\<rparr>,
     vw_ticks = 29, vw_draws = 3, vw_requests = 25, vw_payments = 4, vw_reports = [],
     vw_daemons = (\<lambda>_. [])(''a'' := [tr_daemon], ''b'' := [tr_daemon]),
     vw_connections = 4, vw_streams = [(2, ''a'', []), (3, ''b'', [])]\<rparr>"

definition view_10 :: view where
  "view_10 = \<lparr>vw_db = \<lparr>invites = [tr_invite_row 0 0],
       invoices = [invoice_1, invoice_2, invoice_3],
       receives = [receive_1, receive_2, receive_3, receive_4, receive_5, receive_6],
       sends = [send_1, send_2, send_3, send_4, send_5],
       offers = [offer_1, offer_2], recoveries = [],
       users = [tr_user_of 4 ''a'', tr_user_of 7 ''b'']\<rparr>,
     vw_ticks = 32, vw_draws = 4, vw_requests = 27, vw_payments = 4, vw_reports = [],
     vw_daemons = (\<lambda>_. [])(''a'' := [tr_daemon], ''b'' := [tr_daemon]),
     vw_connections = 4, vw_streams = [(2, ''a'', []), (3, ''b'', [])]\<rparr>"

definition view_11 :: view where
  "view_11 = \<lparr>vw_db = \<lparr>invites = [tr_invite_row 0 0],
       invoices = [invoice_1, invoice_2, invoice_3],
       receives = [receive_1, receive_2, receive_3, receive_4, receive_5, receive_6],
       sends = [send_1, send_2, send_3, send_4, send_5, send_6],
       offers = [offer_1, offer_2], recoveries = [],
       users = [tr_user_of 4 ''a'', tr_user_of 7 ''b'']\<rparr>,
     vw_ticks = 34, vw_draws = 4, vw_requests = 29, vw_payments = 4, vw_reports = [],
     vw_daemons = (\<lambda>_. [])(''a'' := [tr_daemon], ''b'' := [tr_daemon]),
     vw_connections = 4, vw_streams = [(2, ''a'', []), (3, ''b'', [])]\<rparr>"

definition view_12 :: view where
  "view_12 = \<lparr>vw_db = \<lparr>invites = [tr_invite_row 0 0],
       invoices = [invoice_1, invoice_2, invoice_3],
       receives = [receive_1, receive_2, receive_3, receive_4, receive_5, receive_6],
       sends = [send_1, send_2, send_3, send_4, send_5, send_6, send_7],
       offers = [offer_1, offer_2], recoveries = [],
       users = [tr_user_of 4 ''a'', tr_user_of 7 ''b'']\<rparr>,
     vw_ticks = 36, vw_draws = 4, vw_requests = 31, vw_payments = 4, vw_reports = [],
     vw_daemons = (\<lambda>_. [])(''a'' := [tr_daemon], ''b'' := [tr_daemon]),
     vw_connections = 4, vw_streams = [(2, ''a'', []), (3, ''b'', [])]\<rparr>"

definition view_13 :: view where
  "view_13 = \<lparr>vw_db = \<lparr>invites = [tr_invite_row 0 0],
       invoices = [invoice_1, invoice_2, invoice_3],
       receives = [receive_1, receive_2, receive_3, receive_4, receive_5, receive_6],
       sends = [send_1, send_2, send_3, send_4, send_5, send_6, send_7],
       offers = [offer_1, offer_2], recoveries = [],
       users = [tr_user_of 4 ''a'', tr_user_of 7 ''b'']\<rparr>,
     vw_ticks = 42, vw_draws = 4, vw_requests = 33, vw_payments = 4, vw_reports = [],
     vw_daemons = (\<lambda>_. [])(''a'' := [tr_daemon], ''b'' := [tr_daemon]),
     vw_connections = 6, vw_streams = []\<rparr>"

definition view_14 :: view where
  "view_14 = \<lparr>vw_db = \<lparr>invites = [tr_invite_row 0 0],
       invoices = [invoice_1, invoice_2, invoice_3],
       receives = [receive_1, receive_2, receive_3, receive_4, receive_5, receive_6, receive_7],
       sends = [send_1, send_2, send_3, send_4, send_5, send_6, send_7, send_8],
       offers = [offer_1, offer_2], recoveries = [tr_recovery_row 45 4 ''a''],
       users = [tr_user_of 4 ''a'', tr_user_of 7 ''b'',
         tr_user 44 ''c'' (ex_as_hex (replicate 16 0)) (Some ''joschisan'')]\<rparr>,
     vw_ticks = 53, vw_draws = 6, vw_requests = 39, vw_payments = 4, vw_reports = [],
     vw_daemons = (\<lambda>_. [])(''a'' := [tr_daemon], ''b'' := [tr_daemon], ''c'' := [tr_daemon]),
     vw_connections = 8, vw_streams = []\<rparr>"

definition view_15 :: view where
  "view_15 = \<lparr>vw_db = \<lparr>invites = [tr_invite_row 0 0],
       invoices = [invoice_1, invoice_2, invoice_3, invoice_4],
       receives = [receive_1, receive_2, receive_3, receive_4, receive_5, receive_6, receive_7, receive_8],
       sends = [send_1, send_2, send_3, send_4, send_5, send_6, send_7, send_8, send_9],
       offers = [offer_1, offer_2], recoveries = [tr_recovery_row 45 4 ''a''],
       users = [tr_user_of 4 ''a'', tr_user_of 7 ''b'',
         tr_user 44 ''c'' (ex_as_hex (replicate 16 0)) (Some ''joschisan''),
         tr_user_of 55 ''d'']\<rparr>,
     vw_ticks = 61, vw_draws = 6, vw_requests = 43, vw_payments = 5, vw_reports = [],
     vw_daemons = (\<lambda>_. [])(''a'' := [tr_daemon], ''b'' := [tr_daemon], ''c'' := [tr_daemon], ''d'' := [tr_daemon]),
     vw_connections = 9, vw_streams = []\<rparr>"

lemmas views = view_0_def view_1_def view_2_def view_3_def view_4_def view_5_def view_6_def view_7_def view_8_def view_9_def view_10_def view_11_def view_12_def view_13_def view_14_def view_15_def

lemmas section_defs = test_registration_def test_receive_def test_internal_def test_external_def
  test_failed_def test_history_def test_internal_back_def test_offer_received_def
  test_offer_internal_def test_offer_variable_def test_offer_fixed_def test_deletion_def
  test_recovery_def test_onchain_def tr_code_def tr_rig_simps tr_libs_simps

lemmas test_simps = step_simps query_simps send_simps

lemma lightning_sections_pass:
  "passes (test_registration tr_rig tr_code) view_1 (Ok (''a'', ''b'', conn 0 ''a'', conn 1 ''b'')) view_2"
  "passes (test_receive tr_rig (conn 0 ''a'')) view_2 (Ok ()) view_3"
  "passes (test_internal tr_rig (conn 0 ''a'') (conn 1 ''b'')) view_3 (Ok ()) view_4"
  "passes (test_external tr_rig (conn 1 ''b'')) view_4 (Ok ()) view_5"
  "passes (test_failed tr_rig (conn 1 ''b'')) view_5 (Ok ()) view_6"
  unfolding section_defs
  by (rule passes_from, (simp add: views empty_db_def; rule refl),
      (rule passes_then, rule operation_rules, (simp add: test_simps; rule refl)+)+,
      rule passes_last, rule operation_rules, (simp add: views test_simps; rule refl)+)+

lemma account_sections_pass:
  "passes (test_history tr_rig ''a'' ''b'') view_6 (Ok (conn 2 ''a'', conn 3 ''b'')) view_7"
  "passes (test_internal_back tr_rig (conn 2 ''a'') (conn 3 ''b'')) view_7 (Ok ()) view_8"
  "passes (test_offer_received tr_rig (conn 2 ''a'')) view_8 (Ok ()) view_9"
  "passes (test_offer_internal tr_rig (conn 2 ''a'') (conn 3 ''b'')) view_9 (Ok ()) view_10"
  "passes (test_offer_variable tr_rig (conn 3 ''b'')) view_10 (Ok ()) view_11"
  "passes (test_offer_fixed tr_rig (conn 3 ''b'')) view_11 (Ok ()) view_12"
  "passes (test_deletion tr_rig tr_code ''a'' ''b'') view_12 (Ok ()) view_13"
  "passes (test_recovery tr_rig tr_code ''a'') view_13 (Ok ()) view_14"
  "passes (test_onchain tr_rig tr_code) view_14 (Ok ()) view_15"
  unfolding section_defs
  by (rule passes_from, (simp add: views; rule refl),
      (rule passes_then, rule operation_rules, (simp add: test_simps; rule refl)+)+,
      rule passes_last, rule operation_rules, (simp add: views test_simps; rule refl)+)+

lemma run_test_passes: "passes (run_test tr_rig tr_code) view_1 (Ok ()) view_15"
  unfolding run_test_def
  by (rule passes_and_run [OF lightning_sections_pass(1)], simp only: prod.case,
      (rule passes_and_run, rule lightning_sections_pass)+,
      rule passes_and_run [OF account_sections_pass(1)], simp only: prod.case,
      (rule passes_and_run, rule account_sections_pass)+,
      rule account_sections_pass)

lemma test_main_view: "passes (test_main tr_rig) view_0 (Ok ()) view_15"
  by (rule test_main_passes [OF run_test_passes])

lemma seen_start: "seen view_0 tr_start"
  by (simp add: seen_def view_0_def tr_start_def init_world_def)

end
