(* ===== verification/Testing_Books.thy ===== *)
theory Testing_Books
  imports Testing System
begin

text \<open>
  What the integration test does to the daemon, whatever the second node, bitcoind and the JSON
  library do: it only takes steps of the daemon, so the facts about all runs of the daemon hold for
  the runs of the test, and what its connections have received ends with the balance in the
  database.
\<close>

section \<open>Streams\<close>

definition in_step :: "test_world \<Rightarrow> bool" where
  "in_step t \<longleftrightarrow> (\<forall>(u, q) \<in> set (tw_streams t).
     fold shown q (user_balance u (db (tw_world t))) = user_balance u (db (tw_world t)))"

text \<open>Reading a message, and the messages of a step.\<close>

lemma shown_read: "fold shown (e # q) x = x \<Longrightarrow> fold shown q x = x"
  using fold_shown_cases [of q "shown e x" x] by auto

lemma shown_deliver:
  assumes "fold shown q x = x" and "fold shown ms x = y"
  shows "fold shown (q @ ms) y = y"
  using fold_shown_cases [of q x y] fold_shown_cases [of ms x y] assms by auto

lemma in_step_after:
  assumes "in_step t" and "keys_ok (db (tw_world t))"
    and "(book_step a any_env)\<^sup>*\<^sup>* (book_of (tw_world t)) (book_of w)"
  shows "in_step (after_step R w t)"
proof -
  let ?d = "db (tw_world t)" and ?b = "event_bus (tw_world t)"
  have "keys_ok (db w) \<and> synced (\<lambda>u. user_balance u ?d) ?b (db w) (event_bus w)"
    using announcements.reachable_inv [OF _ assms(3), of "\<lambda>u. user_balance u ?d" ?b] assms(2)
    by (auto simp: book_of_def)
  then obtain ms where ms: "event_bus w = ?b @ ms"
      "\<And>u. fold shown (events_of u ms) (user_balance u ?d) = user_balance u (db w)"
    by (auto simp: synced_def announced_def)
  show ?thesis
    using assms(1) shown_deliver [OF _ ms(2)] by (auto simp: in_step_def after_step_def ms(1))
qed

section \<open>Programs that take steps of the daemon\<close>

definition steps_any :: "args \<Rightarrow> (world, 'a) state \<Rightarrow> bool" where
  "steps_any a m \<longleftrightarrow> (\<forall>w r w'. run_state m w = (r, w') \<longrightarrow>
     (book_step a any_env)\<^sup>=\<^sup>= (book_of w) (book_of w'))"

lemma steps_book_any: "steps_book a m \<Longrightarrow> steps_any a m"
  unfolding steps_any_def by (blast dest: steps_bookD intro: book_step_any)

lemma steps_any_map: "steps_any a m \<Longrightarrow> steps_any a (do { r \<leftarrow> m; ret (f r) })"
  by (fastforce simp: steps_any_def split: prod.splits)

lemma steps_any_ret: "steps_any a (ret v)" "steps_any a (ok x)" "steps_any a (err e)" "steps_any a (panic p)"
  by (simp_all add: steps_any_def)

lemma steps_any_event: "app_args st = a \<Longrightarrow> steps_any a (process_ldk_event st e)"
  using event_steps [of a "app_libs st" st any_node _ e any_env, OF _ _ admits_any]
  by (auto simp: steps_any_def runs_on_def any_node_def)

lemma steps_any_serve: "app_args st = a \<Longrightarrow> steps_any a (serve dec enc st u bytes)"
  unfolding serve_def
  by (rule steps_any_map) (auto simp: steps_any_def dest: handle_request_steps intro: book_step_any)

text \<open>A test that keeps the streams in step and changes the book by steps only.\<close>

definition drives :: "args \<Rightarrow> (test_world, 'a) state \<Rightarrow> bool" where
  "drives a m \<longleftrightarrow> (\<forall>t r t'. run_state m t = (r, t') \<longrightarrow> keys_ok (db (tw_world t)) \<longrightarrow> in_step t \<longrightarrow>
     (book_step a any_env)\<^sup>*\<^sup>* (book_of (tw_world t)) (book_of (tw_world t')) \<and> in_step t')"

lemma drivesD:
  assumes "drives a m" and "run_state m t = (r, t')" and "keys_ok (db (tw_world t))" and "in_step t"
  shows "(book_step a any_env)\<^sup>*\<^sup>* (book_of (tw_world t)) (book_of (tw_world t'))" and "in_step t'"
    and "keys_ok (db (tw_world t'))"
  using assms keys.inv_run [of a any_env "book_of (tw_world t)" "book_of (tw_world t')"]
  by (auto simp: drives_def book_of_def)

lemma drives_bind:
  assumes "drives a m" and "\<And>x. drives a (f x)"
  shows "drives a (m \<bind> f)"
  unfolding drives_def
proof (intro allI impI)
  fix t r t' assume run: "run_state (m \<bind> f) t = (r, t')" and t: "keys_ok (db (tw_world t))" "in_step t"
  obtain x t1 where x: "run_state m t = (x, t1)" by fastforce
  with run have r: "run_state (f x) t1 = (r, t')" by (simp add: run_simps)
  note one = drivesD [OF assms(1) x t] and two = drivesD [OF assms(2) r]
  show "(book_step a any_env)\<^sup>*\<^sup>* (book_of (tw_world t)) (book_of (tw_world t')) \<and> in_step t'"
    using one two [OF one(3,2)] by (meson rtranclp_trans)
qed

lemma drives_State:
  assumes "\<And>t. tw_world (snd (g t)) = tw_world t" and "\<And>t. tw_streams (snd (g t)) = tw_streams t"
  shows "drives a (State g)"
  unfolding drives_def
proof (intro allI impI)
  fix t r t' assume "run_state (State g) t = (r, t')" and "in_step t"
  then have "t' = snd (g t)" by simp
  with \<open>in_step t\<close> show "(book_step a any_env)\<^sup>*\<^sup>* (book_of (tw_world t)) (book_of (tw_world t')) \<and> in_step t'"
    by (simp add: in_step_def assms)
qed

lemma drives_ret [intro]: "drives a (ret v)" "drives a (ok x)" "drives a (err e)" "drives a (panic p)"
  by (simp_all add: drives_def)

lemma drives_daemon:
  assumes "\<And>n. steps_any a (f (rg_state R n))"
  shows "drives a (on_daemon R f)"
  unfolding drives_def
proof (intro allI impI)
  fix t r t' assume run: "run_state (on_daemon R f) t = (r, t')"
    and t: "keys_ok (db (tw_world t))" "in_step t"
  obtain w where w: "run_state (f (rg_state R (tw_requests t))) (tw_world t) = (r, w)"
      and t': "t' = after_step R w t"
    using run by (auto simp: on_daemon_def split: prod.splits)
  have "(book_step a any_env)\<^sup>*\<^sup>* (book_of (tw_world t)) (book_of w)"
    using assms w by (fastforce simp: steps_any_def)
  with in_step_after [OF t(2,1) this] show "(book_step a any_env)\<^sup>*\<^sup>* (book_of (tw_world t))
      (book_of (tw_world t')) \<and> in_step t'"
    by (simp add: t' after_step_def)
qed

lemma drives_connect: "drives a (connect u)"
  by (auto simp: drives_def connect_def in_step_def fold_shown_snapshot)

lemma drives_take: "drives a (take_message c)"
  unfolding drives_def
proof (intro allI impI)
  fix t r t' assume run: "run_state (take_message c) t = (r, t')" and t: "in_step t"
  obtain u q where uq: "tw_streams t ! cn_stream c = (u, q)" by fastforce
  have "in_step t'" if q: "q = e # q'" for e q'
  proof (cases "cn_stream c < length (tw_streams t)")
    case True
    then have "(u, e # q') \<in> set (tw_streams t)" using uq q by (metis nth_mem)
    with t have "\<forall>(v, p) \<in> insert (u, q') (set (tw_streams t)).
        fold shown p (user_balance v (db (tw_world t))) = user_balance v (db (tw_world t))"
      using shown_read [of e q'] by (auto simp: in_step_def)
    moreover have "set (tw_streams t') \<subseteq> insert (u, q') (set (tw_streams t))" "tw_world t' = tw_world t"
      using run uq q set_update_subset_insert [of "tw_streams t" "cn_stream c" "(u, q')"]
      by (auto simp: take_message_def)
    ultimately show ?thesis unfolding in_step_def by auto
  next
    case False
    with run uq q t show ?thesis by (auto simp: take_message_def in_step_def list_update_beyond not_less)
  qed
  moreover have "t' = t" if "q = []"
    using run uq that by (simp add: take_message_def)
  moreover have "tw_world t' = tw_world t"
    using run uq by (auto simp: take_message_def split: list.splits)
  ultimately show "(book_step a any_env)\<^sup>*\<^sup>* (book_of (tw_world t)) (book_of (tw_world t')) \<and> in_step t'"
    using t by (cases q) auto
qed

section \<open>The operations of the test\<close>

lemma drives_attempt: "(\<And>x. drives a (f x)) \<Longrightarrow> drives a (attempt r f)"
  by (cases r) (simp_all add: drives_def)

lemma drives_and_run: "drives a m \<Longrightarrow> (\<And>x. drives a (f x)) \<Longrightarrow> drives a (and_run m f)"
  unfolding and_run_def by (intro drives_bind drives_attempt)

lemma drives_unwrap: "drives a m \<Longrightarrow> drives a (unwrap m)"
  unfolding unwrap_def by (intro drives_bind drives_ret)

lemma drives_checks: "drives a (unwrapped r)" "drives a (assert_that b)" "drives a (ensure b m)"
  "drives a (client_new R d)"
  by (auto simp: unwrapped_def assert_that_def ensure_def client_new_def)

lemma drives_tables: "drives a (daemons_of R u)" "drives a (forget_daemon R u d)"
  unfolding daemons_of_def forget_daemon_def by (rule drives_State; simp)+

lemma drives_pop: "drives a (pop_daemon R u)"
  unfolding pop_daemon_def by (rule drives_and_run [OF drives_tables(1)]) auto

lemma drives_peer: "drives a (pay_by_peer pay)"
  unfolding pay_by_peer_def by (intro drives_bind drives_attempt drives_State) simp_all

lemma drives_retry: "drives a m \<Longrightarrow> drives a (retry m s)"
proof -
  assume m: "drives a m"
  have "drives a (retry_times n m s)" for n
  proof (induction n)
    case (Suc n)
    then show ?case
      unfolding retry_times.simps(2) by (intro drives_bind m) (auto split: outcome.splits)
  qed auto
  then show ?thesis by (simp add: retry_def)
qed

lemma drives_while: "drives a m \<Longrightarrow> drives a (while_error n m)"
proof (induction n)
  case (Suc n)
  then show ?case
    unfolding while_error.simps(2) by (intro drives_bind) (auto split: outcome.splits)
qed auto

lemma drives_report: "(\<And>n. app_args (rg_state R n) = a) \<Longrightarrow> drives a (process_report R)"
  unfolding process_report_def
  by (intro drives_bind drives_State)
    (auto intro!: drives_bind drives_daemon steps_any_event split: list.splits)

lemma drives_next: "(\<And>n. app_args (rg_state R n) = a) \<Longrightarrow> drives a (next_event_of R c)"
proof -
  assume R: "\<And>n. app_args (rg_state R n) = a"
  have "drives a (await_event R c n)" for n
  proof (induction n)
    case (Suc n)
    then show ?case
      unfolding await_event.simps(2)
      by (intro drives_bind drives_take)
        (auto intro!: drives_and_run drives_report R split: option.splits)
  qed auto
  then show ?thesis
    unfolding next_event_of_def by (intro drives_bind drives_State) simp_all
qed

lemma drives_assert_event:
  "(\<And>n. app_args (rg_state R n) = a) \<Longrightarrow> drives a (assert_event R c e)"
  unfolding assert_event_def by (intro drives_and_run drives_next drives_checks)

lemma drives_next_payment:
  "(\<And>n. app_args (rg_state R n) = a) \<Longrightarrow> drives a (next_payment R c x f s)"
  unfolding next_payment_def assert_payment_def
  by (rule drives_and_run [OF drives_next])
    (auto intro!: drives_and_run drives_checks split: app_event.splits)

text \<open>Requests of the clients and of the command line.\<close>

lemma steps_any_attempt: "(\<And>x. steps_any a (f x)) \<Longrightarrow> steps_any a (attempt r f)"
  by (cases r) (simp_all add: steps_any_def)

lemma steps_any_request:
  "(\<And>bytes. steps_any a (connection bytes)) \<Longrightarrow> steps_any a (request_json js connection meth p parse)"
  unfolding request_json_def by (intro steps_any_attempt steps_any_map)

lemma steps_any_conn:
  "(\<And>bytes. steps_any a (connection bytes)) \<Longrightarrow> steps_any a (conn_request js (Some connection) meth p parse)"
  unfolding conn_request_def option.case by (intro steps_any_map steps_any_request)

lemma drives_connection:
  assumes "\<And>n. app_args (rg_state R n) = a"
    and "\<And>ex. (\<And>bytes. steps_any a (ex bytes)) \<Longrightarrow> steps_any a (f (Some ex))"
  shows "drives a (on_connection R c f)"
  unfolding on_connection_def by (intro drives_daemon assms steps_any_serve)

lemma drives_calls:
  assumes "\<And>n. app_args (rg_state R n) = a"
  shows "drives a (receive_of R c x s)" "drives a (send_of R c i y l)" "drives a (pay_offer_of R c off y)"
    "drives a (offer_of R c)"
    "drives a (on_connection R c (\<lambda>e. conn_onchain_send js e adr z))"
    "drives a (on_connection R c (\<lambda>e. conn_set_recovery_name js e name))"
    "drives a (on_connection R c (\<lambda>e. conn_recover js cd e code))"
  unfolding receive_of_def send_of_def pay_offer_of_def offer_of_def
  by (intro drives_connection assms drives_and_run drives_unwrap drives_checks;
      simp only: conn_bolt11_receive_def conn_bolt11_send_def conn_bolt12_receive_def
        conn_bolt12_send_def conn_onchain_send_def conn_set_recovery_name_def conn_recover_def
        steps_any_conn)+

lemma steps_any_register:
  assumes "app_args st = a"
  shows "steps_any a (State (\<lambda>w.
    case client_register js cd (\<lambda>n. if n = app_node_id st then Ok (serve dec enc st u) else Err e)
           print now invite (w, ds) of (r, w', ds') \<Rightarrow> ((r, ds'), w')))"
proof (cases "ic_node_id invite = app_node_id st")
  case True
  have "steps_any a (request_json js (serve dec enc st u) ENDPOINT_REGISTER
      (Register_params \<lparr>rgr_invite_id = invite_code_id cd invite\<rparr>) (register_reply js))"
    by (intro steps_any_request steps_any_serve assms)
  with True show ?thesis
    by (auto simp: steps_any_def client_register_def split: prod.splits outcome.splits)
next
  case False
  then show ?thesis by (simp add: steps_any_def client_register_def)
qed

lemma drives_register:
  assumes "\<And>n. app_args (rg_state R n) = a"
  shows "drives a (register_client R u invite)"
  unfolding register_client_def
  by (intro drives_bind drives_State)
    (auto intro!: drives_bind drives_State drives_daemon drives_attempt drives_connect
      steps_any_register assms)

lemma drives_cli: "drives a (run_puncture_cli R command parse)"
proof -
  have "steps_any a m" if "router st route body = Some m" for st route body m
    using router_steps [OF that] by (rule steps_book_any)
  then show ?thesis
    unfolding run_puncture_cli_def
    by (intro drives_daemon) (auto intro!: steps_any_map steps_any_ret split: option.splits)
qed

lemma drives_cli_calls: "drives a (cli_balances R)" "drives a (cli_open_channel R i p)"
  "drives a (cli_list_channels R)" "drives a (cli_invite R)" "drives a (cli_recover R u)"
  "drives a (cli_list_users R)" "drives a (cli_onchain_receive R)"
  unfolding cli_balances_def cli_open_channel_def cli_list_channels_def cli_invite_def
    cli_recover_def cli_list_users_def cli_onchain_receive_def
  by (rule drives_cli)+ (intro drives_and_run drives_cli, auto split: option.splits)

section \<open>The whole test\<close>

lemmas drives_operations = drives_and_run drives_unwrap drives_checks drives_register
  drives_assert_event drives_next_payment drives_calls drives_peer drives_while drives_pop
  drives_connect drives_tables drives_retry drives_cli_calls drives_ret

lemma drives_sections:
  assumes "\<And>n. app_args (rg_state R n) = a"
  shows "drives a (test_registration R i)" "drives a (test_receive R c1)" "drives a (test_internal R c1 c2)"
    "drives a (test_external R c1)" "drives a (test_failed R c1)" "drives a (test_history R u1 u2)"
    "drives a (test_internal_back R c1 c2)" "drives a (test_offer_received R c1)"
    "drives a (test_offer_internal R c1 c2)" "drives a (test_offer_variable R c1)"
    "drives a (test_offer_fixed R c1)" "drives a (test_deletion R i u1 u2)"
    "drives a (test_recovery R i u1)" "drives a (test_onchain R i)"
  unfolding test_registration_def test_receive_def test_internal_def test_external_def
    test_failed_def test_history_def test_internal_back_def test_offer_received_def
    test_offer_internal_def test_offer_variable_def test_offer_fixed_def test_deletion_def
    test_recovery_def test_onchain_def
  by (intro drives_operations assms)+

lemma drives_main:
  assumes "\<And>n. app_args (rg_state R n) = a"
  shows "drives a (test_main R)"
proof -
  have "drives a (run_test R i)" for i
    unfolding run_test_def
    by (rule drives_and_run [OF drives_sections(1) [OF assms]])
      (auto intro!: drives_and_run drives_sections assms)
  then show ?thesis
    unfolding test_main_def by (intro drives_operations)
qed

text \<open>What a stream shows in the end.\<close>

definition balances_in :: "app_event list \<Rightarrow> u64 list" where
  "balances_in q = List.map_filter (\<lambda>e. case e of Balance x \<Rightarrow> Some x | _ \<Rightarrow> None) q"

lemma fold_shown_last: "fold shown q x = (if balances_in q = [] then x else last (balances_in q))"
  by (induction q arbitrary: x) (auto simp: balances_in_def map_filter_def split: app_event.splits)

end
