(* ===== verification/Testing_Properties.thy ===== *)
theory Testing_Properties
  imports Testing_Run Testing_Books
begin

text \<open>What the integration test shows, on one rig and on every rig.\<close>

text \<open>
  C6: The integration test passes: on the daemon of the model, with the client library and the
  command line tool on either side of a JSON library, a second node that answers the payments and a
  bitcoind that mines, all its assertions hold. It ends with the four users at the balances the test
  expects last, with the seven Lightning payments of the first two users settled or failed as the
  test has it, and with no report of the node left.
\<close>

theorem integration_test_passes:
  "\<exists>t. run_state (test_main tr_rig) tr_start = (Ok (), t) \<and>
     map (\<lambda>u. user_balance u (db (tw_world t))) [''a'', ''b'', ''c'', ''d''] = [0, 249000, 698000, 0] \<and>
     map (\<lambda>s. (snd_user_pk s, snd_amount_msat s, snd_fee_msat s, snd_status s)) (sends (db (tw_world t))) =
       [(''a'', 500000, 1000, ''successful''), (''b'', 100000, 0, ''successful''),
        (''b'', 100000, 0, ''failed''), (''b'', 100000, 1000, ''successful''),
        (''a'', 100000, 1000, ''successful''), (''b'', 100000, 0, ''successful''),
        (''b'', 50000, 0, ''successful''), (''a'', 698000, 0, ''successful''),
        (''d'', 10000000, 5000000, ''successful'')] \<and>
     tw_requests t = 43 \<and> tw_reports t = []"
proof -
  obtain t where t: "run_state (test_main tr_rig) tr_start = (Ok (), t)" "seen view_15 t"
    using test_main_view seen_start by (rule passesE)
  then have "db (tw_world t) = vw_db view_15" "tw_requests t = 43" "tw_reports t = []"
    by (simp_all add: seen_def view_15_def)
  with t(1) show ?thesis
    by (intro exI [of _ t] conjI) (simp_all add: view_15_def query_simps)
qed



end
