(* ===== verification/Spec2Isabelle.thy ===== *)
theory Spec2Isabelle
  imports Account_Properties Payment_History Edge_Properties Admin_Properties Wallet_Properties
    Run_Properties Crash_Properties
    Client_Properties Node_Properties Ui_Properties Testing_Properties
begin

text \<open>
  Puncture is a custodial Lightning wallet: a daemon keeps the accounts of its users in SQLite and
  runs a Lightning node (\<open>ldk-node\<close>); clients talk to it over \<open>iroh\<close> connections, the operator over
  a command line tool and a web interface. This development models the Rust code under
  \<open>src/puncture-*\<close> and proves it against an abstract book of accounts.

  \<^bold>\<open>How the parts interact.\<close> A client registers with an invite code of the operator, asks for
  invoices and offers, and sends payments. A payment of an invoice of the same daemon is a transfer
  between two rows of the database; any other goes to the node, which reports its end later as an
  event. Every change of an account is announced on an event bus, from which each connection gets
  the messages of its own user after a snapshot. A recovery code moves a lost account to another
  client.

  \<^bold>\<open>Which theory models what.\<close>
  \<^item> \<open>Prelude\<close>: results, 64-bit arithmetic, the locales \<open>keyed_table\<close> (a table with a primary key)
    and \<open>safety\<close> (an invariant of a step relation) and \<open>progress\<close> (what happens in the end in an
    infinite run), decimal printing, lemma collections.
  \<^item> \<open>Core\<close>: \<open>puncture-core/src/lib.rs\<close>, \<open>secret.rs\<close> and \<open>db.rs\<close>, codes, the key file and
    the opening of the database.
  \<^item> \<open>Models\<close>, \<open>World\<close>: \<open>puncture-daemon-db\<close>, \<open>puncture-client-core\<close>, \<open>convert.rs\<close>, \<open>events.rs\<close> and
    the arguments of \<open>main.rs\<close>. The record \<open>world\<close> is the state of the daemon: database, messages
    sent, commands the node accepted, clock and random generator. \<open>ldk_node\<close> holds the answers of
    the node, \<open>libs\<close> those of the parsers.
  \<^item> \<open>Queries\<close>: the database functions of \<open>db.rs\<close>, \<open>client/db.rs\<close>, \<open>cli/db.rs\<close>, \<open>ui/db.rs\<close>.
  \<^item> \<open>Ledger\<close>: the account of a user in exact integers (\<open>received\<close>, \<open>spent\<close>) and what the 64-bit
    \<open>user_balance\<close> computes from it. \<open>Payment_History\<close>: \<open>user_payments\<close> against \<open>latest\<close>.
  \<^item> \<open>Book\<close>, \<open>Invariants\<close>: the abstract specification, a machine whose actions are whole changes of
    the database with their announcements, and its invariants: unique keys, capacity of invites,
    pending sends, solvency, agreement of the announced balances.
  \<^item> \<open>Client_Rpc\<close>: the handlers of \<open>client/rpc.rs\<close>. \<open>Handlers\<close> states the contract of a handler as
    the locale \<open>book_handler\<close>; \<open>Client_Refines\<close> interprets it for each of them.
  \<^item> \<open>Node_Events\<close>: \<open>process_ldk_event\<close> and its loop (\<open>main.rs\<close>). \<open>Client_Api\<close>: dispatch, event
    stream, connections (\<open>client/mod.rs\<close>). \<open>Cli\<close>: \<open>cli/rpc.rs\<close>, \<open>cli/mod.rs\<close>, \<open>puncture-cli\<close> and
    \<open>puncture-cli-core\<close>. \<open>Ui_Templates\<close>: the HTML templates of \<open>ui/\<close> as trees. \<open>Ui\<close>: its handlers
    and its router.
  \<^item> \<open>System\<close>: the daemon as a step relation, one step per client request, node event, operator
    command, web request and restart; each is a step of the book or none. \<open>Crash\<close>: the same
    daemon when it may crash at any statement; the invariants of the book carried over to it.
  \<^item> \<open>Concurrency\<close>: a request as two turns at the mutex of the database, interleaved with all the
    rest. \<open>Settlement\<close>: pending payments in infinite runs. \<open>Shutdown\<close>: the four tasks \<open>main\<close>
    spawns, the signal and the joins.
  \<^item> \<open>Startup\<close>: the start of \<open>main.rs\<close>. \<open>Client_Lib\<close>: \<open>puncture-client\<close>. \<open>Payment_Request\<close>:
    \<open>puncture-payment-request\<close>.
  \<^item> \<open>Examples\<close>: a concrete codec, node and run, on which the properties are instantiated.
  \<^item> \<open>Testing\<close>: \<open>puncture-testing\<close>, the integration test, as a program over the daemon, the client
    library and the command line tool; the record \<open>rig\<close> holds what a second node, bitcoind and the
    JSON library answer. \<open>Testing_Books\<close>: on every rig it only takes steps of the daemon. \<open>Wire\<close>,
    \<open>Testing_Rig\<close>: a JSON library and a rig written out; \<open>Testing_View\<close>: what each operation of the
    test does there; \<open>Testing_Run\<close>: the run, section by section.
  \<^item> \<open>Client_Properties\<close>, \<open>Account_Properties\<close>, \<open>Node_Properties\<close>, \<open>Edge_Properties\<close>,
    \<open>Admin_Properties\<close>, \<open>Wallet_Properties\<close>, \<open>Ui_Properties\<close>, \<open>Run_Properties\<close>,
    \<open>Crash_Properties\<close>, \<open>Testing_Properties\<close> and this theory: the properties.

  \<^bold>\<open>What the lemmas show.\<close> Each handler either leaves the book as it is or performs one enabled
  action of it (\<open>book_handler\<close>), whatever branch it takes; so the daemon refines the book and has
  its invariants in every reachable state. A crash leaves the book as it is or settles a payment
  with the fee of its row, so the invariants survive it. From these follow the properties on single operations:
  what a payment moves, that a failed one is refunded, that a repeated event changes nothing, that
  an error has no effect, and the round trips of codes, ids and amounts. \<open>Edge_Properties\<close> shows
  where the code loses track of a payment or of a balance. \<open>Testing_Properties\<close> runs the integration
  test: it passes, and on any rig it leaves the accounts and the messages in agreement. \<open>Ui_Properties\<close> checks the forms of every
  page that is served against the router and the structs of the handlers.

  \<^bold>\<open>Assumptions and bounds.\<close> What a task does between taking the mutex of the single database
  connection and giving it back is one step; the steps of requests, events, commands and forms
  are interleaved in any order (\<open>requests_serialise\<close> makes one step of the two turns a request
  takes). A crash may come before or after every statement, but an internal transfer is one
  transaction. The clock and the random generator are arbitrary. The node is arbitrary unless
  \<open>honest_node\<close> is assumed: it does not report a success after a failure, nor a fee above the one
  in the row (the one reserved, until the success is recorded). The two properties on infinite
  runs assume what their names need: that the node reports the end of a pending payment and the
  daemon gets through that event (\<open>reports\<close>), and that the scheduler runs \<open>main\<close> and ends cancelled
  tasks (\<open>main_fair\<close>, \<open>tasks_fair\<close>). \<open>fees_ok\<close> asks for a base fee of at least 1000 msat. Sums are
  64 bits wide and wrap as in a release build; the exact ones assume less than \<open>2 ^ 63\<close> msat
  received, nearly the bitcoin supply in one account. The loops of the wallet need no fuel: they run
  over the inputs they are given (events, connection attempts), and the recursive parsers shorten
  their input. Two waits of the integration test do: the wait for a message handles as many reports
  as the node has left, which is enough when the client can read its messages, and the loop that
  repeats a payment until it has a route has \<open>rg_patience\<close> attempts (60 in the run, which needs
  two). The codec of the codes is assumed to decode what it encoded.

  \<^bold>\<open>Not modelled.\<close> The printing and escaping of the markup (\<open>maud\<close>), the QR codes and the calendar
  (parameters of \<open>libs\<close>); what axum does with a body that is not the form of the route; SQLite and
  the migrations (SQL files); \<open>iroh\<close>, \<open>tokio\<close>, HTTP and
  JSON libraries, logging; the packaging for docker and startos. They are I/O, or code that is not
  in the repository.
\<close>

section \<open>The daemon and its book\<close>












text \<open>
  C8: in every state the daemon reaches, crashes included, at most \<open>user_limit\<close> users are
  registered with an invite, and every user was registered with an invite that exists.
\<close>

theorem daemon_invite_capacity:
  assumes "started w0" and "(crash_step a l any_node)\<^sup>*\<^sup>* w0 w"
  shows "(\<forall>i \<in> set (invites (db w)).
      int (length (filter (\<lambda>r. usr_invite_id r = ivt_id i) (users (db w)))) \<le> sint (ivt_user_limit i)) \<and>
    usr_invite_id ` set (users (db w)) \<subseteq> ivt_id ` set (invites (db w))"
  using crash_capacity.reachable_inv [OF assms]
  by (simp add: invites_ok_def members_def count_list_eq_length_filter filter_map comp_def eq_commute)

theorem daemon_invite_capacity_witness:
  "int (length (filter (\<lambda>r. usr_invite_id r = ex_invite_id) (users (db ex_w6)))) \<le> 2"
proof -
  have "ex_invite \<in> set (invites (db ex_w6))" by (simp add: ex_w6_def) (simp add: ex_world_defs)
  with daemon_invite_capacity [OF ex_started ex_reached_any] show ?thesis
    by (auto simp: ex_invite_def)
qed

text \<open>
  C9: in every state the daemon reaches, crashes included, no user has more pending sends than the
  limit of the configuration.
\<close>

theorem daemon_pending_limit:
  assumes "started w0" and "(crash_step a l any_node)\<^sup>*\<^sup>* w0 w"
  shows "int (length (pending_sends u (db w))) \<le> uint (max_pending_payments_per_user a)"
  using crash_pending.reachable_inv [OF assms] by (simp add: pending_ok_def)

theorem daemon_pending_limit_witness:
  "int (length (pending_sends ''alice'' (db ex_w6))) \<le> 10"
  using daemon_pending_limit [OF ex_started ex_reached_any, of "''alice''"]
  by (simp add: default_args_def)



end
